(* ===== verification/Prelude.thy ===== *)
theory Prelude
  imports Complex_Main "HOL-Library.Word"
begin

text \<open>
  Shared vocabulary of the development: the identifier and time types of the services, the model
  of Go's map iteration, the string helpers of package \<open>strings\<close> that the sources call, the
  shape of an HTTP reply, and the generic contracts that several components instantiate
  (\<open>transition_system\<close> for reachability invariants, \<open>last_value_store\<close> for the mutex-guarded
  "latest value per key" maps).
\<close>

section \<open>Collections of facts\<close>

named_theorems frame_simps \<open>what an operation leaves unchanged\<close>
named_theorems op_defs \<open>the definitions of the operations, for unfolding\<close>

section \<open>Names of the services' data\<close>

text \<open>Identifiers are Go strings. Instants and durations are nanosecond counts (\<open>time.Time\<close> and
  \<open>time.Duration\<close>); \<open>time.Now()\<close> is an argument of the operation that reads the clock.\<close>

type_synonym vehicle_id = string
type_synonym operator_id = string
type_synonym session_id = string
type_synonym event_id = string
type_synonym instant = int
type_synonym duration = int

text \<open>A \<open>float64\<close> other than NaN and the infinities is a rational number.\<close>

type_synonym float64 = rat

definition Nanosecond :: duration where "Nanosecond = 1"
definition Millisecond :: duration where "Millisecond = 1000000"
definition Second :: duration where "Second = 1000000000"
definition Hour :: duration where "Hour = 3600 * Second"

lemmas duration_defs = Nanosecond_def Millisecond_def Second_def

text \<open>The three bytes of the UTF-8 encoded em dash, which several reason strings contain.\<close>

definition em_dash :: string where "em_dash = [CHR 0xE2, CHR 0x80, CHR 0x94]"

section \<open>Strings\<close>

definition hasPrefix :: "string \<Rightarrow> string \<Rightarrow> bool" where
  "hasPrefix s p \<longleftrightarrow> take (length p) s = p"

definition trimPrefix :: "string \<Rightarrow> string \<Rightarrow> string" where
  "trimPrefix s p = (if hasPrefix s p then drop (length p) s else s)"

text \<open>\<open>strings.TrimSpace\<close> and \<open>strings.ToLower\<close> on ASCII text.\<close>

definition is_space :: "char \<Rightarrow> bool" where
  "is_space c \<longleftrightarrow> c \<in> {CHR 0x09, CHR 0x0A, CHR 0x0B, CHR 0x0C, CHR 0x0D, CHR 0x20}"

definition trimSpace :: "string \<Rightarrow> string" where
  "trimSpace s = rev (dropWhile is_space (rev (dropWhile is_space s)))"

definition toLower :: "string \<Rightarrow> string" where
  "toLower = map (\<lambda>c. let n = of_char c :: nat in if 65 \<le> n \<and> n \<le> 90 then char_of (n + 32) else c)"

text \<open>The decimal digits of a number, as the \<open>%d\<close> verb prints it.\<close>

fun nat_string :: "nat \<Rightarrow> string" where
  "nat_string n =
     (if n < 10 then [char_of (48 + n)] else nat_string (n div 10) @ [char_of (48 + n mod 10)])"

declare nat_string.simps [simp del]

lemma hasPrefix_append [simp]: "hasPrefix (p @ s) p"
  by (simp add: hasPrefix_def)

lemma trimPrefix_append [simp]: "trimPrefix (p @ s) p = s"
  by (simp add: trimPrefix_def)

lemma hasPrefix_decomp: "hasPrefix s p \<Longrightarrow> s = p @ trimPrefix s p"
  by (metis append_take_drop_id hasPrefix_def trimPrefix_def)

section \<open>Ranging over a Go map\<close>

text \<open>
  \<open>for k, v := range m\<close> visits the keys of \<open>m\<close> in an order the runtime chooses afresh. An
  operation that ranges over a map takes that order as an argument \<open>ks\<close>; \<open>iter_order m ks\<close> says
  that it is one the runtime may choose.
\<close>

definition iter_order :: "('k \<rightharpoonup> 'v) \<Rightarrow> 'k list \<Rightarrow> bool" where
  "iter_order m ks \<longleftrightarrow> distinct ks \<and> set ks = dom m"

text \<open>A loop that returns at the first value with \<open>P\<close>.\<close>

fun range_find :: "('v \<Rightarrow> bool) \<Rightarrow> ('k \<rightharpoonup> 'v) \<Rightarrow> 'k list \<Rightarrow> ('k \<times> 'v) option" where
  "range_find P m [] = None"
| "range_find P m (k # ks) =
     (case m k of
        Some v \<Rightarrow> if P v then Some (k, v) else range_find P m ks
      | None \<Rightarrow> range_find P m ks)"

text \<open>A loop that collects the visited values.\<close>

fun range_values :: "('k \<rightharpoonup> 'v) \<Rightarrow> 'k list \<Rightarrow> 'v list" where
  "range_values m [] = []"
| "range_values m (k # ks) =
     (case m k of Some v \<Rightarrow> v # range_values m ks | None \<Rightarrow> range_values m ks)"

lemma range_find_SomeD:
  "range_find P m ks = Some (k, v) \<Longrightarrow> k \<in> set ks \<and> m k = Some v \<and> P v"
  by (induction ks) (auto split: option.splits if_splits)

lemma range_find_None_iff:
  "range_find P m ks = None \<longleftrightarrow> (\<forall>k\<in>set ks. \<forall>v. m k = Some v \<longrightarrow> \<not> P v)"
  by (induction ks) (auto split: option.splits)

lemma iter_order_find_None:
  assumes "iter_order m ks"
  shows "range_find P m ks = None \<longleftrightarrow> (\<forall>k v. m k = Some v \<longrightarrow> \<not> P v)"
  using assms unfolding range_find_None_iff iter_order_def by (auto simp: dom_def)

lemma range_find_None_rule:
  assumes "iter_order m ks" and "\<And>k v. m k = Some v \<Longrightarrow> \<not> P v"
  shows "range_find P m ks = None"
  using assms by (simp add: iter_order_find_None)

text \<open>Where only one value qualifies, the loop finds it in whatever order it runs.\<close>

lemma range_find_unique:
  assumes ord: "iter_order m ks" and k: "m k = Some v" "P v"
    and uniq: "\<And>k' v'. m k' = Some v' \<Longrightarrow> P v' \<Longrightarrow> k' = k"
  shows "range_find P m ks = Some (k, v)"
proof (cases "range_find P m ks")
  case None
  with ord k show ?thesis by (simp add: iter_order_find_None)
next
  case (Some kv)
  moreover obtain k' v' where "kv = (k', v')" by (cases kv)
  ultimately show ?thesis
    using range_find_SomeD [of P m ks k' v'] uniq [of k' v'] k by auto
qed

lemma range_find_exists:
  assumes "iter_order m ks" and "m k = Some v" and "P v"
  obtains k' v' where "range_find P m ks = Some (k', v')" and "m k' = Some v'" and "P v'"
proof (cases "range_find P m ks")
  case None
  with assms show ?thesis by (simp add: iter_order_find_None)
next
  case (Some kv)
  then show ?thesis
    using that [of "fst kv" "snd kv"] range_find_SomeD [of P m ks "fst kv" "snd kv"] by simp
qed

text \<open>A loop may meet any qualifying key first.\<close>

lemma chosen_first:
  assumes "m k = Some v" and "finite (dom m)" and "P v"
  obtains ks where "iter_order m ks" and "range_find P m ks = Some (k, v)"
proof -
  obtain ks where "set ks = dom m - {k}" "distinct ks"
    using assms(2) finite_distinct_list [of "dom m - {k}"] by auto
  with assms show thesis by (intro that [of "k # ks"]) (auto simp: iter_order_def)
qed

lemma set_range_values: "set (range_values m ks) = {v. \<exists>k\<in>set ks. m k = Some v}"
  by (induction ks) (auto split: option.splits)

lemma iter_order_values:
  assumes "iter_order m ks"
  shows "set (range_values m ks) = ran m"
  using assms by (auto simp: set_range_values iter_order_def ran_def dom_def)

lemma iter_order_length:
  assumes "iter_order m ks"
  shows "length (range_values m ks) = length ks"
proof -
  have "set ks \<subseteq> dom m \<Longrightarrow> length (range_values m ks) = length ks"
    by (induction ks) (auto split: option.splits)
  with assms show ?thesis by (simp add: iter_order_def)
qed

text \<open>Collecting the distinct values of a key, as the \<open>seen\<close> idiom does.\<close>

fun dedup_by :: "'a list \<Rightarrow> 'a list \<Rightarrow> 'a list" where
  "dedup_by seen [] = []"
| "dedup_by seen (x # xs) =
     (if x \<in> set seen then dedup_by seen xs else x # dedup_by (x # seen) xs)"

lemma set_dedup_by: "set (dedup_by seen xs) = set xs - set seen"
  by (induction xs arbitrary: seen) auto

lemma distinct_dedup_by: "distinct (dedup_by seen xs)"
  by (induction xs arbitrary: seen) (auto simp: set_dedup_by)

section \<open>HTTP\<close>

text \<open>A handler either reports an error (\<open>http.Error\<close>: status and message) or succeeds with a
  status and a payload.\<close>

datatype 'a reply = HttpError nat string | HttpOk nat 'a

fun status :: "'a reply \<Rightarrow> nat" where
  "status (HttpError c _) = c"
| "status (HttpOk c _) = c"

definition StatusOK :: nat where "StatusOK = 200"
definition StatusCreated :: nat where "StatusCreated = 201"
definition StatusAccepted :: nat where "StatusAccepted = 202"
definition StatusNoContent :: nat where "StatusNoContent = 204"
definition StatusBadRequest :: nat where "StatusBadRequest = 400"
definition StatusUnauthorized :: nat where "StatusUnauthorized = 401"
definition StatusForbidden :: nat where "StatusForbidden = 403"
definition StatusNotFound :: nat where "StatusNotFound = 404"
definition StatusConflict :: nat where "StatusConflict = 409"
definition StatusInternalServerError :: nat where "StatusInternalServerError = 500"

lemmas status_defs = StatusOK_def StatusCreated_def StatusAccepted_def StatusNoContent_def
  StatusBadRequest_def StatusUnauthorized_def StatusForbidden_def StatusNotFound_def
  StatusConflict_def StatusInternalServerError_def

section \<open>Reachability invariants\<close>

text \<open>The contract every stateful component meets: a predicate on initial states, a step
  relation and an invariant that holds at the start and is kept by each step.\<close>

locale transition_system =
  fixes start :: "'s \<Rightarrow> bool"
    and step :: "'s \<Rightarrow> 's \<Rightarrow> bool"
    and inv :: "'s \<Rightarrow> bool"
  assumes start_inv: "start s \<Longrightarrow> inv s"
    and step_inv: "step s t \<Longrightarrow> inv s \<Longrightarrow> inv t"
begin

lemma steps_inv: "step\<^sup>*\<^sup>* s t \<Longrightarrow> inv s \<Longrightarrow> inv t"
  by (induction rule: rtranclp_induct) (blast intro: step_inv)+

lemma reachable_inv: "start s \<Longrightarrow> step\<^sup>*\<^sup>* s t \<Longrightarrow> inv t"
  by (blast intro: steps_inv start_inv)

end

section \<open>Searching a list\<close>

lemma find_SomeD: "find P xs = Some x \<Longrightarrow> x \<in> set xs \<and> P x"
  by (auto simp: find_Some_iff)

lemma find_append: "find P (xs @ ys) = (case find P xs of None \<Rightarrow> find P ys | Some x \<Rightarrow> Some x)"
  by (induction xs) simp_all

section \<open>Latest-value stores\<close>

text \<open>Several services keep, behind a mutex, the most recent value per key. A client relies on
  reading back what was written last, and on writes to other keys not interfering.\<close>

locale last_value_store =
  fixes put :: "'k \<Rightarrow> 'v \<Rightarrow> 's \<Rightarrow> 's"
    and get :: "'s \<Rightarrow> 'k \<Rightarrow> 'v option"
  assumes get_put: "get (put k v s) k = Some v"
    and get_put_other: "k' \<noteq> k \<Longrightarrow> get (put k v s) k' = get s k'"
begin

text \<open>After any sequence of writes, a read returns the last value written to the key, or what
  was there before if none was.\<close>

lemma get_fold_put:
  "get (fold (\<lambda>(k, v). put k v) ws s) k =
     (case map_of (rev ws) k of Some v \<Rightarrow> Some v | None \<Rightarrow> get s k)"
proof (induction ws arbitrary: s)
  case Nil
  then show ?case by simp
next
  case (Cons w ws)
  obtain k' v' where "w = (k', v')" by (cases w)
  then show ?case
    using Cons.IH [of "put k' v' s"]
    by (auto simp: get_put get_put_other map_add_def split: option.splits)
qed

lemma get_fold_put_other:
  "k \<notin> fst ` set ws \<Longrightarrow> get (fold (\<lambda>(k, v). put k v) ws s) k = get s k"
  by (simp add: get_fold_put map_of_eq_None_iff [THEN iffD2])

end

section \<open>Functional refinement\<close>

text \<open>A detailed component with an invariant, an abstraction of its state and, per event, a
  concrete and an abstract step that the abstraction relates.\<close>

locale functional_refinement =
  fixes inv :: "'c \<Rightarrow> bool"
    and abs :: "'c \<Rightarrow> 'a"
    and cstep :: "'e \<Rightarrow> 'c \<Rightarrow> 'c"
    and astep :: "'e \<Rightarrow> 'a \<Rightarrow> 'a"
  assumes inv_cstep: "inv s \<Longrightarrow> inv (cstep e s)"
    and abs_cstep: "inv s \<Longrightarrow> abs (cstep e s) = astep e (abs s)"
begin

lemma inv_run: "inv s \<Longrightarrow> inv (fold cstep es s)"
  by (induction es arbitrary: s) (auto intro: inv_cstep)

lemma abs_run: "inv s \<Longrightarrow> abs (fold cstep es s) = fold astep es (abs s)"
  by (induction es arbitrary: s) (auto simp: abs_cstep inv_cstep)

end

end
