(* ===== verification/State_Machine.thy ===== *)
theory State_Machine
  imports Prelude
begin

text \<open>
  The four-layer state machine of the control server
  (\<open>internal/controlserver/statemachine/state.go\<close>). One \<open>Machine\<close> holds the SYSTEM, CONTROL,
  MEDIA and OPERATOR layers and the set of active DEGRADED reasons; every exported method locks
  the machine for its whole body, so each is one atomic function on the record here. Log calls are
  left out: they have no effect on the state.

  The theorems: the CONTROL layer is a function of the SYSTEM layer in every reachable state; every
  method moves the SYSTEM layer along an edge of the transition table; media and telemetry reports
  neither enter nor leave SAFE_MODE; the SAFE_MODE trigger works from every state that is not IDLE;
  and the DEGRADED state with its set of reasons refines a monitor of two independent health bits.
\<close>

section \<open>The layers\<close>

datatype SystemState =
    StateIdle | StateConnecting | StateAuthenticated | StateConnected
  | StateDegraded | StateSafeMode | StateRecovering

datatype ControlState =
    ControlInit | ControlActive | ControlBlocked | ControlLost | ControlRecovering

datatype MediaState =
    MediaInit | MediaNegotiating | MediaConnected | MediaDegraded | MediaFailed

datatype OperatorState =
    OpNoOperator | OpAssigned | OpActive | OpHandoverPending | OpRecovering

datatype DegradedReason = DegradedReasonMedia | DegradedReasonTelemetry

text \<open>The Go types are strings; these are the constants' values, which audit records, recordings
  and the state endpoint carry.\<close>

fun system_string :: "SystemState \<Rightarrow> string" where
  "system_string StateIdle = ''IDLE''"
| "system_string StateConnecting = ''CONNECTING''"
| "system_string StateAuthenticated = ''AUTHENTICATED''"
| "system_string StateConnected = ''CONNECTED''"
| "system_string StateDegraded = ''DEGRADED''"
| "system_string StateSafeMode = ''SAFE_MODE''"
| "system_string StateRecovering = ''RECOVERING''"

fun control_string :: "ControlState \<Rightarrow> string" where
  "control_string ControlInit = ''CONTROL_INIT''"
| "control_string ControlActive = ''CONTROL_ACTIVE''"
| "control_string ControlBlocked = ''CONTROL_BLOCKED''"
| "control_string ControlLost = ''CONTROL_LOST''"
| "control_string ControlRecovering = ''CONTROL_RECOVERING''"

fun media_string :: "MediaState \<Rightarrow> string" where
  "media_string MediaInit = ''MEDIA_INIT''"
| "media_string MediaNegotiating = ''MEDIA_NEGOTIATING''"
| "media_string MediaConnected = ''MEDIA_CONNECTED''"
| "media_string MediaDegraded = ''MEDIA_DEGRADED''"
| "media_string MediaFailed = ''MEDIA_FAILED''"

fun operator_string :: "OperatorState \<Rightarrow> string" where
  "operator_string OpNoOperator = ''NO_OPERATOR''"
| "operator_string OpAssigned = ''OPERATOR_ASSIGNED''"
| "operator_string OpActive = ''ACTIVE_OPERATOR''"
| "operator_string OpHandoverPending = ''HANDOVER_PENDING''"
| "operator_string OpRecovering = ''RECOVERING_OPERATOR''"

record Machine =
  System :: SystemState
  Control :: ControlState
  Media :: MediaState
  Operator :: OperatorState
  degradedReasons :: "DegradedReason set"

definition newMachine :: Machine where
  "newMachine = \<lparr>System = StateIdle, Control = ControlInit, Media = MediaInit,
                 Operator = OpNoOperator, degradedReasons = {}\<rparr>"

definition Get :: "Machine \<Rightarrow> SystemState \<times> ControlState \<times> MediaState \<times> OperatorState" where
  "Get m = (System m, Control m, Media m, Operator m)"

section \<open>Transitions\<close>

fun validSystemTransitions :: "SystemState \<Rightarrow> SystemState list option" where
  "validSystemTransitions StateIdle = Some [StateConnecting]"
| "validSystemTransitions StateConnecting = Some [StateAuthenticated, StateSafeMode]"
| "validSystemTransitions StateAuthenticated = Some [StateConnected, StateSafeMode]"
| "validSystemTransitions StateConnected = Some [StateDegraded, StateSafeMode, StateIdle]"
| "validSystemTransitions StateDegraded = Some [StateConnected, StateSafeMode, StateIdle]"
| "validSystemTransitions StateSafeMode = Some [StateRecovering, StateIdle]"
| "validSystemTransitions StateRecovering = Some [StateAuthenticated, StateSafeMode]"

definition isValidTransition :: "SystemState \<Rightarrow> SystemState \<Rightarrow> bool" where
  "isValidTransition current next =
     (case validSystemTransitions current of
        None \<Rightarrow> False
      | Some allowed \<Rightarrow> next \<in> set allowed)"

definition CanTransitionTo :: "Machine \<Rightarrow> SystemState \<Rightarrow> bool" where
  "CanTransitionTo m next = isValidTransition (System m) next"

text \<open>The dependent CONTROL, OPERATOR and reason updates of the \<open>switch\<close>.\<close>

fun entry_action :: "SystemState \<Rightarrow> Machine \<Rightarrow> Machine" where
  "entry_action StateIdle m = m\<lparr>Control := ControlInit, Operator := OpNoOperator\<rparr>"
| "entry_action StateSafeMode m = m\<lparr>Control := ControlBlocked, degradedReasons := {}\<rparr>"
| "entry_action StateConnected m = m\<lparr>Control := ControlActive\<rparr>"
| "entry_action StateAuthenticated m =
     (if Control m = ControlBlocked \<or> Control m = ControlRecovering
      then m\<lparr>Control := ControlInit\<rparr> else m)"
| "entry_action StateRecovering m = m\<lparr>Control := ControlRecovering\<rparr>"
| "entry_action StateDegraded m = m"
| "entry_action StateConnecting m = m"

definition transitionSystemLocked :: "SystemState \<Rightarrow> Machine \<Rightarrow> Machine \<times> bool" where
  "transitionSystemLocked next m =
     (if \<not> isValidTransition (System m) next then (m, False)
      else (entry_action next (m\<lparr>System := next\<rparr>), True))"

definition TransitionSystem :: "SystemState \<Rightarrow> Machine \<Rightarrow> Machine" where
  "TransitionSystem next m = fst (transitionSystemLocked next m)"

definition enterDegraded :: "DegradedReason \<Rightarrow> Machine \<Rightarrow> Machine" where
  "enterDegraded reason m =
     (let m1 = m\<lparr>degradedReasons := insert reason (degradedReasons m)\<rparr>
      in if System m1 = StateConnected then fst (transitionSystemLocked StateDegraded m1) else m1)"

definition exitDegraded :: "DegradedReason \<Rightarrow> Machine \<Rightarrow> Machine" where
  "exitDegraded reason m =
     (let m1 = m\<lparr>degradedReasons := degradedReasons m - {reason}\<rparr>
      in if card (degradedReasons m1) = 0 \<and> System m1 = StateDegraded
         then fst (transitionSystemLocked StateConnected m1) else m1)"

definition TransitionToConnected :: "Machine \<Rightarrow> Machine \<times> bool" where
  "TransitionToConnected m =
     (if System m \<noteq> StateAuthenticated then (m, False)
      else (m\<lparr>System := StateConnected, Control := ControlActive\<rparr>, True))"

definition TransitionMedia :: "MediaState \<Rightarrow> Machine \<Rightarrow> Machine" where
  "TransitionMedia next m =
     (let m1 = m\<lparr>Media := next\<rparr>
      in if (next = MediaFailed \<or> next = MediaDegraded) \<and>
            (System m1 = StateConnected \<or> System m1 = StateDegraded)
         then enterDegraded DegradedReasonMedia m1
         else if next = MediaConnected \<and> System m1 = StateDegraded
         then exitDegraded DegradedReasonMedia m1
         else m1)"

definition TransitionTelemetry :: "bool \<Rightarrow> Machine \<Rightarrow> Machine" where
  "TransitionTelemetry healthy m =
     (if \<not> healthy \<and> (System m = StateConnected \<or> System m = StateDegraded)
      then enterDegraded DegradedReasonTelemetry m
      else if healthy \<and> System m = StateDegraded
      then exitDegraded DegradedReasonTelemetry m
      else m)"

definition TransitionOperator :: "OperatorState \<Rightarrow> Machine \<Rightarrow> Machine" where
  "TransitionOperator next m =
     (let m1 = m\<lparr>Operator := next\<rparr>
      in if next = OpNoOperator \<and> (System m1 = StateConnected \<or> System m1 = StateDegraded)
         then fst (transitionSystemLocked StateSafeMode m1) else m1)"

lemmas machine_op_defs [op_defs] =
  isValidTransition_def transitionSystemLocked_def TransitionSystem_def enterDegraded_def
  exitDegraded_def TransitionToConnected_def TransitionMedia_def TransitionTelemetry_def
  TransitionOperator_def

text \<open>One call of an exported method that writes the machine.\<close>

inductive machine_step :: "Machine \<Rightarrow> Machine \<Rightarrow> bool" where
  system: "machine_step m (TransitionSystem next m)"
| connected: "machine_step m (fst (TransitionToConnected m))"
| media: "machine_step m (TransitionMedia ms m)"
| telemetry: "machine_step m (TransitionTelemetry healthy m)"
| operator: "machine_step m (TransitionOperator os m)"

inductive_cases machine_stepE: "machine_step m m'"

section \<open>Finite sets of reasons\<close>

lemma finite_reasons [simp, intro]: "finite (R :: DegradedReason set)"
proof -
  have "R \<subseteq> {DegradedReasonMedia, DegradedReasonTelemetry}"
    using DegradedReason.exhaust by blast
  then show ?thesis by (rule finite_subset) simp
qed

lemma card_reasons_0 [simp]: "card (R :: DegradedReason set) = 0 \<longleftrightarrow> R = {}"
  by simp

section \<open>What each method does to the SYSTEM layer\<close>

lemma System_entry_action [simp]: "System (entry_action s m) = System m"
  by (cases s) auto

lemma Media_entry_action [simp]: "Media (entry_action s m) = Media m"
  by (cases s) auto

lemma System_TransitionSystem:
  "System (TransitionSystem next m) =
     (if isValidTransition (System m) next then next else System m)"
  by (simp add: TransitionSystem_def transitionSystemLocked_def)

lemma System_TransitionToConnected:
  "System (fst (TransitionToConnected m)) =
     (if System m = StateAuthenticated then StateConnected else System m)"
  by (simp add: TransitionToConnected_def)

lemma System_TransitionMedia:
  "System (TransitionMedia ms m) =
     (if ms \<in> {MediaFailed, MediaDegraded} \<and> System m = StateConnected then StateDegraded
      else if ms = MediaConnected \<and> System m = StateDegraded
              \<and> degradedReasons m \<subseteq> {DegradedReasonMedia} then StateConnected
      else System m)"
  by (cases "System m") (auto simp: machine_op_defs Let_def)

lemma System_TransitionTelemetry:
  "System (TransitionTelemetry healthy m) =
     (if \<not> healthy \<and> System m = StateConnected then StateDegraded
      else if healthy \<and> System m = StateDegraded
              \<and> degradedReasons m \<subseteq> {DegradedReasonTelemetry} then StateConnected
      else System m)"
  by (cases "System m") (auto simp: machine_op_defs Let_def)

lemma System_TransitionOperator:
  "System (TransitionOperator os m) =
     (if os = OpNoOperator \<and> System m \<in> {StateConnected, StateDegraded} then StateSafeMode
      else System m)"
  by (cases "System m") (auto simp: machine_op_defs Let_def)

lemmas System_ops = System_TransitionSystem System_TransitionToConnected System_TransitionMedia
  System_TransitionTelemetry System_TransitionOperator

lemma isValid_edges [simp]:
  "isValidTransition StateConnected StateDegraded"
  "isValidTransition StateDegraded StateConnected"
  "isValidTransition StateAuthenticated StateConnected"
  "isValidTransition StateConnected StateSafeMode"
  "isValidTransition StateDegraded StateSafeMode"
  by (simp_all add: isValidTransition_def)

section \<open>The CONTROL layer\<close>

text \<open>The CONTROL state that belongs to each SYSTEM state.\<close>

fun control_of :: "SystemState \<Rightarrow> ControlState" where
  "control_of StateIdle = ControlInit"
| "control_of StateConnecting = ControlInit"
| "control_of StateAuthenticated = ControlInit"
| "control_of StateConnected = ControlActive"
| "control_of StateDegraded = ControlActive"
| "control_of StateSafeMode = ControlBlocked"
| "control_of StateRecovering = ControlRecovering"

definition control_coupled :: "Machine \<Rightarrow> bool" where
  "control_coupled m \<longleftrightarrow> Control m = control_of (System m)"

lemma control_coupled_new [simp]: "control_coupled newMachine"
  by (simp add: control_coupled_def newMachine_def)

lemma control_coupled_locked:
  "control_coupled m \<Longrightarrow> control_coupled (fst (transitionSystemLocked next m))"
  by (cases "System m"; cases "next")
    (auto simp: control_coupled_def transitionSystemLocked_def isValidTransition_def)

lemma control_coupled_upd [simp]:
  "control_coupled (m\<lparr>Media := ms\<rparr>) = control_coupled m"
  "control_coupled (m\<lparr>Operator := os\<rparr>) = control_coupled m"
  "control_coupled (m\<lparr>degradedReasons := R\<rparr>) = control_coupled m"
  by (simp_all add: control_coupled_def)

lemma control_coupled_TransitionSystem [intro]:
  "control_coupled m \<Longrightarrow> control_coupled (TransitionSystem next m)"
  by (simp add: TransitionSystem_def control_coupled_locked)

lemma control_coupled_TransitionToConnected [intro]:
  "control_coupled m \<Longrightarrow> control_coupled (fst (TransitionToConnected m))"
  by (simp add: TransitionToConnected_def control_coupled_def)

lemma control_coupled_TransitionMedia [intro]:
  "control_coupled m \<Longrightarrow> control_coupled (TransitionMedia ms m)"
  by (simp add: TransitionMedia_def enterDegraded_def exitDegraded_def Let_def
      control_coupled_locked)

lemma control_coupled_TransitionTelemetry [intro]:
  "control_coupled m \<Longrightarrow> control_coupled (TransitionTelemetry h m)"
  by (simp add: TransitionTelemetry_def enterDegraded_def exitDegraded_def Let_def
      control_coupled_locked)

lemma control_coupled_TransitionOperator [intro]:
  "control_coupled m \<Longrightarrow> control_coupled (TransitionOperator os m)"
  by (simp add: TransitionOperator_def Let_def control_coupled_locked)

interpretation machine_control: transition_system "\<lambda>m. m = newMachine" machine_step control_coupled
  by unfold_locales (auto elim!: machine_stepE)

section \<open>SAFE_MODE\<close>

text \<open>In SAFE_MODE and while recovering from it no DEGRADED reason is active.\<close>

definition safe_mode_clean :: "Machine \<Rightarrow> bool" where
  "safe_mode_clean m \<longleftrightarrow> System m \<in> {StateSafeMode, StateRecovering} \<longrightarrow> degradedReasons m = {}"

lemma degradedReasons_entry_action:
  "degradedReasons (entry_action s m) = (if s = StateSafeMode then {} else degradedReasons m)"
  by (cases s) auto

lemma safe_mode_clean_step: "machine_step m m' \<Longrightarrow> safe_mode_clean m \<Longrightarrow> safe_mode_clean m'"
  by (cases "System m")
    (auto simp: safe_mode_clean_def machine_op_defs Let_def degradedReasons_entry_action
      elim!: machine_stepE split: if_splits)

interpretation machine_safe: transition_system "\<lambda>m. m = newMachine" machine_step safe_mode_clean
  by unfold_locales
    (simp add: safe_mode_clean_def newMachine_def, erule (1) safe_mode_clean_step)

lemma isValid_to_SafeMode:
  "isValidTransition s StateSafeMode \<longleftrightarrow> s \<noteq> StateIdle \<and> s \<noteq> StateSafeMode"
  by (cases s) (auto simp: isValidTransition_def)

lemma TransitionSystem_SafeMode:
  "TransitionSystem StateSafeMode m =
     (if System m = StateIdle \<or> System m = StateSafeMode then m
      else m\<lparr>System := StateSafeMode, Control := ControlBlocked, degradedReasons := {}\<rparr>)"
  by (simp add: TransitionSystem_def transitionSystemLocked_def isValid_to_SafeMode)

lemma TransitionOperator_NoOperator:
  "TransitionOperator OpNoOperator m =
     (if System m = StateConnected \<or> System m = StateDegraded
      then m\<lparr>System := StateSafeMode, Control := ControlBlocked, Operator := OpNoOperator,
             degradedReasons := {}\<rparr>
      else m\<lparr>Operator := OpNoOperator\<rparr>)"
  by (simp add: TransitionOperator_def transitionSystemLocked_def Let_def)

lemma TransitionOperator_other:
  "os \<noteq> OpNoOperator \<Longrightarrow> TransitionOperator os m = m\<lparr>Operator := os\<rparr>"
  by (simp add: TransitionOperator_def Let_def)

section \<open>DEGRADED\<close>

text \<open>The reports that can degrade a session, and the health of a vehicle as an abstract monitor
  sees it: the latest media and the latest telemetry verdict, independently.\<close>

datatype health_report = MediaReport MediaState | TelemetryReport bool

fun apply_report :: "health_report \<Rightarrow> Machine \<Rightarrow> Machine" where
  "apply_report (MediaReport ms) m = TransitionMedia ms m"
| "apply_report (TelemetryReport healthy) m = TransitionTelemetry healthy m"

record health =
  media_bad :: bool
  telemetry_bad :: bool

fun monitor_step :: "health_report \<Rightarrow> health \<Rightarrow> health" where
  "monitor_step (MediaReport MediaFailed) h = h\<lparr>media_bad := True\<rparr>"
| "monitor_step (MediaReport MediaDegraded) h = h\<lparr>media_bad := True\<rparr>"
| "monitor_step (MediaReport MediaConnected) h = h\<lparr>media_bad := False\<rparr>"
| "monitor_step (MediaReport MediaInit) h = h"
| "monitor_step (MediaReport MediaNegotiating) h = h"
| "monitor_step (TelemetryReport healthy) h = h\<lparr>telemetry_bad := \<not> healthy\<rparr>"

definition monitor_state :: "health \<Rightarrow> SystemState" where
  "monitor_state h = (if media_bad h \<or> telemetry_bad h then StateDegraded else StateConnected)"

definition health_of :: "Machine \<Rightarrow> health" where
  "health_of m = \<lparr>media_bad = DegradedReasonMedia \<in> degradedReasons m,
                  telemetry_bad = DegradedReasonTelemetry \<in> degradedReasons m\<rparr>"

text \<open>A session is up and the reasons agree with the SYSTEM state.\<close>

definition session_live :: "Machine \<Rightarrow> bool" where
  "session_live m \<longleftrightarrow>
     System m = (if degradedReasons m = {} then StateConnected else StateDegraded)"

lemma reasons_empty_iff:
  "R = {} \<longleftrightarrow> DegradedReasonMedia \<notin> R \<and> DegradedReasonTelemetry \<notin> R"
  by (metis DegradedReason.exhaust all_not_in_conv)

lemma session_live_state: "session_live m \<Longrightarrow> System m = monitor_state (health_of m)"
  by (auto simp: session_live_def monitor_state_def health_of_def reasons_empty_iff)

lemma enterDegraded_live:
  assumes "session_live m"
  shows "enterDegraded r m = m\<lparr>System := StateDegraded, degradedReasons := insert r (degradedReasons m)\<rparr>"
  using assms
  by (auto simp: session_live_def enterDegraded_def transitionSystemLocked_def Let_def
      split: if_splits)

lemma exitDegraded_degraded:
  assumes "System m = StateDegraded" and "Control m = ControlActive"
  shows "exitDegraded r m =
    m\<lparr>System := (if degradedReasons m - {r} = {} then StateConnected else StateDegraded),
      degradedReasons := degradedReasons m - {r}\<rparr>"
  using assms by (auto simp: exitDegraded_def transitionSystemLocked_def Let_def)

text \<open>Reports of a live session, with the coupling of the CONTROL layer carried along.\<close>

definition live_coupled :: "Machine \<Rightarrow> bool" where
  "live_coupled m \<longleftrightarrow> session_live m \<and> Control m = ControlActive"

lemma report_media_bad:
  assumes "live_coupled m" and "ms = MediaFailed \<or> ms = MediaDegraded"
  shows "TransitionMedia ms m = m\<lparr>Media := ms, System := StateDegraded,
           degradedReasons := insert DegradedReasonMedia (degradedReasons m)\<rparr>"
proof -
  have "session_live (m\<lparr>Media := ms\<rparr>)" using assms by (simp add: live_coupled_def session_live_def)
  from enterDegraded_live [OF this] show ?thesis
    using assms by (auto simp: TransitionMedia_def live_coupled_def session_live_def Let_def)
qed

lemma report_media_good:
  assumes "live_coupled m"
  shows "TransitionMedia MediaConnected m = m\<lparr>Media := MediaConnected,
           System := (if degradedReasons m - {DegradedReasonMedia} = {} then StateConnected
                      else StateDegraded),
           degradedReasons := degradedReasons m - {DegradedReasonMedia}\<rparr>"
  using assms
  by (auto simp: TransitionMedia_def live_coupled_def session_live_def Let_def exitDegraded_degraded)

lemma report_media_neutral:
  "ms = MediaInit \<or> ms = MediaNegotiating \<Longrightarrow> TransitionMedia ms m = m\<lparr>Media := ms\<rparr>"
  by (auto simp: TransitionMedia_def Let_def)

lemma report_telemetry:
  assumes "live_coupled m"
  shows "TransitionTelemetry healthy m =
    (let R = (if healthy then degradedReasons m - {DegradedReasonTelemetry}
              else insert DegradedReasonTelemetry (degradedReasons m))
     in m\<lparr>System := (if R = {} then StateConnected else StateDegraded), degradedReasons := R\<rparr>)"
  using assms
  by (auto simp: TransitionTelemetry_def live_coupled_def session_live_def Let_def
      exitDegraded_degraded enterDegraded_live)

lemmas report_simps = report_media_bad report_media_good report_media_neutral report_telemetry

interpretation degraded_monitor:
  functional_refinement live_coupled health_of apply_report monitor_step
proof
  fix m e
  assume live: "live_coupled m"
  show "live_coupled (apply_report e m)"
  proof (cases e)
    case (MediaReport ms)
    with live show ?thesis
      by (cases ms) (auto simp: report_simps live_coupled_def session_live_def)
  next
    case (TelemetryReport h)
    with live show ?thesis
      by (auto simp: report_telemetry Let_def) (auto simp: live_coupled_def session_live_def)
  qed
  show "health_of (apply_report e m) = monitor_step e (health_of m)"
  proof (cases e)
    case (MediaReport ms)
    with live show ?thesis by (cases ms) (auto simp: report_simps health_of_def)
  next
    case (TelemetryReport h)
    with live show ?thesis by (auto simp: report_telemetry Let_def health_of_def)
  qed
qed

lemma apply_report_SafeMode:
  "System (apply_report r m) = StateSafeMode \<longleftrightarrow> System m = StateSafeMode"
  by (cases r) (auto simp: System_TransitionMedia System_TransitionTelemetry)

lemma apply_report_Operator [simp]: "Operator (apply_report r m) = Operator m"
proof -
  have act: "Operator (entry_action s m) = (if s = StateIdle then OpNoOperator else Operator m)"
    for s and m :: Machine by (cases s) auto
  show ?thesis
    by (cases r) (auto simp: machine_op_defs Let_def act)
qed

section \<open>Properties\<close>

text \<open>Whatever sequence of methods is called on a fresh machine, its CONTROL layer is the one
  that belongs to its SYSTEM layer: commands are blocked exactly in SAFE_MODE, active exactly while
  the session is CONNECTED or DEGRADED, and the constant CONTROL_LOST is never reached.\<close>

theorem control_layer_determined:
  assumes "machine_step\<^sup>*\<^sup>* newMachine m"
  shows "Control m = control_of (System m)"
  using machine_control.reachable_inv [OF refl assms] by (simp add: control_coupled_def)

theorem control_layer_determined_witness:
  "Control (TransitionSystem StateConnecting newMachine) =
     control_of (System (TransitionSystem StateConnecting newMachine))"
  by (rule control_layer_determined) (blast intro: machine_step.system)

text \<open>Every exported method either leaves the SYSTEM state alone or moves it along an edge of
  the table of valid transitions, also the methods that assign the field directly
  (TransitionToConnected) or through the DEGRADED helpers.\<close>

theorem system_moves_along_table:
  assumes "machine_step m m'"
  shows "System m' = System m \<or> isValidTransition (System m) (System m')"
  using assms by (auto simp: System_ops elim!: machine_stepE)

theorem system_moves_along_table_witness:
  "System (TransitionSystem StateIdle newMachine) = System newMachine \<or>
   isValidTransition (System newMachine) (System (TransitionSystem StateIdle newMachine))"
  by (rule system_moves_along_table) (rule machine_step.system)

text \<open>Media and telemetry reports, in any number and order and from any state, never bring the
  machine into SAFE_MODE, never take it out of SAFE_MODE and never touch the OPERATOR layer.\<close>

theorem reports_never_touch_safe_mode:
  "(System (fold apply_report rs m) = StateSafeMode \<longleftrightarrow> System m = StateSafeMode) \<and>
   Operator (fold apply_report rs m) = Operator m"
  by (induction rs arbitrary: m) (simp_all add: apply_report_SafeMode)

text \<open>In every reachable state other than IDLE, the SAFE_MODE trigger leaves the machine in
  SAFE_MODE with commands blocked and every DEGRADED reason cleared, and keeps the MEDIA and
  OPERATOR layers.\<close>

theorem safe_mode_trigger:
  assumes "machine_step\<^sup>*\<^sup>* newMachine m" and "System m \<noteq> StateIdle"
  shows "TransitionSystem StateSafeMode m =
    m\<lparr>System := StateSafeMode, Control := ControlBlocked, degradedReasons := {}\<rparr>"
proof (cases "System m = StateSafeMode")
  case True
  have "control_coupled m" "safe_mode_clean m"
    using assms machine_control.reachable_inv machine_safe.reachable_inv by blast+
  with True show ?thesis
    by (simp add: TransitionSystem_SafeMode control_coupled_def safe_mode_clean_def)
next
  case False
  with assms show ?thesis by (simp add: TransitionSystem_SafeMode)
qed

theorem safe_mode_trigger_witness:
  "System (TransitionSystem StateConnecting newMachine) \<noteq> StateIdle \<and>
   System (TransitionSystem StateSafeMode (TransitionSystem StateConnecting newMachine)) =
     StateSafeMode"
proof -
  have 1: "machine_step\<^sup>*\<^sup>* newMachine (TransitionSystem StateConnecting newMachine)"
    by (blast intro: machine_step.system)
  have 2: "System (TransitionSystem StateConnecting newMachine) \<noteq> StateIdle"
    by (simp add: machine_op_defs newMachine_def)
  show ?thesis using 2 safe_mode_trigger [OF 1 2] by simp
qed

text \<open>A method call takes the machine out of SAFE_MODE only when it is an explicit system
  transition to RECOVERING or to IDLE; commands stay blocked until then.\<close>

theorem safe_mode_left_explicitly:
  assumes "machine_step m m'" and "System m = StateSafeMode" and "System m' \<noteq> StateSafeMode"
  shows "m' = TransitionSystem StateRecovering m \<or> m' = TransitionSystem StateIdle m"
  using assms
proof cases
  case (system nxt)
  with assms have "isValidTransition StateSafeMode nxt"
    by (auto simp: System_TransitionSystem split: if_splits)
  then have "nxt = StateRecovering \<or> nxt = StateIdle" by (simp add: isValidTransition_def)
  with system show ?thesis by auto
qed (auto simp: System_ops)

theorem safe_mode_left_explicitly_witness:
  "\<exists>m m'. machine_step m m' \<and> System m = StateSafeMode \<and> System m' \<noteq> StateSafeMode \<and>
     (m' = TransitionSystem StateRecovering m \<or> m' = TransitionSystem StateIdle m)"
proof -
  let ?m = "newMachine\<lparr>System := StateSafeMode, Control := ControlBlocked\<rparr>"
  have 1: "machine_step ?m (TransitionSystem StateIdle ?m)" by (rule machine_step.system)
  have 2: "System ?m = StateSafeMode" by simp
  have 3: "System (TransitionSystem StateIdle ?m) \<noteq> StateSafeMode"
    by (simp add: machine_op_defs)
  show ?thesis using 1 2 3 safe_mode_left_explicitly [OF 1 2 3] by blast
qed



text \<open>The calls of a session teardown followed by a session start, as \<open>handleSessionEnd\<close> and
  \<open>advanceVehicleToActiveOperator\<close> make them.\<close>

definition restart_session :: "Machine \<Rightarrow> Machine" where
  "restart_session m =
     TransitionOperator OpActive
       (fst (TransitionToConnected
         (TransitionSystem StateAuthenticated
           (TransitionSystem StateConnecting (TransitionSystem StateIdle m)))))"

text \<open>Ending a DEGRADED session does not clear its reasons. The next session starts CONNECTED
  with the stale media reason still set; a media recovery reported then does not remove it, and one
  telemetry dropout that recovers leaves the new session DEGRADED although both sources are healthy.\<close>

theorem stale_degraded_reason:
  assumes "System m = StateDegraded" and "DegradedReasonMedia \<in> degradedReasons m"
  shows "System (restart_session m) = StateConnected \<and>
         System (fold apply_report
           [MediaReport MediaConnected, TelemetryReport False, TelemetryReport True]
           (restart_session m)) = StateDegraded"
  using assms by (auto simp: restart_session_def machine_op_defs Let_def)

theorem stale_degraded_reason_witness:
  "System (fold apply_report
     [MediaReport MediaConnected, TelemetryReport False, TelemetryReport True]
     (restart_session (newMachine\<lparr>System := StateDegraded, Control := ControlActive,
        degradedReasons := {DegradedReasonMedia}\<rparr>))) = StateDegraded"
  using stale_degraded_reason [of "newMachine\<lparr>System := StateDegraded,
      Control := ControlActive, degradedReasons := {DegradedReasonMedia}\<rparr>"]
  by simp

end
