(* ===== verification/Audit_Log.thy ===== *)
theory Audit_Log
  imports Prelude "HOL-Library.Multiset"
begin

text \<open>
  Safety audit events (\<open>pkg/audit\<close>): the record every SAFE_MODE trigger persists, the writer as its
  clients see it (absent, or an oracle for the outcome of \<open>WriteSync\<close>) and the table of the
  PostgreSQL writer. The event types are the string constants of \<open>pkg/logger/event_types.go\<close>.
\<close>

section \<open>Events and writers\<close>

record SafetyAuditEvent =
  ae_EventID :: event_id
  ae_SessionID :: session_id
  ae_VehicleID :: vehicle_id
  ae_OperatorID :: operator_id
  ae_EventType :: string
  ae_Reason :: string
  ae_SystemState :: string
  ae_CtrlState :: string
  ae_Data :: string
  ae_Timestamp :: instant

definition LogEmergencyStop :: string where "LogEmergencyStop = ''EMERGENCY_STOP''"
definition LogDeadmanTimeout :: string where "LogDeadmanTimeout = ''DEADMAN_TIMEOUT''"
definition LogAckTimeout :: string where "LogAckTimeout = ''COMMAND_ACK_TIMEOUT''"
definition LogVehicleACKTimeout :: string where "LogVehicleACKTimeout = ''VEHICLE_ACK_TIMEOUT''"
definition LogWsDisconnect :: string where "LogWsDisconnect = ''WS_DISCONNECT_CRITICAL''"
definition LogAuthWatchdogTriggered :: string where
  "LogAuthWatchdogTriggered = ''AUTH_WATCHDOG_TRIGGERED''"

lemmas log_event_defs = LogEmergencyStop_def LogDeadmanTimeout_def LogAckTimeout_def
  LogVehicleACKTimeout_def LogWsDisconnect_def LogAuthWatchdogTriggered_def

text \<open>A \<open>SafetyAuditWriter\<close> value: \<open>None\<close> is the nil interface; otherwise the function says whether
  \<open>WriteSync\<close> of the event succeeds. Its callers only log a failure.\<close>

type_synonym audit_writer = "(SafetyAuditEvent \<Rightarrow> bool) option"

definition NoopWriter :: audit_writer where
  "NoopWriter = Some (\<lambda>_. True)"

section \<open>The PostgreSQL writer\<close>

text \<open>A row of \<open>audit_events\<close>: the event's columns and the two timestamps as text. \<open>fmt\<close> stands for
  \<open>Format(time.RFC3339Nano)\<close> of an instant in UTC.\<close>

record audit_row =
  row_event :: SafetyAuditEvent
  row_timestamp :: string
  row_written_at :: string

definition WriteSync :: "(instant \<Rightarrow> string) \<Rightarrow> instant \<Rightarrow> SafetyAuditEvent \<Rightarrow> audit_row list \<Rightarrow> audit_row list" where
  "WriteSync fmt now e rows =
     (if \<exists>r\<in>set rows. ae_EventID (row_event r) = ae_EventID e then rows
      else rows @ [\<lparr>row_event = e, row_timestamp = fmt (ae_Timestamp e), row_written_at = fmt now\<rparr>])"

text \<open>The rows the query may return: those of the session, in an order that the database's collation
  \<open>le\<close> sorts by the text of the timestamp.\<close>

definition QueryBySession ::
  "(string \<Rightarrow> string \<Rightarrow> bool) \<Rightarrow> session_id \<Rightarrow> audit_row list \<Rightarrow> audit_row list \<Rightarrow> bool" where
  "QueryBySession le sid rows out \<longleftrightarrow>
     mset out = mset (filter (\<lambda>r. ae_SessionID (row_event r) = sid) rows) \<and>
     sorted_wrt (\<lambda>r s. le (row_timestamp r) (row_timestamp s)) out"

section \<open>What the table keeps\<close>

definition event_ids :: "audit_row list \<Rightarrow> event_id list" where
  "event_ids rows = map (\<lambda>r. ae_EventID (row_event r)) rows"

lemma WriteSync_distinct:
  "distinct (event_ids rows) \<Longrightarrow> distinct (event_ids (WriteSync fmt now e rows))"
  by (auto simp: event_ids_def WriteSync_def)

lemma WriteSync_extends: "\<exists>new. WriteSync fmt now e rows = rows @ new"
  by (auto simp: WriteSync_def)

lemma WriteSync_present: "ae_EventID e \<in> set (event_ids (WriteSync fmt now e rows))"
  by (force simp: event_ids_def WriteSync_def)

lemma WriteSync_idem: "WriteSync fmt now' e (WriteSync fmt now e rows) = WriteSync fmt now e rows"
  by (auto simp: WriteSync_def)

lemma WriteSync_fold_extends: "\<exists>new. fold (\<lambda>(t, e). WriteSync fmt t e) ws rows = rows @ new"
proof (induction ws arbitrary: rows)
  case Nil
  then show ?case by simp
next
  case (Cons w ws)
  obtain t e where "w = (t, e)" by (cases w)
  then show ?case
    using Cons.IH [of "WriteSync fmt t e rows"] WriteSync_extends [of fmt t e rows] by auto
qed

lemma WriteSync_fold_present:
  "(t, e) \<in> set ws \<Longrightarrow> ae_EventID e \<in> set (event_ids (fold (\<lambda>(t, e). WriteSync fmt t e) ws rows))"
proof (induction ws arbitrary: rows)
  case Nil
  then show ?case by simp
next
  case (Cons w ws)
  show ?case
  proof (cases "w = (t, e)")
    case True
    obtain new where
      "fold (\<lambda>(t, e). WriteSync fmt t e) ws (WriteSync fmt t e rows) = WriteSync fmt t e rows @ new"
      using WriteSync_fold_extends by blast
    with True WriteSync_present [of e fmt t rows] show ?thesis by (simp add: event_ids_def)
  next
    case False
    with Cons show ?thesis by (cases w) auto
  qed
qed

end
