(* ===== verification/Safety_Bus.thy ===== *)
theory Safety_Bus
  imports Prelude
begin

text \<open>
  The safety event bus (\<open>internal/safetyservice/bus.go\<close>) and the HTTP handlers of the safety service
  in front of it (\<open>cmd/safety-service/main.go\<close>). A handler registered with \<open>Subscribe\<close> is started in
  its own goroutine per event; \<open>delivered\<close> records which handler was started with which event.
\<close>

section \<open>Events and state\<close>

text \<open>\<open>SafetyEventType\<close> is a Go string; any string can be decoded into it.\<close>

type_synonym SafetyEventType = string

definition EventEmergencyStop :: SafetyEventType where "EventEmergencyStop = ''EMERGENCY_STOP''"
definition EventDeadmanTimeout :: SafetyEventType where "EventDeadmanTimeout = ''DEADMAN_TIMEOUT''"
definition EventACKTimeout :: SafetyEventType where "EventACKTimeout = ''ACK_TIMEOUT''"
definition EventVehicleACKTimeout :: SafetyEventType where
  "EventVehicleACKTimeout = ''VEHICLE_ACK_TIMEOUT''"
definition EventWSDisconnect :: SafetyEventType where "EventWSDisconnect = ''WS_DISCONNECT''"
definition EventNoOperator :: SafetyEventType where "EventNoOperator = ''NO_OPERATOR''"
definition EventAuthInvalid :: SafetyEventType where "EventAuthInvalid = ''AUTH_INVALID''"
definition EventSafetyBusDown :: SafetyEventType where "EventSafetyBusDown = ''SAFETY_BUS_DOWN''"

definition criticalTypes :: "SafetyEventType list" where
  "criticalTypes = [EventEmergencyStop, EventDeadmanTimeout, EventACKTimeout, EventVehicleACKTimeout,
     EventWSDisconnect, EventNoOperator, EventAuthInvalid, EventSafetyBusDown]"

lemmas safety_event_defs = EventEmergencyStop_def EventDeadmanTimeout_def EventACKTimeout_def
  EventVehicleACKTimeout_def EventWSDisconnect_def EventNoOperator_def EventAuthInvalid_def
  EventSafetyBusDown_def

record SafetyEvent =
  se_SessionID :: session_id
  se_EventID :: event_id
  se_VehicleID :: vehicle_id
  se_Type :: SafetyEventType
  se_Reason :: string
  se_Timestamp :: instant

record SafetyState =
  SafeMode :: bool
  LastEvent :: SafetyEventType
  UpdatedAt :: instant

text \<open>The zero value of the struct; instant 0 stands for Go's zero time.\<close>

definition zeroSafetyState :: SafetyState where
  "zeroSafetyState = \<lparr>SafeMode = False, LastEvent = [], UpdatedAt = 0\<rparr>"

text \<open>Handlers are named by numbers: only their identity and order matter to the bus.\<close>

type_synonym handler = nat

record Bus =
  bus_state :: SafetyState
  bus_handlers :: "handler list"
  delivered :: "(handler \<times> SafetyEvent) list"

definition NewBus :: Bus where
  "NewBus = \<lparr>bus_state = zeroSafetyState, bus_handlers = [], delivered = []\<rparr>"

section \<open>Operations\<close>

definition PublishSafetyEvent :: "instant \<Rightarrow> SafetyEvent \<Rightarrow> Bus \<Rightarrow> Bus" where
  "PublishSafetyEvent now event b =
     b\<lparr>bus_state := \<lparr>SafeMode = True, LastEvent = se_Type event, UpdatedAt = now\<rparr>,
       delivered := delivered b @ map (\<lambda>h. (h, event)) (bus_handlers b)\<rparr>"

definition TriggerEmergencyStop ::
  "instant \<Rightarrow> session_id \<Rightarrow> vehicle_id \<Rightarrow> string \<Rightarrow> Bus \<Rightarrow> Bus" where
  "TriggerEmergencyStop now sid vid reason b =
     PublishSafetyEvent now
       \<lparr>se_SessionID = sid, se_EventID = [], se_VehicleID = vid, se_Type = EventEmergencyStop,
        se_Reason = reason, se_Timestamp = now\<rparr> b"

definition GetSafetyState :: "Bus \<Rightarrow> SafetyState" where
  "GetSafetyState b = bus_state b"

definition Subscribe :: "handler \<Rightarrow> Bus \<Rightarrow> Bus" where
  "Subscribe h b = b\<lparr>bus_handlers := bus_handlers b @ [h]\<rparr>"

definition BusReset :: "Bus \<Rightarrow> Bus" where
  "BusReset b = b\<lparr>bus_state := zeroSafetyState\<rparr>"

section \<open>The service's endpoints\<close>

text \<open>The decoded body of \<open>POST /safety/emergency-stop\<close>; \<open>None\<close> is a body that does not decode.\<close>

record emergency_stop_request =
  esr_session_id :: session_id
  esr_vehicle_id :: vehicle_id
  esr_reason :: string

datatype safety_request =
    PostEvent "SafetyEvent option"
  | PostEmergencyStop "emergency_stop_request option"
  | GetState
  | GetBusHealth

datatype safety_payload = NoBody | StateBody SafetyState | ServiceName string

definition post_safety_event ::
  "instant \<Rightarrow> SafetyEvent option \<Rightarrow> Bus \<Rightarrow> Bus \<times> safety_payload reply" where
  "post_safety_event now body b =
     (case body of
        None \<Rightarrow> (b, HttpError StatusBadRequest ''invalid request'')
      | Some event \<Rightarrow> (PublishSafetyEvent now event b, HttpOk StatusAccepted NoBody))"

definition post_safety_emergency_stop ::
  "instant \<Rightarrow> emergency_stop_request option \<Rightarrow> Bus \<Rightarrow> Bus \<times> safety_payload reply" where
  "post_safety_emergency_stop now body b =
     (case body of
        None \<Rightarrow> (b, HttpError StatusBadRequest ''invalid request'')
      | Some req \<Rightarrow>
          (TriggerEmergencyStop now (esr_session_id req) (esr_vehicle_id req) (esr_reason req) b,
           HttpOk StatusAccepted NoBody))"

definition get_safety_state :: "Bus \<Rightarrow> Bus \<times> safety_payload reply" where
  "get_safety_state b = (b, HttpOk StatusOK (StateBody (GetSafetyState b)))"

definition get_safety_health :: "Bus \<Rightarrow> Bus \<times> safety_payload reply" where
  "get_safety_health b = (b, HttpOk StatusOK (ServiceName ''safety-service''))"

fun newSafetyMux :: "instant \<Rightarrow> safety_request \<Rightarrow> Bus \<Rightarrow> Bus \<times> safety_payload reply" where
  "newSafetyMux now (PostEvent body) b = post_safety_event now body b"
| "newSafetyMux now (PostEmergencyStop body) b = post_safety_emergency_stop now body b"
| "newSafetyMux now GetState b = get_safety_state b"
| "newSafetyMux now GetBusHealth b = get_safety_health b"

text \<open>The bus as \<open>main\<close> sets it up: the logging handler is the only subscriber.\<close>

definition safety_service_bus :: "handler \<Rightarrow> Bus" where
  "safety_service_bus logSafetyEvent = Subscribe logSafetyEvent NewBus"

lemmas bus_defs = PublishSafetyEvent_def TriggerEmergencyStop_def post_safety_event_def
  post_safety_emergency_stop_def get_safety_state_def get_safety_health_def

text \<open>The requests the service serves, at the times they arrive.\<close>

definition serve :: "(instant \<times> safety_request) list \<Rightarrow> Bus \<Rightarrow> Bus" where
  "serve rs b = fold (\<lambda>(now, r) b. fst (newSafetyMux now r b)) rs b"

fun accepted :: "safety_request \<Rightarrow> bool" where
  "accepted (PostEvent body) = (body \<noteq> None)"
| "accepted (PostEmergencyStop body) = (body \<noteq> None)"
| "accepted GetState = False"
| "accepted GetBusHealth = False"

lemma serve_Nil [simp]: "serve [] b = b"
  by (simp add: serve_def)

lemma serve_Cons [simp]: "serve ((now, r) # rs) b = serve rs (fst (newSafetyMux now r b))"
  by (simp add: serve_def)

lemma mux_SafeMode:
  "SafeMode (bus_state (fst (newSafetyMux now r b))) \<longleftrightarrow> SafeMode (bus_state b) \<or> accepted r"
  by (cases r) (auto simp: bus_defs split: option.splits)

lemma mux_handlers: "bus_handlers (fst (newSafetyMux now r b)) = bus_handlers b"
  by (cases r) (auto simp: bus_defs split: option.splits)

lemma mux_delivered_count:
  "length (delivered (fst (newSafetyMux now r b))) =
     length (delivered b) + (if accepted r then length (bus_handlers b) else 0)"
  by (cases r) (auto simp: bus_defs split: option.splits)

lemma serve_SafeMode:
  "SafeMode (bus_state (serve rs b)) \<longleftrightarrow> SafeMode (bus_state b) \<or> list_ex (accepted \<circ> snd) rs"
proof (induction rs arbitrary: b)
  case (Cons r rs)
  then show ?case by (cases r) (simp add: mux_SafeMode disj_assoc)
qed simp

lemma serve_delivered_count:
  "length (delivered (serve rs b)) =
     length (delivered b) + length (bus_handlers b) * length (filter (accepted \<circ> snd) rs)"
proof (induction rs arbitrary: b)
  case (Cons r rs)
  then show ?case by (cases r) (simp add: mux_delivered_count mux_handlers)
qed simp

section \<open>Properties\<close>

text \<open>C28: the safety service's state is latched. After any sequence of requests it reports SAFE_MODE
  exactly when it did before or some request was a decodable safety event or emergency stop of
  whatever type string (no type is filtered out, and no endpoint resets it), and the subscribed
  handler has been started exactly once per such request.\<close>

theorem safety_service_latched:
  "(SafeMode (GetSafetyState (serve rs (safety_service_bus h))) \<longleftrightarrow> list_ex (accepted \<circ> snd) rs) \<and>
   length (delivered (serve rs (safety_service_bus h))) = length (filter (accepted \<circ> snd) rs)"
  by (simp add: GetSafetyState_def serve_SafeMode serve_delivered_count safety_service_bus_def
      Subscribe_def NewBus_def zeroSafetyState_def)

end
