(* ===== verification/Effects.thy ===== *)
theory Effects
  imports State_Machine Audit_Log Safety_Bus
begin

text \<open>
  The actions of the control server that leave its own memory, in the order in which the code
  performs them. An operation of the model returns the list of its effects next to its new state, so
  that statements about the order of actions (the audit record before the SAFE_MODE transition, the
  transition before the published event) are statements about that list. Calls of the state machine
  appear in the list too, next to their effect on the machine.
\<close>

datatype effect =
    AuditWrite SafetyAuditEvent bool
  | SystemTransition SystemState
  | OperatorTransition OperatorState
  | PublishEvent SafetyEvent
  | PostEmergencyStopToBus session_id vehicle_id string
  | PublishSessionEvent string session_id operator_id
  | ForwardToVehicle vehicle_id string
  | KickVehicle vehicle_id

text \<open>\<open>if w.auditWriter != nil { WriteSync(event) }\<close>: the outcome is recorded, and nothing depends
  on it.\<close>

definition write_audit :: "audit_writer \<Rightarrow> SafetyAuditEvent \<Rightarrow> effect list" where
  "write_audit aw ev = (case aw of None \<Rightarrow> [] | Some ok \<Rightarrow> [AuditWrite ev (ok ev)])"

text \<open>The audit event of the triggers that have no operator at hand; the states are those read from
  the machine just before the write.\<close>

definition audit_event ::
  "event_id \<Rightarrow> instant \<Rightarrow> session_id \<Rightarrow> vehicle_id \<Rightarrow> operator_id \<Rightarrow> string \<Rightarrow> string \<Rightarrow> Machine \<Rightarrow> SafetyAuditEvent" where
  "audit_event eid now sid vid oid ty reason m =
     (let (sys, ctrl, _, _) = Get m in
      \<lparr>ae_EventID = eid, ae_SessionID = sid, ae_VehicleID = vid, ae_OperatorID = oid,
       ae_EventType = ty, ae_Reason = reason, ae_SystemState = system_string sys,
       ae_CtrlState = control_string ctrl, ae_Data = [], ae_Timestamp = now\<rparr>)"

definition safety_event ::
  "instant \<Rightarrow> session_id \<Rightarrow> vehicle_id \<Rightarrow> SafetyEventType \<Rightarrow> string \<Rightarrow> SafetyEvent" where
  "safety_event now sid vid ty reason =
     \<lparr>se_SessionID = sid, se_EventID = [], se_VehicleID = vid, se_Type = ty, se_Reason = reason,
      se_Timestamp = now\<rparr>"

section \<open>Order of a SAFE_MODE trigger\<close>

text \<open>The effects of a critical trigger: the audit record if a writer is configured, then the
  SAFE_MODE transition, then the published event, and nothing else.\<close>

definition critical_order :: "audit_writer \<Rightarrow> effect list \<Rightarrow> bool" where
  "critical_order aw es \<longleftrightarrow>
     (\<exists>ev pub. es = write_audit aw ev @ [SystemTransition StateSafeMode, PublishEvent pub] \<and>
        ae_SessionID ev = se_SessionID pub \<and> ae_VehicleID ev = se_VehicleID pub \<and>
        ae_Reason ev = se_Reason pub)"

lemma critical_orderI:
  "es = write_audit aw ev @ [SystemTransition StateSafeMode, PublishEvent pub] \<Longrightarrow>
   ae_SessionID ev = se_SessionID pub \<Longrightarrow> ae_VehicleID ev = se_VehicleID pub \<Longrightarrow>
   ae_Reason ev = se_Reason pub \<Longrightarrow> critical_order aw es"
  by (auto simp: critical_order_def)

lemma audit_event_simps [simp]:
  "ae_EventID (audit_event eid now sid vid oid ty reason m) = eid"
  "ae_SessionID (audit_event eid now sid vid oid ty reason m) = sid"
  "ae_VehicleID (audit_event eid now sid vid oid ty reason m) = vid"
  "ae_OperatorID (audit_event eid now sid vid oid ty reason m) = oid"
  "ae_EventType (audit_event eid now sid vid oid ty reason m) = ty"
  "ae_Reason (audit_event eid now sid vid oid ty reason m) = reason"
  "ae_SystemState (audit_event eid now sid vid oid ty reason m) = system_string (System m)"
  "ae_CtrlState (audit_event eid now sid vid oid ty reason m) = control_string (Control m)"
  "ae_Timestamp (audit_event eid now sid vid oid ty reason m) = now"
  by (simp_all add: audit_event_def Get_def)

lemma safety_event_simps [simp]:
  "se_SessionID (safety_event now sid vid ty reason) = sid"
  "se_VehicleID (safety_event now sid vid ty reason) = vid"
  "se_Type (safety_event now sid vid ty reason) = ty"
  "se_Reason (safety_event now sid vid ty reason) = reason"
  "se_Timestamp (safety_event now sid vid ty reason) = now"
  by (simp_all add: safety_event_def)

lemma write_audit_no_transition [simp]: "SystemTransition s \<notin> set (write_audit aw ev)"
  by (auto simp: write_audit_def split: option.splits)

text \<open>An audit record of a critical trigger precedes the transition; with a writer configured there
  is one, whatever its outcome.\<close>

lemma critical_order_audited:
  assumes "critical_order (Some ok) es"
  obtains ev pub where
    "es = [AuditWrite ev (ok ev), SystemTransition StateSafeMode, PublishEvent pub]"
  using assms by (auto simp: critical_order_def write_audit_def)

end
