(* ===== verification/Watchdogs.thy ===== *)
theory Watchdogs
  imports Effects
begin

text \<open>
  The timer-driven watchdogs of one vehicle (\<open>internal/controlserver/safety/detector.go\<close>): the
  dead-man watchdog, the ACK timeout watcher of the control loop and the vehicle ACK watchdog.

  A \<open>*time.Timer\<close> made by \<open>time.AfterFunc\<close> is an index into the list of timers the watchdog has made;
  a timer is active with a deadline or inactive. When a deadline passes, the runtime starts the
  callback in a goroutine of its own, which then waits for the watchdog's mutex: \<open>rt_launched\<close> counts
  the callbacks that were started and have not yet run. Stopping a timer does not take back a callback
  that was started. The clock readings within one call are one argument.
\<close>

section \<open>Timers of package time\<close>

datatype gotimer = Active instant | Inactive

record watch_rt =
  rt_timers :: "gotimer list"
  rt_launched :: nat

definition no_timers :: watch_rt where
  "no_timers = \<lparr>rt_timers = [], rt_launched = 0\<rparr>"

definition afterFunc :: "instant \<Rightarrow> duration \<Rightarrow> watch_rt \<Rightarrow> watch_rt \<times> nat" where
  "afterFunc now d r =
     (r\<lparr>rt_timers := rt_timers r @ [Active (now + d)]\<rparr>, length (rt_timers r))"

definition timerStop :: "nat \<Rightarrow> watch_rt \<Rightarrow> watch_rt" where
  "timerStop p r = r\<lparr>rt_timers := (rt_timers r)[p := Inactive]\<rparr>"

definition timerReset :: "instant \<Rightarrow> duration \<Rightarrow> nat \<Rightarrow> watch_rt \<Rightarrow> watch_rt" where
  "timerReset now d p r = r\<lparr>rt_timers := (rt_timers r)[p := Active (now + d)]\<rparr>"

definition timerExpire :: "nat \<Rightarrow> watch_rt \<Rightarrow> watch_rt" where
  "timerExpire p r =
     r\<lparr>rt_timers := (rt_timers r)[p := Inactive], rt_launched := Suc (rt_launched r)\<rparr>"

definition due :: "instant \<Rightarrow> nat \<Rightarrow> watch_rt \<Rightarrow> bool" where
  "due now p r \<longleftrightarrow>
     p < length (rt_timers r) \<and> (case rt_timers r ! p of Active d \<Rightarrow> d \<le> now | Inactive \<Rightarrow> False)"

text \<open>\<open>if t != nil { t.Stop() }\<close>\<close>

definition stop_if_set :: "nat option \<Rightarrow> watch_rt \<Rightarrow> watch_rt" where
  "stop_if_set t r = (case t of None \<Rightarrow> r | Some p \<Rightarrow> timerStop p r)"

lemmas timer_defs = afterFunc_def timerStop_def timerReset_def timerExpire_def stop_if_set_def

lemma rt_launched_timer_ops [simp]:
  "rt_launched (fst (afterFunc now d r)) = rt_launched r"
  "rt_launched (timerStop p r) = rt_launched r"
  "rt_launched (timerReset now d p r) = rt_launched r"
  "rt_launched (stop_if_set t r) = rt_launched r"
  by (simp_all add: timer_defs split: option.split)

section \<open>Dead-man watchdog\<close>

definition DefaultDeadmanTimeout :: duration where "DefaultDeadmanTimeout = 10 * Second"
definition DefaultACKTimeout :: duration where "DefaultACKTimeout = 100 * Millisecond"
definition DefaultVehicleACKTimeout :: duration where "DefaultVehicleACKTimeout = 1 * Second"

record DeadmanWatchdog =
  dm_rt :: watch_rt
  dm_timer :: "nat option"
  dm_timeout :: duration
  dm_auditWriter :: audit_writer
  dm_sessionID :: session_id
  dm_vehicleID :: vehicle_id
  dm_stopped :: bool
  dm_armed :: bool

definition NewDeadmanWatchdog :: "duration \<Rightarrow> DeadmanWatchdog" where
  "NewDeadmanWatchdog timeout =
     \<lparr>dm_rt = no_timers, dm_timer = None, dm_timeout = timeout, dm_auditWriter = None,
      dm_sessionID = [], dm_vehicleID = [], dm_stopped = False, dm_armed = False\<rparr>"

definition deadman_WithAuditWriter :: "audit_writer \<Rightarrow> DeadmanWatchdog \<Rightarrow> DeadmanWatchdog" where
  "deadman_WithAuditWriter aw w = w\<lparr>dm_auditWriter := aw\<rparr>"

definition deadman_Start :: "session_id \<Rightarrow> vehicle_id \<Rightarrow> DeadmanWatchdog \<Rightarrow> DeadmanWatchdog" where
  "deadman_Start sid vid w =
     w\<lparr>dm_rt := stop_if_set (dm_timer w) (dm_rt w), dm_sessionID := sid, dm_vehicleID := vid,
       dm_stopped := False, dm_armed := False, dm_timer := None\<rparr>"

definition deadman_Reset :: "instant \<Rightarrow> DeadmanWatchdog \<Rightarrow> DeadmanWatchdog" where
  "deadman_Reset now w =
     (if dm_stopped w then w
      else if \<not> dm_armed w then
        (let (r, p) = afterFunc now (dm_timeout w) (dm_rt w)
         in w\<lparr>dm_armed := True, dm_rt := r, dm_timer := Some p\<rparr>)
      else case dm_timer w of
        None \<Rightarrow> w
      | Some p \<Rightarrow> w\<lparr>dm_rt := timerReset now (dm_timeout w) p (dm_rt w)\<rparr>)"

definition deadman_Stop :: "DeadmanWatchdog \<Rightarrow> DeadmanWatchdog" where
  "deadman_Stop w = w\<lparr>dm_stopped := True, dm_rt := stop_if_set (dm_timer w) (dm_rt w)\<rparr>"

definition deadman_reason :: string where
  "deadman_reason = ''dead-man switch timeout '' @ em_dash @ '' operator released hold''"

text \<open>\<open>fire\<close> on the machine \<open>m\<close> of the watchdog's vehicle; \<open>eid\<close> is the generated event id.\<close>

definition deadman_fire ::
  "instant \<Rightarrow> event_id \<Rightarrow> DeadmanWatchdog \<Rightarrow> Machine \<Rightarrow> DeadmanWatchdog \<times> Machine \<times> effect list" where
  "deadman_fire now eid w m =
     (if dm_stopped w then (w, m, [])
      else
        (w\<lparr>dm_stopped := True\<rparr>,
         TransitionSystem StateSafeMode m,
         write_audit (dm_auditWriter w)
           (audit_event eid now (dm_sessionID w) (dm_vehicleID w) [] LogDeadmanTimeout deadman_reason m) @
         [SystemTransition StateSafeMode,
          PublishEvent
            (safety_event now (dm_sessionID w) (dm_vehicleID w) EventDeadmanTimeout deadman_reason)]))"

section \<open>ACK timeout watcher\<close>

record ACKTimeoutWatcher =
  at_rt :: watch_rt
  at_pendingTimer :: "nat option"
  at_timeout :: duration
  at_auditWriter :: audit_writer
  at_sessionID :: session_id
  at_vehicleID :: vehicle_id

definition NewACKTimeoutWatcher :: "duration \<Rightarrow> ACKTimeoutWatcher" where
  "NewACKTimeoutWatcher timeout =
     \<lparr>at_rt = no_timers, at_pendingTimer = None, at_timeout = timeout, at_auditWriter = None,
      at_sessionID = [], at_vehicleID = []\<rparr>"

definition ack_WithAuditWriter :: "audit_writer \<Rightarrow> ACKTimeoutWatcher \<Rightarrow> ACKTimeoutWatcher" where
  "ack_WithAuditWriter aw w = w\<lparr>at_auditWriter := aw\<rparr>"

definition CommandReceived ::
  "instant \<Rightarrow> session_id \<Rightarrow> vehicle_id \<Rightarrow> ACKTimeoutWatcher \<Rightarrow> ACKTimeoutWatcher" where
  "CommandReceived now sid vid w =
     (let (r, p) = afterFunc now (at_timeout w) (stop_if_set (at_pendingTimer w) (at_rt w))
      in w\<lparr>at_sessionID := sid, at_vehicleID := vid, at_rt := r, at_pendingTimer := Some p\<rparr>)"

definition CommandACKed :: "ACKTimeoutWatcher \<Rightarrow> ACKTimeoutWatcher" where
  "CommandACKed w =
     (case at_pendingTimer w of
        None \<Rightarrow> w
      | Some p \<Rightarrow> w\<lparr>at_rt := timerStop p (at_rt w), at_pendingTimer := None\<rparr>)"

definition ack_reason :: string where
  "ack_reason = ''command ACK timeout '' @ em_dash @ '' control loop budget exceeded''"

definition ack_fire ::
  "instant \<Rightarrow> event_id \<Rightarrow> ACKTimeoutWatcher \<Rightarrow> Machine \<Rightarrow> ACKTimeoutWatcher \<times> Machine \<times> effect list" where
  "ack_fire now eid w m =
     (w\<lparr>at_pendingTimer := None\<rparr>,
      TransitionSystem StateSafeMode m,
      write_audit (at_auditWriter w)
        (audit_event eid now (at_sessionID w) (at_vehicleID w) [] LogAckTimeout ack_reason m) @
      [SystemTransition StateSafeMode,
       PublishEvent (safety_event now (at_sessionID w) (at_vehicleID w) EventACKTimeout ack_reason)])"

section \<open>Vehicle ACK watchdog\<close>

record VehicleACKWatchdog =
  va_rt :: watch_rt
  va_pendingTimer :: "nat option"
  va_timeout :: duration
  va_auditWriter :: audit_writer
  va_sessionID :: session_id
  va_vehicleID :: vehicle_id
  va_stopped :: bool

definition NewVehicleACKWatchdog :: "duration \<Rightarrow> VehicleACKWatchdog" where
  "NewVehicleACKWatchdog timeout =
     \<lparr>va_rt = no_timers, va_pendingTimer = None, va_timeout = timeout, va_auditWriter = None,
      va_sessionID = [], va_vehicleID = [], va_stopped = True\<rparr>"

definition vehicle_ack_WithAuditWriter :: "audit_writer \<Rightarrow> VehicleACKWatchdog \<Rightarrow> VehicleACKWatchdog" where
  "vehicle_ack_WithAuditWriter aw w = w\<lparr>va_auditWriter := aw\<rparr>"

definition vehicle_ack_Start :: "session_id \<Rightarrow> vehicle_id \<Rightarrow> VehicleACKWatchdog \<Rightarrow> VehicleACKWatchdog" where
  "vehicle_ack_Start sid vid w =
     w\<lparr>va_rt := stop_if_set (va_pendingTimer w) (va_rt w), va_pendingTimer := None,
       va_sessionID := sid, va_vehicleID := vid, va_stopped := False\<rparr>"

definition vehicle_ack_Stop :: "VehicleACKWatchdog \<Rightarrow> VehicleACKWatchdog" where
  "vehicle_ack_Stop w =
     w\<lparr>va_stopped := True, va_rt := stop_if_set (va_pendingTimer w) (va_rt w),
       va_pendingTimer := None\<rparr>"

definition CommandForwarded :: "instant \<Rightarrow> VehicleACKWatchdog \<Rightarrow> VehicleACKWatchdog" where
  "CommandForwarded now w =
     (if va_stopped w then w
      else
        (let (r, p) = afterFunc now (va_timeout w) (stop_if_set (va_pendingTimer w) (va_rt w))
         in w\<lparr>va_rt := r, va_pendingTimer := Some p\<rparr>))"

definition ACKReceived :: "VehicleACKWatchdog \<Rightarrow> VehicleACKWatchdog" where
  "ACKReceived w =
     (case va_pendingTimer w of
        None \<Rightarrow> w
      | Some p \<Rightarrow> w\<lparr>va_rt := timerStop p (va_rt w), va_pendingTimer := None\<rparr>)"

definition vehicle_ack_reason :: string where
  "vehicle_ack_reason = ''vehicle command ACK timeout '' @ em_dash @ '' vehicle not responding''"

definition vehicle_ack_fire ::
  "instant \<Rightarrow> event_id \<Rightarrow> VehicleACKWatchdog \<Rightarrow> Machine \<Rightarrow> VehicleACKWatchdog \<times> Machine \<times> effect list" where
  "vehicle_ack_fire now eid w m =
     (if va_stopped w then (w, m, [])
      else
        (w\<lparr>va_stopped := True, va_pendingTimer := None\<rparr>,
         TransitionSystem StateSafeMode m,
         write_audit (va_auditWriter w)
           (audit_event eid now (va_sessionID w) (va_vehicleID w) [] LogVehicleACKTimeout vehicle_ack_reason m) @
         [SystemTransition StateSafeMode,
          PublishEvent
            (safety_event now (va_sessionID w) (va_vehicleID w) EventVehicleACKTimeout vehicle_ack_reason)]))"

end
