(* ===== verification/Watchdog_Timing.thy ===== *)
theory Watchdog_Timing
  imports Watchdogs
begin

text \<open>
  The watchdogs in time. \<open>timed_step\<close> interleaves the method calls of a watchdog, the passing of time,
  the expiry of its timers, the callbacks these start and changes that other components make to the
  vehicle's state machine. \<open>timer_watchdog\<close> is the contract that the three watchdogs share; it yields
  that a monitored obligation is never lost, whatever the interleaving. The last part gives the
  dead-man watchdog a specification on the times of the operator's holds.
\<close>

section \<open>Interleavings\<close>

record 'w timed =
  clock :: instant
  wd :: 'w
  sm :: Machine
  emitted :: "effect list"

inductive timed_step ::
  "(instant \<Rightarrow> 'w \<Rightarrow> 'w \<Rightarrow> bool) \<Rightarrow> ('w \<Rightarrow> watch_rt) \<Rightarrow> (watch_rt \<Rightarrow> 'w \<Rightarrow> 'w) \<Rightarrow>
   (instant \<Rightarrow> event_id \<Rightarrow> 'w \<Rightarrow> Machine \<Rightarrow> 'w \<times> Machine \<times> effect list) \<Rightarrow>
   'w timed \<Rightarrow> 'w timed \<Rightarrow> bool"
  for call rt set_rt fire where
  called: "call (clock s) (wd s) w' \<Longrightarrow> timed_step call rt set_rt fire s (s\<lparr>wd := w'\<rparr>)"
| tick: "0 \<le> d \<Longrightarrow> timed_step call rt set_rt fire s (s\<lparr>clock := clock s + d\<rparr>)"
| expire: "due (clock s) p (rt (wd s)) \<Longrightarrow>
    timed_step call rt set_rt fire s (s\<lparr>wd := set_rt (timerExpire p (rt (wd s))) (wd s)\<rparr>)"
| callback: "rt_launched (rt (wd s)) = Suc n \<Longrightarrow>
    fire (clock s) eid (set_rt ((rt (wd s))\<lparr>rt_launched := n\<rparr>) (wd s)) (sm s) = (w', m', es) \<Longrightarrow>
    timed_step call rt set_rt fire s (s\<lparr>wd := w', sm := m', emitted := emitted s @ es\<rparr>)"
| environment: "machine_step (sm s) m' \<Longrightarrow> timed_step call rt set_rt fire s (s\<lparr>sm := m'\<rparr>)"

inductive_cases timed_stepE: "timed_step call rt set_rt fire s t"

text \<open>The methods of each watchdog that other components call.\<close>

inductive deadman_call :: "instant \<Rightarrow> DeadmanWatchdog \<Rightarrow> DeadmanWatchdog \<Rightarrow> bool" where
  "deadman_call now w (deadman_Start sid vid w)"
| "deadman_call now w (deadman_Reset now w)"
| "deadman_call now w (deadman_Stop w)"

inductive ack_call :: "instant \<Rightarrow> ACKTimeoutWatcher \<Rightarrow> ACKTimeoutWatcher \<Rightarrow> bool" where
  "ack_call now w (CommandReceived now sid vid w)"
| "ack_call now w (CommandACKed w)"

inductive vehicle_ack_call :: "instant \<Rightarrow> VehicleACKWatchdog \<Rightarrow> VehicleACKWatchdog \<Rightarrow> bool" where
  "vehicle_ack_call now w (vehicle_ack_Start sid vid w)"
| "vehicle_ack_call now w (vehicle_ack_Stop w)"
| "vehicle_ack_call now w (CommandForwarded now w)"
| "vehicle_ack_call now w (ACKReceived w)"

definition deadman_step :: "DeadmanWatchdog timed \<Rightarrow> DeadmanWatchdog timed \<Rightarrow> bool" where
  "deadman_step = timed_step deadman_call dm_rt (\<lambda>r w. w\<lparr>dm_rt := r\<rparr>) deadman_fire"

definition ack_step :: "ACKTimeoutWatcher timed \<Rightarrow> ACKTimeoutWatcher timed \<Rightarrow> bool" where
  "ack_step = timed_step ack_call at_rt (\<lambda>r w. w\<lparr>at_rt := r\<rparr>) ack_fire"

definition vehicle_ack_step :: "VehicleACKWatchdog timed \<Rightarrow> VehicleACKWatchdog timed \<Rightarrow> bool" where
  "vehicle_ack_step =
     timed_step vehicle_ack_call va_rt (\<lambda>r w. w\<lparr>va_rt := r\<rparr>) vehicle_ack_fire"

section \<open>The contract of a timer watchdog\<close>

text \<open>While \<open>g\<close> holds, a callback is on its way or the timer \<open>t\<close> is active with a deadline at most
  \<open>d\<close> away.\<close>

definition deadline_owed :: "watch_rt \<Rightarrow> nat option \<Rightarrow> duration \<Rightarrow> bool \<Rightarrow> instant \<Rightarrow> bool" where
  "deadline_owed r t d g now \<longleftrightarrow>
     (g \<longrightarrow> 0 < rt_launched r \<or>
       (case t of
          None \<Rightarrow> False
        | Some p \<Rightarrow> p < length (rt_timers r) \<and>
            (case rt_timers r ! p of Active e \<Rightarrow> e \<le> now + d | Inactive \<Rightarrow> False)))"

lemma deadline_owed_unguarded [simp]: "deadline_owed r t d False now"
  by (simp add: deadline_owed_def)

lemma deadline_owed_later:
  "deadline_owed r t d g now \<Longrightarrow> now \<le> now' \<Longrightarrow> deadline_owed r t d g now'"
  by (auto simp: deadline_owed_def split: option.splits gotimer.splits)

lemma deadline_owed_launched [simp]: "0 < rt_launched r \<Longrightarrow> deadline_owed r t d g now"
  by (simp add: deadline_owed_def)

lemma deadline_owed_new:
  "afterFunc now d r = (r', p) \<Longrightarrow> deadline_owed r' (Some p) d g now"
  by (auto simp: deadline_owed_def afterFunc_def)

lemma deadline_owed_reset:
  "p < length (rt_timers r) \<Longrightarrow> deadline_owed (timerReset now d p r) (Some p) d g now"
  by (simp add: deadline_owed_def timerReset_def)

locale timer_watchdog =
  fixes call :: "instant \<Rightarrow> 'w \<Rightarrow> 'w \<Rightarrow> bool"
    and rt :: "'w \<Rightarrow> watch_rt"
    and set_rt :: "watch_rt \<Rightarrow> 'w \<Rightarrow> 'w"
    and fire :: "instant \<Rightarrow> event_id \<Rightarrow> 'w \<Rightarrow> Machine \<Rightarrow> 'w \<times> Machine \<times> effect list"
    and ptr :: "'w \<Rightarrow> nat option"
    and timeout :: "'w \<Rightarrow> duration"
    and guard :: "'w \<Rightarrow> bool"
    and aw :: "'w \<Rightarrow> audit_writer"
    and wf :: "'w \<Rightarrow> bool"
  assumes view_set_rt: "rt (set_rt r w) = r" "ptr (set_rt r w) = ptr w" "timeout (set_rt r w) = timeout w"
      "guard (set_rt r w) = guard w" "aw (set_rt r w) = aw w"
    and call_wf: "call now w w' \<Longrightarrow> wf w \<Longrightarrow> wf w'"
    and set_rt_wf: "length (rt_timers r) = length (rt_timers (rt w)) \<Longrightarrow> wf w \<Longrightarrow> wf (set_rt r w)"
    and fire_wf: "fire now eid w m = (w', m', es) \<Longrightarrow> wf w \<Longrightarrow> wf w'"
    and call_owed: "call now w w' \<Longrightarrow> wf w \<Longrightarrow>
      deadline_owed (rt w) (ptr w) (timeout w) (guard w) now \<Longrightarrow>
      deadline_owed (rt w') (ptr w') (timeout w') (guard w') now"
    and fire_disarms: "fire now eid w m = (w', m', es) \<Longrightarrow> \<not> guard w'"
    and fire_trips: "guard w \<Longrightarrow> fire now eid w m = (w', m', es) \<Longrightarrow>
      m' = TransitionSystem StateSafeMode m \<and> critical_order (aw w) es"
begin

definition owed :: "'w timed \<Rightarrow> bool" where
  "owed s \<longleftrightarrow> wf (wd s) \<and>
     deadline_owed (rt (wd s)) (ptr (wd s)) (timeout (wd s)) (guard (wd s)) (clock s)"

lemma owed_step:
  assumes "timed_step call rt set_rt fire s t" and "owed s"
  shows "owed t"
  using assms
proof cases
  case (called w')
  with assms(2) show ?thesis by (auto simp: owed_def intro: call_wf call_owed)
next
  case (tick d)
  with assms(2) show ?thesis by (auto simp: owed_def intro: deadline_owed_later)
next
  case (expire p)
  with assms(2) show ?thesis
    by (auto simp: owed_def view_set_rt timerExpire_def intro!: set_rt_wf)
next
  case (callback n eid w' m' es)
  with assms(2) show ?thesis
    by (auto simp: owed_def fire_disarms intro!: fire_wf [OF callback(3)] set_rt_wf)
next
  case environment
  with assms(2) show ?thesis by (auto simp: owed_def)
qed

sublocale interleaving: transition_system owed "timed_step call rt set_rt fire" owed
  by unfold_locales (auto intro: owed_step)

text \<open>An owed deadline comes true: the timer expires and the callback trips SAFE_MODE no later than
  the timeout.\<close>

lemma owed_trips:
  assumes "owed s" and g: "guard (wd s)" and "0 \<le> timeout (wd s)"
  shows "\<exists>t es. (timed_step call rt set_rt fire)\<^sup>*\<^sup>* s t \<and> clock t \<le> clock s + timeout (wd s) \<and>
     sm t = TransitionSystem StateSafeMode (sm s) \<and>
     emitted t = emitted s @ es \<and> critical_order (aw (wd s)) es"
proof -
  let ?step = "timed_step call rt set_rt fire"
  have run: "\<exists>u es. ?step t u \<and> clock u = clock t \<and>
      sm u = TransitionSystem StateSafeMode (sm t) \<and> emitted u = emitted t @ es \<and>
      critical_order (aw (wd t)) es"
    if "0 < rt_launched (rt (wd t))" and "guard (wd t)" for t
  proof -
    from that obtain n where n: "rt_launched (rt (wd t)) = Suc n" by (cases "rt_launched (rt (wd t))") auto
    let ?w = "set_rt ((rt (wd t))\<lparr>rt_launched := n\<rparr>) (wd t)"
    obtain w' m' es where f: "fire (clock t) [] ?w (sm t) = (w', m', es)"
      by (cases "fire (clock t) [] ?w (sm t)") auto
    with that have "m' = TransitionSystem StateSafeMode (sm t) \<and> critical_order (aw (wd t)) es"
      using fire_trips [of ?w] by (auto simp: view_set_rt)
    then show ?thesis using timed_step.callback
        [where call = call and rt = rt and set_rt = set_rt and fire = fire and s = t, OF n f]
      by (intro exI [of _ "t\<lparr>wd := w', sm := m', emitted := emitted t @ es\<rparr>"] exI [of _ es]) simp
  qed
  show ?thesis
  proof (cases "0 < rt_launched (rt (wd s))")
    case True
    with run [OF True g] assms(3) show ?thesis by (auto intro: r_into_rtranclp)
  next
    case False
    with assms obtain p e where p: "ptr (wd s) = Some p" "p < length (rt_timers (rt (wd s)))"
      "rt_timers (rt (wd s)) ! p = Active e" "e \<le> clock s + timeout (wd s)"
      by (auto simp: owed_def deadline_owed_def split: option.splits gotimer.splits)
    let ?t = "s\<lparr>clock := clock s + max 0 (e - clock s)\<rparr>"
    let ?u = "?t\<lparr>wd := set_rt (timerExpire p (rt (wd s))) (wd s)\<rparr>"
    have "due (clock ?t) p (rt (wd ?t))" using p by (simp add: due_def)
    then have tu: "?step ?t ?u" 
      using timed_step.expire [where s = ?t and call = call and set_rt = set_rt and fire = fire] by simp
    have st: "?step s ?t" by (rule timed_step.tick) simp
    have "0 < rt_launched (rt (wd ?u))" and "guard (wd ?u)"
      using g by (simp_all add: view_set_rt timerExpire_def)
    from run [OF this] obtain v es where v: "?step ?u v" "clock v = clock ?u"
      "sm v = TransitionSystem StateSafeMode (sm ?u)" "emitted v = emitted ?u @ es"
      "critical_order (aw (wd ?u)) es" by blast
    have "?step\<^sup>*\<^sup>* s v" using st tu v(1) by (meson converse_rtranclp_into_rtranclp r_into_rtranclp)
    moreover have "clock v \<le> clock s + timeout (wd s)" using v(2) p(4) assms(3) by simp
    ultimately show ?thesis using v by (intro exI [of _ v] exI [of _ es]) (simp add: view_set_rt)
  qed
qed

end

section \<open>The three watchdogs meet the contract\<close>

definition deadman_wf :: "DeadmanWatchdog \<Rightarrow> bool" where
  "deadman_wf w \<longleftrightarrow> (dm_armed w \<longleftrightarrow> dm_timer w \<noteq> None) \<and>
     (\<forall>p. dm_timer w = Some p \<longrightarrow> p < length (rt_timers (dm_rt w)))"

definition deadman_guard :: "DeadmanWatchdog \<Rightarrow> bool" where
  "deadman_guard w \<longleftrightarrow> dm_armed w \<and> \<not> dm_stopped w"

definition ack_guard :: "ACKTimeoutWatcher \<Rightarrow> bool" where
  "ack_guard w \<longleftrightarrow> at_pendingTimer w \<noteq> None"

definition vehicle_ack_guard :: "VehicleACKWatchdog \<Rightarrow> bool" where
  "vehicle_ack_guard w \<longleftrightarrow> va_pendingTimer w \<noteq> None \<and> \<not> va_stopped w"

lemmas deadman_defs = deadman_Start_def deadman_Reset_def deadman_Stop_def

interpretation deadman: timer_watchdog deadman_call dm_rt "\<lambda>r w. w\<lparr>dm_rt := r\<rparr>" deadman_fire
  dm_timer dm_timeout deadman_guard dm_auditWriter deadman_wf
proof (unfold_locales, goal_cases)
  case (6 now w w')
  then show ?case
    by cases (auto simp: deadman_defs deadman_wf_def timer_defs split: option.splits)
next
  case (9 now w w')
  then show ?case
  proof cases
    case 2
    show ?thesis
    proof (cases "dm_timer w")
      case None
      with 2 9 show ?thesis
        by (auto simp: deadman_Reset_def deadman_wf_def deadman_guard_def intro: deadline_owed_new
            split: prod.splits)
    next
      case (Some p)
      with 2 9 show ?thesis
        by (auto simp: deadman_Reset_def deadman_wf_def intro: deadline_owed_reset)
    qed
  qed (auto simp: deadman_defs deadman_guard_def)
qed (auto simp: deadman_wf_def deadman_guard_def deadman_fire_def intro!: critical_orderI
    split: if_splits)

interpretation ack: timer_watchdog ack_call at_rt "\<lambda>r w. w\<lparr>at_rt := r\<rparr>" ack_fire
  at_pendingTimer at_timeout ack_guard at_auditWriter "\<lambda>w. True"
proof (unfold_locales, goal_cases)
  case (9 now w w')
  then show ?case
    by cases (auto simp: ack_guard_def CommandReceived_def CommandACKed_def intro: deadline_owed_new
        split: option.splits prod.splits)
qed (auto simp: ack_guard_def ack_fire_def intro!: critical_orderI)

interpretation vehicle_ack: timer_watchdog vehicle_ack_call va_rt "\<lambda>r w. w\<lparr>va_rt := r\<rparr>"
  vehicle_ack_fire va_pendingTimer va_timeout vehicle_ack_guard
  va_auditWriter "\<lambda>w. True"
proof (unfold_locales, goal_cases)
  case (9 now w w')
  then show ?case
    by cases (auto simp: vehicle_ack_guard_def vehicle_ack_Start_def vehicle_ack_Stop_def CommandForwarded_def ACKReceived_def
        intro: deadline_owed_new split: option.splits prod.splits)
qed (auto simp: vehicle_ack_guard_def vehicle_ack_fire_def intro!: critical_orderI split: if_splits)

section \<open>The dead-man watchdog and the operator's holds\<close>

text \<open>Prompt timers: when the clock reaches \<open>now\<close>, a timer that is due has expired and its callback
  has run.\<close>

definition deadman_elapse ::
  "instant \<Rightarrow> event_id \<Rightarrow> DeadmanWatchdog \<times> Machine \<times> effect list \<Rightarrow> DeadmanWatchdog \<times> Machine \<times> effect list" where
  "deadman_elapse now eid s =
     (case s of (w, m, es) \<Rightarrow>
        case dm_timer w of
          None \<Rightarrow> s
        | Some p \<Rightarrow>
            if due now p (dm_rt w)
            then (let (w', m', es') = deadman_fire now eid (w\<lparr>dm_rt := timerStop p (dm_rt w)\<rparr>) m
                  in (w', m', es @ es'))
            else s)"

text \<open>DEADMAN_HOLD commands at the times \<open>ts\<close>.\<close>

fun deadman_holds ::
  "event_id \<Rightarrow> instant list \<Rightarrow> DeadmanWatchdog \<times> Machine \<times> effect list \<Rightarrow> DeadmanWatchdog \<times> Machine \<times> effect list" where
  "deadman_holds eid [] s = s"
| "deadman_holds eid (t # ts) s =
     (case deadman_elapse t eid s of (w, m, es) \<Rightarrow> deadman_holds eid ts (deadman_Reset t w, m, es))"

text \<open>What the operator sees: some pause after a hold lasted at least \<open>d\<close>.\<close>

fun gap :: "duration \<Rightarrow> instant list \<Rightarrow> instant \<Rightarrow> bool" where
  "gap d [] T = False"
| "gap d [t] T = (t + d \<le> T)"
| "gap d (t # t' # ts) T = (t + d \<le> t' \<or> gap d (t' # ts) T)"

text \<open>The watchdog between two holds, the last one at \<open>t\<close>.\<close>

definition held_at :: "instant \<Rightarrow> DeadmanWatchdog \<Rightarrow> bool" where
  "held_at t w \<longleftrightarrow> dm_armed w \<and> \<not> dm_stopped w \<and>
     (case dm_timer w of
        None \<Rightarrow> False
      | Some p \<Rightarrow> p < length (rt_timers (dm_rt w)) \<and> rt_timers (dm_rt w) ! p = Active (t + dm_timeout w))"

lemma elapse_stopped:
  "dm_stopped w \<Longrightarrow> \<exists>w'. deadman_elapse now eid (w, m, es) = (w', m, es) \<and> dm_stopped w'"
  by (auto simp: deadman_elapse_def deadman_fire_def split: option.splits)

lemma holds_stopped:
  "dm_stopped w \<Longrightarrow> \<exists>w'. deadman_holds eid ts (w, m, es) = (w', m, es) \<and> dm_stopped w'"
proof (induction ts arbitrary: w)
  case (Cons t ts)
  then obtain w1 where w1: "deadman_elapse t eid (w, m, es) = (w1, m, es)" "dm_stopped w1"
    using elapse_stopped by blast
  with Cons.IH [of w1] show ?case by (simp add: deadman_Reset_def)
qed simp

lemma elapse_held_early:
  "held_at t w \<Longrightarrow> now < t + dm_timeout w \<Longrightarrow> deadman_elapse now eid (w, m, es) = (w, m, es)"
  by (auto simp: held_at_def deadman_elapse_def due_def split: option.splits)

lemma elapse_held_late:
  assumes "held_at t w" and "t + dm_timeout w \<le> now"
  shows "\<exists>w' es'. deadman_elapse now eid (w, m, es) = (w', TransitionSystem StateSafeMode m, es @ es') \<and>
    dm_stopped w' \<and> critical_order (dm_auditWriter w) es'"
  using assms
  by (auto simp: held_at_def deadman_elapse_def due_def deadman_fire_def intro!: critical_orderI
      split: option.splits)

lemma Reset_held: "held_at t w \<Longrightarrow> held_at t' (deadman_Reset t' w)"
  by (auto simp: held_at_def deadman_Reset_def timerReset_def split: option.splits)

lemma Reset_timeout [simp]: "dm_timeout (deadman_Reset t w) = dm_timeout w"
    "dm_auditWriter (deadman_Reset t w) = dm_auditWriter w"
  by (auto simp: deadman_Reset_def split: option.splits prod.splits)

definition deadman_outcome ::
  "bool \<Rightarrow> audit_writer \<Rightarrow> Machine \<Rightarrow> DeadmanWatchdog \<times> Machine \<times> effect list \<Rightarrow> bool" where
  "deadman_outcome fired aw m s \<longleftrightarrow>
     (case s of (w, m', es) \<Rightarrow>
        if fired then dm_stopped w \<and> m' = TransitionSystem StateSafeMode m \<and> critical_order aw es
        else \<not> dm_stopped w \<and> m' = m \<and> es = [])"

lemma holds_outcome:
  "held_at t w \<Longrightarrow>
   deadman_outcome (gap (dm_timeout w) (t # ts) T) (dm_auditWriter w) m
     (deadman_elapse T eid (deadman_holds eid ts (w, m, [])))"
proof (induction ts arbitrary: t w)
  case Nil
  show ?case
  proof (cases "t + dm_timeout w \<le> T")
    case True
    then show ?thesis
      using elapse_held_late [OF Nil, of T eid m "[]"] by (auto simp: deadman_outcome_def)
  next
    case False
    then show ?thesis
      using elapse_held_early [OF Nil, of T eid m "[]"] Nil
      by (auto simp: deadman_outcome_def held_at_def)
  qed
next
  case (Cons t' ts)
  show ?case
  proof (cases "t + dm_timeout w \<le> t'")
    case True
    then obtain w1 es1 where 1: "deadman_elapse t' eid (w, m, []) = (w1, TransitionSystem StateSafeMode m, es1)"
      "dm_stopped w1" "critical_order (dm_auditWriter w) es1"
      using elapse_held_late [OF Cons.prems, of t' eid m "[]"] by auto
    then obtain w2 where 2: "deadman_holds eid ts (w1, TransitionSystem StateSafeMode m, es1) =
        (w2, TransitionSystem StateSafeMode m, es1)" "dm_stopped w2"
      using holds_stopped by blast
    obtain w3 where "deadman_elapse T eid (w2, TransitionSystem StateSafeMode m, es1) =
        (w3, TransitionSystem StateSafeMode m, es1)" "dm_stopped w3"
      using elapse_stopped [OF 2(2)] by blast
    with True 1 2 show ?thesis by (simp add: deadman_outcome_def deadman_Reset_def)
  next
    case False
    then show ?thesis
      using elapse_held_early [OF Cons.prems, of t' eid m "[]"]
        Cons.IH [OF Reset_held [OF Cons.prems], of t'] by simp
  qed
qed

lemma Start_first_hold: "held_at t (deadman_Reset t (deadman_Start sid vid w))"
  by (simp add: held_at_def deadman_defs afterFunc_def split: prod.splits)

section \<open>A stopped watchdog is silent\<close>

text \<open>The calls other than \<open>Start\<close>, for the two watchdogs that have a \<open>stopped\<close> flag.\<close>

inductive deadman_call_running :: "instant \<Rightarrow> DeadmanWatchdog \<Rightarrow> DeadmanWatchdog \<Rightarrow> bool" where
  "deadman_call_running now w (deadman_Reset now w)"
| "deadman_call_running now w (deadman_Stop w)"

inductive vehicle_ack_call_running :: "instant \<Rightarrow> VehicleACKWatchdog \<Rightarrow> VehicleACKWatchdog \<Rightarrow> bool" where
  "vehicle_ack_call_running now w (vehicle_ack_Stop w)"
| "vehicle_ack_call_running now w (CommandForwarded now w)"
| "vehicle_ack_call_running now w (ACKReceived w)"

locale stoppable_watchdog =
  fixes call :: "instant \<Rightarrow> 'w \<Rightarrow> 'w \<Rightarrow> bool"
    and rt :: "'w \<Rightarrow> watch_rt"
    and set_rt :: "watch_rt \<Rightarrow> 'w \<Rightarrow> 'w"
    and fire :: "instant \<Rightarrow> event_id \<Rightarrow> 'w \<Rightarrow> Machine \<Rightarrow> 'w \<times> Machine \<times> effect list"
    and stopped :: "'w \<Rightarrow> bool"
  assumes call_stopped: "call now w w' \<Longrightarrow> stopped w \<Longrightarrow> stopped w'"
    and set_rt_stopped: "stopped (set_rt r w) = stopped w"
    and fire_stopped: "stopped w \<Longrightarrow> fire now eid w m = (w, m, [])"
    and fire_stops: "fire now eid w m = (w', m', es) \<Longrightarrow> stopped w'"
begin

lemma silent_step:
  assumes "timed_step call rt set_rt fire s t" and "stopped (wd s)"
  shows "stopped (wd t) \<and> emitted t = emitted s"
  using assms
proof cases
  case (callback n eid w' m' es)
  then show ?thesis using fire_stops [OF callback(3)] assms(2)
    by (auto simp: fire_stopped set_rt_stopped)
qed (auto simp: set_rt_stopped intro: call_stopped)

lemma silent_run:
  assumes "(timed_step call rt set_rt fire)\<^sup>*\<^sup>* s t" and "stopped (wd s)"
  shows "stopped (wd t) \<and> emitted t = emitted s"
  using assms
proof induction
  case (step t u)
  then show ?case using silent_step [OF step.hyps(2)] by simp
qed simp

text \<open>One run of the watchdog emits the effects of at most one firing.\<close>

lemma one_firing:
  assumes "(timed_step call rt set_rt fire)\<^sup>*\<^sup>* s t"
  shows "emitted t = emitted s \<or>
    (\<exists>now eid w m. emitted t = emitted s @ snd (snd (fire now eid w m)) \<and> stopped (wd t))"
  using assms
proof induction
  case (step t u)
  show ?case
  proof (cases "stopped (wd t)")
    case True
    with silent_step [OF step.hyps(2)] step.IH show ?thesis by metis
  next
    case False
    with step.IH have "emitted t = emitted s" by blast
    from step.hyps(2) show ?thesis
    proof cases
      case (callback n eid w' m' es)
      then show ?thesis using \<open>emitted t = emitted s\<close> fire_stops [OF callback(3)]
        by (intro disjI2 exI [of _ "clock t"] exI [of _ eid] exI
            [of _ "set_rt ((rt (wd t))\<lparr>rt_launched := n\<rparr>) (wd t)"] exI [of _ "sm t"]) simp
    qed (use \<open>emitted t = emitted s\<close> in auto)
  qed
qed simp

end

interpretation deadman_running: stoppable_watchdog deadman_call_running dm_rt "\<lambda>r w. w\<lparr>dm_rt := r\<rparr>"
  deadman_fire dm_stopped
  by unfold_locales
    (auto simp: deadman_fire_def deadman_Reset_def deadman_Stop_def elim!: deadman_call_running.cases
      split: if_splits)

interpretation vehicle_ack_running: stoppable_watchdog vehicle_ack_call_running va_rt
  "\<lambda>r w. w\<lparr>va_rt := r\<rparr>" vehicle_ack_fire va_stopped
  by unfold_locales
    (auto simp: vehicle_ack_fire_def vehicle_ack_Stop_def CommandForwarded_def ACKReceived_def
      elim!: vehicle_ack_call_running.cases split: if_splits option.splits)

section \<open>Properties\<close>

lemma deadman_owed_initial:
  "wd s = deadman_WithAuditWriter aw (NewDeadmanWatchdog d) \<Longrightarrow> deadman.owed s"
  by (simp add: deadman.owed_def deadman_WithAuditWriter_def NewDeadmanWatchdog_def deadman_wf_def
      deadman_guard_def)

text \<open>C14: whatever the interleaving of its methods, timers, callbacks and foreign changes of the state
  machine, an armed dead-man watchdog that was not stopped never loses its deadline: a callback is
  already on its way, or its timer is active with a deadline at most the timeout away; and from there
  it trips SAFE_MODE within the timeout, writing the audit record before the transition and publishing
  the safety event after it.\<close>

theorem deadman_deadline_kept:
  assumes "wd s = deadman_WithAuditWriter aw (NewDeadmanWatchdog d)" and "deadman_step\<^sup>*\<^sup>* s t"
    and "dm_armed (wd t)" and "\<not> dm_stopped (wd t)" and "0 \<le> dm_timeout (wd t)"
  shows "deadline_owed (dm_rt (wd t)) (dm_timer (wd t)) (dm_timeout (wd t)) True (clock t) \<and>
    (\<exists>u es. deadman_step\<^sup>*\<^sup>* t u \<and> clock u \<le> clock t + dm_timeout (wd t) \<and>
       sm u = TransitionSystem StateSafeMode (sm t) \<and>
       emitted u = emitted t @ es \<and> critical_order (dm_auditWriter (wd t)) es)"
proof -
  have owed: "deadman.owed t"
    using deadman.interleaving.steps_inv assms(2) deadman_owed_initial [OF assms(1)]
    unfolding deadman_step_def by blast
  moreover have g: "deadman_guard (wd t)" using assms by (simp add: deadman_guard_def)
  ultimately show ?thesis
    using deadman.owed_trips [OF owed g assms(5)] unfolding deadman_step_def
    by (simp add: deadman.owed_def)
qed

theorem deadman_deadline_kept_witness:
  "\<exists>t :: DeadmanWatchdog timed. dm_armed (wd t) \<and>
     (\<exists>u. deadman_step\<^sup>*\<^sup>* t u \<and> clock u \<le> clock t + DefaultDeadmanTimeout \<and>
       sm u = TransitionSystem StateSafeMode (sm t))"
proof -
  let ?w = "deadman_WithAuditWriter NoopWriter (NewDeadmanWatchdog DefaultDeadmanTimeout)"
  let ?s = "\<lparr>clock = 0, wd = ?w, sm = newMachine, emitted = []\<rparr>"
  let ?t = "?s\<lparr>wd := deadman_Reset 0 ?w\<rparr>"
  have "deadman_call (clock ?s) (wd ?s) (deadman_Reset 0 ?w)"
    using deadman_call.intros(2) [of 0 ?w] by simp
  from timed_step.called [of deadman_call ?s "deadman_Reset 0 ?w"] this
  have st: "deadman_step\<^sup>*\<^sup>* ?s ?t" unfolding deadman_step_def by blast
  have t: "dm_armed (wd ?t)" "\<not> dm_stopped (wd ?t)" "dm_timeout (wd ?t) = DefaultDeadmanTimeout"
    by (simp_all add: deadman_Reset_def deadman_WithAuditWriter_def NewDeadmanWatchdog_def afterFunc_def)
  have nn: "0 \<le> dm_timeout (wd ?t)" using t(3) by (simp add: DefaultDeadmanTimeout_def duration_defs)
  have "wd ?s = deadman_WithAuditWriter NoopWriter (NewDeadmanWatchdog DefaultDeadmanTimeout)" by simp
  from deadman_deadline_kept [OF this st t(1,2) nn] t show ?thesis by metis
qed






text \<open>A callback of the dead-man timer that was started before \<open>Start\<close> was called for the next
  session fires for that session: although the new operator has not held the switch once (the
  watchdog is not armed), the machine is sent to SAFE_MODE and the event names the new session.\<close>

theorem deadman_stale_callback:
  assumes "rt_launched (dm_rt (wd s)) = Suc n"
  shows "\<exists>t u w. deadman_step s t \<and> wd t = deadman_Start sid vid (wd s) \<and> \<not> dm_armed (wd t) \<and>
    deadman_step t u \<and> wd u = w \<and> \<not> dm_armed w \<and> sm u = TransitionSystem StateSafeMode (sm s) \<and>
    last (emitted u) =
      PublishEvent (safety_event (clock s) sid vid EventDeadmanTimeout deadman_reason)"
proof -
  let ?t = "s\<lparr>wd := deadman_Start sid vid (wd s)\<rparr>"
  have 1: "deadman_step s ?t"
    unfolding deadman_step_def by (rule timed_step.called) (rule deadman_call.intros)
  have n: "rt_launched (dm_rt (wd ?t)) = Suc n" using assms by (simp add: deadman_Start_def)
  let ?w = "(wd ?t)\<lparr>dm_rt := (dm_rt (wd ?t))\<lparr>rt_launched := n\<rparr>\<rparr>"
  obtain w' m' es where f: "deadman_fire (clock ?t) [] ?w (sm ?t) = (w', m', es)"
    by (cases "deadman_fire (clock ?t) [] ?w (sm ?t)") auto
  have 2: "deadman_step ?t (?t\<lparr>wd := w', sm := m', emitted := emitted ?t @ es\<rparr>)"
    unfolding deadman_step_def 
    by (rule timed_step.callback [where rt = dm_rt and fire = deadman_fire and s = ?t and n = n, OF n])
      (use f in simp)
  have "\<not> dm_stopped ?w" "\<not> dm_armed ?w" by (simp_all add: deadman_Start_def)
  with f have "\<not> dm_armed w'" "m' = TransitionSystem StateSafeMode (sm s)"
    "es \<noteq> []" "last es = PublishEvent (safety_event (clock s) sid vid EventDeadmanTimeout deadman_reason)"
    by (auto simp: deadman_fire_def deadman_Start_def)
  with 1 2 show ?thesis
    by (intro exI [of _ ?t] exI [of _ "?t\<lparr>wd := w', sm := m', emitted := emitted ?t @ es\<rparr>"] exI [of _ w'])
      (simp add: deadman_Start_def)
qed

theorem deadman_stale_callback_witness:
  "\<exists>s u. rt_launched (dm_rt (wd s)) = Suc 0 \<and> sm s = newMachine\<lparr>System := StateConnected\<rparr> \<and>
     deadman_step\<^sup>*\<^sup>* s u \<and> \<not> dm_armed (wd u) \<and> System (sm u) = StateSafeMode"
proof -
  let ?w = "(NewDeadmanWatchdog 3)\<lparr>dm_rt := no_timers\<lparr>rt_launched := Suc 0\<rparr>\<rparr>"
  let ?s = "\<lparr>clock = 0, wd = ?w, sm = newMachine\<lparr>System := StateConnected\<rparr>, emitted = []\<rparr>"
  have "rt_launched (dm_rt (wd ?s)) = Suc 0" by simp
  from deadman_stale_callback [OF this, of "''s2''" "''v''"] obtain t u where
    "deadman_step ?s t" "deadman_step t u" "\<not> dm_armed (wd u)" "sm u = TransitionSystem StateSafeMode (sm ?s)"
    by blast
  then show ?thesis
    by (intro exI [of _ ?s] exI [of _ u])
      (auto simp: TransitionSystem_SafeMode intro: converse_rtranclp_into_rtranclp)
qed

end
