(* ===== verification/Tokens.thy ===== *)
theory Tokens
  imports Prelude
begin

text \<open>
  JSON Web Tokens as the services use them. The library \<open>golang-jwt\<close> is a parameter \<open>jwt\<close>: for a
  secret and a token string it gives \<open>None\<close> if the string is not a token, and otherwise whether its
  header names a signing method of the HMAC family and, when the signature and the registered claims
  verify under the secret, the claims. The key function of every service refuses other methods.
\<close>

record Claims =
  cl_Subject :: string
  cl_Role :: string

datatype token_view = TokenView bool "Claims option"

type_synonym jwt_lib = "string \<Rightarrow> string \<Rightarrow> token_view option"

definition validateJWT :: "jwt_lib \<Rightarrow> string \<Rightarrow> string \<Rightarrow> Claims option" where
  "validateJWT jwt secret tok =
     (case jwt secret tok of
        None \<Rightarrow> None
      | Some (TokenView hmac claims) \<Rightarrow> if hmac then claims else None)"

text \<open>\<open>extractToken\<close> of the WebSocket endpoints: the bearer token of the header, else the query
  parameter.\<close>

definition extractToken :: "string \<Rightarrow> string \<Rightarrow> string" where
  "extractToken authorization query_token =
     (if hasPrefix authorization ''Bearer '' then trimPrefix authorization ''Bearer '' else query_token)"

text \<open>\<open>requireJWT\<close>: the subject and role for the handler, or the 401 reply.\<close>

definition requireJWT :: "jwt_lib \<Rightarrow> string \<Rightarrow> string \<Rightarrow> Claims option" where
  "requireJWT jwt secret authorization =
     (if \<not> hasPrefix authorization ''Bearer '' then None
      else validateJWT jwt secret (trimPrefix authorization ''Bearer ''))"

lemma validateJWT_hmac: "validateJWT jwt secret tok = Some c \<Longrightarrow> jwt secret tok = Some (TokenView True (Some c))"
  by (auto simp: validateJWT_def split: option.splits token_view.splits if_splits)

end
