(* ===== verification/Pollers.thy ===== *)
theory Pollers
  imports Effects "HOL-Library.Word"
begin

text \<open>
  The polling watchdogs: \<open>safety/bus_watchdog.go\<close> (one per process), \<open>safety/auth_watchdog.go\<close> and
  \<open>telemetrycheck/watchdog.go\<close> (one per vehicle), with the checks they poll
  (\<open>telemetrycheck/checker.go\<close>, \<open>authcheck/checker.go\<close>). One tick of the ticker is one function call
  on the result of the check; a goroutine started by \<open>Start\<close> is a run with its own failure counter.
  Cancelling a run's context does not undo a check that is under way, so a cancelled run may still
  take ticks until it notices.
\<close>

section \<open>Consecutive failures\<close>

text \<open>The counting part of the polling loops: a failure counts, a success resets, and reaching the
  threshold fires and starts counting anew.\<close>

definition poll_tick :: "int \<Rightarrow> bool \<Rightarrow> int \<Rightarrow> int \<times> bool" where
  "poll_tick threshold ok failures =
     (if ok then (0, False)
      else if failures + 1 \<ge> threshold then (0, True)
      else (failures + 1, False))"

definition trailing_failures :: "bool list \<Rightarrow> nat" where
  "trailing_failures oks = length (takeWhile Not (rev oks))"

lemma trailing_failures_simps [simp]:
  "trailing_failures [] = 0"
  "trailing_failures (oks @ [True]) = 0"
  "trailing_failures (oks @ [False]) = Suc (trailing_failures oks)"
  by (simp_all add: trailing_failures_def)

definition poll_fold :: "int \<Rightarrow> bool list \<Rightarrow> int" where
  "poll_fold threshold oks = fold (\<lambda>ok f. fst (poll_tick threshold ok f)) oks 0"

lemma mod_Suc_at: "0 < n \<Longrightarrow> Suc (k mod n) = n \<Longrightarrow> Suc k mod n = (0::nat)"
  by (simp add: mod_Suc)

lemma poll_fold_failures:
  assumes "0 < n"
  shows "poll_fold (int n) oks = int (trailing_failures oks mod n)"
proof (induction oks rule: rev_induct)
  case (snoc ok oks)
  then show ?case
    using mod_less_divisor [OF assms, of "trailing_failures oks"]
    by (cases ok) (auto simp: poll_fold_def poll_tick_def mod_Suc)
qed (simp add: poll_fold_def)

lemma poll_fires_at_multiples:
  assumes "0 < n"
  shows "snd (poll_tick (int n) ok (poll_fold (int n) oks)) \<longleftrightarrow>
    \<not> ok \<and> trailing_failures (oks @ [ok]) mod n = 0"
  using mod_less_divisor [OF assms, of "trailing_failures oks"]
  by (cases ok) (auto simp: poll_fold_failures [OF assms] poll_tick_def mod_Suc)

section \<open>Safety bus watchdog\<close>

definition DefaultBusCheckInterval :: duration where "DefaultBusCheckInterval = 5 * Second"
definition DefaultBusFailThreshold :: int where "DefaultBusFailThreshold = 2"

text \<open>\<open>ping\<close>: the status of the GET, or a transport error.\<close>

definition ping :: "nat option \<Rightarrow> bool" where
  "ping resp = (case resp of None \<Rightarrow> False | Some code \<Rightarrow> code = StatusOK)"

definition bus_reason :: string where
  "bus_reason = ''safety bus unreachable '' @ em_dash @ '' health check failed''"

text \<open>The watchdog sees the vehicles through the interface \<open>VehicleStates\<close>: here \<open>machine s vid\<close> is
  the machine behind \<open>StateMachine(vid)\<close>, and \<open>update vid f s\<close> applies a method to it.\<close>

definition trip_vehicle ::
  "('s \<Rightarrow> vehicle_id \<Rightarrow> Machine) \<Rightarrow> (vehicle_id \<Rightarrow> (Machine \<Rightarrow> Machine) \<Rightarrow> 's \<Rightarrow> 's) \<Rightarrow> instant \<Rightarrow>
   vehicle_id \<Rightarrow> 's \<times> effect list \<Rightarrow> 's \<times> effect list" where
  "trip_vehicle machine update now vid se =
     (case se of (s, es) \<Rightarrow>
        if System (machine s vid) = StateSafeMode then (update vid id s, es)
        else (update vid (TransitionSystem StateSafeMode) s,
              es @ [SystemTransition StateSafeMode,
                    PublishEvent (safety_event now [] vid EventSafetyBusDown bus_reason)]))"

definition triggerSafeModeFleetWide ::
  "('s \<Rightarrow> vehicle_id \<Rightarrow> Machine) \<Rightarrow> (vehicle_id \<Rightarrow> (Machine \<Rightarrow> Machine) \<Rightarrow> 's \<Rightarrow> 's) \<Rightarrow> instant \<Rightarrow>
   vehicle_id list \<Rightarrow> 's \<times> effect list \<Rightarrow> 's \<times> effect list" where
  "triggerSafeModeFleetWide machine update now ids se =
     fold (trip_vehicle machine update now) ids se"

text \<open>One tick of \<open>run\<close>; \<open>ids\<close> is what \<open>ActiveVehicleIDs\<close> returns if the watchdog fires.\<close>

definition bus_run_tick ::
  "('s \<Rightarrow> vehicle_id \<Rightarrow> Machine) \<Rightarrow> (vehicle_id \<Rightarrow> (Machine \<Rightarrow> Machine) \<Rightarrow> 's \<Rightarrow> 's) \<Rightarrow> int \<Rightarrow> instant \<Rightarrow>
   nat option \<Rightarrow> vehicle_id list \<Rightarrow> int \<Rightarrow> 's \<Rightarrow> int \<times> 's \<times> effect list" where
  "bus_run_tick machine update threshold now resp ids failures s =
     (let (failures', fires) = poll_tick threshold (ping resp) failures
      in (failures', if fires then triggerSafeModeFleetWide machine update now ids (s, []) else (s, [])))"

text \<open>The interface as its provider promises it.\<close>

locale vehicle_states =
  fixes machine :: "'s \<Rightarrow> vehicle_id \<Rightarrow> Machine"
    and update :: "vehicle_id \<Rightarrow> (Machine \<Rightarrow> Machine) \<Rightarrow> 's \<Rightarrow> 's"
  assumes machine_update: "machine (update vid f s) vid = f (machine s vid)"
    and machine_update_other: "vid' \<noteq> vid \<Longrightarrow> machine (update vid f s) vid' = machine s vid'"
begin

lemma trip_vehicle_machine:
  "machine (fst (trip_vehicle machine update now vid (s, es))) v =
     (if v = vid \<and> System (machine s vid) \<noteq> StateSafeMode
      then TransitionSystem StateSafeMode (machine s v) else machine s v)"
  by (cases "v = vid") (auto simp: trip_vehicle_def machine_update machine_update_other)

lemma trigger_machine:
  "machine (fst (triggerSafeModeFleetWide machine update now ids (s, es))) v =
     (if v \<in> set ids \<and> System (machine s v) \<noteq> StateSafeMode
      then TransitionSystem StateSafeMode (machine s v) else machine s v)"
proof (induction ids arbitrary: s es)
  case (Cons vid ids)
  obtain s' es' where step: "trip_vehicle machine update now vid (s, es) = (s', es')"
    by (cases "trip_vehicle machine update now vid (s, es)") auto
  have "machine s' v = (if v = vid \<and> System (machine s vid) \<noteq> StateSafeMode
      then TransitionSystem StateSafeMode (machine s v) else machine s v)"
    using trip_vehicle_machine [of now vid s es v] step by simp
  then show ?case
    using Cons.IH [of s' es'] step
    by (auto simp: triggerSafeModeFleetWide_def TransitionSystem_SafeMode)
qed (simp add: triggerSafeModeFleetWide_def)

text \<open>After the fan-out every listed vehicle is in SAFE_MODE, unless it is IDLE; no other vehicle is
  touched.\<close>

lemma trigger_fleet_wide:
  "v \<in> set ids \<Longrightarrow> System (machine s v) \<noteq> StateIdle \<Longrightarrow>
   System (machine (fst (triggerSafeModeFleetWide machine update now ids (s, es))) v) = StateSafeMode"
  by (simp add: trigger_machine TransitionSystem_SafeMode)

lemma trigger_others:
  "v \<notin> set ids \<Longrightarrow>
   machine (fst (triggerSafeModeFleetWide machine update now ids (s, es))) v = machine s v"
  by (simp add: trigger_machine)

end

section \<open>Auth watchdog\<close>

definition DefaultAuthCheckInterval :: duration where "DefaultAuthCheckInterval = 5 * Second"
definition DefaultAuthFailThreshold :: int where "DefaultAuthFailThreshold = 2"

text \<open>\<open>IsActiveOperator\<close> on the answer of the database: an error, or the column \<open>is_active\<close> of the
  account's row, if there is one. The result is \<open>None\<close> for an error.\<close>

definition IsActiveOperator :: "(string \<Rightarrow> bool option) option \<Rightarrow> string \<Rightarrow> bool option" where
  "IsActiveOperator users username =
     (case users of
        None \<Rightarrow> None
      | Some tbl \<Rightarrow> Some (case tbl username of None \<Rightarrow> False | Some isActive \<Rightarrow> isActive))"

record auth_run =
  ar_sessionID :: session_id
  ar_vehicleID :: vehicle_id
  ar_username :: operator_id
  ar_failures :: int
  ar_cancelled :: bool
  ar_finished :: bool

record AuthWatchdog =
  auw_threshold :: int
  auw_auditWriter :: audit_writer
  auw_cancel :: "nat option"
  auw_sessionID :: session_id
  auw_vehicleID :: vehicle_id
  auw_username :: operator_id
  auw_runs :: "auth_run list"

definition NewAuthWatchdog :: "int \<Rightarrow> AuthWatchdog" where
  "NewAuthWatchdog threshold =
     \<lparr>auw_threshold = threshold, auw_auditWriter = None, auw_cancel = None, auw_sessionID = [],
      auw_vehicleID = [], auw_username = [], auw_runs = []\<rparr>"

definition auth_WithAuditWriter :: "audit_writer \<Rightarrow> AuthWatchdog \<Rightarrow> AuthWatchdog" where
  "auth_WithAuditWriter aw w = w\<lparr>auw_auditWriter := aw\<rparr>"

definition cancel_auth_run :: "nat option \<Rightarrow> auth_run list \<Rightarrow> auth_run list" where
  "cancel_auth_run c rs =
     (case c of None \<Rightarrow> rs | Some i \<Rightarrow> if i < length rs then rs[i := (rs ! i)\<lparr>ar_cancelled := True\<rparr>] else rs)"

definition auth_Start :: "session_id \<Rightarrow> vehicle_id \<Rightarrow> operator_id \<Rightarrow> AuthWatchdog \<Rightarrow> AuthWatchdog" where
  "auth_Start sid vid user w =
     (let rs = cancel_auth_run (auw_cancel w) (auw_runs w)
      in w\<lparr>auw_sessionID := sid, auw_vehicleID := vid, auw_username := user,
           auw_cancel := Some (length rs),
           auw_runs := rs @ [\<lparr>ar_sessionID = sid, ar_vehicleID = vid, ar_username = user,
                              ar_failures = 0, ar_cancelled = False, ar_finished = False\<rparr>]\<rparr>)"

definition auth_Stop :: "AuthWatchdog \<Rightarrow> AuthWatchdog" where
  "auth_Stop w =
     (case auw_cancel w of
        None \<Rightarrow> w
      | Some i \<Rightarrow> w\<lparr>auw_runs := cancel_auth_run (Some i) (auw_runs w), auw_cancel := None\<rparr>)"

definition auth_reason :: string where
  "auth_reason = ''operator account revoked or deleted (admin action)''"

definition auth_fire ::
  "instant \<Rightarrow> event_id \<Rightarrow> audit_writer \<Rightarrow> session_id \<Rightarrow> vehicle_id \<Rightarrow> Machine \<Rightarrow> Machine \<times> effect list" where
  "auth_fire now eid aw sid vid m =
     (TransitionOperator OpNoOperator m,
      write_audit aw (audit_event eid now sid vid [] LogAuthWatchdogTriggered auth_reason m) @
      [OperatorTransition OpNoOperator,
       PublishEvent (safety_event now sid vid EventAuthInvalid auth_reason)])"

text \<open>A tick of run \<open>i\<close> whose check returned \<open>res\<close>.\<close>

definition auth_run_tick ::
  "instant \<Rightarrow> event_id \<Rightarrow> nat \<Rightarrow> bool option \<Rightarrow> AuthWatchdog \<Rightarrow> Machine \<Rightarrow> AuthWatchdog \<times> Machine \<times> effect list" where
  "auth_run_tick now eid i res w m =
     (if \<not> i < length (auw_runs w) \<or> ar_finished (auw_runs w ! i) then (w, m, [])
      else
        let r = auw_runs w ! i;
            (failures', fires) = poll_tick (auw_threshold w) (res = Some True) (ar_failures r);
            w' = w\<lparr>auw_runs := (auw_runs w)[i := r\<lparr>ar_failures := failures', ar_finished := fires\<rparr>]\<rparr>
        in if fires then (w', auth_fire now eid (auw_auditWriter w) (ar_sessionID r) (ar_vehicleID r) m)
           else (w', m, []))"

text \<open>A cancelled run that notices: \<open>case <-ctx.Done(): return\<close>.\<close>

definition auth_run_done :: "nat \<Rightarrow> AuthWatchdog \<Rightarrow> AuthWatchdog" where
  "auth_run_done i w =
     (if i < length (auw_runs w) \<and> ar_cancelled (auw_runs w ! i)
      then w\<lparr>auw_runs := (auw_runs w)[i := (auw_runs w ! i)\<lparr>ar_finished := True\<rparr>]\<rparr> else w)"

section \<open>Telemetry watchdog\<close>

definition DefaultTelemetryCheckInterval :: duration where "DefaultTelemetryCheckInterval = 2 * Second"
definition DefaultTelemetryFailThreshold :: int where "DefaultTelemetryFailThreshold = 2"

text \<open>The answer of \<open>GET /telemetry/latest/{vehicleID}\<close>: no response, or a status and the decoded
  timestamp (\<open>None\<close> if the body does not decode). Timestamps, ages and \<open>maxAge\<close> are \<open>int64\<close>; the
  age in milliseconds is multiplied into nanoseconds with wrap-around. The result is \<open>None\<close> for an
  error.\<close>

datatype telemetry_response = NoResponse | Response nat "(64 word) option"

definition telemetry_age :: "64 word \<Rightarrow> 64 word \<Rightarrow> 64 word" where
  "telemetry_age nowMilli ts = (nowMilli - ts) * 1000000"

definition HasFreshTelemetry :: "64 word \<Rightarrow> telemetry_response \<Rightarrow> 64 word \<Rightarrow> bool option" where
  "HasFreshTelemetry nowMilli resp maxAge =
     (case resp of
        NoResponse \<Rightarrow> None
      | Response code body \<Rightarrow>
          if code = StatusNotFound then Some False
          else if code \<noteq> StatusOK then None
          else case body of
            None \<Rightarrow> None
          | Some ts \<Rightarrow> Some (sint (telemetry_age nowMilli ts) \<le> sint maxAge))"

record telemetry_run =
  tr_vehicleID :: vehicle_id
  tr_failures :: int
  tr_cancelled :: bool
  tr_finished :: bool

record TelemetryWatchdog =
  tw_interval :: duration
  tw_threshold :: int
  tw_cancel :: "nat option"
  tw_sessionID :: session_id
  tw_runs :: "telemetry_run list"

definition NewTelemetryWatchdog :: "duration \<Rightarrow> int \<Rightarrow> TelemetryWatchdog" where
  "NewTelemetryWatchdog interval threshold =
     \<lparr>tw_interval = interval, tw_threshold = threshold, tw_cancel = None, tw_sessionID = [],
      tw_runs = []\<rparr>"

definition cancel_telemetry_run :: "nat option \<Rightarrow> telemetry_run list \<Rightarrow> telemetry_run list" where
  "cancel_telemetry_run c rs =
     (case c of None \<Rightarrow> rs | Some i \<Rightarrow> if i < length rs then rs[i := (rs ! i)\<lparr>tr_cancelled := True\<rparr>] else rs)"

definition telemetry_Start :: "session_id \<Rightarrow> vehicle_id \<Rightarrow> TelemetryWatchdog \<Rightarrow> TelemetryWatchdog" where
  "telemetry_Start sid vid w =
     (let rs = cancel_telemetry_run (tw_cancel w) (tw_runs w)
      in w\<lparr>tw_sessionID := sid, tw_cancel := Some (length rs),
           tw_runs := rs @ [\<lparr>tr_vehicleID = vid, tr_failures = 0, tr_cancelled = False,
                            tr_finished = False\<rparr>]\<rparr>)"

definition telemetry_Stop :: "TelemetryWatchdog \<Rightarrow> TelemetryWatchdog" where
  "telemetry_Stop w =
     (case tw_cancel w of
        None \<Rightarrow> w
      | Some i \<Rightarrow> w\<lparr>tw_runs := cancel_telemetry_run (Some i) (tw_runs w), tw_cancel := None\<rparr>)"

text \<open>\<open>maxAge := w.interval * time.Duration(w.threshold)\<close>\<close>

definition telemetry_maxAge :: "TelemetryWatchdog \<Rightarrow> duration" where
  "telemetry_maxAge w = tw_interval w * tw_threshold w"

text \<open>The loop body on the result of the check.\<close>

definition telemetry_tick :: "int \<Rightarrow> bool option \<Rightarrow> int \<times> Machine \<Rightarrow> int \<times> Machine" where
  "telemetry_tick threshold res s =
     (case s of (failures, m) \<Rightarrow>
        let (failures', fires) = poll_tick threshold (res = Some True) failures
        in if res = Some True then (failures', TransitionTelemetry True m)
           else if fires then (failures', TransitionTelemetry False m)
           else (failures', m))"

definition telemetry_run_tick ::
  "nat \<Rightarrow> bool option \<Rightarrow> TelemetryWatchdog \<Rightarrow> Machine \<Rightarrow> TelemetryWatchdog \<times> Machine" where
  "telemetry_run_tick i res w m =
     (if i < length (tw_runs w) \<and> \<not> tr_finished (tw_runs w ! i) then
        (let r = tw_runs w ! i; (failures', m') = telemetry_tick (tw_threshold w) res (tr_failures r, m)
         in (w\<lparr>tw_runs := (tw_runs w)[i := r\<lparr>tr_failures := failures'\<rparr>]\<rparr>, m'))
      else (w, m))"

definition telemetry_run_done :: "nat \<Rightarrow> TelemetryWatchdog \<Rightarrow> TelemetryWatchdog" where
  "telemetry_run_done i w =
     (if i < length (tw_runs w) \<and> tr_cancelled (tw_runs w ! i)
      then w\<lparr>tw_runs := (tw_runs w)[i := (tw_runs w ! i)\<lparr>tr_finished := True\<rparr>]\<rparr> else w)"

section \<open>Freshness without wrap-around\<close>

lemma sint_word_of_int_fits:
  assumes "- (2 ^ 63) \<le> x" and "x < 2 ^ 63"
  shows "sint (word_of_int x :: 64 word) = x"
  using assms by (simp add: signed_of_int signed_take_bit_int_eq_self)

lemma telemetry_age_sint:
  assumes "0 \<le> sint ts" and "0 \<le> sint nowMilli"
    and "sint ts < 2 ^ 63 div 1000000" and "sint nowMilli < 2 ^ 63 div 1000000"
  shows "sint (telemetry_age nowMilli ts) = (sint nowMilli - sint ts) * 1000000"
proof -
  have "telemetry_age nowMilli ts = word_of_int ((sint nowMilli - sint ts) * 1000000)"
    by (simp add: telemetry_age_def)
  moreover have "- (2 ^ 63) \<le> (sint nowMilli - sint ts) * 1000000"
    "(sint nowMilli - sint ts) * 1000000 < 2 ^ 63"
    using assms by simp_all
  ultimately show ?thesis by (simp only: sint_word_of_int_fits)
qed

section \<open>Telemetry watchdog on a live session\<close>

lemma telemetry_tick_live:
  assumes "live_coupled m" and "0 < n" and "f = int (k mod n)"
    and "DegradedReasonTelemetry \<in> degradedReasons m \<longleftrightarrow> n \<le> k"
    and "telemetry_tick (int n) res (f, m) = (f', m')"
    and k': "k' = (if res = Some True then 0 else Suc k)"
  shows "live_coupled m' \<and> f' = int (k' mod n) \<and>
     (DegradedReasonTelemetry \<in> degradedReasons m' \<longleftrightarrow> n \<le> k') \<and>
     (DegradedReasonMedia \<in> degradedReasons m' \<longleftrightarrow> DegradedReasonMedia \<in> degradedReasons m)"
proof -
  have live: "live_coupled (TransitionTelemetry h m)" for h
    using degraded_monitor.inv_cstep [OF assms(1), of "TelemetryReport h"] by simp
  have R: "degradedReasons (TransitionTelemetry h m) =
      (if h then degradedReasons m - {DegradedReasonTelemetry}
       else insert DegradedReasonTelemetry (degradedReasons m))" for h
    by (simp add: report_telemetry [OF assms(1)] Let_def)
  show ?thesis
  proof (cases "res = Some True")
    case True
    with assms live [of True] show ?thesis
      by (auto simp: telemetry_tick_def poll_tick_def R)
  next
    case False
    show ?thesis
    proof (cases "Suc (k mod n) = n")
      case True
      then have "n \<le> Suc k" by (metis Suc_le_mono mod_less_eq_dividend)
      with True False assms live [of False] show ?thesis
        by (auto simp: telemetry_tick_def poll_tick_def R mod_Suc)
    next
      case 2: False
      then have lt: "Suc (k mod n) < n" using mod_less_divisor [OF assms(2), of k] by linarith
      have "n \<le> Suc k \<longleftrightarrow> n \<le> k"
      proof (cases "k < n")
        case True
        with lt show ?thesis by simp
      qed simp
      with lt False assms show ?thesis by (auto simp: telemetry_tick_def poll_tick_def mod_Suc)
    qed
  qed
qed

lemma telemetry_ticks_live:
  assumes "live_coupled m" and "0 < n" and "DegradedReasonTelemetry \<notin> degradedReasons m"
    and "fold (telemetry_tick (int n)) rs (0, m) = (f, m')"
  shows "live_coupled m' \<and> f = int (trailing_failures (map (\<lambda>r. r = Some True) rs) mod n) \<and>
     (DegradedReasonTelemetry \<in> degradedReasons m' \<longleftrightarrow>
        n \<le> trailing_failures (map (\<lambda>r. r = Some True) rs)) \<and>
     (DegradedReasonMedia \<in> degradedReasons m' \<longleftrightarrow> DegradedReasonMedia \<in> degradedReasons m)"
  using assms(4)
proof (induction rs arbitrary: f m' rule: rev_induct)
  case Nil
  with assms show ?case by simp
next
  case (snoc r rs)
  obtain f1 m1 where 1: "fold (telemetry_tick (int n)) rs (0, m) = (f1, m1)"
    by (cases "fold (telemetry_tick (int n)) rs (0, m)")
  have tick: "telemetry_tick (int n) r (f1, m1) = (f', m'')" if "(f', m'') = (f, m')" for f' m''
    using snoc.prems 1 that by simp
  show ?case
    using telemetry_tick_live [OF _ assms(2) _ _ tick [OF refl] refl,
        of "trailing_failures (map (\<lambda>r. r = Some True) rs)"] snoc.IH [OF 1]
    by (cases "r = Some True") auto
qed

section \<open>Auth watchdog of a fresh session\<close>

text \<open>The last run, started by \<open>Start\<close>, on the results of its checks.\<close>

definition auth_ticks ::
  "instant \<Rightarrow> event_id \<Rightarrow> nat \<Rightarrow> bool option list \<Rightarrow> AuthWatchdog \<times> Machine \<times> effect list \<Rightarrow>
   AuthWatchdog \<times> Machine \<times> effect list" where
  "auth_ticks now eid i rs s =
     fold (\<lambda>res (w, m, es). case auth_run_tick now eid i res w m of (w', m', es') \<Rightarrow> (w', m', es @ es')) rs s"

fun revoked :: "nat \<Rightarrow> nat \<Rightarrow> bool option list \<Rightarrow> bool" where
  "revoked n k [] = False"
| "revoked n k (r # rs) =
     (if r = Some True then revoked n 0 rs else n \<le> Suc k \<or> revoked n (Suc k) rs)"

definition running :: "nat \<Rightarrow> nat \<Rightarrow> nat \<Rightarrow> AuthWatchdog \<Rightarrow> bool" where
  "running i n k w \<longleftrightarrow> i < length (auw_runs w) \<and> auw_threshold w = int n \<and>
     ar_failures (auw_runs w ! i) = int k \<and> \<not> ar_finished (auw_runs w ! i)"

lemma auth_ticks_Nil [simp]: "auth_ticks now eid i [] s = s"
  by (simp add: auth_ticks_def)

lemma auth_ticks_Cons [simp]:
  "auth_ticks now eid i (r # rs) (w, m, es) =
     (case auth_run_tick now eid i r w m of (w', m', es') \<Rightarrow> auth_ticks now eid i rs (w', m', es @ es'))"
  by (simp add: auth_ticks_def split: prod.splits)

lemma auth_ticks_finished:
  "ar_finished (auw_runs w ! i) \<Longrightarrow> auth_ticks now eid i rs (w, me) = (w, me)"
  by (induction rs; cases me) (auto simp: auth_run_tick_def)

lemma auth_ticks_outcome:
  assumes "running i n k w"
  shows "\<exists>w'. auth_ticks now eid i rs (w, m, []) =
    (w', if revoked n k rs
         then auth_fire now eid (auw_auditWriter w) (ar_sessionID (auw_runs w ! i))
                (ar_vehicleID (auw_runs w ! i)) m
         else (m, [])) \<and> ar_finished (auw_runs w' ! i) = revoked n k rs"
  using assms
proof (induction rs arbitrary: k w)
  case Nil
  then show ?case by (auto simp: running_def)
next
  case (Cons r rs)
  let ?r = "auw_runs w ! i"
  let ?tick = "\<lambda>f b. w\<lparr>auw_runs := (auw_runs w)[i := ?r\<lparr>ar_failures := f, ar_finished := b\<rparr>]\<rparr>"
  consider "r = Some True" | "r \<noteq> Some True" "n \<le> Suc k" | "r \<noteq> Some True" "\<not> n \<le> Suc k" by blast
  then show ?case
  proof cases
    case 1
    have "running i n 0 (?tick 0 False)" using Cons.prems by (simp add: running_def)
    from Cons.IH [OF this] 1 Cons.prems show ?thesis
      by (auto simp: auth_run_tick_def poll_tick_def running_def)
  next
    case 2
    then have "auth_run_tick now eid i r w m = (?tick 0 True,
        auth_fire now eid (auw_auditWriter w) (ar_sessionID ?r) (ar_vehicleID ?r) m)"
      using Cons.prems by (auto simp: auth_run_tick_def poll_tick_def running_def Let_def)
    then show ?thesis using 2 Cons.prems
      by (auto simp: running_def auth_ticks_finished split: prod.splits)
  next
    case 3
    have "running i n (Suc k) (?tick (int (Suc k)) False)" using Cons.prems by (simp add: running_def)
    from Cons.IH [OF this] 3 Cons.prems show ?thesis
      by (auto simp: auth_run_tick_def poll_tick_def running_def add.commute)
  qed
qed

section \<open>Properties\<close>

text \<open>C25: on a live session without a telemetry reason, the telemetry watchdog makes the machine
  DEGRADED exactly while at least \<open>threshold\<close> consecutive polls have failed (an error and a stale
  answer count alike) or the media reason is active, however the polls went before; one fresh poll
  brings it back.\<close>

theorem telemetry_watchdog_degrades:
  assumes "session_live m" and "Control m = ControlActive"
    and "DegradedReasonTelemetry \<notin> degradedReasons m" and "0 < n"
    and "fold (telemetry_tick (int n)) rs (0, m) = (f, m')"
  shows "System m' =
    (if DegradedReasonMedia \<in> degradedReasons m \<or> n \<le> trailing_failures (map (\<lambda>r. r = Some True) rs)
     then StateDegraded else StateConnected) \<and> f < int n"
proof -
  have "live_coupled m" using assms by (simp add: live_coupled_def)
  note ticks = telemetry_ticks_live [OF this assms(4,3,5)]
  then have "session_live m'" by (simp add: live_coupled_def)
  with ticks assms(4) show ?thesis by (simp add: session_live_def reasons_empty_iff)
qed

theorem telemetry_watchdog_degrades_witness:
  "System (snd (fold (telemetry_tick (int 2)) [Some True, None, Some False]
     (0, newMachine\<lparr>System := StateConnected, Control := ControlActive\<rparr>))) = StateDegraded"
proof -
  let ?m = "newMachine\<lparr>System := StateConnected, Control := ControlActive\<rparr>"
  let ?rs = "[Some True, None, Some False]"
  obtain f m' where r: "fold (telemetry_tick (int 2)) ?rs (0, ?m) = (f, m')"
    by (cases "fold (telemetry_tick (int 2)) ?rs (0, ?m)")
  have "session_live ?m" "Control ?m = ControlActive" "DegradedReasonTelemetry \<notin> degradedReasons ?m"
    by (simp_all add: session_live_def newMachine_def)
  from telemetry_watchdog_degrades [OF this _ r] r show ?thesis by (simp add: trailing_failures_def)
qed

text \<open>C26: within the range in which the multiplication does not wrap (the first 292 years of the
  epoch), telemetry counts as fresh exactly when its age in milliseconds is at most the limit, and in
  particular whenever its timestamp lies in the future; a 404 is not fresh, any other status or an
  undecodable body is an error.\<close>

theorem telemetry_freshness:
  assumes "0 \<le> sint ts" and "0 \<le> sint nowMilli"
    and "sint ts < 2 ^ 63 div 1000000" and "sint nowMilli < 2 ^ 63 div 1000000"
    and "sint maxAge = limit * 1000000" and "0 \<le> limit" and "code \<noteq> StatusOK"
  shows "HasFreshTelemetry nowMilli (Response StatusOK (Some ts)) maxAge =
           Some (sint nowMilli - sint ts \<le> limit) \<and>
         (sint nowMilli \<le> sint ts \<longrightarrow>
           HasFreshTelemetry nowMilli (Response StatusOK (Some ts)) maxAge = Some True) \<and>
         HasFreshTelemetry nowMilli (Response code body) maxAge =
           (if code = StatusNotFound then Some False else None)"
proof -
  have "(sint nowMilli - sint ts) * 1000000 \<le> limit * 1000000 \<longleftrightarrow> sint nowMilli - sint ts \<le> limit"
    by (rule mult_le_cancel_right_pos) simp
  with assms show ?thesis
    by (simp add: HasFreshTelemetry_def telemetry_age_sint status_defs del: left_diff_distrib_numeral)
qed

theorem telemetry_freshness_witness:
  "HasFreshTelemetry 10000 (Response StatusOK (Some 7000)) 4000000000 = Some True \<and>
   HasFreshTelemetry 10000 (Response StatusOK (Some 5000)) 4000000000 = Some False"
  using telemetry_freshness [of 7000 10000 4000000000 4000 404 None]
    telemetry_freshness [of 5000 10000 4000000000 4000 404 None]
  by (simp add: status_defs)

text \<open>C24: the auth watchdog started for a session acts exactly when its threshold of consecutive
  checks did not confirm the account (deleted, deactivated or unreadable). It then writes the audit
  record, takes the operator out of the vehicle's OPERATOR layer, which puts a CONNECTED or DEGRADED
  session into SAFE_MODE, publishes AUTH_INVALID and ends the polling; otherwise it leaves the machine
  alone.\<close>

theorem auth_watchdog_revokes:
  assumes "0 < n" and "auw_threshold w = int n"
    and "auth_ticks now eid i rs (auth_Start sid vid user w, m, []) = (w', m', es)"
    and "auw_cancel (auth_Start sid vid user w) = Some i"
  shows "ar_finished (auw_runs w' ! i) = revoked n 0 rs \<and>
    (if revoked n 0 rs
     then Operator m' = OpNoOperator \<and>
       (System m = StateConnected \<or> System m = StateDegraded \<longrightarrow>
          System m' = StateSafeMode \<and> Control m' = ControlBlocked) \<and>
       es = write_audit (auw_auditWriter w)
              (audit_event eid now sid vid [] LogAuthWatchdogTriggered auth_reason m) @
            [OperatorTransition OpNoOperator,
             PublishEvent (safety_event now sid vid EventAuthInvalid auth_reason)]
     else m' = m \<and> es = [])"
proof -
  let ?w = "auth_Start sid vid user w"
  have i: "i < length (auw_runs ?w)" and r: "auw_runs ?w ! i = \<lparr>ar_sessionID = sid, ar_vehicleID = vid,
      ar_username = user, ar_failures = 0, ar_cancelled = False, ar_finished = False\<rparr>"
    and aw: "auw_auditWriter ?w = auw_auditWriter w"
    using assms(4) by (auto simp: auth_Start_def Let_def)
  have "running i n 0 ?w" using i r assms(2) by (simp add: running_def auth_Start_def Let_def)
  from auth_ticks_outcome [OF this, of now eid rs m] assms(3) r aw show ?thesis
    by (auto simp: auth_fire_def TransitionOperator_NoOperator split: if_splits)
qed

theorem auth_watchdog_revokes_witness:
  "\<exists>w' m' es. auth_ticks 7 ''e'' 0 [None, Some True, Some False, None]
     (auth_Start ''s'' ''v'' ''op'' (NewAuthWatchdog 2), newMachine\<lparr>System := StateConnected\<rparr>, []) =
       (w', m', es) \<and> System m' = StateSafeMode"
proof -
  let ?m = "newMachine\<lparr>System := StateConnected\<rparr>"
  obtain w' m' es where r: "auth_ticks 7 ''e'' 0 [None, Some True, Some False, None]
     (auth_Start ''s'' ''v'' ''op'' (NewAuthWatchdog 2), ?m, []) = (w', m', es)"
    by (cases "auth_ticks 7 ''e'' 0 [None, Some True, Some False, None]
     (auth_Start ''s'' ''v'' ''op'' (NewAuthWatchdog 2), ?m, [])") auto
  have "(0::nat) < 2" "auw_threshold (NewAuthWatchdog 2) = int 2"
    "auw_cancel (auth_Start ''s'' ''v'' ''op'' (NewAuthWatchdog 2)) = Some 0"
    by (simp_all add: NewAuthWatchdog_def auth_Start_def cancel_auth_run_def)
  from auth_watchdog_revokes [OF this(1,2) r this(3)] r show ?thesis by simp
qed

end
