(* ===== verification/Poller_Lifecycle.thy ===== *)
theory Poller_Lifecycle
  imports Pollers
begin

text \<open>
  Starting and stopping the watchdogs that poll a service. All three (\<open>bus_watchdog.go\<close>, \<open>auth_watchdog.go\<close>,
  \<open>telemetrycheck/watchdog.go\<close>) keep the cancel function of their goroutine: \<open>Start\<close> cancels the goroutine before and
  launches another, \<open>Stop\<close> cancels it. The contract \<open>poller\<close> states this once and is met by the three.
\<close>

section \<open>The safety bus watchdog as a process\<close>

record bus_run =
  bu_failures :: int
  bu_cancelled :: bool
  bu_finished :: bool

record SafetyBusWatchdog =
  bw_threshold :: int
  bw_cancel :: "nat option"
  bw_runs :: "bus_run list"

definition NewSafetyBusWatchdog :: "int \<Rightarrow> SafetyBusWatchdog" where
  "NewSafetyBusWatchdog threshold = \<lparr>bw_threshold = threshold, bw_cancel = None, bw_runs = []\<rparr>"

definition cancel_bus_run :: "nat option \<Rightarrow> bus_run list \<Rightarrow> bus_run list" where
  "cancel_bus_run c rs =
     (case c of None \<Rightarrow> rs | Some i \<Rightarrow> if i < length rs then rs[i := (rs ! i)\<lparr>bu_cancelled := True\<rparr>] else rs)"

definition bus_Start :: "SafetyBusWatchdog \<Rightarrow> SafetyBusWatchdog" where
  "bus_Start w =
     (let rs = cancel_bus_run (bw_cancel w) (bw_runs w)
      in w\<lparr>bw_cancel := Some (length rs),
           bw_runs := rs @ [\<lparr>bu_failures = 0, bu_cancelled = False, bu_finished = False\<rparr>]\<rparr>)"

definition bus_Stop :: "SafetyBusWatchdog \<Rightarrow> SafetyBusWatchdog" where
  "bus_Stop w =
     (case bw_cancel w of
        None \<Rightarrow> w
      | Some i \<Rightarrow> w\<lparr>bw_runs := cancel_bus_run (Some i) (bw_runs w), bw_cancel := None\<rparr>)"

text \<open>A tick of run \<open>i\<close> on the vehicles, and a cancelled run that notices.\<close>

definition bus_tick ::
  "('s \<Rightarrow> vehicle_id \<Rightarrow> Machine) \<Rightarrow> (vehicle_id \<Rightarrow> (Machine \<Rightarrow> Machine) \<Rightarrow> 's \<Rightarrow> 's) \<Rightarrow> instant \<Rightarrow> nat option \<Rightarrow>
   vehicle_id list \<Rightarrow> nat \<Rightarrow> SafetyBusWatchdog \<Rightarrow> 's \<Rightarrow> SafetyBusWatchdog \<times> 's \<times> effect list" where
  "bus_tick machine update now resp ids i w s =
     (if \<not> i < length (bw_runs w) \<or> bu_finished (bw_runs w ! i) then (w, s, [])
      else
        let (failures', s', es) = bus_run_tick machine update (bw_threshold w) now resp ids (bu_failures (bw_runs w ! i)) s
        in (w\<lparr>bw_runs := (bw_runs w)[i := (bw_runs w ! i)\<lparr>bu_failures := failures'\<rparr>]\<rparr>, s', es))"

definition bus_run_done :: "nat \<Rightarrow> SafetyBusWatchdog \<Rightarrow> SafetyBusWatchdog" where
  "bus_run_done i w =
     (if i < length (bw_runs w) \<and> bu_cancelled (bw_runs w ! i)
      then w\<lparr>bw_runs := (bw_runs w)[i := (bw_runs w ! i)\<lparr>bu_finished := True\<rparr>]\<rparr> else w)"

section \<open>The contract\<close>

datatype ('a, 't) poller_op = StartRun 'a | StopRun | Progress 't

locale poller =
  fixes cancel :: "'w \<Rightarrow> nat option"
    and run_count :: "'w \<Rightarrow> nat"
    and cancelled :: "'w \<Rightarrow> nat \<Rightarrow> bool"
    and start :: "'a \<Rightarrow> 'w \<Rightarrow> 'w"
    and stop :: "'w \<Rightarrow> 'w"
    and progress :: "'t \<Rightarrow> 'w \<Rightarrow> 'w"
  assumes start_cancel: "cancel (start a w) = Some (run_count w)"
    and start_count: "run_count (start a w) = Suc (run_count w)"
    and start_fresh: "\<not> cancelled (start a w) (run_count w)"
    and start_cancels: "i < run_count w \<Longrightarrow> cancelled (start a w) i \<longleftrightarrow> cancelled w i \<or> cancel w = Some i"
    and stop_cancel: "cancel (stop w) = None"
    and stop_count: "run_count (stop w) = run_count w"
    and stop_cancels: "i < run_count w \<Longrightarrow> cancelled (stop w) i \<longleftrightarrow> cancelled w i \<or> cancel w = Some i"
    and progress_keeps: "cancel (progress t w) = cancel w" "run_count (progress t w) = run_count w"
      "i < run_count w \<Longrightarrow> cancelled (progress t w) i = cancelled w i"
begin

lemma one_run_step:
  assumes "\<And>i. i < run_count w \<and> \<not> cancelled w i \<longleftrightarrow> cancel w = Some i"
  shows "i < run_count (case_poller_op start stop progress e w) \<and> \<not> cancelled (case_poller_op start stop progress e w) i \<longleftrightarrow>
    cancel (case_poller_op start stop progress e w) = Some i"
proof (cases e)
  case (StartRun a)
  then show ?thesis
    using assms [of i] start_cancels [of i w a] start_fresh [of a w]
    by (cases "i < run_count w") (auto simp: start_cancel start_count less_Suc_eq)
next
  case StopRun
  then show ?thesis using assms [of i] stop_cancels [of i w] by (auto simp: stop_cancel stop_count)
next
  case (Progress t)
  then show ?thesis using assms [of i] progress_keeps(3) [of i w t] by (auto simp: progress_keeps(1,2))
qed

text \<open>In every state the run that is not cancelled is the one whose cancel function the watchdog holds.\<close>

lemma one_run:
  assumes "cancel w = None" and "run_count w = 0"
  shows "i < run_count (fold (case_poller_op start stop progress) es w) \<and>
      \<not> cancelled (fold (case_poller_op start stop progress) es w) i \<longleftrightarrow>
    cancel (fold (case_poller_op start stop progress) es w) = Some i"
proof (induction es arbitrary: i rule: rev_induct)
  case Nil
  show ?case using assms by simp
next
  case (snoc e es)
  then show ?case by (simp add: one_run_step)
qed

lemma started_run:
  assumes "cancel w = None" and "run_count w = 0" and "w' = fold (case_poller_op start stop progress) es w"
  shows "i < run_count (start a w') \<and> \<not> cancelled (start a w') i \<longleftrightarrow> i = run_count w'"
    and "i < run_count (stop w') \<longrightarrow> cancelled (stop w') i"
  using one_run [OF assms(1,2), of _ "es @ [StartRun a]"] one_run [OF assms(1,2), of _ "es @ [StopRun]"] assms(3)
  by (auto simp: start_cancel stop_cancel)

end

section \<open>The three watchdogs\<close>

lemma cancel_run_nth:
  "i < length rs \<Longrightarrow> bu_cancelled (cancel_bus_run c rs ! i) \<longleftrightarrow> bu_cancelled (rs ! i) \<or> c = Some i"
  "length (cancel_bus_run c rs) = length rs"
  "i < length as \<Longrightarrow> ar_cancelled (cancel_auth_run c as ! i) \<longleftrightarrow> ar_cancelled (as ! i) \<or> c = Some i"
  "length (cancel_auth_run c as) = length as"
  "i < length ts \<Longrightarrow> tr_cancelled (cancel_telemetry_run c ts ! i) \<longleftrightarrow> tr_cancelled (ts ! i) \<or> c = Some i"
  "length (cancel_telemetry_run c ts) = length ts"
  by (auto simp: cancel_bus_run_def cancel_auth_run_def cancel_telemetry_run_def nth_list_update split: option.split)

text \<open>What a goroutine does: a tick of run \<open>i\<close>, or its end once it is cancelled.\<close>

datatype 's bus_event = BusTick instant "nat option" "vehicle_id list" nat 's | BusDone nat
datatype auth_event = AuthTick instant event_id nat "bool option" Machine | AuthDone nat
datatype telemetry_event = TelemetryTick nat "bool option" Machine | TelemetryDone nat

fun bus_progress ::
  "('s \<Rightarrow> vehicle_id \<Rightarrow> Machine) \<Rightarrow> (vehicle_id \<Rightarrow> (Machine \<Rightarrow> Machine) \<Rightarrow> 's \<Rightarrow> 's) \<Rightarrow> 's bus_event \<Rightarrow>
   SafetyBusWatchdog \<Rightarrow> SafetyBusWatchdog" where
  "bus_progress machine update (BusTick now resp ids i s) w = fst (bus_tick machine update now resp ids i w s)"
| "bus_progress machine update (BusDone i) w = bus_run_done i w"

fun auth_progress :: "auth_event \<Rightarrow> AuthWatchdog \<Rightarrow> AuthWatchdog" where
  "auth_progress (AuthTick now eid i res m) w = fst (auth_run_tick now eid i res w m)"
| "auth_progress (AuthDone i) w = auth_run_done i w"

fun telemetry_progress :: "telemetry_event \<Rightarrow> TelemetryWatchdog \<Rightarrow> TelemetryWatchdog" where
  "telemetry_progress (TelemetryTick i res m) w = fst (telemetry_run_tick i res w m)"
| "telemetry_progress (TelemetryDone i) w = telemetry_run_done i w"

interpretation bus_poller: poller bw_cancel "\<lambda>w. length (bw_runs w)" "\<lambda>w i. bu_cancelled (bw_runs w ! i)"
  "\<lambda>_ :: unit. bus_Start" bus_Stop "bus_progress machine update"
proof
  fix t w i
  show "bw_cancel (bus_progress machine update t w) = bw_cancel w"
    "length (bw_runs (bus_progress machine update t w)) = length (bw_runs w)"
    by (cases t; simp add: bus_tick_def bus_run_done_def split: prod.split)+
  show "i < length (bw_runs w) \<Longrightarrow> bu_cancelled (bw_runs (bus_progress machine update t w) ! i) = bu_cancelled (bw_runs w ! i)"
    by (cases t) (auto simp: bus_tick_def bus_run_done_def nth_list_update split: prod.split)
qed (auto simp: bus_Start_def bus_Stop_def cancel_run_nth nth_append Let_def split: option.split)

interpretation auth_poller: poller auw_cancel "\<lambda>w. length (auw_runs w)" "\<lambda>w i. ar_cancelled (auw_runs w ! i)"
  "\<lambda>(sid, vid, user). auth_Start sid vid user" auth_Stop auth_progress
proof
  fix t w i
  show "auw_cancel (auth_progress t w) = auw_cancel w" "length (auw_runs (auth_progress t w)) = length (auw_runs w)"
    by (cases t; simp add: auth_run_tick_def auth_run_done_def Let_def split: prod.split)+
  show "i < length (auw_runs w) \<Longrightarrow> ar_cancelled (auw_runs (auth_progress t w) ! i) = ar_cancelled (auw_runs w ! i)"
    by (cases t) (auto simp: auth_run_tick_def auth_run_done_def nth_list_update Let_def split: prod.split)
qed (auto simp: auth_Start_def auth_Stop_def cancel_run_nth nth_append Let_def split: option.split)

interpretation telemetry_poller: poller tw_cancel "\<lambda>w. length (tw_runs w)" "\<lambda>w i. tr_cancelled (tw_runs w ! i)"
  "\<lambda>(sid, vid). telemetry_Start sid vid" telemetry_Stop telemetry_progress
proof
  fix t w i
  show "tw_cancel (telemetry_progress t w) = tw_cancel w"
    "length (tw_runs (telemetry_progress t w)) = length (tw_runs w)"
    by (cases t; simp add: telemetry_run_tick_def telemetry_run_done_def Let_def split: prod.split)+
  show "i < length (tw_runs w) \<Longrightarrow> tr_cancelled (tw_runs (telemetry_progress t w) ! i) = tr_cancelled (tw_runs w ! i)"
    by (cases t) (auto simp: telemetry_run_tick_def telemetry_run_done_def nth_list_update Let_def split: prod.split)
qed (auto simp: telemetry_Start_def telemetry_Stop_def cancel_run_nth nth_append Let_def split: option.split)

section \<open>Properties\<close>

definition bus_life ::
  "('s \<Rightarrow> vehicle_id \<Rightarrow> Machine) \<Rightarrow> (vehicle_id \<Rightarrow> (Machine \<Rightarrow> Machine) \<Rightarrow> 's \<Rightarrow> 's) \<Rightarrow> int \<Rightarrow>
   (unit, 's bus_event) poller_op list \<Rightarrow> SafetyBusWatchdog" where
  "bus_life machine update threshold es =
     fold (case_poller_op (\<lambda>_. bus_Start) bus_Stop (bus_progress machine update)) es (NewSafetyBusWatchdog threshold)"

definition auth_life :: "int \<Rightarrow> (session_id \<times> vehicle_id \<times> operator_id, auth_event) poller_op list \<Rightarrow> AuthWatchdog" where
  "auth_life threshold es =
     fold (case_poller_op (\<lambda>(sid, vid, user). auth_Start sid vid user) auth_Stop auth_progress) es (NewAuthWatchdog threshold)"

definition telemetry_life ::
  "duration \<Rightarrow> int \<Rightarrow> (session_id \<times> vehicle_id, telemetry_event) poller_op list \<Rightarrow> TelemetryWatchdog" where
  "telemetry_life interval threshold es =
     fold (case_poller_op (\<lambda>(sid, vid). telemetry_Start sid vid) telemetry_Stop telemetry_progress) es
       (NewTelemetryWatchdog interval threshold)"

text \<open>However often the watchdogs that poll a service are started and stopped, and whatever their goroutines do in
  between, each has at most one goroutine that is not cancelled: the one whose cancel function it holds.\<close>

theorem pollers_run_once:
  "(i < length (bw_runs (bus_life machine update n bs)) \<and> \<not> bu_cancelled (bw_runs (bus_life machine update n bs) ! i) \<longleftrightarrow>
      bw_cancel (bus_life machine update n bs) = Some i) \<and>
   (i < length (auw_runs (auth_life n as)) \<and> \<not> ar_cancelled (auw_runs (auth_life n as) ! i) \<longleftrightarrow>
      auw_cancel (auth_life n as) = Some i) \<and>
   (i < length (tw_runs (telemetry_life d n ts)) \<and> \<not> tr_cancelled (tw_runs (telemetry_life d n ts) ! i) \<longleftrightarrow>
      tw_cancel (telemetry_life d n ts) = Some i)"
  unfolding bus_life_def auth_life_def telemetry_life_def
  by (intro conjI bus_poller.one_run auth_poller.one_run telemetry_poller.one_run)
    (simp_all add: NewSafetyBusWatchdog_def NewAuthWatchdog_def NewTelemetryWatchdog_def)

text \<open>The answers run \<open>i\<close> of the bus watchdog got.\<close>

fun bus_answer :: "nat \<Rightarrow> 's bus_event \<Rightarrow> bool list" where
  "bus_answer i (BusTick now resp ids j s) = (if j = i then [ping resp] else [])"
| "bus_answer i (BusDone j) = []"

definition counting :: "nat \<Rightarrow> int \<Rightarrow> bool list \<Rightarrow> SafetyBusWatchdog \<Rightarrow> bool" where
  "counting i n oks w \<longleftrightarrow> i < length (bw_runs w) \<and> bw_threshold w = n \<and>
     bw_runs w ! i = \<lparr>bu_failures = poll_fold n oks, bu_cancelled = False, bu_finished = False\<rparr>"

lemma counting_progress:
  assumes "counting i n oks w"
  shows "counting i n (oks @ bus_answer i e) (bus_progress machine update e w)"
proof (cases e)
  case (BusTick now resp ids j s)
  show ?thesis
  proof (cases "j = i")
    case True
    with assms BusTick show ?thesis
      by (auto simp: counting_def bus_tick_def bus_run_tick_def poll_fold_def split: prod.split)
  next
    case False
    with assms BusTick show ?thesis by (auto simp: counting_def bus_tick_def split: prod.split)
  qed
next
  case (BusDone j)
  with assms show ?thesis by (cases "j = i") (auto simp: counting_def bus_run_done_def)
qed

lemma counting_run:
  "counting i n oks w \<Longrightarrow> counting i n (oks @ concat (map (bus_answer i) es)) (fold (bus_progress machine update) es w)"
proof (induction es arbitrary: oks w)
  case (Cons e es)
  then show ?case using Cons.IH [OF counting_progress [OF Cons.prems, of e]] by simp
qed simp

lemma bus_threshold_step: "bw_threshold (case_poller_op (\<lambda>_. bus_Start) bus_Stop (bus_progress machine update) e w) = bw_threshold w"
proof (cases e)
  case (Progress t)
  then show ?thesis by (cases t) (simp_all add: bus_tick_def bus_run_done_def split: prod.split)
qed (simp_all add: bus_Start_def bus_Stop_def Let_def split: option.split)

lemma bus_life_threshold: "bw_threshold (bus_life machine update n bs) = n"
proof (induction bs rule: rev_induct)
  case (snoc b bs)
  have "bus_life machine update n (bs @ [b]) =
      case_poller_op (\<lambda>_. bus_Start) bus_Stop (bus_progress machine update) b (bus_life machine update n bs)"
    by (simp add: bus_life_def)
  with snoc show ?case by (simp only: bus_threshold_step)
qed (simp add: bus_life_def NewSafetyBusWatchdog_def)

text \<open>The run a start launches counts its own answers only, whatever the runs cancelled before still do: its tick brings
  the vehicles of all sessions into SAFE_MODE exactly if the ping fails and completes another \<open>n\<close> failures in a row.\<close>

theorem bus_watchdog_fires:
  assumes "0 < n" and "w = bus_life machine update (int n) bs" and "i = length (bw_runs w)"
    and "bus_tick machine update now resp ids i (fold (bus_progress machine update) es (bus_Start w)) s = (w', s', eff)"
    and "oks = concat (map (bus_answer i) es)"
  shows "(s', eff) = (if \<not> ping resp \<and> trailing_failures (oks @ [ping resp]) mod n = 0
    then triggerSafeModeFleetWide machine update now ids (s, []) else (s, []))"
proof -
  have "bw_threshold w = int n" using assms(2) by (simp add: bus_life_threshold)
  then have "counting i (int n) [] (bus_Start w)"
    using assms(3) by (simp add: counting_def bus_Start_def cancel_run_nth poll_fold_def Let_def nth_append)
  from counting_run [OF this, of es machine update] show ?thesis
    using assms(4,5) poll_fires_at_multiples [OF assms(1), of "ping resp" oks]
    by (auto simp: counting_def bus_tick_def bus_run_tick_def split: prod.splits if_splits)
qed

end
