(* ===== verification/Session_Manager.thy ===== *)
theory Session_Manager
  imports Effects
begin

text \<open>
  The session manager, the Global Session Authority (\<open>internal/controlserver/session/manager.go\<close>,
  \<open>sfu_publisher.go\<close>). Each method holds the manager's mutex, so it is one atomic function. A loop
  over the map of sessions takes the iteration order as the argument \<open>ks\<close>. \<open>ulid.Generate()\<close> and
  \<open>time.Now()\<close> are arguments; that generated ids are new is the guard of the step that creates a
  session. The sessions map holds pointers that never leave the manager, so updating a session in
  place is an update of the map.
\<close>

section \<open>Data\<close>

datatype OperatorRole = RoleActiveOperator | RoleObserver

fun role_string :: "OperatorRole \<Rightarrow> string" where
  "role_string RoleActiveOperator = ''ACTIVE_OPERATOR''"
| "role_string RoleObserver = ''OBSERVER''"

record Session =
  sess_ID :: session_id
  sess_VehicleID :: vehicle_id
  sess_OperatorID :: operator_id
  sess_OperatorRole :: OperatorRole
  sess_CreatedAt :: instant

record RecoveryCheckpoint =
  cp_SessionID :: session_id
  cp_VehicleID :: vehicle_id
  cp_OperatorID :: operator_id
  cp_LastSystemState :: string
  cp_LastControlState :: string
  cp_SafetyReason :: string
  cp_CheckpointTS :: instant

record Manager =
  sessions :: "session_id \<rightharpoonup> Session"
  vehicleController :: "vehicle_id \<rightharpoonup> session_id"
  checkpoint :: "RecoveryCheckpoint option"
  sfuPublisher :: bool

definition NewManager :: "bool \<Rightarrow> Manager" where
  "NewManager sfu =
     \<lparr>sessions = Map.empty, vehicleController = Map.empty, checkpoint = None, sfuPublisher = sfu\<rparr>"

definition is_active :: "Session \<Rightarrow> bool" where
  "is_active s \<longleftrightarrow> sess_OperatorRole s = RoleActiveOperator"

section \<open>Operations\<close>

definition StartSession ::
  "session_id \<Rightarrow> instant \<Rightarrow> vehicle_id \<Rightarrow> operator_id \<Rightarrow> Manager \<Rightarrow> Manager \<times> Session" where
  "StartSession newID now vid oid m =
     (let (role, ctrl) =
        (case vehicleController m vid of
           None \<Rightarrow> (RoleActiveOperator, vehicleController m)
         | Some ctrlSessID \<Rightarrow>
             (case sessions m ctrlSessID of
                Some _ \<Rightarrow> (RoleObserver, vehicleController m)
              | None \<Rightarrow> (RoleActiveOperator, (vehicleController m)(vid := None))));
        s = \<lparr>sess_ID = newID, sess_VehicleID = vid, sess_OperatorID = oid, sess_OperatorRole = role,
             sess_CreatedAt = now\<rparr>
      in (m\<lparr>sessions := (sessions m)(newID \<mapsto> s),
            vehicleController := (if role = RoleActiveOperator then ctrl(vid \<mapsto> newID) else ctrl)\<rparr>, s))"

definition GetSession :: "Manager \<Rightarrow> session_id \<Rightarrow> Session option" where
  "GetSession m sid = sessions m sid"

definition GetCurrentSession :: "session_id list \<Rightarrow> Manager \<Rightarrow> Session option" where
  "GetCurrentSession ks m = map_option snd (range_find is_active (sessions m) ks)"

definition HasActiveOperatorSession :: "session_id list \<Rightarrow> operator_id \<Rightarrow> Manager \<Rightarrow> bool" where
  "HasActiveOperatorSession ks oid m \<longleftrightarrow>
     range_find (\<lambda>s. sess_OperatorID s = oid \<and> is_active s) (sessions m) ks \<noteq> None"

definition IsVehicleLocked :: "Manager \<Rightarrow> vehicle_id \<Rightarrow> bool" where
  "IsVehicleLocked m vid =
     (case vehicleController m vid of
        None \<Rightarrow> False
      | Some ctrlSessID \<Rightarrow> sessions m ctrlSessID \<noteq> None)"

text \<open>A missing key of \<open>vehicleController\<close> reads as the empty string.\<close>

definition ReleaseSession :: "session_id \<Rightarrow> Manager \<Rightarrow> Manager" where
  "ReleaseSession sid m =
     (case sessions m sid of
        None \<Rightarrow> m
      | Some s \<Rightarrow>
          m\<lparr>vehicleController :=
              (if is_active s \<and>
                  (case vehicleController m (sess_VehicleID s) of None \<Rightarrow> [] | Some c \<Rightarrow> c) = sid
               then (vehicleController m)(sess_VehicleID s := None)
               else vehicleController m),
            sessions := (sessions m)(sid := None)\<rparr>)"

definition UpdateOperator ::
  "session_id list \<Rightarrow> vehicle_id \<Rightarrow> operator_id \<Rightarrow> OperatorRole \<Rightarrow> Manager \<Rightarrow> Manager" where
  "UpdateOperator ks vid oid role m =
     (case range_find (\<lambda>s. sess_VehicleID s = vid \<and> is_active s) (sessions m) ks of
        None \<Rightarrow> m
      | Some (k, s) \<Rightarrow>
          m\<lparr>sessions := (sessions m)(k \<mapsto> s\<lparr>sess_OperatorID := oid, sess_OperatorRole := role\<rparr>)\<rparr>)"

definition EndSession :: "Manager \<Rightarrow> Manager" where
  "EndSession m = m\<lparr>sessions := Map.empty, vehicleController := Map.empty\<rparr>"

definition SaveCheckpoint ::
  "session_id list \<Rightarrow> instant \<Rightarrow> string \<Rightarrow> string \<Rightarrow> string \<Rightarrow> Manager \<Rightarrow> Manager" where
  "SaveCheckpoint ks now sysState ctrlState reason m =
     (case range_find is_active (sessions m) ks of
        None \<Rightarrow> m
      | Some (_, s) \<Rightarrow>
          m\<lparr>checkpoint := Some
             \<lparr>cp_SessionID = sess_ID s, cp_VehicleID = sess_VehicleID s,
              cp_OperatorID = sess_OperatorID s, cp_LastSystemState = sysState,
              cp_LastControlState = ctrlState, cp_SafetyReason = reason, cp_CheckpointTS = now\<rparr>\<rparr>)"

definition LoadCheckpoint :: "Manager \<Rightarrow> RecoveryCheckpoint option" where
  "LoadCheckpoint m = checkpoint m"

definition PushSFUEvent :: "session_id list \<Rightarrow> string \<Rightarrow> Manager \<Rightarrow> effect list" where
  "PushSFUEvent ks eventType m =
     (case range_find is_active (sessions m) ks of
        None \<Rightarrow> []
      | Some (_, s) \<Rightarrow>
          if sfuPublisher m then [PublishSessionEvent eventType (sess_ID s) (sess_OperatorID s)] else [])"

definition ListSessions :: "session_id list \<Rightarrow> Manager \<Rightarrow> Session list" where
  "ListSessions ks m = range_values (sessions m) ks"

definition GetSessionByVehicle :: "Manager \<Rightarrow> vehicle_id \<Rightarrow> Session option" where
  "GetSessionByVehicle m vid =
     (case vehicleController m vid of None \<Rightarrow> None | Some sessID \<Rightarrow> sessions m sessID)"

definition ActiveVehicleIDs :: "session_id list \<Rightarrow> Manager \<Rightarrow> vehicle_id list" where
  "ActiveVehicleIDs ks m = dedup_by [] (map sess_VehicleID (range_values (sessions m) ks))"

definition CreateSession ::
  "session_id \<Rightarrow> instant \<Rightarrow> vehicle_id \<Rightarrow> operator_id \<Rightarrow> OperatorRole \<Rightarrow> Manager \<Rightarrow> Manager \<times> Session" where
  "CreateSession newID now vid oid role m =
     (let s = \<lparr>sess_ID = newID, sess_VehicleID = vid, sess_OperatorID = oid, sess_OperatorRole = role,
               sess_CreatedAt = now\<rparr>
      in (m\<lparr>sessions := (sessions m)(newID \<mapsto> s),
            vehicleController :=
              (if role = RoleActiveOperator then (vehicleController m)(vid \<mapsto> newID)
               else vehicleController m)\<rparr>, s))"

lemmas manager_op_defs = StartSession_def ReleaseSession_def UpdateOperator_def EndSession_def
  SaveCheckpoint_def

section \<open>Invariant\<close>

text \<open>Every session is filed under its id, and the lock table lists exactly the live ACTIVE_OPERATOR
  sessions under their vehicles.\<close>

definition gsa_inv :: "Manager \<Rightarrow> bool" where
  "gsa_inv m \<longleftrightarrow>
     (\<forall>k s. sessions m k = Some s \<longrightarrow> sess_ID s = k) \<and>
     (\<forall>v k. vehicleController m v = Some k \<longleftrightarrow>
        (\<exists>s. sessions m k = Some s \<and> sess_VehicleID s = v \<and> is_active s))"

lemma gsa_inv_ID: "gsa_inv m \<Longrightarrow> sessions m k = Some s \<Longrightarrow> sess_ID s = k"
  by (simp add: gsa_inv_def)

lemma gsa_inv_controller:
  "gsa_inv m \<Longrightarrow> vehicleController m v = Some k \<longleftrightarrow>
     (\<exists>s. sessions m k = Some s \<and> sess_VehicleID s = v \<and> is_active s)"
  by (simp add: gsa_inv_def)

lemma gsa_inv_active:
  "gsa_inv m \<Longrightarrow> sessions m k = Some s \<Longrightarrow> is_active s \<Longrightarrow>
   vehicleController m (sess_VehicleID s) = Some k"
  by (auto simp: gsa_inv_def)

lemma gsa_inv_unlocked:
  "gsa_inv m \<Longrightarrow> vehicleController m v = None \<longleftrightarrow>
     (\<forall>k s. sessions m k = Some s \<longrightarrow> sess_VehicleID s = v \<longrightarrow> \<not> is_active s)"
  by (metis gsa_inv_controller not_None_eq)

lemma gsa_invI:
  assumes "\<And>k s. sessions m k = Some s \<Longrightarrow> sess_ID s = k"
    and "\<And>k s. sessions m k = Some s \<Longrightarrow> is_active s \<Longrightarrow>
      vehicleController m (sess_VehicleID s) = Some k"
    and "\<And>v k. vehicleController m v = Some k \<Longrightarrow>
      \<exists>s. sessions m k = Some s \<and> sess_VehicleID s = v \<and> is_active s"
  shows "gsa_inv m"
  using assms unfolding gsa_inv_def by blast

lemma gsa_inv_unique:
  "gsa_inv m \<Longrightarrow> sessions m k = Some s \<Longrightarrow> is_active s \<Longrightarrow> sessions m k' = Some s' \<Longrightarrow> is_active s' \<Longrightarrow>
   sess_VehicleID s = sess_VehicleID s' \<Longrightarrow> k = k'"
  by (metis gsa_inv_active option.inject)

lemma gsa_inv_new [simp]: "gsa_inv (NewManager sfu)"
  by (simp add: gsa_inv_def NewManager_def)

lemma StartSession_eq:
  assumes "gsa_inv m"
  shows "StartSession k now v oid m =
    (let s = \<lparr>sess_ID = k, sess_VehicleID = v, sess_OperatorID = oid,
              sess_OperatorRole = (if vehicleController m v = None then RoleActiveOperator else RoleObserver),
              sess_CreatedAt = now\<rparr>
     in (m\<lparr>sessions := (sessions m)(k \<mapsto> s),
           vehicleController := (if vehicleController m v = None then (vehicleController m)(v \<mapsto> k)
                                 else vehicleController m)\<rparr>, s))"
  using assms gsa_inv_controller [of m v]
  by (auto simp: StartSession_def Let_def split: option.splits)

lemma gsa_inv_StartSession [intro]:
  assumes "gsa_inv m" and "sessions m k = None"
  shows "gsa_inv (fst (StartSession k now v oid m))"
  using assms gsa_inv_unlocked [OF assms(1), of v]
  by (auto simp: StartSession_eq [OF assms(1)] gsa_inv_def Let_def is_active_def)

lemma ReleaseSession_eq:
  assumes "gsa_inv m"
  shows "ReleaseSession k m =
    (case sessions m k of
       None \<Rightarrow> m
     | Some s \<Rightarrow> m\<lparr>vehicleController := (if is_active s then (vehicleController m)(sess_VehicleID s := None)
                                      else vehicleController m),
                 sessions := (sessions m)(k := None)\<rparr>)"
  using gsa_inv_active [OF assms] by (auto simp: ReleaseSession_def split: option.splits)

lemma gsa_inv_ReleaseSession [intro]:
  assumes "gsa_inv m"
  shows "gsa_inv (ReleaseSession k m)"
proof (cases "sessions m k")
  case None
  with assms show ?thesis by (simp add: ReleaseSession_eq)
next
  case (Some s)
  then have "ReleaseSession k m = m\<lparr>vehicleController := (if is_active s then
      (vehicleController m)(sess_VehicleID s := None) else vehicleController m),
      sessions := (sessions m)(k := None)\<rparr>" by (simp add: ReleaseSession_eq [OF assms])
  moreover have "gsa_inv \<dots>"
  proof (rule gsa_invI, goal_cases)
    case (1 k' s')
    then show ?case using gsa_inv_ID [OF assms] by (simp split: if_splits)
  next
    case (2 k' s')
    then show ?case
      using gsa_inv_unique [OF assms Some, of k' s'] gsa_inv_active [OF assms, of k' s']
      by (auto split: if_splits)
  next
    case (3 v k')
    then show ?case
      using gsa_inv_controller [OF assms, of v k'] gsa_inv_active [OF assms Some] Some
      by (auto split: if_splits)
  qed
  ultimately show ?thesis by simp
qed

text \<open>The loop of \<open>UpdateOperator\<close> finds the controller of the vehicle in every iteration order.\<close>

lemma find_controller:
  assumes "gsa_inv m" and "iter_order (sessions m) ks"
  shows "range_find (\<lambda>s. sess_VehicleID s = v \<and> is_active s) (sessions m) ks =
    (case vehicleController m v of None \<Rightarrow> None | Some k \<Rightarrow> Some (k, the (sessions m k)))"
proof (cases "vehicleController m v")
  case None
  then show ?thesis
    using gsa_inv_unlocked [OF assms(1), of v] range_find_None_rule [OF assms(2)] by auto
next
  case (Some k)
  then obtain s where s: "sessions m k = Some s" "sess_VehicleID s = v" "is_active s"
    using assms gsa_inv_controller by blast
  have "range_find (\<lambda>s. sess_VehicleID s = v \<and> is_active s) (sessions m) ks = Some (k, s)"
  proof (rule range_find_unique [OF assms(2) s(1)])
    fix k' s' assume "sessions m k' = Some s'" and "sess_VehicleID s' = v \<and> is_active s'"
    with gsa_inv_active [OF assms(1)] Some show "k' = k" by auto
  qed (simp add: s)
  with Some s show ?thesis by simp
qed

lemma UpdateOperator_eq:
  assumes "gsa_inv m" and "iter_order (sessions m) ks"
  shows "UpdateOperator ks v oid role m =
    (case vehicleController m v of
       None \<Rightarrow> m
     | Some k \<Rightarrow> m\<lparr>sessions := (sessions m)(k \<mapsto>
         (the (sessions m k))\<lparr>sess_OperatorID := oid, sess_OperatorRole := role\<rparr>)\<rparr>)"
  by (simp add: UpdateOperator_def find_controller [OF assms] split: option.split)

lemma gsa_inv_UpdateOperator [intro]:
  assumes "gsa_inv m" and "iter_order (sessions m) ks"
  shows "gsa_inv (UpdateOperator ks v oid RoleActiveOperator m)"
proof (cases "vehicleController m v")
  case None
  with assms show ?thesis by (simp add: UpdateOperator_eq)
next
  case (Some k)
  then obtain s where s: "sessions m k = Some s" "sess_VehicleID s = v" "is_active s"
    using assms gsa_inv_controller by blast
  let ?s = "s\<lparr>sess_OperatorID := oid, sess_OperatorRole := RoleActiveOperator\<rparr>"
  have "sess_ID ?s = k" "sess_VehicleID ?s = v" "is_active ?s"
    using s gsa_inv_ID [OF assms(1) s(1)] by (simp_all add: is_active_def)
  moreover have "UpdateOperator ks v oid RoleActiveOperator m = m\<lparr>sessions := (sessions m)(k \<mapsto> ?s)\<rparr>"
    using Some s(1) by (simp add: UpdateOperator_eq [OF assms])
  moreover have "gsa_inv \<dots>"
  proof (rule gsa_invI, goal_cases)
    case (1 k' s')
    then show ?case using gsa_inv_ID [OF assms(1)] s by (auto split: if_splits)
  next
    case (2 k' s')
    then show ?case using gsa_inv_active [OF assms(1), of k' s'] Some s by (auto split: if_splits)
  next
    case (3 v' k')
    then show ?case
      using gsa_inv_controller [OF assms(1), of v' k'] s by (auto simp: is_active_def)
  qed
  ultimately show ?thesis by simp
qed

lemma gsa_inv_EndSession [intro]: "gsa_inv (EndSession m)"
  by (simp add: gsa_inv_def EndSession_def)

lemma SaveCheckpoint_frame [simp]:
  "sessions (SaveCheckpoint ks now a b c m) = sessions m"
  "vehicleController (SaveCheckpoint ks now a b c m) = vehicleController m"
  "sfuPublisher (SaveCheckpoint ks now a b c m) = sfuPublisher m"
  by (auto simp: SaveCheckpoint_def split: option.splits)

lemma gsa_inv_SaveCheckpoint [intro]: "gsa_inv m \<Longrightarrow> gsa_inv (SaveCheckpoint ks now a b c m)"
  by (simp add: gsa_inv_def)

text \<open>The calls the control server makes.\<close>

inductive manager_step :: "Manager \<Rightarrow> Manager \<Rightarrow> bool" where
  start: "sessions m k = None \<Longrightarrow> manager_step m (fst (StartSession k now v oid m))"
| release: "manager_step m (ReleaseSession k m)"
| update: "iter_order (sessions m) ks \<Longrightarrow>
    manager_step m (UpdateOperator ks v oid RoleActiveOperator m)"
| end_all: "manager_step m (EndSession m)"
| save: "manager_step m (SaveCheckpoint ks now a b c m)"

interpretation session_authority: transition_system "\<lambda>m. \<exists>sfu. m = NewManager sfu" manager_step gsa_inv
  by unfold_locales (auto elim!: manager_step.cases)

lemma first_session_reachable:
  "manager_step\<^sup>*\<^sup>* (NewManager sfu) (fst (StartSession k now v oid (NewManager sfu)))"
  by (rule r_into_rtranclp, rule manager_step.start) (simp add: NewManager_def)

section \<open>One lock per vehicle\<close>

text \<open>The abstract service: per vehicle at most one holder (session and operator), and the set of live
  sessions.\<close>

record locks =
  holder :: "vehicle_id \<rightharpoonup> session_id \<times> operator_id"
  live :: "session_id set"

datatype gsa_event =
    GStart session_id instant vehicle_id operator_id
  | GRelease session_id
  | GTransfer "session_id list" vehicle_id operator_id
  | GEnd

text \<open>A start with an id that is in use and a transfer with an order that is not an iteration order do
  not occur; they leave both sides unchanged.\<close>

fun gsa_apply :: "gsa_event \<Rightarrow> Manager \<Rightarrow> Manager" where
  "gsa_apply (GStart k now v oid) m =
     (if sessions m k = None then fst (StartSession k now v oid m) else m)"
| "gsa_apply (GRelease k) m = ReleaseSession k m"
| "gsa_apply (GTransfer ks v oid) m =
     (if iter_order (sessions m) ks then UpdateOperator ks v oid RoleActiveOperator m else m)"
| "gsa_apply GEnd m = EndSession m"

fun lock_apply :: "gsa_event \<Rightarrow> locks \<Rightarrow> locks" where
  "lock_apply (GStart k now v oid) l =
     (if k \<in> live l then l
      else l\<lparr>live := insert k (live l),
             holder := (if holder l v = None then (holder l)(v \<mapsto> (k, oid)) else holder l)\<rparr>)"
| "lock_apply (GRelease k) l =
     l\<lparr>live := live l - {k},
       holder := (\<lambda>v. case holder l v of None \<Rightarrow> None | Some (k', oid) \<Rightarrow> if k' = k then None else Some (k', oid))\<rparr>"
| "lock_apply (GTransfer ks v oid) l =
     (if distinct ks \<and> set ks = live l then
        case holder l v of None \<Rightarrow> l | Some (k, _) \<Rightarrow> l\<lparr>holder := (holder l)(v \<mapsto> (k, oid))\<rparr>
      else l)"
| "lock_apply GEnd l = \<lparr>holder = Map.empty, live = {}\<rparr>"

definition locks_of :: "Manager \<Rightarrow> locks" where
  "locks_of m =
     \<lparr>holder = (\<lambda>v. case vehicleController m v of
         None \<Rightarrow> None
       | Some k \<Rightarrow> map_option (\<lambda>s. (k, sess_OperatorID s)) (sessions m k)),
      live = dom (sessions m)\<rparr>"

lemma controller_session:
  assumes "gsa_inv m" and "vehicleController m v = Some k"
  obtains s where "sessions m k = Some s" and "sess_VehicleID s = v" and "is_active s"
  using assms gsa_inv_controller by blast

lemma holder_eq:
  "gsa_inv m \<Longrightarrow> holder (locks_of m) v = None \<longleftrightarrow> vehicleController m v = None"
  by (auto simp: locks_of_def split: option.splits elim: controller_session)

lemma holder_SomeD:
  "holder (locks_of m) v = Some (k, oid) \<Longrightarrow>
   vehicleController m v = Some k \<and> map_option sess_OperatorID (sessions m k) = Some oid"
  by (auto simp: locks_of_def split: option.splits)

lemma locks_start:
  assumes "gsa_inv m"
  shows "locks_of (gsa_apply (GStart k now v oid) m) = lock_apply (GStart k now v oid) (locks_of m)"
proof (cases "sessions m k")
  case None
  then have "vehicleController m v' \<noteq> Some k" for v' using assms gsa_inv_controller by auto
  with None show ?thesis
    using holder_eq [OF assms, of v]
    by (auto simp: StartSession_eq [OF assms] Let_def locks_of_def fun_eq_iff split: option.splits)
next
  case (Some s)
  then show ?thesis by (simp add: locks_of_def domI)
qed

lemma locks_release:
  assumes "gsa_inv m"
  shows "locks_of (gsa_apply (GRelease k) m) = lock_apply (GRelease k) (locks_of m)"
proof (rule locks.equality)
  show "holder (locks_of (gsa_apply (GRelease k) m)) = holder (lock_apply (GRelease k) (locks_of m))"
  proof (rule ext)
    fix v
    show "holder (locks_of (gsa_apply (GRelease k) m)) v = holder (lock_apply (GRelease k) (locks_of m)) v"
    proof (cases "vehicleController m v")
      case None
      then show ?thesis by (simp add: ReleaseSession_eq [OF assms] locks_of_def split: option.split)
    next
      case c: (Some c)
      then obtain t where t: "sessions m c = Some t" "sess_VehicleID t = v" "is_active t"
        by (rule controller_session [OF assms])
      have "\<not> (is_active s \<and> sess_VehicleID s = v)" if "sessions m k = Some s" "c \<noteq> k" for s
        using gsa_inv_unique [OF assms t(1,3) that(1)] that(2) t(2) by auto
      with c t show ?thesis
        by (cases "c = k")
          (auto simp: ReleaseSession_eq [OF assms] locks_of_def split: option.split)
    qed
  qed
  show "live (locks_of (gsa_apply (GRelease k) m)) = live (lock_apply (GRelease k) (locks_of m))"
    by (auto simp: ReleaseSession_def locks_of_def split: option.split)
qed simp

lemma locks_transfer:
  assumes "gsa_inv m"
  shows "locks_of (gsa_apply (GTransfer ks v oid) m) = lock_apply (GTransfer ks v oid) (locks_of m)"
proof (cases "iter_order (sessions m) ks")
  case True
  then have ks: "distinct ks \<and> set ks = live (locks_of m)" by (simp add: iter_order_def locks_of_def)
  show ?thesis
  proof (cases "vehicleController m v")
    case None
    moreover from this have "holder (locks_of m) v = None" using holder_eq [OF assms] by simp
    ultimately show ?thesis using True ks by (simp add: UpdateOperator_eq [OF assms])
  next
    case (Some k)
    then obtain s where s: "sessions m k = Some s" by (rule controller_session [OF assms])
    have other: "vehicleController m v' = Some k \<longleftrightarrow> v' = v" for v'
      using s Some gsa_inv_controller [OF assms] by auto
    have "holder (locks_of m) v = Some (k, sess_OperatorID s)" using Some s by (simp add: locks_of_def)
    with True ks Some s other show ?thesis
      by (auto simp: UpdateOperator_eq [OF assms True] locks_of_def fun_eq_iff split: option.splits)
  qed
next
  case False
  then show ?thesis by (auto simp: iter_order_def locks_of_def)
qed

interpretation vehicle_locks: functional_refinement gsa_inv locks_of gsa_apply lock_apply
proof
  fix m e
  assume inv: "gsa_inv m"
  show "gsa_inv (gsa_apply e m)"
    using inv by (cases e) auto
  show "locks_of (gsa_apply e m) = lock_apply e (locks_of m)"
  proof (cases e)
    case GEnd
    then show ?thesis by (simp add: locks_of_def EndSession_def)
  qed (use inv in \<open>simp_all only: locks_start locks_release locks_transfer\<close>)
qed

section \<open>Properties\<close>

text \<open>C18: in every reachable state of the session manager a vehicle has at most one ACTIVE_OPERATOR
  session; the vehicle counts as locked exactly if there is one, and the lookup by vehicle returns it.\<close>

theorem one_active_operator_per_vehicle:
  assumes "manager_step\<^sup>*\<^sup>* (NewManager sfu) m"
  shows "(sessions m k = Some s \<and> is_active s \<and> sessions m k' = Some s' \<and> is_active s' \<and>
            sess_VehicleID s = sess_VehicleID s' \<longrightarrow> k = k') \<and>
         (IsVehicleLocked m v \<longleftrightarrow> (\<exists>k s. sessions m k = Some s \<and> sess_VehicleID s = v \<and> is_active s)) \<and>
         (GetSessionByVehicle m v = Some s \<longleftrightarrow>
            sessions m (sess_ID s) = Some s \<and> sess_VehicleID s = v \<and> is_active s)"
proof -
  have inv: "gsa_inv m" using session_authority.reachable_inv assms by blast
  have "GetSessionByVehicle m v = Some s \<longleftrightarrow>
      sessions m (sess_ID s) = Some s \<and> sess_VehicleID s = v \<and> is_active s"
  proof
    assume "GetSessionByVehicle m v = Some s"
    then obtain k where "vehicleController m v = Some k" "sessions m k = Some s"
      by (auto simp: GetSessionByVehicle_def split: option.splits)
    then show "sessions m (sess_ID s) = Some s \<and> sess_VehicleID s = v \<and> is_active s"
      using gsa_inv_controller [OF inv, of v k] gsa_inv_ID [OF inv] by auto
  next
    assume "sessions m (sess_ID s) = Some s \<and> sess_VehicleID s = v \<and> is_active s"
    then show "GetSessionByVehicle m v = Some s"
      using gsa_inv_active [OF inv] by (auto simp: GetSessionByVehicle_def)
  qed
  moreover have "IsVehicleLocked m v \<longleftrightarrow> (\<exists>k s. sessions m k = Some s \<and> sess_VehicleID s = v \<and> is_active s)"
    using gsa_inv_controller [OF inv, of v] gsa_inv_active [OF inv]
    by (auto simp: IsVehicleLocked_def split: option.splits)
  ultimately show ?thesis using gsa_inv_unique [OF inv] by blast
qed

theorem one_active_operator_per_vehicle_witness:
  "\<exists>m. manager_step\<^sup>*\<^sup>* (NewManager True) m \<and> IsVehicleLocked m ''v1'' \<and>
     map_option sess_OperatorID (GetSessionByVehicle m ''v1'') = Some ''alice''"
proof -
  let ?m = "fst (StartSession ''s1'' 0 ''v1'' ''alice'' (NewManager True))"
  let ?s = "snd (StartSession ''s1'' 0 ''v1'' ''alice'' (NewManager True))"
  have r: "manager_step\<^sup>*\<^sup>* (NewManager True) ?m" by (rule first_session_reachable)
  have "GetSessionByVehicle ?m ''v1'' = Some ?s" "IsVehicleLocked ?m ''v1''"
    using one_active_operator_per_vehicle [OF r, of "''s1''" ?s "''s1''" ?s "''v1''"]
    by (auto simp: StartSession_def NewManager_def is_active_def Let_def)
  then show ?thesis
    using r by (intro exI [of _ ?m]) (simp add: StartSession_def NewManager_def Let_def)
qed

text \<open>C19: the session manager implements one lock per vehicle. After any sequence of session starts,
  releases, handovers and resets, its holders and live sessions are those of the abstract lock service:
  the first operator on a free vehicle becomes its controller, later ones wait as observers, a release
  of the controlling session frees exactly its vehicle, and a handover changes only the operator.\<close>

theorem sessions_refine_locks:
  "locks_of (fold gsa_apply es (NewManager sfu)) = fold lock_apply es \<lparr>holder = Map.empty, live = {}\<rparr>"
proof -
  have "locks_of (NewManager sfu) = \<lparr>holder = Map.empty, live = {}\<rparr>"
    by (simp add: locks_of_def NewManager_def)
  then show ?thesis using vehicle_locks.abs_run [OF gsa_inv_new] by simp
qed

text \<open>In every reachable state, starting a session with a new id gives the ACTIVE_OPERATOR role
  exactly if the vehicle was not locked; the session can be read back, the vehicle is locked
  afterwards, and the other sessions and the controllers of the other vehicles are unchanged.\<close>

theorem start_session_role:
  assumes "manager_step\<^sup>*\<^sup>* (NewManager sfu) m" and "sessions m k = None"
    and "StartSession k now v oid m = (m', s)"
  shows "(is_active s \<longleftrightarrow> \<not> IsVehicleLocked m v) \<and> GetSession m' k = Some s \<and>
    sess_VehicleID s = v \<and> sess_OperatorID s = oid \<and> IsVehicleLocked m' v \<and>
    (k' \<noteq> k \<longrightarrow> GetSession m' k' = GetSession m k') \<and>
    (v' \<noteq> v \<longrightarrow> GetSessionByVehicle m' v' = GetSessionByVehicle m v')"
proof -
  have inv: "gsa_inv m" using session_authority.reachable_inv assms(1) by blast
  have locked: "IsVehicleLocked m v \<longleftrightarrow> vehicleController m v \<noteq> None"
    by (auto simp: IsVehicleLocked_def split: option.splits elim: controller_session [OF inv])
  have free: "vehicleController m v' \<noteq> Some k" for v'
    using assms(2) gsa_inv_controller [OF inv] by auto
  have "IsVehicleLocked m' v"
  proof (cases "vehicleController m v")
    case None
    then show ?thesis
      using assms(3) by (auto simp: StartSession_eq [OF inv] Let_def IsVehicleLocked_def)
  next
    case (Some c)
    then obtain t where "sessions m c = Some t" by (rule controller_session [OF inv])
    with Some assms(3) show ?thesis
      by (auto simp: StartSession_eq [OF inv] Let_def IsVehicleLocked_def)
  qed
  moreover have "v' \<noteq> v \<longrightarrow> GetSessionByVehicle m' v' = GetSessionByVehicle m v'"
    using assms(3) free [of v']
    by (cases "vehicleController m v")
      (auto simp: StartSession_eq [OF inv] Let_def GetSessionByVehicle_def split: option.split)
  ultimately show ?thesis
    using assms(3) locked
    by (auto simp: StartSession_eq [OF inv] Let_def GetSession_def is_active_def)
qed

theorem start_session_role_witness:
  "\<exists>m' s. StartSession ''s1'' 0 ''v1'' ''alice'' (NewManager True) = (m', s) \<and> is_active s \<and>
     IsVehicleLocked m' ''v1''"
proof -
  let ?m = "NewManager True"
  obtain m' s where r: "StartSession ''s1'' 0 ''v1'' ''alice'' ?m = (m', s)"
    by (cases "StartSession ''s1'' 0 ''v1'' ''alice'' ?m")
  have "manager_step\<^sup>*\<^sup>* ?m ?m" "sessions ?m ''s1'' = None" by (simp_all add: NewManager_def)
  from start_session_role [OF this r] r show ?thesis
    by (simp add: IsVehicleLocked_def NewManager_def)
qed

text \<open>In whatever order the runtime walks the sessions, a handover update changes exactly the
  ACTIVE_OPERATOR session of the given vehicle, if there is one, and keeps its id and role, and the
  vehicles listed for the fleet-wide fan-out are the vehicles with a session, each once.\<close>

theorem session_loops_order_independent:
  assumes "manager_step\<^sup>*\<^sup>* (NewManager sfu) m" and "iter_order (sessions m) ks"
  shows "sessions (UpdateOperator ks v oid RoleActiveOperator m) k =
      map_option (\<lambda>s. if sess_VehicleID s = v \<and> is_active s then s\<lparr>sess_OperatorID := oid\<rparr> else s)
        (sessions m k) \<and>
    distinct (ActiveVehicleIDs ks m) \<and>
    set (ActiveVehicleIDs ks m) = sess_VehicleID ` ran (sessions m)"
proof -
  have inv: "gsa_inv m" using session_authority.reachable_inv assms(1) by blast
  have "sessions (UpdateOperator ks v oid RoleActiveOperator m) k =
      map_option (\<lambda>s. if sess_VehicleID s = v \<and> is_active s then s\<lparr>sess_OperatorID := oid\<rparr> else s) (sessions m k)"
  proof (cases "vehicleController m v")
    case None
    then show ?thesis
      using gsa_inv_unlocked [OF inv, of v]
      by (cases "sessions m k") (auto simp: UpdateOperator_eq [OF inv assms(2)])
  next
    case (Some c)
    then obtain t where t: "sessions m c = Some t" "sess_VehicleID t = v" "is_active t"
      by (rule controller_session [OF inv])
    then show ?thesis
      using Some gsa_inv_unique [OF inv t(1,3), of k]
      by (cases "sessions m k") (auto simp: UpdateOperator_eq [OF inv assms(2)] is_active_def)
  qed
  then show ?thesis
    by (simp add: ActiveVehicleIDs_def distinct_dedup_by set_dedup_by iter_order_values [OF assms(2)])
qed

theorem session_loops_order_independent_witness:
  "set (ActiveVehicleIDs [''s1''] (fst (StartSession ''s1'' 0 ''v1'' ''alice'' (NewManager True)))) = {''v1''}"
proof -
  let ?m = "fst (StartSession ''s1'' 0 ''v1'' ''alice'' (NewManager True))"
  let ?s = "snd (StartSession ''s1'' 0 ''v1'' ''alice'' (NewManager True))"
  have m: "sessions ?m = [''s1'' \<mapsto> ?s]" "sess_VehicleID ?s = ''v1''"
    by (simp_all add: NewManager_def StartSession_def Let_def)
  have o: "iter_order (sessions ?m) [''s1'']" unfolding m(1) by (simp add: iter_order_def)
  have "set (ActiveVehicleIDs [''s1''] ?m) = sess_VehicleID ` ran (sessions ?m)"
    using session_loops_order_independent [OF first_session_reachable o] by blast
  also have "\<dots> = {''v1''}" unfolding m(1) by (simp add: ran_map_upd m(2))
  finally show ?thesis .
qed

text \<open>The recovery checkpoint and the SFU notification take no vehicle. With controllers on two
  vehicles there is an iteration order in which the checkpoint saved when the first one disconnects,
  and the SAFE_MODE event sent to the SFU, name the session of the second.\<close>

theorem checkpoint_misattributed:
  assumes "sessions m k = Some s" and "is_active s" and "finite (dom (sessions m))"
  shows "\<exists>ks. iter_order (sessions m) ks \<and>
    map_option cp_SessionID (checkpoint (SaveCheckpoint ks now sys ctrl reason m)) = Some (sess_ID s) \<and>
    (sfuPublisher m \<longrightarrow>
       PushSFUEvent ks ev m = [PublishSessionEvent ev (sess_ID s) (sess_OperatorID s)])"
proof -
  obtain ks where "iter_order (sessions m) ks" "range_find is_active (sessions m) ks = Some (k, s)"
    by (rule chosen_first [OF assms(1,3), of is_active, OF assms(2)])
  then show ?thesis by (intro exI [of _ ks]) (simp add: SaveCheckpoint_def PushSFUEvent_def)
qed

theorem checkpoint_misattributed_witness:
  "\<exists>ks. map_option cp_VehicleID (checkpoint (SaveCheckpoint ks 0 [] [] ''WS_DISCONNECT''
     (fst (StartSession ''s2'' 0 ''v2'' ''bob''
       (fst (StartSession ''s1'' 0 ''v1'' ''alice'' (NewManager True))))))) = Some ''v2''"
proof -
  let ?m = "fst (StartSession ''s2'' 0 ''v2'' ''bob''
       (fst (StartSession ''s1'' 0 ''v1'' ''alice'' (NewManager True))))"
  let ?s = "\<lparr>sess_ID = ''s2'', sess_VehicleID = ''v2'', sess_OperatorID = ''bob'',
    sess_OperatorRole = RoleActiveOperator, sess_CreatedAt = 0\<rparr>"
  have "sessions ?m ''s2'' = Some ?s" "is_active ?s" "finite (dom (sessions ?m))"
    by (simp_all add: StartSession_def NewManager_def Let_def is_active_def)
  from checkpoint_misattributed [OF this, of 0 "[]" "[]" "''WS_DISCONNECT''" "[]"] obtain ks where
    ks: "map_option cp_SessionID (checkpoint (SaveCheckpoint ks 0 [] [] ''WS_DISCONNECT'' ?m)) = Some ''s2''"
    by auto
  then obtain k s where "range_find is_active (sessions ?m) ks = Some (k, s)"
    by (auto simp: SaveCheckpoint_def StartSession_def NewManager_def Let_def split: option.splits)
  with ks range_find_SomeD [OF this] show ?thesis
    by (intro exI [of _ ks])
      (auto simp: SaveCheckpoint_def StartSession_def NewManager_def Let_def split: if_splits)
qed

end
