(* ===== verification/Vehicle_Context.thy ===== *)
theory Vehicle_Context
  imports Watchdogs Poller_Lifecycle Session_Manager
begin

text \<open>
  The per-vehicle contexts (\<open>internal/controlserver/vehiclecontext/registry.go\<close>): each vehicle id has
  one state machine and its own watchdogs, created on first access and kept for ever. In the code the
  watchdogs hold a pointer to the machine of their context; here the machine is stored once, in the
  context, and handed to the watchdog's callbacks. Because a context is never removed or replaced, the
  vehicle id stands for the pointer. The safety bus watchdog of \<open>safety/bus_watchdog.go\<close>, which works
  on all contexts, is put on top.
\<close>

section \<open>Contexts\<close>

record VehicleContext =
  vc_SM :: Machine
  vc_Deadman :: DeadmanWatchdog
  vc_ACKTimeoutWatcher :: ACKTimeoutWatcher
  vc_VehicleACKWatchdog :: VehicleACKWatchdog
  vc_AuthWatchdog :: "AuthWatchdog option"
  vc_TelemetryWatchdog :: "TelemetryWatchdog option"

record Registry =
  contexts :: "vehicle_id \<rightharpoonup> VehicleContext"
  deadmanTimeout :: duration
  ackTimeout :: duration
  vehicleACKTimeout :: duration
  authThreshold :: int
  telemetryInterval :: duration
  telemetryThreshold :: int
  reg_auditWriter :: audit_writer
  userChecker :: bool
  telemetryChecker :: bool

definition NewRegistry :: "duration \<Rightarrow> duration \<Rightarrow> duration \<Rightarrow> Registry" where
  "NewRegistry dTimeout aTimeout vTimeout =
     \<lparr>contexts = Map.empty, deadmanTimeout = dTimeout, ackTimeout = aTimeout,
      vehicleACKTimeout = vTimeout, authThreshold = DefaultAuthFailThreshold,
      telemetryInterval = DefaultTelemetryCheckInterval,
      telemetryThreshold = DefaultTelemetryFailThreshold, reg_auditWriter = None,
      userChecker = False, telemetryChecker = False\<rparr>"

definition registry_WithAuditWriter :: "audit_writer \<Rightarrow> Registry \<Rightarrow> Registry" where
  "registry_WithAuditWriter aw r = r\<lparr>reg_auditWriter := aw\<rparr>"

definition WithUserChecker :: "Registry \<Rightarrow> Registry" where
  "WithUserChecker r = r\<lparr>userChecker := True\<rparr>"

definition WithTelemetryChecker :: "Registry \<Rightarrow> Registry" where
  "WithTelemetryChecker r = r\<lparr>telemetryChecker := True\<rparr>"

text \<open>The context that \<open>Get\<close> makes on first access.\<close>

definition new_context :: "Registry \<Rightarrow> VehicleContext" where
  "new_context r =
     \<lparr>vc_SM = newMachine,
      vc_Deadman = deadman_WithAuditWriter (reg_auditWriter r) (NewDeadmanWatchdog (deadmanTimeout r)),
      vc_ACKTimeoutWatcher =
        ack_WithAuditWriter (reg_auditWriter r) (NewACKTimeoutWatcher (ackTimeout r)),
      vc_VehicleACKWatchdog =
        vehicle_ack_WithAuditWriter (reg_auditWriter r) (NewVehicleACKWatchdog (vehicleACKTimeout r)),
      vc_AuthWatchdog =
        (if userChecker r
         then Some (auth_WithAuditWriter (reg_auditWriter r) (NewAuthWatchdog (authThreshold r)))
         else None),
      vc_TelemetryWatchdog =
        (if telemetryChecker r
         then Some (NewTelemetryWatchdog (telemetryInterval r) (telemetryThreshold r)) else None)\<rparr>"

definition registry_Get :: "vehicle_id \<Rightarrow> Registry \<Rightarrow> Registry \<times> VehicleContext" where
  "registry_Get vid r =
     (case contexts r vid of
        Some ctx \<Rightarrow> (r, ctx)
      | None \<Rightarrow> (r\<lparr>contexts := (contexts r)(vid \<mapsto> new_context r)\<rparr>, new_context r))"

text \<open>Reading through the pointer that \<open>Get\<close> returns, and calling a method through it.\<close>

definition ctx :: "Registry \<Rightarrow> vehicle_id \<Rightarrow> VehicleContext" where
  "ctx r vid = snd (registry_Get vid r)"

definition with_ctx :: "vehicle_id \<Rightarrow> (VehicleContext \<Rightarrow> VehicleContext) \<Rightarrow> Registry \<Rightarrow> Registry" where
  "with_ctx vid f r =
     (let (r', c) = registry_Get vid r in r'\<lparr>contexts := (contexts r')(vid \<mapsto> f c)\<rparr>)"

definition StateMachine :: "Registry \<Rightarrow> vehicle_id \<Rightarrow> Machine" where
  "StateMachine r vid = vc_SM (ctx r vid)"

definition with_SM :: "vehicle_id \<Rightarrow> (Machine \<Rightarrow> Machine) \<Rightarrow> Registry \<Rightarrow> Registry" where
  "with_SM vid f = with_ctx vid (\<lambda>c. c\<lparr>vc_SM := f (vc_SM c)\<rparr>)"

section \<open>Laws of the registry\<close>

lemma ctx_eq: "ctx r vid = (case contexts r vid of Some c \<Rightarrow> c | None \<Rightarrow> new_context r)"
  by (simp add: ctx_def registry_Get_def split: option.split)

lemma with_ctx_eq: "with_ctx vid f r = r\<lparr>contexts := (contexts r)(vid \<mapsto> f (ctx r vid))\<rparr>"
  by (simp add: with_ctx_def registry_Get_def ctx_eq split: option.split)

lemma new_context_contexts [simp]: "new_context (r\<lparr>contexts := cs\<rparr>) = new_context r"
  by (simp add: new_context_def)

lemma ctx_with_ctx [simp]: "ctx (with_ctx vid f r) vid = f (ctx r vid)"
  by (simp add: with_ctx_eq ctx_eq)

lemma ctx_with_ctx_other [simp]: "vid' \<noteq> vid \<Longrightarrow> ctx (with_ctx vid f r) vid' = ctx r vid'"
  by (simp add: with_ctx_eq ctx_eq split: option.split)

lemma ctx_with_ctx_if: "ctx (with_ctx vid f r) v = (if v = vid then f (ctx r vid) else ctx r v)"
  by simp

lemma with_ctx_with_ctx [simp]: "with_ctx vid g (with_ctx vid f r) = with_ctx vid (g \<circ> f) r"
  by (simp add: with_ctx_eq ctx_eq)

lemma with_ctx_commute:
  "v \<noteq> w \<Longrightarrow> with_ctx v f (with_ctx w g r) = with_ctx w g (with_ctx v f r)"
  by (simp add: with_ctx_eq ctx_eq fun_upd_twist split: option.split)

lemma ctx_Get [simp]: "ctx (fst (registry_Get vid r)) v = ctx r v"
  by (cases "v = vid") (auto simp: ctx_eq registry_Get_def split: option.split)

lemma StateMachine_with_SM [simp]: "StateMachine (with_SM vid f r) vid = f (StateMachine r vid)"
  by (simp add: StateMachine_def with_SM_def)

lemma StateMachine_with_SM_other [simp]:
  "v \<noteq> vid \<Longrightarrow> StateMachine (with_SM vid f r) v = StateMachine r v"
  by (simp add: StateMachine_def with_SM_def)

interpretation registry: vehicle_states StateMachine with_SM
  by unfold_locales simp_all

section \<open>Steps of one vehicle\<close>

text \<open>Everything that can happen to a vehicle's context between two calls of the control server: a
  method of its machine, timers that expire, callbacks and ticks of the pollers.\<close>

definition run_deadman_callback :: "instant \<Rightarrow> event_id \<Rightarrow> VehicleContext \<Rightarrow> VehicleContext \<times> effect list" where
  "run_deadman_callback now eid c =
     (case rt_launched (dm_rt (vc_Deadman c)) of
        0 \<Rightarrow> (c, [])
      | Suc n \<Rightarrow>
          (let w = (vc_Deadman c)\<lparr>dm_rt := (dm_rt (vc_Deadman c))\<lparr>rt_launched := n\<rparr>\<rparr>;
               (w', m', es) = deadman_fire now eid w (vc_SM c)
           in (c\<lparr>vc_Deadman := w', vc_SM := m'\<rparr>, es)))"

definition run_ack_callback :: "instant \<Rightarrow> event_id \<Rightarrow> VehicleContext \<Rightarrow> VehicleContext \<times> effect list" where
  "run_ack_callback now eid c =
     (case rt_launched (at_rt (vc_ACKTimeoutWatcher c)) of
        0 \<Rightarrow> (c, [])
      | Suc n \<Rightarrow>
          (let w = (vc_ACKTimeoutWatcher c)\<lparr>at_rt := (at_rt (vc_ACKTimeoutWatcher c))\<lparr>rt_launched := n\<rparr>\<rparr>;
               (w', m', es) = ack_fire now eid w (vc_SM c)
           in (c\<lparr>vc_ACKTimeoutWatcher := w', vc_SM := m'\<rparr>, es)))"

definition run_vehicle_ack_callback ::
  "instant \<Rightarrow> event_id \<Rightarrow> VehicleContext \<Rightarrow> VehicleContext \<times> effect list" where
  "run_vehicle_ack_callback now eid c =
     (case rt_launched (va_rt (vc_VehicleACKWatchdog c)) of
        0 \<Rightarrow> (c, [])
      | Suc n \<Rightarrow>
          (let w = (vc_VehicleACKWatchdog c)\<lparr>va_rt := (va_rt (vc_VehicleACKWatchdog c))\<lparr>rt_launched := n\<rparr>\<rparr>;
               (w', m', es) = vehicle_ack_fire now eid w (vc_SM c)
           in (c\<lparr>vc_VehicleACKWatchdog := w', vc_SM := m'\<rparr>, es)))"

definition expire_timers :: "instant \<Rightarrow> nat \<Rightarrow> VehicleContext \<Rightarrow> VehicleContext" where
  "expire_timers now p c =
     (let d = vc_Deadman c; a = vc_ACKTimeoutWatcher c; v = vc_VehicleACKWatchdog c
      in c\<lparr>vc_Deadman := (if due now p (dm_rt d) then d\<lparr>dm_rt := timerExpire p (dm_rt d)\<rparr> else d),
           vc_ACKTimeoutWatcher := (if due now p (at_rt a) then a\<lparr>at_rt := timerExpire p (at_rt a)\<rparr> else a),
           vc_VehicleACKWatchdog :=
             (if due now p (va_rt v) then v\<lparr>va_rt := timerExpire p (va_rt v)\<rparr> else v)\<rparr>)"

definition auth_tick :: "instant \<Rightarrow> event_id \<Rightarrow> nat \<Rightarrow> bool option \<Rightarrow> VehicleContext \<Rightarrow> VehicleContext \<times> effect list" where
  "auth_tick now eid i res c =
     (case vc_AuthWatchdog c of
        None \<Rightarrow> (c, [])
      | Some w \<Rightarrow>
          (let (w', m', es) = auth_run_tick now eid i res w (vc_SM c)
           in (c\<lparr>vc_AuthWatchdog := Some w', vc_SM := m'\<rparr>, es)))"

definition telemetry_poll :: "nat \<Rightarrow> bool option \<Rightarrow> VehicleContext \<Rightarrow> VehicleContext" where
  "telemetry_poll i res c =
     (case vc_TelemetryWatchdog c of
        None \<Rightarrow> c
      | Some w \<Rightarrow>
          (let (w', m') = telemetry_run_tick i res w (vc_SM c)
           in c\<lparr>vc_TelemetryWatchdog := Some w', vc_SM := m'\<rparr>))"

section \<open>Properties\<close>

text \<open>C23: a tick of the goroutine that the last start of the safety bus watchdog launched acts on the fleet exactly when it
  completes a run of failed health checks of its own whose length is a multiple of the threshold, whatever goroutines of
  earlier starts still do. It then puts every vehicle that has a session (and is not IDLE) into SAFE_MODE and leaves the
  machines of all other vehicles alone, in whatever order the sessions are listed.\<close>

theorem bus_watchdog_fleet_wide:
  assumes "0 < n" and "iter_order (sessions m) ks" and "w = bus_life StateMachine with_SM (int n) bs" and "i = length (bw_runs w)"
    and "bus_tick StateMachine with_SM now resp (ActiveVehicleIDs ks m) i
        (fold (bus_progress StateMachine with_SM) ps (bus_Start w)) r = (w', r', es)"
    and "fires = (\<not> ping resp \<and> trailing_failures (concat (map (bus_answer i) ps) @ [ping resp]) mod n = 0)"
  shows "(fires \<longrightarrow> sessions m k = Some s \<longrightarrow> System (StateMachine r (sess_VehicleID s)) \<noteq> StateIdle \<longrightarrow>
            System (StateMachine r' (sess_VehicleID s)) = StateSafeMode) \<and>
         (\<not> fires \<or> (\<forall>k s. sessions m k = Some s \<longrightarrow> sess_VehicleID s \<noteq> v) \<longrightarrow>
            StateMachine r' v = StateMachine r v)"
proof -
  have ids: "set (ActiveVehicleIDs ks m) = sess_VehicleID ` ran (sessions m)"
    by (simp add: ActiveVehicleIDs_def set_dedup_by iter_order_values [OF assms(2)])
  have "(r', es) = (if fires then triggerSafeModeFleetWide StateMachine with_SM now (ActiveVehicleIDs ks m) (r, []) else (r, []))"
    using bus_watchdog_fires [OF assms(1,3,4,5) refl] assms(6) by simp
  then have "r' = (if fires then fst (triggerSafeModeFleetWide StateMachine with_SM now (ActiveVehicleIDs ks m) (r, [])) else r)"
    by (metis fst_conv)
  then show ?thesis
    using ids registry.trigger_fleet_wide [of _ "ActiveVehicleIDs ks m" r now "[]"]
      registry.trigger_others [of v "ActiveVehicleIDs ks m" now r "[]"]
    by (auto simp: ran_def)
qed

theorem bus_watchdog_fleet_wide_witness:
  "\<exists>w r' es. bus_tick StateMachine with_SM 9 (Some 500)
      (ActiveVehicleIDs [''s1''] (fst (StartSession ''s1'' 0 ''v1'' ''alice'' (NewManager True)))) 0
      (fst (bus_tick StateMachine with_SM 4 None [] 0 (bus_Start (NewSafetyBusWatchdog 2)) (NewRegistry 1 1 1)))
      (with_SM ''v1'' (System_update (\<lambda>_. StateConnected)) (NewRegistry 1 1 1)) = (w, r', es) \<and>
    System (StateMachine r' ''v1'') = StateSafeMode"
proof -
  let ?m = "fst (StartSession ''s1'' 0 ''v1'' ''alice'' (NewManager True))"
  let ?s = "snd (StartSession ''s1'' 0 ''v1'' ''alice'' (NewManager True))"
  let ?reg = "NewRegistry 1 1 1" and ?ids = "ActiveVehicleIDs [''s1''] ?m"
  let ?r = "with_SM ''v1'' (System_update (\<lambda>_. StateConnected)) ?reg"
  let ?w = "fst (bus_tick StateMachine with_SM 4 None [] 0 (bus_Start (NewSafetyBusWatchdog 2)) ?reg)"
  obtain w r' es where r: "bus_tick StateMachine with_SM 9 (Some 500) ?ids 0 ?w ?r = (w, r', es)"
    by (cases "bus_tick StateMachine with_SM 9 (Some 500) ?ids 0 ?w ?r") auto
  have s: "sessions ?m = [''s1'' \<mapsto> ?s]" "sess_VehicleID ?s = ''v1''"
    by (simp_all add: NewManager_def StartSession_def Let_def)
  have o: "iter_order (sessions ?m) [''s1'']" unfolding s(1) by (simp add: iter_order_def)
  have new: "bus_life StateMachine with_SM (int 2) [] = NewSafetyBusWatchdog 2" by (simp add: bus_life_def)
  have len: "0 = length (bw_runs (NewSafetyBusWatchdog 2))" by (simp add: NewSafetyBusWatchdog_def)
  have tick: "bus_tick StateMachine with_SM 9 (Some 500) ?ids 0
      (fold (bus_progress StateMachine with_SM) [BusTick 4 None [] 0 ?reg] (bus_Start (NewSafetyBusWatchdog 2))) ?r = (w, r', es)"
    using r by simp
  have fires: "True = (\<not> ping (Some 500) \<and>
      trailing_failures (concat (map (bus_answer 0) [BusTick 4 None [] 0 ?reg]) @ [ping (Some 500)]) mod 2 = 0)"
    by (simp add: ping_def trailing_failures_def status_defs)
  have "System (StateMachine r' ''v1'') = StateSafeMode"
    using bus_watchdog_fleet_wide [OF _ o new [symmetric] len tick fires, of "''s1''" ?s] s by simp
  with r show ?thesis by auto
qed

end
