(* ===== verification/Handover.thy ===== *)
theory Handover
  imports Vehicle_Context
begin

text \<open>
  Operator handover (\<open>internal/controlserver/session/handover.go\<close>). The handover manager keeps the
  pending handover per vehicle and shares the vehicle contexts and the session manager with the rest
  of the control server; its operations take and return all three. \<open>resp\<close> is the auth service's answer
  to the token request: the text of a transport error, or a status code.
\<close>

section \<open>State and errors\<close>

record pendingHandover =
  fromOperatorID :: operator_id
  toOperatorID :: operator_id

record HandoverManager =
  pending :: "vehicle_id \<rightharpoonup> pendingHandover"
  authURL :: string

definition NewHandoverManager :: "string \<Rightarrow> HandoverManager" where
  "NewHandoverManager url = \<lparr>pending = Map.empty, authURL = url\<rparr>"

datatype handover_error =
    NotActive OperatorState
  | NonePending vehicle_id
  | WrongTarget operator_id operator_id
  | TokenUnreachable string
  | TokenRefused nat

text \<open>The messages of the errors.\<close>

fun handover_message :: "handover_error \<Rightarrow> string" where
  "handover_message (NotActive os) = ''handover requires ACTIVE_OPERATOR state, got '' @ operator_string os"
| "handover_message (NonePending vid) = ''no handover pending for vehicle '' @ vid"
| "handover_message (WrongTarget c t) =
     ''confirming operator '' @ c @ '' is not the handover target '' @ t"
| "handover_message (TokenUnreachable e) = ''handover token issuance failed: '' @ e"
| "handover_message (TokenRefused code) =
     ''handover token issuance failed: auth service returned '' @ nat_string code"

type_synonym handover_state = "HandoverManager \<times> Registry \<times> Manager"

section \<open>Operations\<close>

definition RequestHandover ::
  "vehicle_id \<Rightarrow> operator_id \<Rightarrow> operator_id \<Rightarrow> handover_state \<Rightarrow> handover_state \<times> (handover_error + unit)" where
  "RequestHandover vid from to st =
     (case st of (h, r, m) \<Rightarrow>
        let (r', vc) = registry_Get vid r; (_, _, _, opState) = Get (vc_SM vc)
        in if opState \<noteq> OpActive then ((h, r', m), Inl (NotActive opState))
           else ((h\<lparr>pending := (pending h)(vid \<mapsto> \<lparr>fromOperatorID = from, toOperatorID = to\<rparr>)\<rparr>,
                  with_SM vid (TransitionOperator OpHandoverPending) r', m), Inr ()))"

definition issueHandoverToken :: "string \<Rightarrow> string + nat \<Rightarrow> handover_error + unit" where
  "issueHandoverToken url resp =
     (if url = [] then Inr ()
      else case resp of
        Inl e \<Rightarrow> Inl (TokenUnreachable e)
      | Inr code \<Rightarrow> if code \<ge> 400 then Inl (TokenRefused code) else Inr ())"

definition ConfirmHandover ::
  "session_id list \<Rightarrow> string + nat \<Rightarrow> vehicle_id \<Rightarrow> operator_id \<Rightarrow> handover_state \<Rightarrow>
   handover_state \<times> effect list \<times> (handover_error + unit)" where
  "ConfirmHandover ks resp vid confirming st =
     (case st of (h, r, m) \<Rightarrow>
        case pending h vid of
          None \<Rightarrow> (st, [], Inl (NonePending vid))
        | Some p \<Rightarrow>
            if confirming \<noteq> toOperatorID p then (st, [], Inl (WrongTarget confirming (toOperatorID p)))
            else case issueHandoverToken (authURL h) resp of
              Inl e \<Rightarrow> (st, [], Inl e)
            | Inr _ \<Rightarrow>
                let m' = UpdateOperator ks vid (toOperatorID p) RoleActiveOperator m;
                    r' = with_SM vid (TransitionOperator OpActive) r
                in ((h\<lparr>pending := (pending h)(vid := None)\<rparr>, r', m'),
                    PushSFUEvent ks ''OPERATOR_HANDOVER'' m', Inr ()))"

definition CancelHandover :: "vehicle_id \<Rightarrow> handover_state \<Rightarrow> handover_state" where
  "CancelHandover vid st =
     (case st of (h, r, m) \<Rightarrow>
        case pending h vid of
          None \<Rightarrow> st
        | Some _ \<Rightarrow> (h\<lparr>pending := (pending h)(vid := None)\<rparr>, with_SM vid (TransitionOperator OpActive) r, m))"

definition IsPending :: "HandoverManager \<Rightarrow> vehicle_id \<Rightarrow> bool" where
  "IsPending h vid \<longleftrightarrow> pending h vid \<noteq> None"

lemmas handover_defs = RequestHandover_def ConfirmHandover_def CancelHandover_def

lemma operator_not_none_frame:
  "os \<noteq> OpNoOperator \<Longrightarrow> System (TransitionOperator os m) = System m"
  "os \<noteq> OpNoOperator \<Longrightarrow> Operator (TransitionOperator os m) = os"
  by (simp_all add: TransitionOperator_other)

lemma StateMachine_Get [simp]: "StateMachine (fst (registry_Get vid r)) v = StateMachine r v"
  by (simp add: StateMachine_def)

lemma SM_Get [simp]: "vc_SM (snd (registry_Get vid r)) = StateMachine r vid"
  by (simp add: StateMachine_def ctx_def)

lemma RequestHandover_eq:
  "RequestHandover vid from to (h, r, m) =
     (let r' = fst (registry_Get vid r) in
      if Operator (StateMachine r vid) \<noteq> OpActive
      then ((h, r', m), Inl (NotActive (Operator (StateMachine r vid))))
      else ((h\<lparr>pending := (pending h)(vid \<mapsto> \<lparr>fromOperatorID = from, toOperatorID = to\<rparr>)\<rparr>,
             with_SM vid (TransitionOperator OpHandoverPending) r', m), Inr ()))"
proof -
  obtain r' vc where g: "registry_Get vid r = (r', vc)" by (cases "registry_Get vid r")
  moreover from this have "vc_SM vc = StateMachine r vid" using SM_Get [of vid r] by simp
  ultimately show ?thesis by (simp add: RequestHandover_def Get_def Let_def)
qed

section \<open>Properties\<close>

text \<open>C21: a handover that is requested while an operator is active and confirmed by its target, with
  the token issued, ends with the vehicle's controlling session under the target operator: same
  session, same role, OPERATOR layer ACTIVE_OPERATOR again, nothing pending, SYSTEM state as before;
  no session and no machine of another vehicle changes. In between the old operator keeps control.\<close>

theorem handover_completes:
  assumes "manager_step\<^sup>*\<^sup>* (NewManager sfu) m" and "iter_order (sessions m) ks"
    and "Operator (StateMachine r vid) = OpActive" and "issueHandoverToken (authURL h) resp = Inr ()"
    and "RequestHandover vid from to (h, r, m) = ((h1, r1, m1), res1)"
    and "ConfirmHandover ks resp vid to (h1, r1, m1) = ((h2, r2, m2), es, res2)"
  shows "res1 = Inr () \<and> m1 = m \<and> Operator (StateMachine r1 vid) = OpHandoverPending \<and>
    IsPending h1 vid \<and> res2 = Inr () \<and> \<not> IsPending h2 vid \<and>
    map_option sess_OperatorID (GetSessionByVehicle m2 vid) = map_option (\<lambda>_. to) (GetSessionByVehicle m vid) \<and>
    map_option sess_ID (GetSessionByVehicle m2 vid) = map_option sess_ID (GetSessionByVehicle m vid) \<and>
    Operator (StateMachine r2 vid) = OpActive \<and> System (StateMachine r2 vid) = System (StateMachine r vid) \<and>
    (v \<noteq> vid \<longrightarrow> StateMachine r2 v = StateMachine r v \<and> GetSessionByVehicle m2 v = GetSessionByVehicle m v)"
proof -
  have inv: "gsa_inv m" using session_authority.reachable_inv assms(1) by blast
  have 1: "h1 = h\<lparr>pending := (pending h)(vid \<mapsto> \<lparr>fromOperatorID = from, toOperatorID = to\<rparr>)\<rparr>" "m1 = m"
    "r1 = with_SM vid (TransitionOperator OpHandoverPending) (fst (registry_Get vid r))" "res1 = Inr ()"
    using assms(3,5) by (auto simp: RequestHandover_eq Let_def)
  then have 2: "res2 = Inr ()" "pending h2 vid = None"
    "m2 = UpdateOperator ks vid to RoleActiveOperator m"
    "r2 = with_SM vid (TransitionOperator OpActive) r1"
    using assms(4,6) by (auto simp: ConfirmHandover_def Let_def)
  have other: "vehicleController m v \<noteq> Some k" if "vehicleController m vid = Some k" "v \<noteq> vid" for k
    using that gsa_inv_controller [OF inv] by auto
  have "GetSessionByVehicle m2 vid =
      map_option (\<lambda>s. s\<lparr>sess_OperatorID := to, sess_OperatorRole := RoleActiveOperator\<rparr>) (GetSessionByVehicle m vid)"
    unfolding 2(3) UpdateOperator_eq [OF inv assms(2)]
    by (auto simp: GetSessionByVehicle_def split: option.split elim: controller_session [OF inv])
  moreover have "v \<noteq> vid \<longrightarrow> GetSessionByVehicle m2 v = GetSessionByVehicle m v"
    unfolding 2(3) UpdateOperator_eq [OF inv assms(2)]
    using other by (auto simp: GetSessionByVehicle_def split: option.split)
  ultimately show ?thesis
    using 1 2 by (auto simp: IsPending_def operator_not_none_frame option.map_comp o_def)
qed

theorem handover_completes_witness:
  "\<exists>h2 r2 m2 es. ConfirmHandover [''s1''] (Inr 200) ''v1'' ''bob''
      (fst (RequestHandover ''v1'' ''alice'' ''bob''
        (NewHandoverManager ''http://auth'', with_SM ''v1'' (TransitionOperator OpActive) (NewRegistry 1 1 1),
         fst (StartSession ''s1'' 0 ''v1'' ''alice'' (NewManager True))))) = ((h2, r2, m2), es, Inr ()) \<and>
    map_option sess_OperatorID (GetSessionByVehicle m2 ''v1'') = Some ''bob''"
proof -
  let ?m = "fst (StartSession ''s1'' 0 ''v1'' ''alice'' (NewManager True))"
  let ?s = "snd (StartSession ''s1'' 0 ''v1'' ''alice'' (NewManager True))"
  let ?r = "with_SM ''v1'' (TransitionOperator OpActive) (NewRegistry 1 1 1)"
  let ?h = "NewHandoverManager ''http://auth''"
  have s: "sessions ?m = [''s1'' \<mapsto> ?s]" "vehicleController ?m = [''v1'' \<mapsto> ''s1'']"
    by (simp_all add: NewManager_def StartSession_def Let_def)
  have o: "iter_order (sessions ?m) [''s1'']" unfolding s(1) by (simp add: iter_order_def)
  obtain h1 r1 m1 res1 where r: "RequestHandover ''v1'' ''alice'' ''bob'' (?h, ?r, ?m) = ((h1, r1, m1), res1)"
    by (cases "RequestHandover ''v1'' ''alice'' ''bob'' (?h, ?r, ?m)") auto
  obtain h2 r2 m2 es res2 where c: "ConfirmHandover [''s1''] (Inr 200) ''v1'' ''bob'' (h1, r1, m1) =
      ((h2, r2, m2), es, res2)"
    by (cases "ConfirmHandover [''s1''] (Inr 200) ''v1'' ''bob'' (h1, r1, m1)") auto
  have op: "Operator (StateMachine ?r ''v1'') = OpActive" by (simp add: operator_not_none_frame)
  have tok: "issueHandoverToken (authURL ?h) (Inr 200) = Inr ()"
    by (simp add: issueHandoverToken_def NewHandoverManager_def)
  from handover_completes [OF first_session_reachable o op tok r c] r c show ?thesis
    by (auto simp: GetSessionByVehicle_def s)
qed

text \<open>C22: a confirmation that fails (nothing pending, the wrong operator, or no token from the auth
  service) changes nothing at all: the pending entry, the sessions and every machine stay as they are;
  a request without an active operator adds no pending entry and changes no machine. Cancelling gives
  the OPERATOR layer back and touches no session.\<close>

theorem handover_errors_change_nothing:
  "(\<forall>st' es e. ConfirmHandover ks resp vid oid st = (st', es, Inl e) \<longrightarrow> st' = st \<and> es = []) \<and>
   (\<forall>h' r' m' e. RequestHandover vid from to (h, r, m) = ((h', r', m'), Inl e) \<longrightarrow>
      h' = h \<and> m' = m \<and> StateMachine r' v = StateMachine r v \<and> e = NotActive (Operator (StateMachine r vid))) \<and>
   (\<forall>h' r' m'. CancelHandover vid (h, r, m) = (h', r', m') \<longrightarrow> m' = m \<and> \<not> IsPending h' vid \<and>
      (IsPending h vid \<longrightarrow> Operator (StateMachine r' vid) = OpActive) \<and>
      System (StateMachine r' v) = System (StateMachine r v))"
proof (intro conjI allI impI, goal_cases)
  case (1 st' es e)
  then show ?case
    by (auto simp: ConfirmHandover_def Let_def split: prod.splits option.splits if_splits sum.splits)
next
  case (2 st' es e)
  then show ?case
    by (auto simp: ConfirmHandover_def Let_def split: prod.splits option.splits if_splits sum.splits)
next
  case (10 h' r' m')
  then show ?case
    by (cases "v = vid") (auto simp: CancelHandover_def operator_not_none_frame split: option.splits)
qed (auto simp: RequestHandover_eq CancelHandover_def IsPending_def Let_def operator_not_none_frame
    split: if_splits option.splits)

theorem handover_errors_change_nothing_witness:
  "ConfirmHandover [] (Inl []) ''v1'' ''bob'' (NewHandoverManager [], NewRegistry 1 1 1, NewManager True) =
     ((NewHandoverManager [], NewRegistry 1 1 1, NewManager True), [], Inl (NonePending ''v1''))"
proof -
  let ?st = "(NewHandoverManager [], NewRegistry 1 1 1, NewManager True)"
  obtain st' es where c: "ConfirmHandover [] (Inl []) ''v1'' ''bob'' ?st = (st', es, Inl (NonePending ''v1''))"
    by (auto simp: ConfirmHandover_def NewHandoverManager_def)
  with handover_errors_change_nothing [of "[]" "Inl []" "''v1''" "''bob''" ?st] show ?thesis by blast
qed

text \<open>A pending handover survives the end of the session it was requested for. If another operator
  then starts the vehicle's next session, the old target can still confirm and takes that session over,
  although nobody of the new session asked for a handover.\<close>

theorem stale_handover_takes_over:
  assumes "gsa_inv m" and "authURL h = []" and "GetSessionByVehicle m vid = Some s0"
    and "RequestHandover vid from to (h, r, m) = ((h1, r1, m1), Inr ())"
    and "sessions m k = None"
    and "StartSession k now vid other (ReleaseSession (sess_ID s0) m1) = (m2, s)"
    and "iter_order (sessions m2) ks"
    and "ConfirmHandover ks resp vid to (h1, r2, m2) = ((h3, r3, m3), es, res)"
  shows "is_active s \<and> sess_OperatorID s = other \<and> res = Inr () \<and>
    map_option sess_OperatorID (GetSession m3 (sess_ID s)) = Some to"
proof -
  have 1: "m1 = m" "pending h1 vid = Some \<lparr>fromOperatorID = from, toOperatorID = to\<rparr>" "authURL h1 = []"
    using assms(2,4) by (auto simp: RequestHandover_eq Let_def split: if_splits)
  obtain c where c: "vehicleController m vid = Some c" "sessions m c = Some s0"
    using assms(3) by (auto simp: GetSessionByVehicle_def split: option.splits)
  then have s0: "sess_ID s0 = c" "sess_VehicleID s0 = vid" "is_active s0"
    using gsa_inv_ID [OF assms(1)] gsa_inv_controller [OF assms(1), of vid c] by auto
  let ?m = "ReleaseSession c m"
  have rel: "gsa_inv ?m" using assms(1) by (rule gsa_inv_ReleaseSession)
  have free: "vehicleController ?m vid = None" "sessions ?m k = None"
    using assms(5) c s0 by (auto simp: ReleaseSession_eq [OF assms(1)])
  have m2: "s = \<lparr>sess_ID = k, sess_VehicleID = vid, sess_OperatorID = other,
      sess_OperatorRole = RoleActiveOperator, sess_CreatedAt = now\<rparr>"
    "sessions m2 k = Some s" "vehicleController m2 vid = Some k"
    using assms(6) free(1) 1(1) s0(1) by (auto simp: StartSession_eq [OF rel] Let_def)
  have inv2: "gsa_inv m2"
    using gsa_inv_StartSession [OF rel free(2), of now vid other] assms(6) 1(1) s0(1) by simp
  show ?thesis
    using assms(8) 1(2,3) m2
    by (auto simp: ConfirmHandover_def Let_def issueHandoverToken_def GetSession_def is_active_def
        UpdateOperator_eq [OF inv2 assms(7)])
qed

theorem stale_handover_takes_over_witness:
  "\<exists>m2 s m3. StartSession ''s2'' 5 ''v1'' ''carol'' (ReleaseSession ''s1''
      (fst (StartSession ''s1'' 0 ''v1'' ''alice'' (NewManager True)))) = (m2, s) \<and>
     sess_OperatorID s = ''carol'' \<and> map_option sess_OperatorID (GetSession m3 ''s2'') = Some ''bob''"
proof -
  let ?m = "fst (StartSession ''s1'' 0 ''v1'' ''alice'' (NewManager True))"
  let ?s0 = "snd (StartSession ''s1'' 0 ''v1'' ''alice'' (NewManager True))"
  let ?r = "with_SM ''v1'' (TransitionOperator OpActive) (NewRegistry 1 1 1)"
  let ?h = "NewHandoverManager []"
  have inv: "gsa_inv ?m" by (rule gsa_inv_StartSession [OF gsa_inv_new]) (simp add: NewManager_def)
  have s: "sessions ?m = [''s1'' \<mapsto> ?s0]" "vehicleController ?m = [''v1'' \<mapsto> ''s1'']" "sess_ID ?s0 = ''s1''"
    by (simp_all add: NewManager_def StartSession_def Let_def)
  have g: "GetSessionByVehicle ?m ''v1'' = Some ?s0" by (simp add: GetSessionByVehicle_def s)
  have op: "Operator (StateMachine ?r ''v1'') = OpActive" by (simp add: operator_not_none_frame)
  obtain h1 r1 m1 where r: "RequestHandover ''v1'' ''alice'' ''bob'' (?h, ?r, ?m) = ((h1, r1, m1), Inr ())"
    using op by (auto simp: RequestHandover_eq Let_def)
  then have m1: "m1 = ?m" using op by (auto simp: RequestHandover_eq Let_def)
  obtain m2 s' where st: "StartSession ''s2'' 5 ''v1'' ''carol'' (ReleaseSession (sess_ID ?s0) m1) = (m2, s')"
    by (cases "StartSession ''s2'' 5 ''v1'' ''carol'' (ReleaseSession (sess_ID ?s0) m1)")
  have inv': "gsa_inv (ReleaseSession ''s1'' ?m)" using inv by (rule gsa_inv_ReleaseSession)
  have "sessions (ReleaseSession ''s1'' ?m) = Map.empty"
    using s by (simp add: ReleaseSession_eq [OF inv])
  moreover have "sessions m2 = (sessions (ReleaseSession ''s1'' ?m))(''s2'' \<mapsto> s')" "sess_ID s' = ''s2''"
    using st m1 s(3) by (auto simp: StartSession_eq [OF inv'] Let_def)
  ultimately have m2: "dom (sessions m2) = {''s2''}" "sess_ID s' = ''s2''" by simp_all
  have o: "iter_order (sessions m2) [''s2'']" using m2 by (simp add: iter_order_def)
  obtain h3 r3 m3 es res where c: "ConfirmHandover [''s2''] (Inl []) ''v1'' ''bob'' (h1, r1, m2) = ((h3, r3, m3), es, res)"
    by (cases "ConfirmHandover [''s2''] (Inl []) ''v1'' ''bob'' (h1, r1, m2)") auto
  have "authURL ?h = []" "sessions ?m ''s2'' = None" by (simp_all add: NewHandoverManager_def s)
  from stale_handover_takes_over [OF inv this(1) g r this(2) st o c] st m1 m2 s show ?thesis by auto
qed

end
