(* ===== verification/Vehicle_Connection.thy ===== *)
theory Vehicle_Connection
  imports Effects
begin

text \<open>
  The registry of vehicle WebSocket connections and the store of the vehicles' latest command
  acknowledgements (\<open>internal/vehicleconnection/registry.go\<close>, \<open>ackstore.go\<close>), and the in-memory session
  recorder (\<open>internal/recording\<close>). A connection is named by a number, its identity; whether a write on
  a connection succeeds is the parameter \<open>write_ok\<close>.
\<close>

section \<open>Connections\<close>

type_synonym conn = nat

record ConnRegistry =
  conns :: "vehicle_id \<rightharpoonup> conn"

definition NewConnRegistry :: ConnRegistry where
  "NewConnRegistry = \<lparr>conns = Map.empty\<rparr>"

definition conn_register :: "vehicle_id \<Rightarrow> conn \<Rightarrow> ConnRegistry \<Rightarrow> ConnRegistry" where
  "conn_register vid c r = r\<lparr>conns := (conns r)(vid \<mapsto> c)\<rparr>"

definition conn_unregister :: "vehicle_id \<Rightarrow> ConnRegistry \<Rightarrow> ConnRegistry" where
  "conn_unregister vid r = r\<lparr>conns := (conns r)(vid := None)\<rparr>"

text \<open>\<open>ForwardCommand\<close> writes at most one message; the flag says that it returned no error.\<close>

definition ForwardCommand ::
  "(conn \<Rightarrow> string \<Rightarrow> bool) \<Rightarrow> vehicle_id \<Rightarrow> string \<Rightarrow> ConnRegistry \<Rightarrow> effect list \<times> bool" where
  "ForwardCommand write_ok vid data r =
     (case conns r vid of
        None \<Rightarrow> ([], False)
      | Some c \<Rightarrow> ([ForwardToVehicle vid data], write_ok c data))"

definition Connected :: "ConnRegistry \<Rightarrow> vehicle_id \<Rightarrow> bool" where
  "Connected r vid \<longleftrightarrow> conns r vid \<noteq> None"

interpretation conn_store: last_value_store conn_register conns
  by unfold_locales (simp_all add: conn_register_def)

section \<open>Acknowledgements\<close>

record VehicleCommandAck =
  CommandEventId :: event_id
  Received :: bool
  ReceivedAtMs :: int

record AckStore =
  acks :: "vehicle_id \<rightharpoonup> VehicleCommandAck"

definition NewAckStore :: AckStore where
  "NewAckStore = \<lparr>acks = Map.empty\<rparr>"

definition ack_Store :: "vehicle_id \<Rightarrow> VehicleCommandAck \<Rightarrow> AckStore \<Rightarrow> AckStore" where
  "ack_Store vid a s = s\<lparr>acks := (acks s)(vid \<mapsto> a)\<rparr>"

definition ack_Latest :: "AckStore \<Rightarrow> vehicle_id \<Rightarrow> VehicleCommandAck option" where
  "ack_Latest s vid = acks s vid"

interpretation ack_store: last_value_store ack_Store ack_Latest
  by unfold_locales (simp_all add: ack_Store_def ack_Latest_def)

section \<open>Recording\<close>

record Entry =
  en_SessionID :: session_id
  en_EventID :: event_id
  en_VehicleID :: vehicle_id
  en_OperatorID :: operator_id
  en_Timestamp :: instant
  en_EntryType :: string
  en_CommandType :: string
  en_Value :: float64
  en_SystemState :: string
  en_CtrlState :: string
  en_EventType :: string
  en_Reason :: string

record MemoryRecorder =
  entries :: "session_id \<rightharpoonup> Entry list"

definition NewMemoryRecorder :: MemoryRecorder where
  "NewMemoryRecorder = \<lparr>entries = Map.empty\<rparr>"

text \<open>Reading a missing key of the Go map gives the nil slice, the empty list.\<close>

definition GetEntries :: "MemoryRecorder \<Rightarrow> session_id \<Rightarrow> Entry list" where
  "GetEntries r sid = (case entries r sid of None \<Rightarrow> [] | Some es \<Rightarrow> es)"

definition recorder_append :: "Entry \<Rightarrow> MemoryRecorder \<Rightarrow> MemoryRecorder" where
  "recorder_append e r =
     r\<lparr>entries := (entries r)(en_SessionID e \<mapsto> GetEntries r (en_SessionID e) @ [e])\<rparr>"

definition recorder_StartSession :: "session_id \<Rightarrow> MemoryRecorder \<Rightarrow> MemoryRecorder" where
  "recorder_StartSession sid r = r\<lparr>entries := (entries r)(sid \<mapsto> [])\<rparr>"

text \<open>Ending a session only logs the number of entries.\<close>

definition recorder_EndSession :: "session_id \<Rightarrow> MemoryRecorder \<Rightarrow> MemoryRecorder" where
  "recorder_EndSession sid r = r"

definition empty_entry :: Entry where
  "empty_entry = \<lparr>en_SessionID = [], en_EventID = [], en_VehicleID = [], en_OperatorID = [],
     en_Timestamp = 0, en_EntryType = [], en_CommandType = [], en_Value = 0, en_SystemState = [],
     en_CtrlState = [], en_EventType = [], en_Reason = []\<rparr>"

definition RecordControlEvent ::
  "instant \<Rightarrow> session_id \<Rightarrow> event_id \<Rightarrow> vehicle_id \<Rightarrow> operator_id \<Rightarrow> string \<Rightarrow> float64 \<Rightarrow> MemoryRecorder \<Rightarrow> MemoryRecorder" where
  "RecordControlEvent now sid eid vid oid cmd v r =
     recorder_append (empty_entry\<lparr>en_SessionID := sid, en_EventID := eid, en_VehicleID := vid,
       en_OperatorID := oid, en_Timestamp := now, en_EntryType := ''control'', en_CommandType := cmd,
       en_Value := v\<rparr>) r"

definition RecordStateSnapshot ::
  "instant \<Rightarrow> session_id \<Rightarrow> event_id \<Rightarrow> vehicle_id \<Rightarrow> operator_id \<Rightarrow> string \<Rightarrow> string \<Rightarrow> MemoryRecorder \<Rightarrow> MemoryRecorder" where
  "RecordStateSnapshot now sid eid vid oid sys ctrl r =
     recorder_append (empty_entry\<lparr>en_SessionID := sid, en_EventID := eid, en_VehicleID := vid,
       en_OperatorID := oid, en_Timestamp := now, en_EntryType := ''state'', en_SystemState := sys,
       en_CtrlState := ctrl\<rparr>) r"

definition RecordSafetyEvent ::
  "instant \<Rightarrow> session_id \<Rightarrow> event_id \<Rightarrow> vehicle_id \<Rightarrow> operator_id \<Rightarrow> string \<Rightarrow> string \<Rightarrow> MemoryRecorder \<Rightarrow> MemoryRecorder" where
  "RecordSafetyEvent now sid eid vid oid ty reason r =
     recorder_append (empty_entry\<lparr>en_SessionID := sid, en_EventID := eid, en_VehicleID := vid,
       en_OperatorID := oid, en_Timestamp := now, en_EntryType := ''safety'', en_EventType := ty,
       en_Reason := reason\<rparr>) r"

lemma GetEntries_append:
  "GetEntries (recorder_append e r) sid =
     GetEntries r sid @ (if sid = en_SessionID e then [e] else [])"
  by (simp add: GetEntries_def recorder_append_def)

lemma GetEntries_fold:
  "GetEntries (fold recorder_append es r) sid =
     GetEntries r sid @ filter (\<lambda>e. en_SessionID e = sid) es"
  by (induction es arbitrary: r) (auto simp: GetEntries_append)

end
