(* ===== verification/Command_Engine.thy ===== *)
theory Command_Engine
  imports Vehicle_Context Vehicle_Connection
begin

text \<open>
  The command engine (\<open>internal/controlserver/command/engine.go\<close>): the token bucket and the routing
  of one decoded \<open>ControlCommand\<close>. The generated protobuf code is a parameter: \<open>cmd\<close> is the result of
  \<open>proto.Unmarshal\<close> (\<open>None\<close> if it fails), and \<open>marshal_ok\<close> says whether \<open>proto.Marshal\<close> of the
  acknowledgement succeeds. \<open>rnd\<close> is the rounding of \<open>float64\<close> arithmetic.
\<close>

section \<open>Token bucket\<close>

definition maxCommandsPerSecond :: float64 where "maxCommandsPerSecond = 100"

record tokenBucket =
  tokens :: float64
  tb_max :: float64
  rate :: float64
  lastTick :: instant

definition newTokenBucket :: "instant \<Rightarrow> float64 \<Rightarrow> tokenBucket" where
  "newTokenBucket now ratePerSec =
     \<lparr>tokens = ratePerSec, tb_max = ratePerSec, rate = ratePerSec, lastTick = now\<rparr>"

text \<open>\<open>time.Duration.Seconds\<close> of a non-negative duration (the clock is monotonic): the whole seconds
  plus the remaining nanoseconds over 1e9.\<close>

definition Seconds :: "(rat \<Rightarrow> rat) \<Rightarrow> duration \<Rightarrow> float64" where
  "Seconds rnd d = rnd (of_int (d div Second) + rnd (of_int (d mod Second) / of_int Second))"

definition allow :: "(rat \<Rightarrow> rat) \<Rightarrow> instant \<Rightarrow> tokenBucket \<Rightarrow> tokenBucket \<times> bool" where
  "allow rnd now b =
     (let t = rnd (tokens b + rnd (Seconds rnd (now - lastTick b) * rate b));
          t' = (if t > tb_max b then tb_max b else t)
      in if t' < 1 then (b\<lparr>tokens := t', lastTick := now\<rparr>, False)
         else (b\<lparr>tokens := rnd (t' - 1), lastTick := now\<rparr>, True))"

section \<open>Commands\<close>

datatype CommandType =
    COMMAND_TYPE_UNSPECIFIED | COMMAND_TYPE_STEER | COMMAND_TYPE_THROTTLE | COMMAND_TYPE_BRAKE
  | COMMAND_TYPE_SPEED | COMMAND_TYPE_EMERGENCY_STOP | COMMAND_TYPE_DEADMAN_HOLD
  | COMMAND_TYPE_DEADMAN_RELEASE | COMMAND_TYPE_OTHER int

text \<open>The header's event id; \<open>None\<close> is a nil header.\<close>

record ControlCommand =
  cmd_EventId :: "event_id option"
  cmd_Type :: CommandType

record ControlAck =
  ca_SessionId :: session_id
  ca_EventId :: event_id
  ca_VehicleId :: vehicle_id
  ca_OperatorId :: operator_id
  ca_Success :: bool
  ca_ErrorMsg :: string

fun is_movement :: "CommandType \<Rightarrow> bool" where
  "is_movement COMMAND_TYPE_STEER = True"
| "is_movement COMMAND_TYPE_THROTTLE = True"
| "is_movement COMMAND_TYPE_BRAKE = True"
| "is_movement COMMAND_TYPE_SPEED = True"
| "is_movement _ = False"

definition engine_ack :: "event_id \<Rightarrow> Session \<Rightarrow> event_id \<Rightarrow> bool \<Rightarrow> string \<Rightarrow> ControlAck" where
  "engine_ack newID sess eventID success errMsg =
     \<lparr>ca_SessionId = sess_ID sess, ca_EventId = (if eventID = [] then newID else eventID),
      ca_VehicleId = sess_VehicleID sess, ca_OperatorId = sess_OperatorID sess,
      ca_Success = success, ca_ErrorMsg = errMsg\<rparr>"

text \<open>The engine's environment: the audit writer, the forwarder (\<open>None\<close> if not configured) and the
  ids generated during the call.\<close>

record engine_env =
  ee_auditWriter :: audit_writer
  ee_forwarder :: "(vehicle_id \<Rightarrow> string \<Rightarrow> effect list \<times> bool) option"
  ee_auditID :: event_id
  ee_ackID :: event_id

definition handleEmergencyStop_engine ::
  "engine_env \<Rightarrow> instant \<Rightarrow> Session \<Rightarrow> VehicleContext \<Rightarrow> VehicleContext \<times> effect list" where
  "handleEmergencyStop_engine env now sess vc =
     (vc\<lparr>vc_SM := TransitionSystem StateSafeMode (vc_SM vc)\<rparr>,
      write_audit (ee_auditWriter env)
        (audit_event (ee_auditID env) now (sess_ID sess) (sess_VehicleID sess) (sess_OperatorID sess)
           LogEmergencyStop ''operator EMERGENCY_STOP command'' (vc_SM vc)) @
      [SystemTransition StateSafeMode,
       PublishEvent (safety_event now (sess_ID sess) (sess_VehicleID sess) EventEmergencyStop
         ''operator EMERGENCY_STOP command'')])"

definition forwardMovementCommand ::
  "engine_env \<Rightarrow> instant \<Rightarrow> Session \<Rightarrow> string \<Rightarrow> VehicleContext \<Rightarrow> VehicleContext \<times> effect list" where
  "forwardMovementCommand env now sess raw vc =
     (case ee_forwarder env of
        None \<Rightarrow> (vc, [])
      | Some fwd \<Rightarrow>
          if sess_VehicleID sess = [] then (vc, [])
          else
            let (es, ok) = fwd (sess_VehicleID sess) raw
            in if \<not> ok then (vc, es)
               else (vc\<lparr>vc_VehicleACKWatchdog := CommandForwarded now (vc_VehicleACKWatchdog vc)\<rparr>, es))"

text \<open>The switch on the command's type: the new context, the effects, and the success flag and error
  message of the acknowledgement.\<close>

definition dispatch ::
  "engine_env \<Rightarrow> instant \<Rightarrow> Session \<Rightarrow> CommandType \<Rightarrow> string \<Rightarrow> VehicleContext \<Rightarrow>
   VehicleContext \<times> effect list \<times> bool \<times> string" where
  "dispatch env now sess ty raw vc =
     (case ty of
        COMMAND_TYPE_DEADMAN_HOLD \<Rightarrow> (vc\<lparr>vc_Deadman := deadman_Reset now (vc_Deadman vc)\<rparr>, [], True, [])
      | COMMAND_TYPE_EMERGENCY_STOP \<Rightarrow>
          (let (vc', es) = handleEmergencyStop_engine env now sess vc in (vc', es, True, []))
      | _ \<Rightarrow>
          if is_movement ty then
            if sess_OperatorRole sess = RoleObserver
            then (vc, [], False, ''observer role: control commands not allowed'')
            else (let (vc', es) = forwardMovementCommand env now sess raw vc in (vc', es, True, []))
          else (vc, [], True, []))"

text \<open>The result is the acknowledgement to send, or \<open>None\<close> if it could not be serialised.\<close>

definition Handle ::
  "(rat \<Rightarrow> rat) \<Rightarrow> (ControlAck \<Rightarrow> bool) \<Rightarrow> engine_env \<Rightarrow> instant \<Rightarrow> string \<Rightarrow> ControlCommand option \<Rightarrow> Session \<Rightarrow>
   tokenBucket \<times> Registry \<Rightarrow> (tokenBucket \<times> Registry) \<times> effect list \<times> ControlAck option" where
  "Handle rnd marshal_ok env now raw cmd sess st =
     (let reply = (\<lambda>a. if marshal_ok a then Some a else None) in
      case (cmd, st) of
        (None, _) \<Rightarrow> (st, [], reply (engine_ack (ee_ackID env) sess [] False ''invalid protobuf message''))
      | (Some c, (b, r)) \<Rightarrow>
          let eventID = (case cmd_EventId c of None \<Rightarrow> [] | Some e \<Rightarrow> e);
              (b', allowed) = allow rnd now b
          in if \<not> allowed then ((b', r), [], reply (engine_ack (ee_ackID env) sess eventID False ''rate limited''))
             else
               let (vc', es, success, err) =
                     dispatch env now sess (cmd_Type c) raw (ctx r (sess_VehicleID sess))
               in ((b', with_ctx (sess_VehicleID sess) (\<lambda>_. vc') r), es,
                   reply (engine_ack (ee_ackID env) sess eventID success err)))"

section \<open>The bucket\<close>

text \<open>What the properties need of the rounding of \<open>float64\<close>: it is monotone and exact on the small
  integers, as IEEE 754 prescribes.\<close>

definition float_rounding :: "(rat \<Rightarrow> rat) \<Rightarrow> bool" where
  "float_rounding rnd \<longleftrightarrow> (\<forall>x y. x \<le> y \<longrightarrow> rnd x \<le> rnd y) \<and> (\<forall>k::nat. k \<le> 9007199254740992 \<longrightarrow> rnd (of_nat k) = of_nat k)"

lemma float_rounding_id: "float_rounding (\<lambda>x. x)"
  by (simp add: float_rounding_def)

lemma rounding_mono: "float_rounding rnd \<Longrightarrow> x \<le> y \<Longrightarrow> rnd x \<le> rnd y"
  by (simp add: float_rounding_def)

lemma rounding_nat: "float_rounding rnd \<Longrightarrow> k \<le> 9007199254740992 \<Longrightarrow> rnd (of_nat k) = of_nat k"
  by (simp add: float_rounding_def)

lemma rounding_0 [simp]: "float_rounding rnd \<Longrightarrow> rnd 0 = 0"
  using rounding_nat [of rnd 0] by simp

lemma rounding_nonneg: "float_rounding rnd \<Longrightarrow> 0 \<le> x \<Longrightarrow> 0 \<le> rnd x"
  using rounding_mono [of rnd 0 x] by simp

definition bucket_ok :: "tokenBucket \<Rightarrow> bool" where
  "bucket_ok b \<longleftrightarrow> 0 \<le> tokens b \<and> tokens b \<le> tb_max b \<and> 0 \<le> rate b \<and>
     (\<exists>k::nat. k \<le> 9007199254740992 \<and> tb_max b = of_nat k)"

lemma bucket_ok_new: "bucket_ok (newTokenBucket now maxCommandsPerSecond)"
  unfolding bucket_ok_def newTokenBucket_def maxCommandsPerSecond_def
  by (intro conjI exI [of _ "100::nat"]) simp_all

lemma Seconds_nonneg:
  assumes "float_rounding rnd" and "0 \<le> d"
  shows "0 \<le> Seconds rnd d"
proof -
  have "0 \<le> (of_int (d mod Second) / of_int Second :: rat)" by (simp add: Second_def)
  then have "0 \<le> rnd (of_int (d mod Second) / of_int Second)" by (rule rounding_nonneg [OF assms(1)])
  moreover have "0 \<le> d div Second" using assms(2) by (simp add: Second_def pos_imp_zdiv_nonneg_iff)
  ultimately show ?thesis unfolding Seconds_def by (intro rounding_nonneg [OF assms(1)]) simp
qed

lemma allow_frame:
  "tb_max (fst (allow rnd now b)) = tb_max b" "rate (fst (allow rnd now b)) = rate b"
  "lastTick (fst (allow rnd now b)) = now"
  by (simp_all add: allow_def Let_def)

lemma bucket_ok_allow:
  assumes "float_rounding rnd" and "bucket_ok b" and "lastTick b \<le> now"
  shows "bucket_ok (fst (allow rnd now b))"
proof -
  let ?t = "rnd (tokens b + rnd (Seconds rnd (now - lastTick b) * rate b))"
  let ?t' = "if ?t > tb_max b then tb_max b else ?t"
  obtain k where k: "k \<le> 9007199254740992" "tb_max b = of_nat k" using assms(2) by (auto simp: bucket_ok_def)
  have b: "0 \<le> tokens b" "0 \<le> rate b" using assms(2) by (simp_all add: bucket_ok_def)
  have "0 \<le> Seconds rnd (now - lastTick b)" using assms by (intro Seconds_nonneg) simp_all
  with b have "0 \<le> Seconds rnd (now - lastTick b) * rate b" by simp
  then have "0 \<le> rnd (Seconds rnd (now - lastTick b) * rate b)" by (rule rounding_nonneg [OF assms(1)])
  with b have t: "0 \<le> ?t" by (intro rounding_nonneg [OF assms(1)]) simp
  then have t': "0 \<le> ?t'" "?t' \<le> tb_max b" using k by auto
  have "0 \<le> rnd (?t' - 1)" "rnd (?t' - 1) \<le> tb_max b" if "\<not> ?t' < 1"
  proof -
    show "0 \<le> rnd (?t' - 1)" using that by (intro rounding_nonneg [OF assms(1)]) simp
    have "rnd (?t' - 1) \<le> rnd (of_nat k)" using t' k by (intro rounding_mono [OF assms(1)]) simp
    then show "rnd (?t' - 1) \<le> tb_max b" using k rounding_nat [OF assms(1) k(1)] by simp
  qed
  with t' assms(2) k show ?thesis
    unfolding bucket_ok_def allow_frame by (auto simp: allow_def Let_def)
qed

text \<open>A run of calls at the times \<open>ts\<close>, counting those that pass.\<close>

fun allow_run :: "(rat \<Rightarrow> rat) \<Rightarrow> instant list \<Rightarrow> tokenBucket \<Rightarrow> tokenBucket \<times> nat" where
  "allow_run rnd [] b = (b, 0)"
| "allow_run rnd (t # ts) b =
     (let (b', ok) = allow rnd t b; (b'', n) = allow_run rnd ts b' in (b'', (if ok then Suc n else n)))"

lemma Seconds_exact: "Seconds (\<lambda>x. x) d = of_int d / of_int Second"
proof -
  have "of_int d = (of_int Second * of_int (d div Second) + of_int (d mod Second) :: rat)"
    by (simp flip: of_int_mult of_int_add)
  moreover have "of_int Second \<noteq> (0 :: rat)" by (simp add: Second_def)
  ultimately show ?thesis by (simp add: Seconds_def add_divide_distrib)
qed

lemma allow_exact_bound:
  assumes "allow (\<lambda>x. x) t b = (b', ok)"
  shows "tokens b' + (if ok then 1 else 0) \<le> tokens b + of_int (t - lastTick b) / of_int Second * rate b \<and>
    lastTick b' = t \<and> rate b' = rate b"
  using assms by (auto simp: allow_def Let_def Seconds_exact split: if_splits)

lemma allow_run_bound:
  "allow_run (\<lambda>x. x) ts b = (b', n) \<Longrightarrow>
   tokens b' + of_nat n \<le> tokens b + of_int (lastTick b' - lastTick b) / of_int Second * rate b \<and>
   rate b' = rate b \<and> lastTick b' = last (lastTick b # ts)"
proof (induction ts arbitrary: b b' n)
  case (Cons t ts)
  obtain b1 ok where 1: "allow (\<lambda>x. x) t b = (b1, ok)" by (cases "allow (\<lambda>x. x) t b")
  obtain n' where 2: "allow_run (\<lambda>x. x) ts b1 = (b', n')" and n: "n = (if ok then Suc n' else n')"
    using Cons.prems 1 by (auto split: prod.splits)
  note a = allow_exact_bound [OF 1] and ih = Cons.IH [OF 2]
  have "of_int (lastTick b' - lastTick b1) / of_int Second * rate b1 +
      of_int (t - lastTick b) / of_int Second * rate b =
      (of_int (lastTick b' - lastTick b) / of_int Second * rate b :: rat)"
    using a by (simp add: ring_distribs diff_divide_distrib)
  then show ?case using a ih n by auto
qed simp

section \<open>Routing\<close>

lemma dispatch_forwarded:
  assumes "dispatch env now sess ty raw vc = (vc', es, ok, err)"
    and "ee_forwarder env = Some (\<lambda>v d. ForwardCommand write_ok v d cr)"
    and "ForwardToVehicle v d \<in> set es"
  shows "v = sess_VehicleID sess \<and> d = raw \<and> is_movement ty \<and> is_active sess \<and> Connected cr v"
  using assms
  by (cases ty; cases "sess_OperatorRole sess")
    (auto simp: dispatch_def forwardMovementCommand_def handleEmergencyStop_engine_def ForwardCommand_def
      write_audit_def Connected_def is_active_def split: prod.splits if_splits option.splits)

lemma Handle_cases:
  assumes "Handle rnd marshal_ok env now raw cmd sess (b, r) = ((b', r'), es, a)"
  obtains
    (malformed) "cmd = None" "b' = b" "r' = r" "es = []"
  | (limited) c where "cmd = Some c" "allow rnd now b = (b', False)" "r' = r" "es = []"
  | (dispatched) c vc' ok err where "cmd = Some c" "allow rnd now b = (b', True)"
      "dispatch env now sess (cmd_Type c) raw (ctx r (sess_VehicleID sess)) = (vc', es, ok, err)"
      "r' = with_ctx (sess_VehicleID sess) (\<lambda>_. vc') r"
  using assms
  by (cases cmd) (auto simp: Handle_def Let_def split: prod.splits if_splits)

lemma dispatch_machine:
  "dispatch env now sess ty raw vc = (vc', es, ok, err) \<Longrightarrow>
   vc_SM vc' = (if ty = COMMAND_TYPE_EMERGENCY_STOP then TransitionSystem StateSafeMode (vc_SM vc) else vc_SM vc)"
  by (cases ty)
    (auto simp: dispatch_def forwardMovementCommand_def handleEmergencyStop_engine_def
      split: prod.splits if_splits option.splits)

text \<open>A burst of messages at one instant.\<close>

definition handle_all ::
  "(rat \<Rightarrow> rat) \<Rightarrow> (ControlAck \<Rightarrow> bool) \<Rightarrow> engine_env \<Rightarrow> instant \<Rightarrow> (string \<times> ControlCommand \<times> Session) list \<Rightarrow>
   tokenBucket \<times> Registry \<Rightarrow> tokenBucket \<times> Registry" where
  "handle_all rnd marshal_ok env now msgs st =
     fold (\<lambda>(raw, c, sess) st. fst (Handle rnd marshal_ok env now raw (Some c) sess st)) msgs st"

lemma allow_same_instant:
  assumes "float_rounding rnd" and "tokens b = of_nat k" and "lastTick b = now" and "k \<le> 9007199254740992"
    and "tb_max b = of_nat n" and "k \<le> n"
  shows "allow rnd now b =
    (if k = 0 then (b, False) else (b\<lparr>tokens := of_nat (k - 1)\<rparr>, True))"
proof -
  have sec: "Seconds rnd 0 = 0" using assms(1) by (simp add: Seconds_def)
  have t: "rnd (tokens b + rnd (Seconds rnd (now - lastTick b) * rate b)) = of_nat k"
    using assms(1-4) sec rounding_nat [of rnd k] by simp
  have pred: "rnd (of_nat k - 1) = of_nat (k - 1)" if "k \<noteq> 0"
    using that rounding_nat [OF assms(1), of "k - 1"] assms(4) by (simp add: of_nat_diff)
  have le: "\<not> of_nat k > tb_max b" using assms(5,6) by simp
  have "b\<lparr>tokens := of_nat k, lastTick := now\<rparr> = b" "b\<lparr>tokens := x, lastTick := now\<rparr> = b\<lparr>tokens := x\<rparr>" for x
    using assms(2,3) by (cases b; simp)+
  then show ?thesis using pred le unfolding allow_def t Let_def by (auto simp: not_less_eq_eq)
qed

lemma Handle_bucket:
  "fst (fst (Handle rnd marshal_ok env now raw (Some c) sess (b, r))) = fst (allow rnd now b)"
  by (auto simp: Handle_def Let_def split: prod.splits if_splits)

lemma handle_all_bucket:
  assumes "float_rounding rnd" and "tokens b = of_nat k" and "lastTick b = now" and "k \<le> 9007199254740992"
    and "tb_max b = of_nat n" and "k \<le> n"
  shows "tokens (fst (handle_all rnd marshal_ok env now msgs (b, r))) = of_nat (k - length msgs) \<and>
     lastTick (fst (handle_all rnd marshal_ok env now msgs (b, r))) = now \<and>
     tb_max (fst (handle_all rnd marshal_ok env now msgs (b, r))) = of_nat n"
  using assms(2-6)
proof (induction msgs arbitrary: b r k)
  case (Cons msg msgs)
  obtain raw c sess where msg: "msg = (raw, c, sess)" by (cases msg) auto
  obtain b' r' where h: "fst (Handle rnd marshal_ok env now raw (Some c) sess (b, r)) = (b', r')"
    by (cases "fst (Handle rnd marshal_ok env now raw (Some c) sess (b, r))")
  then have b': "b' = fst (allow rnd now b)" using Handle_bucket [of rnd marshal_ok env now raw c sess b r] by simp
  have "tokens b' = of_nat (k - 1) \<and> lastTick b' = now \<and> tb_max b' = of_nat n"
    using Cons.prems b' by (auto simp: allow_same_instant [OF assms(1)])
  then show ?case
    using Cons.IH [of b' "k - 1" r'] Cons.prems msg h
    by (simp add: handle_all_def)
qed (simp add: handle_all_def)

lemma Handle_forwards:
  assumes "Handle rnd marshal_ok env now raw cmd sess (b, r) = ((b', r'), es, a)"
    and "ee_forwarder env = Some (\<lambda>v d. ForwardCommand write_ok v d cr)"
    and "ForwardToVehicle v d \<in> set es"
  shows "v = sess_VehicleID sess \<and> d = raw \<and> Connected cr v \<and> is_active sess \<and>
    (\<exists>c. cmd = Some c \<and> is_movement (cmd_Type c)) \<and> snd (allow rnd now b)"
  using assms(1)
proof (cases rule: Handle_cases)
  case (dispatched c vc' ok err)
  with dispatch_forwarded [OF dispatched(3) assms(2,3)] show ?thesis by auto
qed (use assms(3) in auto)

lemma Handle_other_ctx:
  assumes "Handle rnd marshal_ok env now raw cmd sess (b, r) = ((b', r'), es, a)"
    and "v \<noteq> sess_VehicleID sess"
  shows "ctx r' v = ctx r v"
  using assms(1) by (cases rule: Handle_cases) (use assms(2) in auto)

section \<open>Properties\<close>

text \<open>C20: a message makes the engine write to a vehicle only if it decodes as a movement command within
  the rate limit, comes from the session that is ACTIVE_OPERATOR, and the vehicle is the connected one
  of that session; the bytes written are the bytes received. No message changes the context of another
  vehicle.\<close>

theorem engine_forwards_only_own_movement:
  assumes "Handle rnd marshal_ok env now raw cmd sess (b, r) = ((b', r'), es, a)"
    and "ee_forwarder env = Some (\<lambda>v d. ForwardCommand write_ok v d cr)"
  shows "(ForwardToVehicle v d \<in> set es \<longrightarrow>
            v = sess_VehicleID sess \<and> d = raw \<and> Connected cr v \<and> is_active sess \<and>
            (\<exists>c. cmd = Some c \<and> is_movement (cmd_Type c)) \<and> snd (allow rnd now b)) \<and>
         (v' \<noteq> sess_VehicleID sess \<longrightarrow> ctx r' v' = ctx r v')"
  using Handle_forwards [OF assms] Handle_other_ctx [OF assms(1)] by blast

theorem engine_forwards_only_own_movement_witness:
  "\<exists>b' r' es a. Handle (\<lambda>x. x) (\<lambda>_. True)
      \<lparr>ee_auditWriter = None, ee_forwarder = Some (\<lambda>v d. ForwardCommand (\<lambda>_ _. True) v d (conn_register ''v'' 1 NewConnRegistry)),
       ee_auditID = [], ee_ackID = []\<rparr> 0 ''raw'' (Some \<lparr>cmd_EventId = None, cmd_Type = COMMAND_TYPE_STEER\<rparr>)
      \<lparr>sess_ID = ''s'', sess_VehicleID = ''v'', sess_OperatorID = ''o'', sess_OperatorRole = RoleObserver, sess_CreatedAt = 0\<rparr>
      (newTokenBucket 0 maxCommandsPerSecond, NewRegistry 1 1 1) = ((b', r'), es, a) \<and>
    ForwardToVehicle ''v'' ''raw'' \<notin> set es"
proof -
  let ?env = "\<lparr>ee_auditWriter = None, ee_forwarder = Some (\<lambda>v d. ForwardCommand (\<lambda>_ _. True) v d (conn_register ''v'' 1 NewConnRegistry)),
       ee_auditID = [], ee_ackID = []\<rparr>"
  let ?sess = "\<lparr>sess_ID = ''s'', sess_VehicleID = ''v'', sess_OperatorID = ''o'', sess_OperatorRole = RoleObserver, sess_CreatedAt = 0\<rparr>"
  let ?h = "Handle (\<lambda>x. x) (\<lambda>_. True) ?env 0 ''raw'' (Some \<lparr>cmd_EventId = None, cmd_Type = COMMAND_TYPE_STEER\<rparr>) ?sess
      (newTokenBucket 0 maxCommandsPerSecond, NewRegistry 1 1 1)"
  obtain b' r' es a where h: "?h = ((b', r'), es, a)" by (metis prod.exhaust)
  have e: "ee_forwarder ?env = Some (\<lambda>v d. ForwardCommand (\<lambda>_ _. True) v d (conn_register ''v'' 1 NewConnRegistry))" by simp
  from engine_forwards_only_own_movement [OF h e, of "''v''" "''raw''"] h show ?thesis
    by (auto simp: is_active_def)
qed

text \<open>An EMERGENCY_STOP within the rate limit, from a session of either role, puts the session's
  vehicle through the SAFE_MODE trigger, writes the audit record first, with the operator's id, and
  publishes the event afterwards; it is acknowledged with success and touches no other vehicle.\<close>

theorem engine_emergency_stop:
  assumes "Handle rnd marshal_ok env now raw (Some c) sess (b, r) = ((b', r'), es, a)"
    and "cmd_Type c = COMMAND_TYPE_EMERGENCY_STOP" and "snd (allow rnd now b)"
    and "\<And>x. marshal_ok x"
  shows "StateMachine r' (sess_VehicleID sess) =
      TransitionSystem StateSafeMode (StateMachine r (sess_VehicleID sess)) \<and>
    critical_order (ee_auditWriter env) es \<and>
    (\<forall>ok. ee_auditWriter env = Some ok \<longrightarrow>
       (\<exists>ev ok'. hd es = AuditWrite ev ok' \<and> ae_OperatorID ev = sess_OperatorID sess \<and>
          ae_SystemState ev = system_string (System (StateMachine r (sess_VehicleID sess))))) \<and>
    map_option ca_Success a = Some True \<and>
    (v \<noteq> sess_VehicleID sess \<longrightarrow> ctx r' v = ctx r v)"
  using assms
  by (auto simp: Handle_def Let_def dispatch_def handleEmergencyStop_engine_def StateMachine_def engine_ack_def
      write_audit_def split: prod.splits if_splits intro!: critical_orderI)

theorem engine_emergency_stop_witness:
  "\<exists>b' r' es a. Handle (\<lambda>x. x) (\<lambda>_. True)
      \<lparr>ee_auditWriter = NoopWriter, ee_forwarder = None, ee_auditID = ''e'', ee_ackID = []\<rparr> 0 ''raw''
      (Some \<lparr>cmd_EventId = None, cmd_Type = COMMAND_TYPE_EMERGENCY_STOP\<rparr>)
      \<lparr>sess_ID = ''s'', sess_VehicleID = ''v'', sess_OperatorID = ''o'', sess_OperatorRole = RoleActiveOperator, sess_CreatedAt = 0\<rparr>
      (newTokenBucket 0 maxCommandsPerSecond,
       with_SM ''v'' (System_update (\<lambda>_. StateConnected)) (NewRegistry 1 1 1)) = ((b', r'), es, a) \<and>
    System (StateMachine r' ''v'') = StateSafeMode"
proof -
  let ?env = "\<lparr>ee_auditWriter = NoopWriter, ee_forwarder = None, ee_auditID = ''e'', ee_ackID = []\<rparr>"
  let ?sess = "\<lparr>sess_ID = ''s'', sess_VehicleID = ''v'', sess_OperatorID = ''o'', sess_OperatorRole = RoleActiveOperator, sess_CreatedAt = 0\<rparr>"
  let ?r = "with_SM ''v'' (System_update (\<lambda>_. StateConnected)) (NewRegistry 1 1 1)"
  let ?c = "\<lparr>cmd_EventId = None, cmd_Type = COMMAND_TYPE_EMERGENCY_STOP\<rparr>"
  let ?b = "newTokenBucket 0 maxCommandsPerSecond"
  obtain b' r' es a where h: "Handle (\<lambda>x. x) (\<lambda>_. True) ?env 0 ''raw'' (Some ?c) ?sess (?b, ?r) = ((b', r'), es, a)"
    by (metis prod.exhaust)
  have ok: "snd (allow (\<lambda>x. x) 0 ?b)"
    by (simp add: allow_def newTokenBucket_def maxCommandsPerSecond_def Seconds_def)
  have ty: "cmd_Type ?c = COMMAND_TYPE_EMERGENCY_STOP" by simp
  from engine_emergency_stop [OF h ty ok] h show ?thesis
    by (simp add: TransitionSystem_SafeMode)
qed



text \<open>The bucket is shared by all vehicles and is asked before the command's type. After a burst of
  100 messages of whatever kind from whatever sessions, an EMERGENCY_STOP at that instant is answered
  with \<open>rate limited\<close>: nothing is written, published or changed.\<close>

theorem emergency_stop_rate_limited:
  assumes "float_rounding rnd" and "length msgs = 100"
    and "handle_all rnd marshal_ok env now msgs (newTokenBucket now maxCommandsPerSecond, r) = (b1, r1)"
    and "cmd_Type c = COMMAND_TYPE_EMERGENCY_STOP" and "\<And>x. marshal_ok x"
    and "Handle rnd marshal_ok env now raw (Some c) sess (b1, r1) = ((b2, r2), es, a)"
  shows "r2 = r1 \<and> es = [] \<and> map_option ca_ErrorMsg a = Some ''rate limited'' \<and>
    map_option ca_Success a = Some False"
proof -
  let ?b = "newTokenBucket now maxCommandsPerSecond"
  have b: "tokens ?b = of_nat 100" "lastTick ?b = now" "tb_max ?b = of_nat 100"
    by (simp_all add: newTokenBucket_def maxCommandsPerSecond_def)
  have 1: "tokens b1 = of_nat 0" "lastTick b1 = now" "tb_max b1 = of_nat 100"
    using handle_all_bucket [OF assms(1) b(1,2) _ b(3), of marshal_ok env msgs r] assms(2,3) by simp_all
  have "allow rnd now b1 = (b1, False)"
    using allow_same_instant [OF assms(1) 1(1,2) _ 1(3)] by simp
  with assms(5,6) show ?thesis by (auto simp: Handle_def Let_def engine_ack_def split: prod.splits)
qed

theorem emergency_stop_rate_limited_witness:
  "\<exists>b1 b2 r2 es a. handle_all (\<lambda>x. x) (\<lambda>_. True)
      \<lparr>ee_auditWriter = None, ee_forwarder = None, ee_auditID = [], ee_ackID = []\<rparr> 0
      (replicate 100 ([], \<lparr>cmd_EventId = None, cmd_Type = COMMAND_TYPE_STEER\<rparr>,
        \<lparr>sess_ID = ''s2'', sess_VehicleID = ''v2'', sess_OperatorID = ''bob'', sess_OperatorRole = RoleObserver, sess_CreatedAt = 0\<rparr>))
      (newTokenBucket 0 maxCommandsPerSecond, NewRegistry 1 1 1) = b1 \<and>
    Handle (\<lambda>x. x) (\<lambda>_. True) \<lparr>ee_auditWriter = None, ee_forwarder = None, ee_auditID = [], ee_ackID = []\<rparr> 0 []
      (Some \<lparr>cmd_EventId = None, cmd_Type = COMMAND_TYPE_EMERGENCY_STOP\<rparr>)
      \<lparr>sess_ID = ''s1'', sess_VehicleID = ''v1'', sess_OperatorID = ''alice'', sess_OperatorRole = RoleActiveOperator, sess_CreatedAt = 0\<rparr>
      b1 = ((b2, r2), es, a) \<and> es = []"
proof -
  let ?env = "\<lparr>ee_auditWriter = None, ee_forwarder = None, ee_auditID = [], ee_ackID = []\<rparr>"
  let ?obs = "\<lparr>sess_ID = ''s2'', sess_VehicleID = ''v2'', sess_OperatorID = ''bob'', sess_OperatorRole = RoleObserver, sess_CreatedAt = 0\<rparr>"
  let ?sess = "\<lparr>sess_ID = ''s1'', sess_VehicleID = ''v1'', sess_OperatorID = ''alice'', sess_OperatorRole = RoleActiveOperator, sess_CreatedAt = 0\<rparr>"
  let ?msgs = "replicate 100 ([], \<lparr>cmd_EventId = None, cmd_Type = COMMAND_TYPE_STEER\<rparr>, ?obs)"
  let ?c = "\<lparr>cmd_EventId = None, cmd_Type = COMMAND_TYPE_EMERGENCY_STOP\<rparr>"
  obtain b1 r1 where 1: "handle_all (\<lambda>x. x) (\<lambda>_. True) ?env 0 ?msgs (newTokenBucket 0 maxCommandsPerSecond, NewRegistry 1 1 1) = (b1, r1)"
    by (metis prod.exhaust)
  obtain b2 r2 es a where 2: "Handle (\<lambda>x. x) (\<lambda>_. True) ?env 0 [] (Some ?c) ?sess (b1, r1) = ((b2, r2), es, a)"
    by (metis prod.exhaust)
  have "length ?msgs = 100" "cmd_Type ?c = COMMAND_TYPE_EMERGENCY_STOP" by simp_all
  from emergency_stop_rate_limited [OF float_rounding_id this(1) 1 this(2) _ 2] have "es = []" by simp
  then show ?thesis using 1 2 by (intro exI [of _ "(b1, r1)"] exI [of _ b2] exI [of _ r2] exI [of _ es] exI [of _ a]) simp
qed

end
