(* ===== verification/Vehicle_Store.thy ===== *)
theory Vehicle_Store
  imports Vehicle_Connection
begin

text \<open>
  The persisted fleet configuration (\<open>internal/vehicleregistry\<close>) and the MediaMTX client that kicks
  the viewers of a vehicle (\<open>internal/mediamtx/client.go\<close>). The table \<open>vehicles\<close> is a list of rows with
  the primary key \<open>id\<close>; \<open>db_up\<close> says whether the statement reaches the database.
\<close>

section \<open>The table of vehicles\<close>

record Vehicle =
  veh_ID :: vehicle_id
  veh_DisplayName :: string
  veh_Description :: string
  veh_CreatedAt :: instant
  veh_Online :: bool

datatype store_error = StoreUnavailable | StoreDuplicate | StoreNotFound

type_synonym vehicle_table = "Vehicle list"

definition vehicle_ids :: "vehicle_table \<Rightarrow> vehicle_id list" where
  "vehicle_ids t = map veh_ID t"

text \<open>Rows are inserted with the current time; the query's order is that of \<open>created_at\<close>.\<close>

definition vehicles_List :: "bool \<Rightarrow> ConnRegistry \<Rightarrow> vehicle_table \<Rightarrow> store_error + Vehicle list" where
  "vehicles_List db_up cr t =
     (if db_up
      then Inr (map (\<lambda>v. v\<lparr>veh_Online := Connected cr (veh_ID v)\<rparr>) (sort_key veh_CreatedAt t))
      else Inl StoreUnavailable)"

definition vehicles_Add ::
  "bool \<Rightarrow> instant \<Rightarrow> vehicle_id \<Rightarrow> string \<Rightarrow> string \<Rightarrow> vehicle_table \<Rightarrow> vehicle_table \<times> (store_error + unit)" where
  "vehicles_Add db_up now vid name descr t =
     (if \<not> db_up then (t, Inl StoreUnavailable)
      else if vid \<in> set (vehicle_ids t) then (t, Inl StoreDuplicate)
      else (t @ [\<lparr>veh_ID = vid, veh_DisplayName = name, veh_Description = descr, veh_CreatedAt = now,
                 veh_Online = False\<rparr>], Inr ()))"

definition vehicles_Delete :: "bool \<Rightarrow> vehicle_id \<Rightarrow> vehicle_table \<Rightarrow> vehicle_table \<times> (store_error + unit)" where
  "vehicles_Delete db_up vid t =
     (if \<not> db_up then (t, Inl StoreUnavailable)
      else (filter (\<lambda>v. veh_ID v \<noteq> vid) t,
            if vid \<in> set (vehicle_ids t) then Inr () else Inl StoreNotFound))"

definition vehicles_Exists :: "bool \<Rightarrow> vehicle_id \<Rightarrow> vehicle_table \<Rightarrow> store_error + bool" where
  "vehicles_Exists db_up vid t =
     (if db_up then Inr (0 < length (filter (\<lambda>v. veh_ID v = vid) t)) else Inl StoreUnavailable)"

definition SeedDefault :: "bool \<Rightarrow> instant \<Rightarrow> vehicle_table \<Rightarrow> vehicle_table" where
  "SeedDefault db_up now t =
     (if db_up \<and> ''vehicle-001'' \<notin> set (vehicle_ids t)
      then t @ [\<lparr>veh_ID = ''vehicle-001'', veh_DisplayName = ''Vehicle 001'', veh_Description = [],
                 veh_CreatedAt = now, veh_Online = False\<rparr>]
      else t)"

lemma vehicles_Exists_iff: "vehicles_Exists True vid t = Inr (vid \<in> set (vehicle_ids t))"
  by (auto simp: vehicles_Exists_def vehicle_ids_def filter_empty_conv)

lemma vehicles_keys_distinct:
  assumes "distinct (vehicle_ids t)"
  shows "distinct (vehicle_ids (fst (vehicles_Add b now vid n d t)))"
    and "distinct (vehicle_ids (fst (vehicles_Delete b vid t)))"
    and "distinct (vehicle_ids (SeedDefault b now t))"
proof -
  show "distinct (vehicle_ids (fst (vehicles_Add b now vid n d t)))"
    using assms by (auto simp: vehicles_Add_def vehicle_ids_def)
  show "distinct (vehicle_ids (fst (vehicles_Delete b vid t)))"
    using assms distinct_map_filter [of veh_ID t] by (simp add: vehicles_Delete_def vehicle_ids_def)
  show "distinct (vehicle_ids (SeedDefault b now t))"
    using assms by (auto simp: SeedDefault_def vehicle_ids_def)
qed

section \<open>The interface and its two implementations\<close>

text \<open>\<open>VehicleStore\<close> as the control server holds it: the table, or the stand-in for a missing database, which lists
  nothing and accepts everything.\<close>

datatype VehicleStore = PostgresVehicleStore vehicle_table | NoopVehicleStore

fun store_List :: "bool \<Rightarrow> ConnRegistry \<Rightarrow> VehicleStore \<Rightarrow> store_error + Vehicle list" where
  "store_List db_up cr (PostgresVehicleStore t) = vehicles_List db_up cr t"
| "store_List db_up cr NoopVehicleStore = Inr []"

fun store_Add ::
  "bool \<Rightarrow> instant \<Rightarrow> vehicle_id \<Rightarrow> string \<Rightarrow> string \<Rightarrow> VehicleStore \<Rightarrow> VehicleStore \<times> (store_error + unit)" where
  "store_Add db_up now vid name descr (PostgresVehicleStore t) =
     map_prod PostgresVehicleStore id (vehicles_Add db_up now vid name descr t)"
| "store_Add db_up now vid name descr NoopVehicleStore = (NoopVehicleStore, Inr ())"

fun store_Delete :: "bool \<Rightarrow> vehicle_id \<Rightarrow> VehicleStore \<Rightarrow> VehicleStore \<times> (store_error + unit)" where
  "store_Delete db_up vid (PostgresVehicleStore t) = map_prod PostgresVehicleStore id (vehicles_Delete db_up vid t)"
| "store_Delete db_up vid NoopVehicleStore = (NoopVehicleStore, Inr ())"

fun store_Exists :: "bool \<Rightarrow> vehicle_id \<Rightarrow> VehicleStore \<Rightarrow> store_error + bool" where
  "store_Exists db_up vid (PostgresVehicleStore t) = vehicles_Exists db_up vid t"
| "store_Exists db_up vid NoopVehicleStore = Inr False"

fun stored_vehicles :: "VehicleStore \<Rightarrow> vehicle_table" where
  "stored_vehicles (PostgresVehicleStore t) = t"
| "stored_vehicles NoopVehicleStore = []"

text \<open>What both promise: keys stay distinct, a refused call changes nothing, and what was deleted is not listed.\<close>

lemma store_keys_distinct:
  assumes "distinct (vehicle_ids (stored_vehicles st))"
  shows "distinct (vehicle_ids (stored_vehicles (fst (store_Add b now vid n d st))))"
    and "distinct (vehicle_ids (stored_vehicles (fst (store_Delete b vid st))))"
  using assms by (cases st; simp add: vehicles_keys_distinct)+

lemma store_refused:
  "snd (store_Add b now vid n d st) = Inl e \<Longrightarrow> fst (store_Add b now vid n d st) = st"
  "snd (store_Delete b vid st) = Inl e \<Longrightarrow> fst (store_Delete b vid st) = st"
  by (cases st; auto simp: vehicles_Add_def vehicles_Delete_def vehicle_ids_def filter_id_conv split: if_splits)+

lemma store_deleted: "b \<Longrightarrow> vid \<notin> set (vehicle_ids (stored_vehicles (fst (store_Delete b vid st))))"
  by (cases st) (auto simp: vehicles_Delete_def vehicle_ids_def)

section \<open>MediaMTX client\<close>

record webrtcSession =
  wr_ID :: string
  wr_Path :: string

text \<open>\<open>listed\<close> is the decoded list of sessions (\<open>None\<close> if the request or the decoding fails), \<open>kick\<close>
  the server's answer per session. The result lists the sessions asked to be kicked and whether the
  kick succeeded.\<close>

definition listSessions :: "webrtcSession list option \<Rightarrow> vehicle_id \<Rightarrow> webrtcSession list option" where
  "listSessions listed vid = map_option (filter (\<lambda>s. wr_Path s = vid)) listed"

definition deleteSession :: "(string \<Rightarrow> nat option) \<Rightarrow> string \<Rightarrow> bool" where
  "deleteSession kick sid = (case kick sid of None \<Rightarrow> False | Some code \<Rightarrow> code < 400)"

definition kickVehicle :: "webrtcSession list option \<Rightarrow> (string \<Rightarrow> nat option) \<Rightarrow> vehicle_id \<Rightarrow> (string \<times> bool) list" where
  "kickVehicle listed kick vid =
     (case listSessions listed vid of
        None \<Rightarrow> []
      | Some ss \<Rightarrow> map (\<lambda>s. (wr_ID s, deleteSession kick (wr_ID s))) ss)"

lemma kickVehicle_complete:
  "listed = Some ss \<Longrightarrow> fst ` set (kickVehicle listed kick vid) = wr_ID ` {s \<in> set ss. wr_Path s = vid}"
  by (auto simp: kickVehicle_def listSessions_def image_image)

end
