(* ===== verification/Transport.thy ===== *)
theory Transport
  imports Tokens Handover Command_Engine Vehicle_Store
begin

text \<open>
  The two WebSocket endpoints of the control server: the operator's
  (\<open>internal/controlserver/transport/websocket.go\<close>) and the vehicle's
  (\<open>internal/vehicleconnection/handler.go\<close>), on the state the control server shares between its
  components. A connection is opened by the upgrade, takes messages one at a time and ends with the
  deferred disconnect; these three are operations here, and the read loop is their sequence. The ping
  goroutine only keeps the TCP connection busy and is left out.
\<close>

section \<open>Shared state\<close>

record Server =
  sv_sessionMgr :: Manager
  sv_contexts :: Registry
  sv_handover :: HandoverManager
  sv_recorder :: MemoryRecorder
  sv_conns :: ConnRegistry
  sv_acks :: AckStore
  sv_vehicles :: VehicleStore
  sv_limiter :: tokenBucket
  sv_auditWriter :: audit_writer
  sv_publisher :: bool
  sv_effects :: "effect list"

text \<open>The server as \<open>newControlServer\<close> and \<open>buildHandlers\<close> wire it: both watchdog checkers are
  configured, and the operator's WebSocket handler gets the audit writer but no publisher.\<close>

definition newControlServer :: "string \<Rightarrow> audit_writer \<Rightarrow> VehicleStore \<Rightarrow> instant \<Rightarrow> Server" where
  "newControlServer url aw vehicles now =
     \<lparr>sv_sessionMgr = NewManager True,
      sv_contexts = WithTelemetryChecker (WithUserChecker (registry_WithAuditWriter aw
        (NewRegistry DefaultDeadmanTimeout DefaultACKTimeout DefaultVehicleACKTimeout))),
      sv_handover = NewHandoverManager url, sv_recorder = NewMemoryRecorder,
      sv_conns = NewConnRegistry, sv_acks = NewAckStore, sv_vehicles = vehicles,
      sv_limiter = newTokenBucket now maxCommandsPerSecond, sv_auditWriter = aw,
      sv_publisher = False, sv_effects = []\<rparr>"

definition emit :: "effect list \<Rightarrow> Server \<Rightarrow> Server" where
  "emit es s = s\<lparr>sv_effects := sv_effects s @ es\<rparr>"

definition on_ctx :: "vehicle_id \<Rightarrow> (VehicleContext \<Rightarrow> VehicleContext) \<Rightarrow> Server \<Rightarrow> Server" where
  "on_ctx vid f s = s\<lparr>sv_contexts := with_ctx vid f (sv_contexts s)\<rparr>"

definition on_SM :: "vehicle_id \<Rightarrow> (Machine \<Rightarrow> Machine) \<Rightarrow> Server \<Rightarrow> Server" where
  "on_SM vid f = on_ctx vid (\<lambda>c. c\<lparr>vc_SM := f (vc_SM c)\<rparr>)"

definition on_sessions :: "(Manager \<Rightarrow> Manager) \<Rightarrow> Server \<Rightarrow> Server" where
  "on_sessions f s = s\<lparr>sv_sessionMgr := f (sv_sessionMgr s)\<rparr>"

definition machine_of :: "Server \<Rightarrow> vehicle_id \<Rightarrow> Machine" where
  "machine_of s vid = StateMachine (sv_contexts s) vid"

definition context_of :: "Server \<Rightarrow> vehicle_id \<Rightarrow> VehicleContext" where
  "context_of s vid = ctx (sv_contexts s) vid"

section \<open>Operator connections\<close>

record ws_request =
  rq_Authorization :: string
  rq_token :: string
  rq_session_id :: session_id

record wsConn =
  wc_claims :: Claims
  wc_sess :: Session
  wc_isObserver :: bool

definition authenticateWS ::
  "jwt_lib \<Rightarrow> string \<Rightarrow> ws_request \<Rightarrow> Manager \<Rightarrow> (Claims \<times> Session) reply" where
  "authenticateWS jwt secret rq m =
     (let tok = extractToken (rq_Authorization rq) (rq_token rq) in
      if tok = [] then HttpError StatusUnauthorized ''missing token''
      else case validateJWT jwt secret tok of
        None \<Rightarrow> HttpError StatusUnauthorized ''invalid token''
      | Some claims \<Rightarrow>
          if rq_session_id rq = [] then HttpError StatusBadRequest ''session_id required''
          else case GetSession m (rq_session_id rq) of
            None \<Rightarrow> HttpError StatusNotFound ''session not found''
          | Some sess \<Rightarrow> HttpOk StatusOK (claims, sess))"

definition recoverFromSafeMode :: "Session \<Rightarrow> VehicleContext \<Rightarrow> VehicleContext" where
  "recoverFromSafeMode sess vc =
     (if System (vc_SM vc) \<noteq> StateSafeMode then vc
      else
        let m1 = TransitionSystem StateRecovering (vc_SM vc);
            m2 = TransitionSystem StateAuthenticated m1;
            (m3, _) = TransitionToConnected m2;
            m4 = TransitionOperator OpActive m3
        in vc\<lparr>vc_SM := m4,
              vc_Deadman := deadman_Start (sess_ID sess) (sess_VehicleID sess) (vc_Deadman vc),
              vc_AuthWatchdog :=
                map_option (auth_Start (sess_ID sess) (sess_VehicleID sess) (sess_OperatorID sess))
                  (vc_AuthWatchdog vc)\<rparr>)"

text \<open>The upgrade: an error reply, a failed upgrade (\<open>None\<close>) or an open connection.\<close>

definition ServeWS ::
  "jwt_lib \<Rightarrow> string \<Rightarrow> bool \<Rightarrow> ws_request \<Rightarrow> Server \<Rightarrow> Server \<times> wsConn option reply" where
  "ServeWS jwt secret upgraded rq s =
     (case authenticateWS jwt secret rq (sv_sessionMgr s) of
        HttpError code msg \<Rightarrow> (s, HttpError code msg)
      | HttpOk code (claims, sess) \<Rightarrow>
          let isObserver = (sess_OperatorRole sess = RoleObserver) in
          if \<not> upgraded then (s, HttpOk code None)
          else
            ((if isObserver then s else on_ctx (sess_VehicleID sess) (recoverFromSafeMode sess) s),
             HttpOk code (Some \<lparr>wc_claims = claims, wc_sess = sess, wc_isObserver = isObserver\<rparr>)))"

text \<open>An acknowledgement without correlation ids, as the handler makes it itself.\<close>

definition plain_ack :: "string \<Rightarrow> ControlAck" where
  "plain_ack msg = \<lparr>ca_SessionId = [], ca_EventId = [], ca_VehicleId = [], ca_OperatorId = [],
     ca_Success = False, ca_ErrorMsg = msg\<rparr>"

text \<open>The engine's environment on the server: its forwarder is the connection registry.\<close>

definition engine_env_of :: "(conn \<Rightarrow> string \<Rightarrow> bool) \<Rightarrow> event_id \<Rightarrow> event_id \<Rightarrow> Server \<Rightarrow> engine_env" where
  "engine_env_of write_ok auditID ackID s =
     \<lparr>ee_auditWriter = sv_auditWriter s,
      ee_forwarder = Some (\<lambda>v d. ForwardCommand write_ok v d (sv_conns s)),
      ee_auditID = auditID, ee_ackID = ackID\<rparr>"

text \<open>One inbound message: the bytes, what they decode to, and whether the acknowledgement could be
  written to the operator. The results are the acknowledgement and whether the loop goes on.\<close>

record ws_message =
  wm_raw :: string
  wm_cmd :: "ControlCommand option"
  wm_now :: instant
  wm_auditID :: event_id
  wm_ackID :: event_id
  wm_ack_written :: bool

definition processWSMessage ::
  "(rat \<Rightarrow> rat) \<Rightarrow> (ControlAck \<Rightarrow> bool) \<Rightarrow> (conn \<Rightarrow> string \<Rightarrow> bool) \<Rightarrow> wsConn \<Rightarrow> ws_message \<Rightarrow> Server \<Rightarrow>
   Server \<times> ControlAck option \<times> bool" where
  "processWSMessage rnd marshal_ok write_ok ws msg s =
     (let vid = sess_VehicleID (wc_sess ws);
          (sysState, ctrlState, _, _) = Get (machine_of s vid)
      in if sysState = StateSafeMode \<or> ctrlState = ControlBlocked then (s, None, True)
         else
           let currentSess = GetSession (sv_sessionMgr s) (sess_ID (wc_sess ws));
               s1 = (case currentSess of
                   Some cs \<Rightarrow>
                     if \<not> wc_isObserver ws
                     then on_ctx vid (\<lambda>c. c\<lparr>vc_ACKTimeoutWatcher :=
                       CommandReceived (wm_now msg) (sess_ID cs) (sess_VehicleID cs) (vc_ACKTimeoutWatcher c)\<rparr>) s
                     else s
                 | None \<Rightarrow> s);
               (s2, ack) =
                 (case currentSess of
                    None \<Rightarrow> (s1, plain_ack ''no active session'')
                  | Some cs \<Rightarrow>
                      let ((b', r'), es, a) = Handle rnd marshal_ok (engine_env_of write_ok (wm_auditID msg) (wm_ackID msg) s1)
                            (wm_now msg) (wm_raw msg) (wm_cmd msg) cs (sv_limiter s1, sv_contexts s1)
                      in (emit es (s1\<lparr>sv_limiter := b', sv_contexts := r'\<rparr>),
                          case a of Some a' \<Rightarrow> a' | None \<Rightarrow> plain_ack ''command engine error''));
               s3 = on_ctx vid (\<lambda>c. c\<lparr>vc_ACKTimeoutWatcher := CommandACKed (vc_ACKTimeoutWatcher c)\<rparr>) s2
           in (s3, Some ack, wm_ack_written msg))"

definition disconnect_reason :: string where
  "disconnect_reason = ''ACTIVE_OPERATOR WebSocket disconnected '' @ em_dash @ '' no active operator''"

definition auditWSDisconnect :: "instant \<Rightarrow> event_id \<Rightarrow> Session \<Rightarrow> Server \<Rightarrow> Server" where
  "auditWSDisconnect now eid sess s =
     emit (write_audit (sv_auditWriter s)
       (audit_event eid now (sess_ID sess) (sess_VehicleID sess) (sess_OperatorID sess) LogWsDisconnect
          ''ACTIVE_OPERATOR WebSocket disconnected'' (machine_of s (sess_VehicleID sess)))) s"

text \<open>\<open>ks\<close> is the iteration order of the session loops.\<close>

definition handleWSDisconnect ::
  "session_id list \<Rightarrow> instant \<Rightarrow> event_id \<Rightarrow> wsConn \<Rightarrow> Server \<Rightarrow> Server" where
  "handleWSDisconnect ks now eid ws s =
     (let sess = wc_sess ws; vid = sess_VehicleID sess in
      if wc_isObserver ws then on_sessions (ReleaseSession (sess_ID sess)) s
      else
        let s1 = on_ctx vid (\<lambda>c. c\<lparr>vc_Deadman := deadman_Stop (vc_Deadman c),
                                   vc_AuthWatchdog := map_option auth_Stop (vc_AuthWatchdog c)\<rparr>) s;
            sessionStillActive = (GetSession (sv_sessionMgr s1) (sess_ID sess) \<noteq> None);
            (sysState, _, _, _) = Get (machine_of s1 vid);
            s2 = (if sessionStillActive \<and> sysState \<noteq> StateSafeMode then
                    let a = auditWSDisconnect now eid sess s1;
                        b = emit [SystemTransition StateSafeMode] (on_SM vid (TransitionSystem StateSafeMode) a);
                        c = emit [OperatorTransition OpNoOperator] (on_SM vid (TransitionOperator OpNoOperator) b)
                    in if sv_publisher s
                       then emit [PublishEvent (safety_event now (sess_ID sess) vid EventNoOperator disconnect_reason)] c
                       else c
                  else s1)
        in if \<not> sessionStillActive then s2
           else
             let (sys, ctrl, _, _) = Get (machine_of s2 vid);
                 s3 = on_sessions (SaveCheckpoint ks now (system_string sys) (control_string ctrl) ''WS_DISCONNECT'') s2
             in emit (PushSFUEvent ks ''SESSION_SAFE_MODE'' (sv_sessionMgr s3)) s3)"

section \<open>Vehicle connections\<close>

text \<open>The upgrade of a vehicle's connection \<open>c\<close>; the outcome of the auto-registration is ignored.\<close>

definition vehicle_ServeWS ::
  "jwt_lib \<Rightarrow> string \<Rightarrow> bool \<Rightarrow> bool \<Rightarrow> instant \<Rightarrow> string \<Rightarrow> string \<Rightarrow> conn \<Rightarrow> Server \<Rightarrow> Server \<times> vehicle_id option reply" where
  "vehicle_ServeWS jwt secret upgraded db_up now authorization query_token c s =
     (case validateJWT jwt secret (extractToken authorization query_token) of
        None \<Rightarrow> (s, HttpError StatusUnauthorized ''unauthorized'')
      | Some claims \<Rightarrow>
          if cl_Role claims \<noteq> ''VEHICLE'' then (s, HttpError StatusUnauthorized ''unauthorized'')
          else if \<not> upgraded then (s, HttpOk StatusOK None)
          else
            let vid = cl_Subject claims
            in (s\<lparr>sv_vehicles := fst (store_Add db_up now vid vid [] (sv_vehicles s)),
                  sv_conns := conn_register vid c (sv_conns s)\<rparr>, HttpOk StatusOK (Some vid)))"

text \<open>A message from the vehicle: an acknowledgement that decodes and is marked received.\<close>

definition vehicle_message :: "vehicle_id \<Rightarrow> VehicleCommandAck option \<Rightarrow> Server \<Rightarrow> Server" where
  "vehicle_message vid a s =
     (case a of
        None \<Rightarrow> s
      | Some ack \<Rightarrow>
          if Received ack
          then on_ctx vid (\<lambda>c. c\<lparr>vc_VehicleACKWatchdog := ACKReceived (vc_VehicleACKWatchdog c)\<rparr>)
                 (s\<lparr>sv_acks := ack_Store vid ack (sv_acks s)\<rparr>)
          else s)"

text \<open>The end of a vehicle's connection: the deferred function of the read loop, then \<open>unregister\<close>.\<close>

definition vehicle_disconnect :: "instant \<Rightarrow> vehicle_id \<Rightarrow> Server \<Rightarrow> Server" where
  "vehicle_disconnect now vid s =
     (let s1 =
        (if System (machine_of s vid) \<noteq> StateSafeMode then
           emit [SystemTransition StateSafeMode,
                 PublishEvent (safety_event now [] vid EventWSDisconnect ''vehicle WebSocket disconnected'')]
             (on_SM vid (TransitionSystem StateSafeMode) s)
         else on_ctx vid id s)
      in s1\<lparr>sv_conns := conn_unregister vid (sv_conns s1)\<rparr>)"

section \<open>Frame rules\<close>

lemma on_ctx_fields [simp]:
  "sv_sessionMgr (on_ctx vid f s) = sv_sessionMgr s" "sv_handover (on_ctx vid f s) = sv_handover s"
  "sv_conns (on_ctx vid f s) = sv_conns s" "sv_limiter (on_ctx vid f s) = sv_limiter s"
  "sv_effects (on_ctx vid f s) = sv_effects s" "sv_recorder (on_ctx vid f s) = sv_recorder s"
  "sv_contexts (on_ctx vid f s) = with_ctx vid f (sv_contexts s)"
  "sv_publisher (on_ctx vid f s) = sv_publisher s" "sv_auditWriter (on_ctx vid f s) = sv_auditWriter s"
  "sv_acks (on_ctx vid f s) = sv_acks s"
  by (simp_all add: on_ctx_def)

lemma emit_fields [simp]:
  "sv_sessionMgr (emit es s) = sv_sessionMgr s" "sv_handover (emit es s) = sv_handover s"
  "sv_conns (emit es s) = sv_conns s" "sv_contexts (emit es s) = sv_contexts s"
  "sv_recorder (emit es s) = sv_recorder s"
  "sv_effects (emit es s) = sv_effects s @ es" "sv_publisher (emit es s) = sv_publisher s"
  "sv_auditWriter (emit es s) = sv_auditWriter s" "emit [] s = s"
  "sv_limiter (emit es s) = sv_limiter s" "sv_acks (emit es s) = sv_acks s"
  by (simp_all add: emit_def)

lemma on_sessions_fields [simp]:
  "sv_sessionMgr (on_sessions f s) = f (sv_sessionMgr s)" "sv_contexts (on_sessions f s) = sv_contexts s"
  "sv_effects (on_sessions f s) = sv_effects s" "sv_conns (on_sessions f s) = sv_conns s"
  "sv_handover (on_sessions f s) = sv_handover s" "sv_recorder (on_sessions f s) = sv_recorder s"
  "sv_publisher (on_sessions f s) = sv_publisher s" "sv_auditWriter (on_sessions f s) = sv_auditWriter s"
  by (simp_all add: on_sessions_def)

lemma on_SM_fields [simp]:
  "sv_sessionMgr (on_SM vid f s) = sv_sessionMgr s" "sv_handover (on_SM vid f s) = sv_handover s"
  "sv_conns (on_SM vid f s) = sv_conns s" "sv_effects (on_SM vid f s) = sv_effects s"
  "sv_recorder (on_SM vid f s) = sv_recorder s" "sv_publisher (on_SM vid f s) = sv_publisher s"
  "sv_auditWriter (on_SM vid f s) = sv_auditWriter s"
  by (simp_all add: on_SM_def)

lemma context_of_simps [simp]:
  "context_of (on_ctx vid f s) v = (if v = vid then f (context_of s vid) else context_of s v)"
  "context_of (emit es s) v = context_of s v"
  "context_of (on_sessions g s) v = context_of s v"
  by (simp_all add: context_of_def ctx_with_ctx_if)

lemma context_of_on_SM [simp]:
  "context_of (on_SM vid f s) v =
     (if v = vid then (context_of s vid)\<lparr>vc_SM := f (vc_SM (context_of s vid))\<rparr> else context_of s v)"
  by (simp add: on_SM_def)

lemma machine_of_eq: "machine_of s v = vc_SM (context_of s v)"
  by (simp add: machine_of_def context_of_def StateMachine_def)

lemma context_of_updates [simp]:
  "context_of (s\<lparr>sv_conns := x\<rparr>) v = context_of s v" "context_of (s\<lparr>sv_limiter := b\<rparr>) v = context_of s v"
  "context_of (s\<lparr>sv_acks := y\<rparr>) v = context_of s v" "context_of (s\<lparr>sv_vehicles := t\<rparr>) v = context_of s v"
  "context_of (s\<lparr>sv_handover := h\<rparr>) v = context_of s v" "context_of (s\<lparr>sv_recorder := r\<rparr>) v = context_of s v"
  "context_of (s\<lparr>sv_contexts := cs\<rparr>) v = ctx cs v" "context_of (s\<lparr>sv_sessionMgr := m\<rparr>) v = context_of s v"
  "context_of (s\<lparr>sv_effects := es\<rparr>) v = context_of s v"
  by (simp_all add: context_of_def)

section \<open>Messages\<close>

text \<open>The context with which the engine is entered: the ACK timer runs for a controlling connection.\<close>

definition message_received :: "wsConn \<Rightarrow> ws_message \<Rightarrow> Session \<Rightarrow> VehicleContext \<Rightarrow> VehicleContext" where
  "message_received ws msg cs c =
     (if wc_isObserver ws then c
      else c\<lparr>vc_ACKTimeoutWatcher :=
        CommandReceived (wm_now msg) (sess_ID cs) (sess_VehicleID cs) (vc_ACKTimeoutWatcher c)\<rparr>)"

definition acked :: "VehicleContext \<Rightarrow> VehicleContext" where
  "acked c = c\<lparr>vc_ACKTimeoutWatcher := CommandACKed (vc_ACKTimeoutWatcher c)\<rparr>"

lemma processWSMessage_cases:
  assumes "processWSMessage rnd marshal_ok write_ok ws msg s = (s', ack, go)"
  obtains
    (dropped) "System (machine_of s (sess_VehicleID (wc_sess ws))) = StateSafeMode \<or>
        Control (machine_of s (sess_VehicleID (wc_sess ws))) = ControlBlocked"
      "s' = s" "ack = None" "go"
  | (no_session) "GetSession (sv_sessionMgr s) (sess_ID (wc_sess ws)) = None"
      "System (machine_of s (sess_VehicleID (wc_sess ws))) \<noteq> StateSafeMode"
      "s' = on_ctx (sess_VehicleID (wc_sess ws)) acked s"
  | (handled) cs b' r' es a s1 where
      "GetSession (sv_sessionMgr s) (sess_ID (wc_sess ws)) = Some cs"
      "System (machine_of s (sess_VehicleID (wc_sess ws))) \<noteq> StateSafeMode"
      "s1 = (if wc_isObserver ws then s else on_ctx (sess_VehicleID (wc_sess ws)) (message_received ws msg cs) s)"
      "Handle rnd marshal_ok (engine_env_of write_ok (wm_auditID msg) (wm_ackID msg) s1)
         (wm_now msg) (wm_raw msg) (wm_cmd msg) cs (sv_limiter s1, sv_contexts s1) = ((b', r'), es, a)"
      "s' = on_ctx (sess_VehicleID (wc_sess ws)) acked (emit es (s1\<lparr>sv_limiter := b', sv_contexts := r'\<rparr>))"
      "ack = Some (case a of Some a' \<Rightarrow> a' | None \<Rightarrow> plain_ack ''command engine error'')" "go = wm_ack_written msg"
proof (cases "System (machine_of s (sess_VehicleID (wc_sess ws))) = StateSafeMode \<or>
    Control (machine_of s (sess_VehicleID (wc_sess ws))) = ControlBlocked")
  case True
  with assms show ?thesis by (intro dropped) (auto simp: processWSMessage_def Get_def Let_def)
next
  case False
  show ?thesis
  proof (cases "GetSession (sv_sessionMgr s) (sess_ID (wc_sess ws))")
    case None
    with False assms show ?thesis
      by (intro no_session) (auto simp: processWSMessage_def Get_def Let_def acked_def [abs_def])
  next
    case (Some cs)
    let ?s1 = "if wc_isObserver ws then s else on_ctx (sess_VehicleID (wc_sess ws)) (message_received ws msg cs) s"
    obtain b' r' es a where h: "Handle rnd marshal_ok (engine_env_of write_ok (wm_auditID msg) (wm_ackID msg) ?s1)
         (wm_now msg) (wm_raw msg) (wm_cmd msg) cs (sv_limiter ?s1, sv_contexts ?s1) = ((b', r'), es, a)"
      by (metis prod.exhaust)
    have mr: "message_received ws msg cs = (\<lambda>c. c\<lparr>vc_ACKTimeoutWatcher :=
        CommandReceived (wm_now msg) (sess_ID cs) (sess_VehicleID cs) (vc_ACKTimeoutWatcher c)\<rparr>)"
      if "\<not> wc_isObserver ws" using that by (simp add: message_received_def [abs_def])
    have "s' = on_ctx (sess_VehicleID (wc_sess ws)) acked (emit es (?s1\<lparr>sv_limiter := b', sv_contexts := r'\<rparr>)) \<and>
        ack = Some (case a of Some a' \<Rightarrow> a' | None \<Rightarrow> plain_ack ''command engine error'') \<and> go = wm_ack_written msg"
      using assms False Some h
      by (cases "wc_isObserver ws") (auto simp: processWSMessage_def Get_def Let_def mr acked_def [abs_def])
    with Some False h show ?thesis by (intro handled) auto
  qed
qed

lemma Handle_machine:
  assumes "Handle rnd marshal_ok env now raw cmd sess (b, r) = ((b', r'), es, a)"
  shows "StateMachine r' v = StateMachine r v \<or> StateMachine r' v = TransitionSystem StateSafeMode (StateMachine r v)"
  using assms
proof (cases rule: Handle_cases)
  case (dispatched c vc' ok err)
  with dispatch_machine [OF dispatched(3)] show ?thesis
    by (cases "v = sess_VehicleID sess") (auto simp: StateMachine_def)
qed auto

section \<open>Properties\<close>

text \<open>C11: while the vehicle is in SAFE_MODE (or its CONTROL layer is blocked) a message of an operator
  connection is dropped: no state changes, no acknowledgement is sent and the connection stays open.
  Bytes reach a vehicle only through a message on a connection whose session is still alive with the
  ACTIVE_OPERATOR role, only on that session's vehicle, and never while the connection's vehicle is in
  SAFE_MODE.\<close>

theorem safe_mode_blocks_commands:
  assumes "processWSMessage rnd marshal_ok write_ok ws msg s = (s', ack, go)"
    and "vid = sess_VehicleID (wc_sess ws)"
  shows "(System (machine_of s vid) = StateSafeMode \<longrightarrow> s' = s \<and> ack = None \<and> go) \<and>
    (\<exists>es. sv_effects s' = sv_effects s @ es \<and>
       (ForwardToVehicle v d \<in> set es \<longrightarrow>
          System (machine_of s vid) \<noteq> StateSafeMode \<and> d = wm_raw msg \<and> Connected (sv_conns s) v \<and>
          (\<exists>cs. GetSession (sv_sessionMgr s) (sess_ID (wc_sess ws)) = Some cs \<and> is_active cs \<and>
             v = sess_VehicleID cs)))"
  using assms(1)
proof (cases rule: processWSMessage_cases)
  case (handled cs b' r' es a s1)
  have f: "ee_forwarder (engine_env_of write_ok (wm_auditID msg) (wm_ackID msg) s1) =
      Some (\<lambda>v d. ForwardCommand write_ok v d (sv_conns s))"
    using handled(3) by (simp add: engine_env_of_def)
  have "sv_effects s' = sv_effects s @ es" using handled(3,5) by simp
  then show ?thesis
    using handled Handle_forwards [OF handled(4) f, of v d] assms(2)
    by auto
qed (auto simp: assms(2))

theorem safe_mode_blocks_commands_witness:
  "\<exists>s :: Server. System (machine_of s ''v'') = StateSafeMode \<and>
     processWSMessage (\<lambda>x. x) (\<lambda>_. True) (\<lambda>_ _. True)
       \<lparr>wc_claims = \<lparr>cl_Subject = ''o'', cl_Role = []\<rparr>,
        wc_sess = \<lparr>sess_ID = ''s'', sess_VehicleID = ''v'', sess_OperatorID = ''o'', sess_OperatorRole = RoleActiveOperator, sess_CreatedAt = 0\<rparr>,
        wc_isObserver = False\<rparr>
       \<lparr>wm_raw = ''raw'', wm_cmd = None, wm_now = 0, wm_auditID = [], wm_ackID = [], wm_ack_written = True\<rparr> s = (s, None, True)"
proof -
  let ?s = "on_SM ''v'' (System_update (\<lambda>_. StateSafeMode)) (newControlServer [] None NoopVehicleStore 0)"
  let ?ws = "\<lparr>wc_claims = \<lparr>cl_Subject = ''o'', cl_Role = []\<rparr>,
        wc_sess = \<lparr>sess_ID = ''s'', sess_VehicleID = ''v'', sess_OperatorID = ''o'', sess_OperatorRole = RoleActiveOperator, sess_CreatedAt = 0\<rparr>,
        wc_isObserver = False\<rparr>"
  let ?msg = "\<lparr>wm_raw = ''raw'', wm_cmd = None, wm_now = 0, wm_auditID = [], wm_ackID = [], wm_ack_written = True\<rparr>"
  obtain s' ack go where r: "processWSMessage (\<lambda>x. x) (\<lambda>_. True) (\<lambda>_ _. True) ?ws ?msg ?s = (s', ack, go)"
    by (metis prod.exhaust)
  have v: "''v'' = sess_VehicleID (wc_sess ?ws)" by simp
  have "System (machine_of ?s ''v'') = StateSafeMode" by (simp add: machine_of_eq)
  with safe_mode_blocks_commands [OF r v] r show ?thesis by (intro exI [of _ ?s]) simp
qed

text \<open>C12: when the connection of an ACTIVE_OPERATOR closes while its session is alive and the vehicle is
  not IDLE, the vehicle ends in SAFE_MODE with commands blocked, the dead-man watchdog is stopped, the
  session survives and, unless SAFE_MODE was entered before, the OPERATOR layer has no operator and the
  audit record precedes the transition. After \<open>session/end\<close> the machine is left alone, an OBSERVER's
  disconnect only releases its session, and no other vehicle is ever affected.\<close>

theorem operator_disconnect:
  assumes "s' = handleWSDisconnect ks now eid ws s" and "sess = wc_sess ws" and "vid = sess_VehicleID sess"
    and "alive = (GetSession (sv_sessionMgr s) (sess_ID sess) \<noteq> None)"
  shows "(wc_isObserver ws \<longrightarrow> machine_of s' v = machine_of s v \<and>
            GetSession (sv_sessionMgr s') (sess_ID sess) = None) \<and>
    (\<not> wc_isObserver ws \<and> \<not> alive \<longrightarrow> machine_of s' v = machine_of s v \<and> sv_sessionMgr s' = sv_sessionMgr s) \<and>
    (\<not> wc_isObserver ws \<and> alive \<and> System (machine_of s vid) \<noteq> StateIdle \<longrightarrow>
       System (machine_of s' vid) = StateSafeMode \<and> dm_stopped (vc_Deadman (context_of s' vid)) \<and>
       sessions (sv_sessionMgr s') = sessions (sv_sessionMgr s) \<and>
       (System (machine_of s vid) \<noteq> StateSafeMode \<longrightarrow>
          Control (machine_of s' vid) = ControlBlocked \<and> Operator (machine_of s' vid) = OpNoOperator \<and>
          (\<exists>ev rest. sv_effects s' = sv_effects s @ write_audit (sv_auditWriter s) ev @
             [SystemTransition StateSafeMode, OperatorTransition OpNoOperator] @ rest))) \<and>
    (v \<noteq> vid \<longrightarrow> context_of s' v = context_of s v)"
proof -
  have g: "Get m = (System m, Control m, Media m, Operator m)" for m by (simp add: Get_def)
  have rel: "GetSession (ReleaseSession k m) k = None" for k m
    by (simp add: GetSession_def ReleaseSession_def split: option.split)
  show ?thesis
  proof (cases "wc_isObserver ws \<or> \<not> alive \<or> System (machine_of s vid) = StateSafeMode")
    case True
    then show ?thesis
      using assms
      by (auto simp: handleWSDisconnect_def Let_def g machine_of_eq rel deadman_Stop_def)
  next
    case False
    then show ?thesis
      using assms
      by (auto simp: handleWSDisconnect_def auditWSDisconnect_def Let_def g machine_of_eq
          TransitionSystem_SafeMode TransitionOperator_NoOperator deadman_Stop_def)
  qed
qed

theorem operator_disconnect_witness:
  "\<exists>s ws. \<not> wc_isObserver ws \<and> System (machine_of s ''v'') = StateConnected \<and>
     System (machine_of (handleWSDisconnect [] 0 [] ws s) ''v'') = StateSafeMode"
proof -
  let ?s = "on_sessions (\<lambda>m. fst (StartSession ''s'' 0 ''v'' ''o'' m))
    (on_SM ''v'' (System_update (\<lambda>_. StateConnected)) (newControlServer [] None NoopVehicleStore 0))"
  let ?sess = "\<lparr>sess_ID = ''s'', sess_VehicleID = ''v'', sess_OperatorID = ''o'',
    sess_OperatorRole = RoleActiveOperator, sess_CreatedAt = 0\<rparr>"
  let ?ws = "\<lparr>wc_claims = \<lparr>cl_Subject = ''o'', cl_Role = []\<rparr>, wc_sess = ?sess, wc_isObserver = False\<rparr>"
  have a: "GetSession (sv_sessionMgr ?s) (sess_ID ?sess) \<noteq> None"
    by (simp add: GetSession_def StartSession_def newControlServer_def NewManager_def Let_def)
  have m: "System (machine_of ?s ''v'') = StateConnected" by (simp add: machine_of_eq)
  have "System (machine_of (handleWSDisconnect [] 0 [] ?ws ?s) (sess_VehicleID ?sess)) = StateSafeMode"
    using operator_disconnect [OF refl refl refl refl, where ws = ?ws and s = ?s] a m by simp
  with m show ?thesis by (intro exI [of _ ?s] exI [of _ ?ws]) simp
qed

text \<open>An ACTIVE_OPERATOR who reconnects while the vehicle is in SAFE_MODE (with any reasons) gets it
  back: SYSTEM CONNECTED, CONTROL active, OPERATOR active, the dead-man watchdog running for the session
  but not armed. The vehicle ACK watchdog is not restarted: if it had fired, forwarding movement
  commands after the recovery starts no ACK timer.\<close>

theorem reconnect_recovers:
  assumes "System (vc_SM vc) = StateSafeMode" and "vc' = recoverFromSafeMode sess vc"
  shows "System (vc_SM vc') = StateConnected \<and> Control (vc_SM vc') = ControlActive \<and>
    Operator (vc_SM vc') = OpActive \<and>
    \<not> dm_stopped (vc_Deadman vc') \<and> \<not> dm_armed (vc_Deadman vc') \<and> dm_sessionID (vc_Deadman vc') = sess_ID sess \<and>
    (va_stopped (vc_VehicleACKWatchdog vc) \<longrightarrow>
       CommandForwarded now (vc_VehicleACKWatchdog vc') = vc_VehicleACKWatchdog vc)"
  using assms
  by (auto simp: recoverFromSafeMode_def machine_op_defs Let_def deadman_Start_def CommandForwarded_def)

theorem reconnect_recovers_witness:
  "\<exists>vc. System (vc_SM vc) = StateSafeMode \<and> System (vc_SM (recoverFromSafeMode
     \<lparr>sess_ID = ''s'', sess_VehicleID = ''v'', sess_OperatorID = ''o'', sess_OperatorRole = RoleActiveOperator, sess_CreatedAt = 0\<rparr> vc)) =
     StateConnected"
proof -
  let ?vc = "(new_context (NewRegistry 1 1 1))\<lparr>vc_SM := newMachine\<lparr>System := StateSafeMode\<rparr>\<rparr>"
  have "System (vc_SM ?vc) = StateSafeMode" by simp
  from reconnect_recovers [OF this refl] this show ?thesis by blast
qed

section \<open>What else the endpoints show\<close>

text \<open>A DEADMAN_HOLD on an OBSERVER's connection resets the dead-man timer of the vehicle it watches, and
  the acknowledgement of any observer message stops the pending ACK timer of the controlling operator.\<close>

theorem observer_hold_resets_deadman:
  assumes "processWSMessage rnd marshal_ok write_ok ws msg s = (s', ack, go)"
    and "wc_isObserver ws" and "GetSession (sv_sessionMgr s) (sess_ID (wc_sess ws)) = Some cs"
    and "sess_VehicleID cs = vid" and "sess_VehicleID (wc_sess ws) = vid"
    and "System (machine_of s vid) \<noteq> StateSafeMode" and "Control (machine_of s vid) \<noteq> ControlBlocked"
    and "wm_cmd msg = Some c" and "cmd_Type c = COMMAND_TYPE_DEADMAN_HOLD"
    and "snd (allow rnd (wm_now msg) (sv_limiter s))"
  shows "vc_Deadman (context_of s' vid) = deadman_Reset (wm_now msg) (vc_Deadman (context_of s vid)) \<and>
    at_pendingTimer (vc_ACKTimeoutWatcher (context_of s' vid)) = None"
  using assms(1)
proof (cases rule: processWSMessage_cases)
  case (handled cs' b' r' es a s1)
  then have "s1 = s" "cs' = cs" using assms(2,3) by simp_all
  from handled(4) this obtain vc' ok err where
    "dispatch (engine_env_of write_ok (wm_auditID msg) (wm_ackID msg) s) (wm_now msg) cs (cmd_Type c)
       (wm_raw msg) (context_of s vid) = (vc', es, ok, err)" "r' = with_ctx vid (\<lambda>_. vc') (sv_contexts s)"
    using assms(4,8,10) by (cases rule: Handle_cases) (auto simp: context_of_def)
  then show ?thesis
    using handled(5) assms(4,5,9) \<open>s1 = s\<close>
    by (auto simp: dispatch_def acked_def CommandACKed_def split: option.splits)
qed (use assms(3,5-7) in auto)

text \<open>A vehicle that reconnects before the server notices that its old connection is gone loses the new
  one: the end of the old connection removes the entry of the new connection.\<close>

theorem vehicle_reconnect_lost:
  assumes "vehicle_ServeWS jwt secret True db now auth tok c2 s = (s2, HttpOk code (Some vid))"
  shows "Connected (sv_conns s2) vid \<and> \<not> Connected (sv_conns (vehicle_disconnect later vid s2)) vid"
  using assms
  by (auto simp: vehicle_ServeWS_def vehicle_disconnect_def Connected_def conn_register_def
      conn_unregister_def Let_def split: option.splits if_splits)

end
