(* ===== verification/Config.thy ===== *)
theory Config
  imports Prelude
begin

text \<open>
  Start-up configuration of the control server (\<open>pkg/env\<close>, \<open>loadConfig\<close>). The environment is a
  function from variable names to values, with the empty string for an unset variable, as \<open>os.Getenv\<close>
  gives it. A missing required variable ends the process with a message: \<open>Inl\<close>.
\<close>

type_synonym environment = "string \<Rightarrow> string"

definition Require :: "environment \<Rightarrow> string \<Rightarrow> string + string" where
  "Require env key =
     (if env key = [] then Inl (key @ '' environment variable is required'') else Inr (env key))"

definition OptionalOr :: "environment \<Rightarrow> string \<Rightarrow> string \<Rightarrow> string" where
  "OptionalOr env key fallback = (if env key \<noteq> [] then env key else fallback)"

record serverConfig =
  cfg_port :: string
  cfg_secret :: string
  cfg_safetyURL :: string
  cfg_sfuURL :: string
  cfg_authURL :: string
  cfg_telemetryURL :: string
  cfg_whipStreamKey :: string
  cfg_mediamtxAPIURL :: string
  cfg_turnExternalIP :: string
  cfg_turnPort :: string
  cfg_turnUser :: string
  cfg_turnPassword :: string
  cfg_databaseURL :: string

text \<open>The secret is required first, the database URL last.\<close>

definition loadConfig :: "environment \<Rightarrow> string + serverConfig" where
  "loadConfig env =
     (case Require env ''JWT_SECRET'' of
        Inl msg \<Rightarrow> Inl msg
      | Inr secret \<Rightarrow>
          (case Require env ''DATABASE_URL'' of
             Inl msg \<Rightarrow> Inl msg
           | Inr db \<Rightarrow> Inr
               \<lparr>cfg_port = OptionalOr env ''CONTROL_PORT'' ''8080'',
                cfg_secret = secret,
                cfg_safetyURL = OptionalOr env ''SAFETY_SERVICE_URL'' ''http://safety-service:8082'',
                cfg_sfuURL = OptionalOr env ''SFU_SERVICE_URL'' ''http://webrtc-sfu:8084'',
                cfg_authURL = OptionalOr env ''AUTH_SERVICE_URL'' ''http://auth-service:8081'',
                cfg_telemetryURL = OptionalOr env ''TELEMETRY_SERVICE_URL'' ''http://telemetry-service:8083'',
                cfg_whipStreamKey = env ''WHIP_STREAM_KEY'',
                cfg_mediamtxAPIURL = OptionalOr env ''MEDIAMTX_API_URL'' ''http://mediamtx:9997'',
                cfg_turnExternalIP = env ''TURN_EXTERNAL_IP'',
                cfg_turnPort = OptionalOr env ''TURN_PORT'' ''3478'',
                cfg_turnUser = env ''TURN_USER'',
                cfg_turnPassword = env ''TURN_PASSWORD'',
                cfg_databaseURL = db\<rparr>))"

text \<open>A loaded configuration never has an empty secret, so tokens are never verified against one.\<close>

lemma loadConfig_secret: "loadConfig env = Inr cfg \<Longrightarrow> cfg_secret cfg \<noteq> [] \<and> cfg_databaseURL cfg \<noteq> []"
  by (auto simp: loadConfig_def Require_def split: sum.splits if_splits)

section \<open>ICE servers\<close>

record iceServer =
  ice_URLs :: "string list"
  ice_Username :: string
  ice_Credential :: string

definition handleICEConfig :: "serverConfig \<Rightarrow> iceServer list" where
  "handleICEConfig cfg =
     (let hostport = cfg_turnExternalIP cfg @ '':'' @ cfg_turnPort cfg
      in [\<lparr>ice_URLs = [''stun:'' @ hostport], ice_Username = [], ice_Credential = []\<rparr>,
          \<lparr>ice_URLs = [''turn:'' @ hostport],
           ice_Username = cfg_turnUser cfg, ice_Credential = cfg_turnPassword cfg\<rparr>,
          \<lparr>ice_URLs = [''turn:'' @ hostport @ ''?transport=tcp''],
           ice_Username = cfg_turnUser cfg, ice_Credential = cfg_turnPassword cfg\<rparr>])"

definition handleDevWhipKey :: "serverConfig \<Rightarrow> string" where
  "handleDevWhipKey cfg = cfg_whipStreamKey cfg"

section \<open>Waiting for the database and the broker\<close>

text \<open>\<open>pkg/db\<close>: \<open>WaitForReady\<close> pings up to \<open>retries\<close> times, with a pause between two attempts. \<open>ping i\<close> is the error of the
  \<open>i\<close>-th attempt. The result is the last error, if any, and the number of pauses.\<close>

definition DefaultConnectRetries :: nat where "DefaultConnectRetries = 10"
definition DefaultConnectRetryDelay :: duration where "DefaultConnectRetryDelay = 2 * Second"

function ping_loop :: "(nat \<Rightarrow> 'e option) \<Rightarrow> nat \<Rightarrow> nat \<Rightarrow> nat \<Rightarrow> 'e option \<Rightarrow> 'e option \<times> nat" where
  "ping_loop ping retries i pauses err =
     (if retries \<le> i then (err, pauses)
      else case ping i of
        None \<Rightarrow> (None, pauses)
      | Some e \<Rightarrow> ping_loop ping retries (i + 1) (if i + 1 < retries then pauses + 1 else pauses) (Some e))"
  by pat_completeness auto
termination by (relation "measure (\<lambda>(ping, retries, i, pauses, err). retries - i)") auto

declare ping_loop.simps [simp del]

definition WaitForReady :: "(nat \<Rightarrow> 'e option) \<Rightarrow> nat \<Rightarrow> 'e option \<times> nat" where
  "WaitForReady ping retries = ping_loop ping retries 0 0 None"

text \<open>\<open>OpenAndWait\<close> goes on with the connection either way; the flag says whether it warned.\<close>

definition OpenAndWait :: "bool \<Rightarrow> (nat \<Rightarrow> 'e option) \<Rightarrow> bool option" where
  "OpenAndWait opened ping =
     (if \<not> opened then None else Some (fst (WaitForReady ping DefaultConnectRetries) \<noteq> None))"

text \<open>\<open>connectGatewayWithRetry\<close> pauses after every failed attempt, also after the last.\<close>

function connect_loop :: "(nat \<Rightarrow> 'e + 'g) \<Rightarrow> nat \<Rightarrow> nat \<Rightarrow> 'e option \<Rightarrow> ('e option + 'g) \<times> nat" where
  "connect_loop dial retries i err =
     (if retries \<le> i then (Inl err, i)
      else case dial i of Inr g \<Rightarrow> (Inr g, i) | Inl e \<Rightarrow> connect_loop dial retries (i + 1) (Some e))"
  by pat_completeness auto
termination by (relation "measure (\<lambda>(dial, retries, i, err). retries - i)") auto

declare connect_loop.simps [simp del]

definition connectGatewayWithRetry :: "(nat \<Rightarrow> 'e + 'g) \<Rightarrow> ('e option + 'g) \<times> nat" where
  "connectGatewayWithRetry dial = connect_loop dial DefaultConnectRetries 0 None"

lemma ping_loop_result:
  "i \<le> retries \<Longrightarrow> fst (ping_loop ping retries i pauses err) =
     (if retries = i then err else if \<exists>j. i \<le> j \<and> j < retries \<and> ping j = None then None else ping (retries - 1))"
proof (induction ping retries i pauses err rule: ping_loop.induct)
  case (1 ping retries i pauses err)
  show ?case
  proof (cases "i < retries")
    case True
    show ?thesis
    proof (cases "ping i")
      case None
      with True show ?thesis by (auto simp: ping_loop.simps [of ping retries i])
    next
      case (Some e)
      have later: "(\<exists>j. i \<le> j \<and> j < retries \<and> ping j = None) \<longleftrightarrow> (\<exists>j. i + 1 \<le> j \<and> j < retries \<and> ping j = None)"
        using Some by (metis Suc_eq_plus1 le_antisym not_less_eq_eq option.distinct(1) Suc_leD)
      have "i + 1 = retries \<Longrightarrow> ping (retries - 1) = Some e" using Some by auto
      with "1.IH" [OF _ Some] True Some later show ?thesis by (auto simp: ping_loop.simps [of ping retries i])
    qed
  next
    case False
    with "1.prems" show ?thesis by (simp add: ping_loop.simps)
  qed
qed

lemma ping_loop_pauses: "i \<le> retries \<Longrightarrow> snd (ping_loop ping retries i pauses err) \<le> pauses + (retries - 1 - i)"
proof (induction ping retries i pauses err rule: ping_loop.induct)
  case (1 ping retries i pauses err)
  show ?case
  proof (cases "i < retries \<and> ping i \<noteq> None")
    case True
    then obtain e where e: "ping i = Some e" "i < retries" by auto
    with "1.IH" [of e] show ?thesis by (simp add: ping_loop.simps [of ping retries i] split: if_splits)
  next
    case False
    then show ?thesis by (auto simp: ping_loop.simps [of ping retries i] split: option.split)
  qed
qed

text \<open>The wait succeeds exactly if one of the attempts does, and lasts at most 18 seconds of pauses.\<close>

theorem wait_for_ready:
  "fst (WaitForReady ping DefaultConnectRetries) = None \<longleftrightarrow> (\<exists>j<10. ping j = None)"
  "int (snd (WaitForReady ping DefaultConnectRetries)) * DefaultConnectRetryDelay \<le> 18 * Second"
proof -
  have "ping 9 = None \<Longrightarrow> \<exists>j<10. ping j = None" by (rule exI [of _ 9]) simp
  then show "fst (WaitForReady ping DefaultConnectRetries) = None \<longleftrightarrow> (\<exists>j<10. ping j = None)"
    using ping_loop_result [of 0 10 ping 0 None] by (auto simp: WaitForReady_def DefaultConnectRetries_def)
  show "int (snd (WaitForReady ping DefaultConnectRetries)) * DefaultConnectRetryDelay \<le> 18 * Second"
    using ping_loop_pauses [of 0 10 ping 0 None]
    by (simp add: WaitForReady_def DefaultConnectRetries_def DefaultConnectRetryDelay_def Second_def)
qed

end
