(* ===== verification/Control_Server.thy ===== *)
theory Control_Server
  imports Transport Config
begin

text \<open>
  The HTTP handlers of the control server (\<open>cmd/control-server/main.go\<close>) on the shared state of
  \<open>Transport\<close>. A handler takes the decoded body (\<open>None\<close> if it does not decode; where the code ignores
  a decoding error, the field's resulting value), the iteration order \<open>ks\<close> of the session loops, the
  time and the generated ids, and returns the new state with the reply. Logging and the endpoints that
  only echo configuration are left out.
\<close>

section \<open>Authentication\<close>

text \<open>The middleware in front of the protected routes.\<close>

definition authorized ::
  "jwt_lib \<Rightarrow> string \<Rightarrow> string \<Rightarrow> (Claims \<Rightarrow> Server \<Rightarrow> Server \<times> 'a reply) \<Rightarrow> Server \<Rightarrow> Server \<times> 'a reply" where
  "authorized jwt secret authorization handler s =
     (case requireJWT jwt secret authorization of
        None \<Rightarrow> (s, HttpError StatusUnauthorized ''unauthorized'')
      | Some claims \<Rightarrow> handler claims s)"

section \<open>Session lifecycle\<close>

definition advanceVehicleToActiveOperator ::
  "session_id list \<Rightarrow> instant \<Rightarrow> event_id \<Rightarrow> Session \<Rightarrow> Server \<Rightarrow> Server" where
  "advanceVehicleToActiveOperator ks now eid sess s =
     (let sid = sess_ID sess; vid = sess_VehicleID sess; oid = sess_OperatorID sess;
          s1 = on_ctx vid (\<lambda>c.
            let m1 = TransitionSystem StateConnecting (vc_SM c);
                m2 = TransitionSystem StateAuthenticated m1;
                (m3, _) = TransitionToConnected m2;
                m4 = TransitionOperator OpActive m3
            in c\<lparr>vc_SM := m4,
                 vc_Deadman := deadman_Start sid vid (vc_Deadman c),
                 vc_VehicleACKWatchdog := vehicle_ack_Start sid vid (vc_VehicleACKWatchdog c),
                 vc_AuthWatchdog := map_option (auth_Start sid vid oid) (vc_AuthWatchdog c),
                 vc_TelemetryWatchdog := map_option (telemetry_Start sid vid) (vc_TelemetryWatchdog c)\<rparr>) s;
          s2 = emit (PushSFUEvent ks ''SESSION_CREATED'' (sv_sessionMgr s1)) s1;
          (sys, ctrl, _, _) = Get (machine_of s2 vid)
      in s2\<lparr>sv_recorder :=
             RecordStateSnapshot now sid eid vid oid (system_string sys) (control_string ctrl)
               (recorder_StartSession sid (sv_recorder s2))\<rparr>)"

definition handleSessionStart ::
  "session_id list \<Rightarrow> session_id \<Rightarrow> event_id \<Rightarrow> instant \<Rightarrow> string \<Rightarrow> (vehicle_id \<times> operator_id) option \<Rightarrow>
   Server \<Rightarrow> Server \<times> Session reply" where
  "handleSessionStart ks newID eid now callerRole body s =
     (case body of
        None \<Rightarrow> (s, HttpError StatusBadRequest ''invalid request'')
      | Some (vid, oid) \<Rightarrow>
          if vid = [] \<or> oid = [] then (s, HttpError StatusBadRequest ''vehicle_id and operator_id required'')
          else if callerRole = ''OBSERVER'' \<and> \<not> IsVehicleLocked (sv_sessionMgr s) vid
          then (s, HttpError StatusForbidden ''observers cannot start a new session'')
          else if \<not> Connected (sv_conns s) vid then (s, HttpError StatusConflict ''vehicle not connected'')
          else
            let (m', sess) = StartSession newID now vid oid (sv_sessionMgr s);
                s1 = s\<lparr>sv_sessionMgr := m'\<rparr>
            in (if is_active sess then advanceVehicleToActiveOperator ks now eid sess s1 else s1,
                HttpOk StatusOK sess))"

text \<open>Stopping the watchdogs of a vehicle, as both branches of \<open>handleSessionEnd\<close> do.\<close>

definition stop_watchdogs :: "VehicleContext \<Rightarrow> VehicleContext" where
  "stop_watchdogs c =
     c\<lparr>vc_Deadman := deadman_Stop (vc_Deadman c),
       vc_VehicleACKWatchdog := vehicle_ack_Stop (vc_VehicleACKWatchdog c),
       vc_AuthWatchdog := map_option auth_Stop (vc_AuthWatchdog c),
       vc_TelemetryWatchdog := map_option telemetry_Stop (vc_TelemetryWatchdog c)\<rparr>"

definition end_vehicle :: "vehicle_id \<Rightarrow> Server \<Rightarrow> Server" where
  "end_vehicle vid s =
     (case GetSessionByVehicle (sv_sessionMgr s) vid of
        None \<Rightarrow> s
      | Some sess \<Rightarrow>
          on_SM vid (TransitionSystem StateIdle)
            (on_ctx vid stop_watchdogs (s\<lparr>sv_recorder := recorder_EndSession (sess_ID sess) (sv_recorder s)\<rparr>)))"

definition handleSessionEnd :: "session_id list \<Rightarrow> session_id \<Rightarrow> Server \<Rightarrow> Server \<times> unit reply" where
  "handleSessionEnd ks sid s =
     ((if sid \<noteq> [] then
         (case GetSession (sv_sessionMgr s) sid of
            None \<Rightarrow> s
          | Some sess \<Rightarrow>
              let s0 = s\<lparr>sv_recorder := recorder_EndSession (sess_ID sess) (sv_recorder s)\<rparr> in
              if is_active sess then
                let vid = sess_VehicleID sess;
                    s1 = on_ctx vid stop_watchdogs s0;
                    s2 = emit (PushSFUEvent ks ''SESSION_ENDED'' (sv_sessionMgr s1)) s1;
                    s3 = on_sessions (ReleaseSession (sess_ID sess)) s2
                in on_SM vid (TransitionSystem StateIdle) s3
              else on_sessions (ReleaseSession (sess_ID sess)) s0)
       else
         (let s1 = fold end_vehicle (ActiveVehicleIDs ks (sv_sessionMgr s)) s;
              s2 = emit (PushSFUEvent ks ''SESSION_ENDED'' (sv_sessionMgr s1)) s1
          in on_sessions EndSession s2)),
      HttpOk StatusNoContent ())"

definition handleLogout :: "session_id list \<Rightarrow> operator_id \<Rightarrow> Server \<Rightarrow> Server \<times> unit reply" where
  "handleLogout ks oid s =
     (s, if HasActiveOperatorSession ks oid (sv_sessionMgr s) then HttpError StatusConflict ''active_session''
         else HttpOk StatusNoContent ())"

section \<open>Handover\<close>

definition with_handover :: "handover_state \<Rightarrow> Server \<Rightarrow> Server" where
  "with_handover st s =
     (case st of (h, r, m) \<Rightarrow> s\<lparr>sv_handover := h, sv_contexts := r, sv_sessionMgr := m\<rparr>)"

definition handover_of :: "Server \<Rightarrow> handover_state" where
  "handover_of s = (sv_handover s, sv_contexts s, sv_sessionMgr s)"

definition handleHandoverRequest ::
  "(vehicle_id \<times> operator_id \<times> operator_id) option \<Rightarrow> Server \<Rightarrow> Server \<times> unit reply" where
  "handleHandoverRequest body s =
     (case body of
        None \<Rightarrow> (s, HttpError StatusBadRequest ''invalid request'')
      | Some (vid, from, to) \<Rightarrow>
          if vid = [] then (s, HttpError StatusBadRequest ''vehicle_id required'')
          else
            let (st, res) = RequestHandover vid from to (handover_of s)
            in (with_handover st s,
                case res of Inl e \<Rightarrow> HttpError StatusConflict (handover_message e) | Inr _ \<Rightarrow> HttpOk StatusAccepted ()))"

definition handleHandoverConfirm ::
  "session_id list \<Rightarrow> string + nat \<Rightarrow> (vehicle_id \<times> operator_id) option \<Rightarrow> Server \<Rightarrow> Server \<times> unit reply" where
  "handleHandoverConfirm ks resp body s =
     (case body of
        None \<Rightarrow> (s, HttpError StatusBadRequest ''invalid request'')
      | Some (vid, oid) \<Rightarrow>
          if vid = [] then (s, HttpError StatusBadRequest ''vehicle_id required'')
          else
            let (st, es, res) = ConfirmHandover ks resp vid oid (handover_of s)
            in (emit es (with_handover st s),
                case res of Inl e \<Rightarrow> HttpError StatusConflict (handover_message e) | Inr _ \<Rightarrow> HttpOk StatusOK ()))"

definition handleHandoverCancel :: "vehicle_id option \<Rightarrow> Server \<Rightarrow> Server \<times> unit reply" where
  "handleHandoverCancel body s =
     (case body of
        None \<Rightarrow> (s, HttpError StatusBadRequest ''invalid request'')
      | Some vid \<Rightarrow>
          if vid = [] then (s, HttpError StatusBadRequest ''vehicle_id required'')
          else (with_handover (CancelHandover vid (handover_of s)) s, HttpOk StatusOK ()))"

section \<open>Media and emergency stop\<close>

fun parse_media_state :: "string \<Rightarrow> MediaState option" where
  "parse_media_state st =
     (if st = ''MEDIA_NEGOTIATING'' then Some MediaNegotiating
      else if st = ''MEDIA_CONNECTED'' then Some MediaConnected
      else if st = ''MEDIA_DEGRADED'' then Some MediaDegraded
      else if st = ''MEDIA_FAILED'' then Some MediaFailed
      else if st = ''MEDIA_INIT'' then Some MediaInit
      else None)"

declare parse_media_state.simps [simp del]

definition handleMediaEvent :: "(vehicle_id \<times> string) option \<Rightarrow> Server \<Rightarrow> Server \<times> unit reply" where
  "handleMediaEvent body s =
     (case body of
        None \<Rightarrow> (s, HttpError StatusBadRequest ''invalid request'')
      | Some (vid, st) \<Rightarrow>
          if vid = [] then (s, HttpError StatusBadRequest ''vehicle_id required'')
          else
            let s1 = on_ctx vid id s in
            case parse_media_state st of
              None \<Rightarrow> (s1, HttpError StatusBadRequest ''unknown media state'')
            | Some ms \<Rightarrow> (on_SM vid (TransitionMedia ms) s1, HttpOk StatusAccepted ()))"

definition emergency_stop_vehicle ::
  "session_id list \<Rightarrow> instant \<Rightarrow> (vehicle_id \<Rightarrow> event_id) \<Rightarrow> vehicle_id \<Rightarrow> Server \<Rightarrow> Server" where
  "emergency_stop_vehicle ks now eid vid s =
     (let sess = GetSessionByVehicle (sv_sessionMgr s) vid;
          sid = (case sess of None \<Rightarrow> [] | Some x \<Rightarrow> sess_ID x);
          s1 = emit [PostEmergencyStopToBus sid vid ''operator emergency stop''] (on_ctx vid id s);
          s2 = emit [SystemTransition StateSafeMode] (on_SM vid (TransitionSystem StateSafeMode) s1)
      in case sess of
           None \<Rightarrow> s2
         | Some x \<Rightarrow>
             if sess_ID x = [] then s2
             else
               let s3 = on_sessions (SaveCheckpoint ks now ''SAFE_MODE'' ''CONTROL_BLOCKED'' ''EMERGENCY_STOP'') s2;
                   s4 = emit (PushSFUEvent ks ''SESSION_SAFE_MODE'' (sv_sessionMgr s3)) s3
               in emit [KickVehicle vid]
                    (s4\<lparr>sv_recorder := RecordSafetyEvent now (sess_ID x) (eid vid) vid (sess_OperatorID x)
                          ''EMERGENCY_STOP'' ''operator emergency stop'' (sv_recorder s4)\<rparr>))"

text \<open>An empty or missing vehicle id means the whole fleet.\<close>

definition handleEmergencyStop ::
  "session_id list \<Rightarrow> instant \<Rightarrow> (vehicle_id \<Rightarrow> event_id) \<Rightarrow> vehicle_id \<Rightarrow> Server \<Rightarrow> Server \<times> unit reply" where
  "handleEmergencyStop ks now eid vid s =
     (let vids = (if vid = [] then ActiveVehicleIDs ks (sv_sessionMgr s) else [vid])
      in (fold (emergency_stop_vehicle ks now eid) vids s, HttpOk StatusAccepted ()))"

section \<open>Queries and the vehicle registry\<close>

text \<open>A log line of the frontend: the event that goes to the log, if any. The level and the data of the
  request are ignored.\<close>

record frontend_log =
  fl_EventType :: string
  fl_SessionID :: session_id
  fl_VehicleID :: vehicle_id
  fl_OperatorID :: operator_id
  fl_EventID :: event_id
  fl_Message :: string

definition handleLog :: "frontend_log option \<Rightarrow> frontend_log option \<times> unit reply" where
  "handleLog body =
     (case body of
        None \<Rightarrow> (None, HttpError StatusBadRequest ''invalid request'')
      | Some entry \<Rightarrow>
          if fl_Message entry = [] then (None, HttpOk StatusAccepted ()) else (Some entry, HttpOk StatusAccepted ()))"

text \<open>\<open>query\<close> is the audit writer's \<open>QueryBySession\<close>, with \<open>None\<close> for an error.\<close>

definition handleAuditEvents :: "(session_id \<Rightarrow> SafetyAuditEvent list option) \<Rightarrow> session_id \<Rightarrow> SafetyAuditEvent list reply" where
  "handleAuditEvents query sid =
     (if sid = [] then HttpError StatusBadRequest ''session_id required''
      else case query sid of
        None \<Rightarrow> HttpError StatusInternalServerError ''query failed''
      | Some events \<Rightarrow> HttpOk StatusOK events)"

text \<open>The authorisation hook of the media server: publishing needs the stream key, reading a non-empty
  token and a controlled vehicle under the requested path.\<close>

definition handleMediaAuth :: "string \<Rightarrow> (string \<times> string \<times> string) option \<Rightarrow> Server \<Rightarrow> unit reply" where
  "handleMediaAuth whipStreamKey body s =
     (case body of
        None \<Rightarrow> HttpError StatusBadRequest ''invalid request''
      | Some (action, path, token) \<Rightarrow>
          if action = ''publish'' then
            (if whipStreamKey = [] \<or> token \<noteq> whipStreamKey then HttpError StatusUnauthorized ''unauthorized''
             else HttpOk StatusOK ())
          else if action = ''read'' then
            (if token = [] then HttpError StatusUnauthorized ''unauthorized''
             else if GetSessionByVehicle (sv_sessionMgr s) path = None then HttpError StatusUnauthorized ''unauthorized''
             else HttpOk StatusOK ())
          else HttpError StatusBadRequest ''unknown action'')"

definition handleVehicleAckLatest :: "vehicle_id \<Rightarrow> Server \<Rightarrow> (VehicleCommandAck \<times> bool) reply" where
  "handleVehicleAckLatest vid s =
     (if vid = [] then HttpError StatusBadRequest ''vehicle_id required''
      else case ack_Latest (sv_acks s) vid of
        None \<Rightarrow> HttpError StatusNotFound ''no ack for vehicle''
      | Some a \<Rightarrow> HttpOk StatusOK (a, Connected (sv_conns s) vid))"

definition handleRecording :: "session_id \<Rightarrow> Server \<Rightarrow> (nat \<times> Entry list) reply" where
  "handleRecording sid s =
     (if sid = [] then HttpError StatusBadRequest ''session_id required''
      else let es = GetEntries (sv_recorder s) sid in HttpOk StatusOK (length es, es))"

definition handleVehiclesList :: "bool \<Rightarrow> Server \<Rightarrow> Server \<times> (Vehicle \<times> string) list reply" where
  "handleVehiclesList db_up s =
     (case store_List db_up (sv_conns s) (sv_vehicles s) of
        Inl _ \<Rightarrow> (s, HttpError StatusInternalServerError ''query failed'')
      | Inr vs \<Rightarrow>
          (fold (\<lambda>v. on_ctx (veh_ID v) id) vs s,
           HttpOk StatusOK (map (\<lambda>v. (v, system_string (System (machine_of s (veh_ID v))))) vs)))"

definition handleVehiclesCreate ::
  "bool \<Rightarrow> instant \<Rightarrow> (vehicle_id \<times> string \<times> string) option \<Rightarrow> Server \<Rightarrow> Server \<times> unit reply" where
  "handleVehiclesCreate db_up now body s =
     (case body of
        None \<Rightarrow> (s, HttpError StatusBadRequest ''invalid JSON'')
      | Some (vid, name, descr) \<Rightarrow>
          if vid = [] \<or> name = [] then (s, HttpError StatusBadRequest ''id and display_name required'')
          else case store_Exists db_up vid (sv_vehicles s) of
            Inl _ \<Rightarrow> (s, HttpError StatusInternalServerError ''store error'')
          | Inr True \<Rightarrow> (s, HttpError StatusConflict ''vehicle already exists'')
          | Inr False \<Rightarrow>
              let (t, res) = store_Add db_up now vid name descr (sv_vehicles s)
              in (s\<lparr>sv_vehicles := t\<rparr>,
                  case res of Inl _ \<Rightarrow> HttpError StatusInternalServerError ''add failed''
                            | Inr _ \<Rightarrow> HttpOk StatusCreated ()))"

definition handleVehicleDelete :: "bool \<Rightarrow> vehicle_id \<Rightarrow> Server \<Rightarrow> Server \<times> unit reply" where
  "handleVehicleDelete db_up vid s =
     (if vid = [] then (s, HttpError StatusBadRequest ''id required'')
      else if IsVehicleLocked (sv_sessionMgr s) vid
      then (s, HttpError StatusConflict ''vehicle is currently in active session'')
      else
        let (t, res) = store_Delete db_up vid (sv_vehicles s)
        in (s\<lparr>sv_vehicles := t\<rparr>,
            case res of
              Inl StoreNotFound \<Rightarrow> HttpError StatusNotFound ''vehicle not found''
            | Inl _ \<Rightarrow> HttpError StatusInternalServerError ''delete failed''
            | Inr _ \<Rightarrow> HttpOk StatusNoContent ()))"

text \<open>The reply shows only the time of day of the creation; the model keeps the instant.\<close>

definition handleSessions :: "session_id list \<Rightarrow> Server \<Rightarrow> (session_id \<times> vehicle_id \<times> operator_id \<times> string \<times> instant) list reply" where
  "handleSessions ks s =
     HttpOk StatusOK
       (map (\<lambda>x. (sess_ID x, sess_VehicleID x, sess_OperatorID x, role_string (sess_OperatorRole x), sess_CreatedAt x))
         (ListSessions ks (sv_sessionMgr s)))"

definition handleVehicleState ::
  "vehicle_id \<Rightarrow> Server \<Rightarrow> Server \<times> (string \<times> string \<times> string \<times> string) reply" where
  "handleVehicleState vid s =
     (if vid = [] then (s, HttpError StatusBadRequest ''vehicle id required'')
      else
        let (sys, ctrl, media, op) = Get (machine_of s vid)
        in (on_ctx vid id s,
            HttpOk StatusOK (system_string sys, control_string ctrl, media_string media, operator_string op)))"

end
