(* ===== verification/Server_Invariant.thy ===== *)
theory Server_Invariant
  imports Control_Server
begin

text \<open>
  The control server as a whole. \<open>world_step\<close> interleaves all handlers, the operators' and vehicles'
  connections, the callbacks of the watchdogs and the ticks of the pollers, each as one atomic step.
  The invariant ties the session manager to the machines: a vehicle is IDLE exactly when nobody controls
  it, its CONTROL layer belongs to its SYSTEM state, and between two steps its machine is in one of the
  four states IDLE, CONNECTED, DEGRADED and SAFE_MODE.
\<close>

section \<open>Steps\<close>

record world =
  w_server :: Server
  w_open :: "wsConn list"

text \<open>What happens to a vehicle's context without a request.\<close>

inductive background :: "VehicleContext \<Rightarrow> VehicleContext \<Rightarrow> effect list \<Rightarrow> bool" where
  deadman_cb: "run_deadman_callback now eid c = (c', es) \<Longrightarrow> background c c' es"
| ack_cb: "run_ack_callback now eid c = (c', es) \<Longrightarrow> background c c' es"
| vehicle_ack_cb: "run_vehicle_ack_callback now eid c = (c', es) \<Longrightarrow> background c c' es"
| expiry: "background c (expire_timers now p c) []"
| auth_poll: "auth_tick now eid i res c = (c', es) \<Longrightarrow> background c c' es"
| telemetry_poll: "background c (telemetry_poll i res c) []"

inductive world_step :: "world \<Rightarrow> world \<Rightarrow> bool" where
  session_start:
    "sessions (sv_sessionMgr (w_server w)) newID = None \<Longrightarrow> newID \<notin> (sess_ID \<circ> wc_sess) ` set (w_open w) \<Longrightarrow>
     world_step w (w\<lparr>w_server := fst (handleSessionStart ks newID eid now role body (w_server w))\<rparr>)"
| session_end:
    "iter_order (sessions (sv_sessionMgr (w_server w))) ks \<Longrightarrow>
     world_step w (w\<lparr>w_server := fst (handleSessionEnd ks sid (w_server w))\<rparr>)"
| handover_request:
    "world_step w (w\<lparr>w_server := fst (handleHandoverRequest body (w_server w))\<rparr>)"
| handover_confirm:
    "iter_order (sessions (sv_sessionMgr (w_server w))) ks \<Longrightarrow>
     world_step w (w\<lparr>w_server := fst (handleHandoverConfirm ks resp cbody (w_server w))\<rparr>)"
| handover_cancel:
    "world_step w (w\<lparr>w_server := fst (handleHandoverCancel vbody (w_server w))\<rparr>)"
| media_event:
    "world_step w (w\<lparr>w_server := fst (handleMediaEvent mbody (w_server w))\<rparr>)"
| emergency_stop:
    "world_step w (w\<lparr>w_server := fst (handleEmergencyStop ks now eids vid (w_server w))\<rparr>)"
| ws_open:
    "ServeWS jwt secret up rq (w_server w) = (s', HttpOk code (Some ws)) \<Longrightarrow>
     world_step w (w\<lparr>w_server := s', w_open := ws # w_open w\<rparr>)"
| ws_message:
    "ws \<in> set (w_open w) \<Longrightarrow>
     world_step w (w\<lparr>w_server := fst (processWSMessage rnd marshal_ok write_ok ws msg (w_server w))\<rparr>)"
| ws_close:
    "ws \<in> set (w_open w) \<Longrightarrow>
     world_step w (w\<lparr>w_server := handleWSDisconnect ks now eid ws (w_server w), w_open := remove1 ws (w_open w)\<rparr>)"
| vehicle_open:
    "world_step w (w\<lparr>w_server := fst (vehicle_ServeWS jwt secret up db now auth tok c (w_server w))\<rparr>)"
| vehicle_msg: "world_step w (w\<lparr>w_server := vehicle_message vid a (w_server w)\<rparr>)"
| vehicle_close: "world_step w (w\<lparr>w_server := vehicle_disconnect now vid (w_server w)\<rparr>)"
| vehicle_create: "world_step w (w\<lparr>w_server := fst (handleVehiclesCreate db now nbody (w_server w))\<rparr>)"
| vehicle_delete: "world_step w (w\<lparr>w_server := fst (handleVehicleDelete db vid (w_server w))\<rparr>)"
| vehicle_list: "world_step w (w\<lparr>w_server := fst (handleVehiclesList db (w_server w))\<rparr>)"
| vehicle_state: "world_step w (w\<lparr>w_server := fst (handleVehicleState vid (w_server w))\<rparr>)"
| context_step:
    "background (context_of (w_server w) vid) c' es \<Longrightarrow>
     world_step w (w\<lparr>w_server := emit es (on_ctx vid (\<lambda>_. c') (w_server w))\<rparr>)"
| bus_tick:
    "bus_run_tick StateMachine with_SM threshold now resp' ids failures (sv_contexts (w_server w)) = (f', r', es) \<Longrightarrow>
     world_step w (w\<lparr>w_server := emit es ((w_server w)\<lparr>sv_contexts := r'\<rparr>)\<rparr>)"

section \<open>Machine changes that keep a vehicle's occupation\<close>

definition settled :: "SystemState \<Rightarrow> bool" where
  "settled st \<longleftrightarrow> st = StateIdle \<or> st = StateConnected \<or> st = StateDegraded \<or> st = StateSafeMode"

definition same_occupation :: "Machine \<Rightarrow> Machine \<Rightarrow> bool" where
  "same_occupation m m' \<longleftrightarrow> machine_step\<^sup>*\<^sup>* m m' \<and>
     (settled (System m) \<longrightarrow> settled (System m') \<and> (System m' = StateIdle \<longleftrightarrow> System m = StateIdle))"

text \<open>Changes that in addition do not leave SAFE_MODE.\<close>

definition quiet :: "Machine \<Rightarrow> Machine \<Rightarrow> bool" where
  "quiet m m' \<longleftrightarrow> same_occupation m m' \<and> (System m = StateSafeMode \<longrightarrow> System m' = StateSafeMode)"

lemma quiet_refl [simp, intro]: "quiet m m"
  by (simp add: quiet_def same_occupation_def)

lemma quiet_occupation [intro]: "quiet m m' \<Longrightarrow> same_occupation m m'"
  by (simp add: quiet_def)

lemma quiet_trans: "quiet a b \<Longrightarrow> quiet b c \<Longrightarrow> quiet a c"
  unfolding quiet_def same_occupation_def by (blast intro: rtranclp_trans)

lemma quiet_ops [intro]:
  "quiet m (TransitionSystem StateSafeMode m)"
  "quiet m (TransitionOperator os m)"
  "quiet m (TransitionMedia ms m)"
  "quiet m (TransitionTelemetry h m)"
  unfolding quiet_def same_occupation_def
  by (auto intro: machine_step.intros simp: settled_def System_ops isValid_to_SafeMode)

lemma quiet_comp:
  "quiet m m' \<Longrightarrow> quiet m (TransitionSystem StateSafeMode m')"
  "quiet m m' \<Longrightarrow> quiet m (TransitionOperator os m')"
  "quiet m m' \<Longrightarrow> quiet m (TransitionMedia ms m')"
  by (blast intro: quiet_trans)+

lemma recover_steps:
  "machine_step\<^sup>*\<^sup>* (vc_SM vc) (vc_SM (recoverFromSafeMode sess vc))"
proof (cases "System (vc_SM vc) = StateSafeMode")
  case True
  let ?m1 = "TransitionSystem StateRecovering (vc_SM vc)"
  let ?m2 = "TransitionSystem StateAuthenticated ?m1"
  let ?m3 = "fst (TransitionToConnected ?m2)"
  have "machine_step\<^sup>*\<^sup>* (vc_SM vc) ?m1" "machine_step\<^sup>*\<^sup>* ?m1 ?m2" "machine_step\<^sup>*\<^sup>* ?m2 ?m3"
    "machine_step\<^sup>*\<^sup>* ?m3 (TransitionOperator OpActive ?m3)"
    by (blast intro: machine_step.intros)+
  then have "machine_step\<^sup>*\<^sup>* (vc_SM vc) (TransitionOperator OpActive ?m3)"
    by (meson rtranclp_trans)
  with True show ?thesis by (auto simp: recoverFromSafeMode_def Let_def split: prod.split)
qed (simp add: recoverFromSafeMode_def)

lemma recover_system:
  "System (vc_SM (recoverFromSafeMode sess vc)) =
     (if System (vc_SM vc) = StateSafeMode then StateConnected else System (vc_SM vc))"
  by (auto simp: recoverFromSafeMode_def machine_op_defs Let_def)

lemma recover_occupation: "same_occupation (vc_SM vc) (vc_SM (recoverFromSafeMode sess vc))"
  using recover_steps by (auto simp: same_occupation_def recover_system settled_def)

lemma quiet_background: "background c c' es \<Longrightarrow> quiet (vc_SM c) (vc_SM c')"
proof (induction rule: background.induct)
  case (telemetry_poll c i res)
  then show ?case
    by (auto simp: telemetry_poll_def telemetry_run_tick_def telemetry_tick_def Let_def
        split: option.splits prod.splits if_splits)
qed (auto simp: run_deadman_callback_def run_ack_callback_def run_vehicle_ack_callback_def expire_timers_def
    auth_tick_def deadman_fire_def ack_fire_def vehicle_ack_fire_def auth_run_tick_def auth_fire_def Let_def
    split: nat.splits prod.splits if_splits option.splits)

section \<open>The invariant\<close>

definition server_inv :: "Server \<Rightarrow> bool" where
  "server_inv s \<longleftrightarrow> gsa_inv (sv_sessionMgr s) \<and>
     (\<forall>v. machine_step\<^sup>*\<^sup>* newMachine (machine_of s v) \<and> settled (System (machine_of s v)) \<and>
        (System (machine_of s v) = StateIdle \<longleftrightarrow> vehicleController (sv_sessionMgr s) v = None))"

text \<open>The session copy a connection keeps agrees with the session manager about the vehicle, and an
  observer's session is never promoted.\<close>

definition connections_known :: "world \<Rightarrow> bool" where
  "connections_known w \<longleftrightarrow>
     (\<forall>ws\<in>set (w_open w). \<forall>cs. sessions (sv_sessionMgr (w_server w)) (sess_ID (wc_sess ws)) = Some cs \<longrightarrow>
        sess_VehicleID cs = sess_VehicleID (wc_sess ws) \<and> (wc_isObserver ws \<longrightarrow> \<not> is_active cs))"

definition world_inv :: "world \<Rightarrow> bool" where
  "world_inv w \<longleftrightarrow> server_inv (w_server w) \<and> connections_known w"

lemma server_inv_occupation:
  assumes "server_inv s" and "gsa_inv (sv_sessionMgr s')"
    and "vehicleController (sv_sessionMgr s') = vehicleController (sv_sessionMgr s)"
    and "\<And>v. same_occupation (machine_of s v) (machine_of s' v)"
  shows "server_inv s'"
proof -
  have "machine_step\<^sup>*\<^sup>* newMachine (machine_of s' v) \<and> settled (System (machine_of s' v)) \<and>
      (System (machine_of s' v) = StateIdle \<longleftrightarrow> vehicleController (sv_sessionMgr s') v = None)" for v
  proof -
    have "machine_step\<^sup>*\<^sup>* newMachine (machine_of s v)" "settled (System (machine_of s v))"
      "System (machine_of s v) = StateIdle \<longleftrightarrow> vehicleController (sv_sessionMgr s) v = None"
      using assms(1) by (auto simp: server_inv_def)
    then show ?thesis
      using assms(4) [of v] assms(3) unfolding same_occupation_def by (auto intro: rtranclp_trans)
  qed
  with assms(2) show ?thesis by (simp add: server_inv_def)
qed

lemma machine_of_simps [simp]:
  "machine_of (on_ctx vid f s) v = (if v = vid then vc_SM (f (context_of s vid)) else machine_of s v)"
  "machine_of (on_SM vid g s) v = (if v = vid then g (machine_of s vid) else machine_of s v)"
  "machine_of (emit es s) v = machine_of s v"
  "machine_of (on_sessions k s) v = machine_of s v"
  "machine_of (s\<lparr>sv_conns := x\<rparr>) v = machine_of s v" "machine_of (s\<lparr>sv_recorder := r\<rparr>) v = machine_of s v"
  "machine_of (s\<lparr>sv_acks := y\<rparr>) v = machine_of s v" "machine_of (s\<lparr>sv_vehicles := t\<rparr>) v = machine_of s v"
  "machine_of (s\<lparr>sv_sessionMgr := m\<rparr>) v = machine_of s v"
  "machine_of (s\<lparr>sv_contexts := cs\<rparr>) v = StateMachine cs v" "machine_of (s\<lparr>sv_limiter := b\<rparr>) v = machine_of s v"
  "machine_of (s\<lparr>sv_handover := h\<rparr>) v = machine_of s v"
  by (auto simp: machine_of_eq StateMachine_def)

lemma StateMachine_with_SM_if:
  "StateMachine (with_SM vid f r) v = (if v = vid then f (StateMachine r vid) else StateMachine r v)"
  by simp

lemma vc_SM_ctx [simp]: "vc_SM (ctx r v) = StateMachine r v"
  by (simp add: StateMachine_def)

lemma vc_SM_context_of [simp]: "vc_SM (context_of s v) = machine_of s v"
  by (simp add: machine_of_eq)

lemma sv_sessionMgr_update_simps [simp]:
  "sv_sessionMgr (on_SM vid g s) = sv_sessionMgr s"
  by simp

section \<open>Requests that keep every vehicle's occupation\<close>

text \<open>A step that keeps the sessions and the locks, and every machine's occupation.\<close>

definition calm :: "Server \<Rightarrow> Server \<Rightarrow> bool" where
  "calm s s' \<longleftrightarrow> sessions (sv_sessionMgr s') = sessions (sv_sessionMgr s) \<and>
     vehicleController (sv_sessionMgr s') = vehicleController (sv_sessionMgr s) \<and>
     (\<forall>v. quiet (machine_of s v) (machine_of s' v))"

lemma calm_inv: "calm s s' \<Longrightarrow> server_inv s \<Longrightarrow> server_inv s'"
  by (rule server_inv_occupation) (auto simp: calm_def server_inv_def gsa_inv_def)

lemma calm_world:
  "calm (w_server w) s' \<Longrightarrow> world_inv w \<Longrightarrow> world_inv (w\<lparr>w_server := s'\<rparr>)"
  using calm_inv by (auto simp: world_inv_def connections_known_def calm_def)

lemma calm_media: "calm s (fst (handleMediaEvent b s))"
  by (auto simp: calm_def handleMediaEvent_def Let_def split: option.splits)

lemma calm_request: "calm s (fst (handleHandoverRequest b s))"
  by (auto simp: calm_def handleHandoverRequest_def with_handover_def handover_of_def RequestHandover_eq
      machine_of_def Let_def StateMachine_with_SM_if split: option.splits)

lemma calm_cancel: "calm s (fst (handleHandoverCancel b s))"
  by (auto simp: calm_def handleHandoverCancel_def with_handover_def handover_of_def CancelHandover_def
      machine_of_def StateMachine_with_SM_if split: option.splits)

lemma calm_vehicle_endpoints:
  "calm s (fst (vehicle_ServeWS jwt secret up db now auth tok c s))"
  "calm s (vehicle_message vid a s)"
  "calm s (vehicle_disconnect now vid s)"
  "calm s (fst (handleVehiclesCreate db now b s))"
  "calm s (fst (handleVehicleDelete db vid s))"
  "calm s (fst (handleVehicleState vid s))"
  by (auto simp: calm_def vehicle_ServeWS_def vehicle_message_def vehicle_disconnect_def
      handleVehiclesCreate_def handleVehicleDelete_def handleVehicleState_def Let_def
      split: option.splits prod.splits sum.splits bool.splits store_error.splits)

lemma calm_refl [simp]: "calm s s"
  by (simp add: calm_def)

lemma calm_trans: "calm a b \<Longrightarrow> calm b c \<Longrightarrow> calm a c"
  unfolding calm_def by (metis quiet_trans)

lemma calm_fold: "(\<And>x s. calm s (f x s)) \<Longrightarrow> calm s (fold f xs s)"
  by (induction xs arbitrary: s) (auto intro: calm_trans)

lemma calm_list: "calm s (fst (handleVehiclesList db s))"
proof -
  have "calm s (fold (\<lambda>v. on_ctx (veh_ID v) id) vs s)" for vs :: "Vehicle list"
    by (rule calm_fold) (auto simp: calm_def)
  then show ?thesis by (simp add: handleVehiclesList_def split: sum.split)
qed

lemma calm_context:
  "background (context_of s vid) c' es \<Longrightarrow> calm s (emit es (on_ctx vid (\<lambda>_. c') s))"
  using quiet_background [of "context_of s vid" c' es] by (auto simp: calm_def)

lemma calm_message: "calm s (fst (processWSMessage rnd marshal_ok write_ok ws msg s))"
proof -
  obtain s' ack go where r: "processWSMessage rnd marshal_ok write_ok ws msg s = (s', ack, go)"
    by (metis prod.exhaust)
  then have "calm s s'"
  proof (cases rule: processWSMessage_cases)
    case no_session
    then show ?thesis by (auto simp: calm_def acked_def)
  next
    case (handled cs b' r' es a s1)
    have s1: "machine_of s1 v = machine_of s v" "sv_sessionMgr s1 = sv_sessionMgr s" for v
      using handled(3) by (auto simp: message_received_def)
    have "machine_of s' v = StateMachine r' v" for v
      using handled(5) by (auto simp: acked_def)
    moreover have "quiet (machine_of s1 v) (StateMachine r' v)" for v
      using Handle_machine [OF handled(4), of v] by (auto simp: machine_of_def)
    ultimately show ?thesis using s1 handled(5) by (simp add: calm_def)
  qed simp
  with r show ?thesis by simp
qed

lemma bus_trigger_quiet:
  "quiet (StateMachine r v) (StateMachine (fst (triggerSafeModeFleetWide StateMachine with_SM now ids (r, es))) v)"
  by (auto simp: registry.trigger_machine)

lemma calm_bus:
  assumes "bus_run_tick StateMachine with_SM threshold now resp ids failures (sv_contexts s) = (f', r', es)"
  shows "calm s (emit es (s\<lparr>sv_contexts := r'\<rparr>))"
proof -
  have "quiet (StateMachine (sv_contexts s) v) (StateMachine r' v)" for v
    using assms bus_trigger_quiet [of "sv_contexts s" v now ids "[]"]
    by (auto simp: bus_run_tick_def split: prod.splits if_splits)
  then show ?thesis by (simp add: calm_def machine_of_def)
qed

lemma calm_emergency_stop: "calm s (fst (handleEmergencyStop ks now eids vid s))"
proof -
  have "calm s (emergency_stop_vehicle ks now eids v s)" for v s
    by (auto simp: calm_def emergency_stop_vehicle_def Let_def split: option.splits)
  then have "calm s (fold (emergency_stop_vehicle ks now eids) vs s)" for vs by (rule calm_fold)
  then show ?thesis by (simp add: handleEmergencyStop_def Let_def)
qed

lemma calm_operator_disconnect:
  "\<not> wc_isObserver ws \<Longrightarrow> calm s (handleWSDisconnect ks now eid ws s)"
  by (auto simp: calm_def handleWSDisconnect_def auditWSDisconnect_def Let_def Get_def
      intro: quiet_comp quiet_ops split: prod.splits)

section \<open>Requests that change the sessions\<close>

lemma ConfirmHandover_result:
  "ConfirmHandover ks resp vid oid (h, r, m) = ((h', r', m'), es, res) \<Longrightarrow>
   r' = r \<and> m' = m \<or>
   (\<exists>to. m' = UpdateOperator ks vid to RoleActiveOperator m \<and> r' = with_SM vid (TransitionOperator OpActive) r)"
  by (auto simp: ConfirmHandover_def Let_def split: option.splits if_splits sum.splits)

lemma confirm_cases:
  assumes "s' = fst (handleHandoverConfirm ks resp b s)"
  obtains (same) "sv_sessionMgr s' = sv_sessionMgr s" "\<And>v. machine_of s' v = machine_of s v"
  | (updated) vid to where "sv_sessionMgr s' = UpdateOperator ks vid to RoleActiveOperator (sv_sessionMgr s)"
      "\<And>v. machine_of s' v = (if v = vid then TransitionOperator OpActive (machine_of s v) else machine_of s v)"
proof -
  consider "s' = s" | vid oid h r m es res where
    "ConfirmHandover ks resp vid oid (sv_handover s, sv_contexts s, sv_sessionMgr s) = ((h, r, m), es, res)"
    "s' = emit es (s\<lparr>sv_handover := h, sv_contexts := r, sv_sessionMgr := m\<rparr>)"
    using assms
    by (auto simp: handleHandoverConfirm_def with_handover_def handover_of_def Let_def
        split: option.splits prod.splits if_splits)
  then show thesis
  proof cases
    case 1
    then show thesis by (intro same) auto
  next
    case 2
    from ConfirmHandover_result [OF 2(1)] show thesis
    proof (elim disjE exE conjE)
      assume "r = sv_contexts s" "m = sv_sessionMgr s"
      with 2(2) show thesis by (intro same) (auto simp: machine_of_def)
    next
      fix to assume "m = UpdateOperator ks vid to RoleActiveOperator (sv_sessionMgr s)"
        "r = with_SM vid (TransitionOperator OpActive) (sv_contexts s)"
      with 2(2) show thesis by (intro updated) (auto simp: machine_of_def)
    qed
  qed
qed

lemma world_inv_confirm:
  assumes "world_inv w" and "iter_order (sessions (sv_sessionMgr (w_server w))) ks"
  shows "world_inv (w\<lparr>w_server := fst (handleHandoverConfirm ks resp b (w_server w))\<rparr>)"
proof -
  let ?s = "w_server w"
  let ?s' = "fst (handleHandoverConfirm ks resp b ?s)"
  have inv: "server_inv ?s" and gsa: "gsa_inv (sv_sessionMgr ?s)" and obs: "connections_known w"
    using assms(1) by (simp_all add: world_inv_def server_inv_def)
  have "?s' = fst (handleHandoverConfirm ks resp b ?s)" by (rule refl)
  then show ?thesis
  proof (cases rule: confirm_cases)
    case same
    then have "calm ?s ?s'" by (simp add: calm_def)
    from calm_world [OF this assms(1)] show ?thesis .
  next
    case (updated vid to)
    have gsa': "gsa_inv (sv_sessionMgr ?s')"
      unfolding updated(1) using gsa assms(2) by (rule gsa_inv_UpdateOperator)
    have vc: "vehicleController (sv_sessionMgr ?s') = vehicleController (sv_sessionMgr ?s)"
      unfolding updated(1) by (simp add: UpdateOperator_eq [OF gsa assms(2)] split: option.split)
    have "same_occupation (machine_of ?s v) (machine_of ?s' v)" for v using updated(2) by auto
    then have "server_inv ?s'" by (rule server_inv_occupation [OF inv gsa' vc])
    moreover have "\<exists>t'. sessions (sv_sessionMgr ?s) k = Some t' \<and> sess_VehicleID t' = sess_VehicleID t \<and>
        (is_active t \<longrightarrow> is_active t')"
      if "sessions (sv_sessionMgr ?s') k = Some t" for k t
      using that gsa_inv_controller [OF gsa] unfolding updated(1)
      by (fastforce simp: UpdateOperator_eq [OF gsa assms(2)] split: option.splits if_splits)
    ultimately show ?thesis using obs unfolding world_inv_def connections_known_def by fastforce
  qed
qed

lemma world_inv_open:
  assumes "world_inv w" and "ServeWS jwt secret up rq (w_server w) = (s', HttpOk code (Some ws))"
  shows "world_inv (w\<lparr>w_server := s', w_open := ws # w_open w\<rparr>)"
proof -
  let ?s = "w_server w"
  have gsa: "gsa_inv (sv_sessionMgr ?s)" using assms(1) by (simp add: world_inv_def server_inv_def)
  obtain claims sess where a: "authenticateWS jwt secret rq (sv_sessionMgr ?s) = HttpOk code (claims, sess)"
    and ws: "ws = \<lparr>wc_claims = claims, wc_sess = sess, wc_isObserver = (sess_OperatorRole sess = RoleObserver)\<rparr>"
    and s': "s' = (if sess_OperatorRole sess = RoleObserver then ?s
        else on_ctx (sess_VehicleID sess) (recoverFromSafeMode sess) ?s)"
    using assms(2) by (auto simp: ServeWS_def Let_def split: reply.splits prod.splits if_splits)
  have "sessions (sv_sessionMgr ?s) (sess_ID sess) = Some sess"
    using a gsa_inv_ID [OF gsa]
    by (auto simp: authenticateWS_def GetSession_def Let_def split: option.splits if_splits)
  moreover have "server_inv s'"
  proof (rule server_inv_occupation)
    show "same_occupation (machine_of ?s v) (machine_of s' v)" for v
      using s' recover_occupation [of "context_of ?s (sess_VehicleID sess)" sess] by auto
  qed (use assms(1) gsa s' in \<open>auto simp: world_inv_def\<close>)
  moreover have "sv_sessionMgr s' = sv_sessionMgr ?s" using s' by auto
  ultimately show ?thesis
    using assms(1) ws by (auto simp: world_inv_def connections_known_def is_active_def)
qed

lemma world_inv_close:
  assumes "world_inv w" and "ws \<in> set (w_open w)"
  shows "world_inv (w\<lparr>w_server := handleWSDisconnect ks now eid ws (w_server w), w_open := remove1 ws (w_open w)\<rparr>)"
proof (cases "wc_isObserver ws")
  case True
  let ?m = "sv_sessionMgr (w_server w)" and ?k = "sess_ID (wc_sess ws)"
  have inv: "server_inv (w_server w)" and gsa: "gsa_inv ?m" and obs: "connections_known w"
    using assms(1) by (simp_all add: world_inv_def server_inv_def)
  have "handleWSDisconnect ks now eid ws (w_server w) = on_sessions (ReleaseSession ?k) (w_server w)" (is "?s' = _")
    using True by (simp add: handleWSDisconnect_def Let_def)
  moreover have "vehicleController (ReleaseSession ?k ?m) = vehicleController ?m"
    "sessions (ReleaseSession ?k ?m) = (sessions ?m)(?k := None)"
    using obs True assms(2) by (auto simp: ReleaseSession_eq [OF gsa] connections_known_def split: option.split)
  moreover have "gsa_inv (ReleaseSession ?k ?m)" using gsa by blast
  ultimately show ?thesis
    using obs server_inv_occupation [OF inv, of ?s'] set_remove1_subset [of ws "w_open w"]
    by (auto simp: world_inv_def connections_known_def)
next
  case False
  from calm_world [OF calm_operator_disconnect [OF False] assms(1), of ks now eid] show ?thesis
    using set_remove1_subset [of ws "w_open w"] by (auto simp: world_inv_def connections_known_def)
qed

section \<open>Session start and end\<close>

definition started_machine :: "Machine \<Rightarrow> Machine" where
  "started_machine m =
     TransitionOperator OpActive
       (fst (TransitionToConnected (TransitionSystem StateAuthenticated (TransitionSystem StateConnecting m))))"

lemma started_steps: "machine_step\<^sup>*\<^sup>* m (started_machine m)"
proof -
  let ?m1 = "TransitionSystem StateConnecting m"
  let ?m2 = "TransitionSystem StateAuthenticated ?m1"
  let ?m3 = "fst (TransitionToConnected ?m2)"
  have "machine_step\<^sup>*\<^sup>* m ?m1" "machine_step\<^sup>*\<^sup>* ?m1 ?m2" "machine_step\<^sup>*\<^sup>* ?m2 ?m3"
    "machine_step\<^sup>*\<^sup>* ?m3 (TransitionOperator OpActive ?m3)"
    by (blast intro: machine_step.intros)+
  then show ?thesis unfolding started_machine_def by (meson rtranclp_trans)
qed

lemma started_idle:
  "System m = StateIdle \<Longrightarrow>
   System (started_machine m) = StateConnected \<and> Control (started_machine m) = ControlActive \<and>
   Operator (started_machine m) = OpActive"
  by (simp add: started_machine_def machine_op_defs Let_def)

lemma advance_fields:
  "sv_sessionMgr (advanceVehicleToActiveOperator ks now eid sess s) = sv_sessionMgr s"
  "sv_conns (advanceVehicleToActiveOperator ks now eid sess s) = sv_conns s"
  "sv_handover (advanceVehicleToActiveOperator ks now eid sess s) = sv_handover s"
  by (simp_all add: advanceVehicleToActiveOperator_def Let_def split: prod.split)

lemma advance_context:
  "context_of (advanceVehicleToActiveOperator ks now eid sess s) v =
     (let c = context_of s v; sid = sess_ID sess; vid = sess_VehicleID sess in
      if v = vid then c\<lparr>vc_SM := started_machine (vc_SM c),
                 vc_Deadman := deadman_Start sid vid (vc_Deadman c),
                 vc_VehicleACKWatchdog := vehicle_ack_Start sid vid (vc_VehicleACKWatchdog c),
                 vc_AuthWatchdog := map_option (auth_Start sid vid (sess_OperatorID sess)) (vc_AuthWatchdog c),
                 vc_TelemetryWatchdog := map_option (telemetry_Start sid vid) (vc_TelemetryWatchdog c)\<rparr>
      else c)"
  by (auto simp: advanceVehicleToActiveOperator_def Let_def started_machine_def split: prod.split)

lemma advance_machine:
  "machine_of (advanceVehicleToActiveOperator ks now eid sess s) v =
     (if v = sess_VehicleID sess then started_machine (machine_of s v) else machine_of s v)"
  by (simp add: machine_of_eq advance_context Let_def del: vc_SM_context_of)

lemma start_cases:
  assumes "handleSessionStart ks k eid now role b s = (s', rep)"
  obtains (rejected) "s' = s" "status rep \<noteq> StatusOK"
  | (started) vid oid m sess where "b = Some (vid, oid)" "Connected (sv_conns s) vid"
      "StartSession k now vid oid (sv_sessionMgr s) = (m, sess)" "rep = HttpOk StatusOK sess"
      "s' = (if is_active sess then advanceVehicleToActiveOperator ks now eid sess (s\<lparr>sv_sessionMgr := m\<rparr>)
             else s\<lparr>sv_sessionMgr := m\<rparr>)"
  using assms
  by (auto simp: handleSessionStart_def Let_def status_defs split: option.splits prod.splits if_splits)

lemma world_inv_start:
  assumes "world_inv w" and "sessions (sv_sessionMgr (w_server w)) k = None"
    and "k \<notin> (sess_ID \<circ> wc_sess) ` set (w_open w)"
  shows "world_inv (w\<lparr>w_server := fst (handleSessionStart ks k eid now role b (w_server w))\<rparr>)"
proof -
  let ?s = "w_server w"
  obtain s' rep where r: "handleSessionStart ks k eid now role b ?s = (s', rep)" by (metis prod.exhaust)
  have inv: "server_inv ?s" and gsa: "gsa_inv (sv_sessionMgr ?s)" and obs: "connections_known w"
    using assms(1) by (simp_all add: world_inv_def server_inv_def)
  from r have "server_inv s' \<and> connections_known (w\<lparr>w_server := s'\<rparr>)"
  proof (cases rule: start_cases)
    case rejected
    with inv obs show ?thesis by (simp add: connections_known_def)
  next
    case (started vid oid m sess)
    have m: "sv_sessionMgr s' = m" using started(5) by (simp add: advance_fields)
    have gsa': "gsa_inv m"
      using gsa_inv_StartSession [OF gsa assms(2), of now vid oid] started(3) by simp
    have S: "sess = \<lparr>sess_ID = k, sess_VehicleID = vid, sess_OperatorID = oid, sess_OperatorRole =
        (if vehicleController (sv_sessionMgr ?s) vid = None then RoleActiveOperator else RoleObserver), sess_CreatedAt = now\<rparr>"
      and M: "sessions m = (sessions (sv_sessionMgr ?s))(k \<mapsto> sess)"
        "vehicleController m = (if vehicleController (sv_sessionMgr ?s) vid = None
          then (vehicleController (sv_sessionMgr ?s))(vid \<mapsto> k) else vehicleController (sv_sessionMgr ?s))"
      using started(3) by (auto simp: StartSession_eq [OF gsa] Let_def)
    have act: "is_active sess \<longleftrightarrow> vehicleController (sv_sessionMgr ?s) vid = None"
      using S by (simp add: is_active_def)
    have mach: "machine_of s' v = (if is_active sess \<and> v = vid then started_machine (machine_of ?s v) else machine_of ?s v)" for v
      using started(5) S by (simp add: advance_machine)
    have "machine_step\<^sup>*\<^sup>* newMachine (machine_of s' v) \<and> settled (System (machine_of s' v)) \<and>
        (System (machine_of s' v) = StateIdle \<longleftrightarrow> vehicleController m v = None)" for v
    proof -
      have old: "machine_step\<^sup>*\<^sup>* newMachine (machine_of ?s v)" "settled (System (machine_of ?s v))"
        "System (machine_of ?s v) = StateIdle \<longleftrightarrow> vehicleController (sv_sessionMgr ?s) v = None"
        using inv by (auto simp: server_inv_def)
      show ?thesis
      proof (cases "is_active sess \<and> v = vid")
        case True
        then have "System (machine_of ?s v) = StateIdle" using act old(3) by simp
        from started_idle [OF this] True show ?thesis
          using mach [of v] M(2) act rtranclp_trans [OF old(1) started_steps]
          by (simp add: settled_def)
      next
        case False
        then show ?thesis using old mach [of v] M(2) act by auto
      qed
    qed
    then have "server_inv s'" using gsa' m by (simp add: server_inv_def)
    moreover have "connections_known (w\<lparr>w_server := s'\<rparr>)"
      using obs assms(3) M(1) m by (auto simp: connections_known_def)
    ultimately show ?thesis by simp
  qed
  with r show ?thesis by (simp add: world_inv_def)
qed

lemma idle_from_settled:
  "settled (System m) \<Longrightarrow> System (TransitionSystem StateIdle m) = StateIdle"
  by (auto simp: settled_def System_TransitionSystem isValidTransition_def)

lemma end_vehicle_fields [simp]:
  "sv_sessionMgr (end_vehicle v s) = sv_sessionMgr s" "sv_effects (end_vehicle v s) = sv_effects s"
  by (simp_all add: end_vehicle_def split: option.split)

lemma end_vehicles_fields [simp]:
  "sv_sessionMgr (fold end_vehicle vs s) = sv_sessionMgr s"
  by (induction vs arbitrary: s) simp_all

lemma stop_watchdogs_SM [simp]: "vc_SM (stop_watchdogs c) = vc_SM c"
  by (simp add: stop_watchdogs_def)

lemma end_vehicle_machine:
  "machine_of (end_vehicle vid s) v =
     (if v = vid \<and> GetSessionByVehicle (sv_sessionMgr s) vid \<noteq> None
      then TransitionSystem StateIdle (machine_of s v) else machine_of s v)"
  by (auto simp: end_vehicle_def split: option.split)

lemma end_vehicles_machine:
  assumes "distinct vs"
  shows "machine_of (fold end_vehicle vs s) v =
     (if v \<in> set vs \<and> GetSessionByVehicle (sv_sessionMgr s) v \<noteq> None
      then TransitionSystem StateIdle (machine_of s v) else machine_of s v)"
  using assms by (induction vs arbitrary: s) (auto simp: end_vehicle_machine)

lemma world_inv_end_one:
  assumes "world_inv w" and "GetSession (sv_sessionMgr (w_server w)) k = Some sess" and "k \<noteq> []"
  shows "world_inv (w\<lparr>w_server := fst (handleSessionEnd ks k (w_server w))\<rparr>)"
proof -
  let ?s = "w_server w" and ?s' = "fst (handleSessionEnd ks k (w_server w))"
  let ?m = "sv_sessionMgr (w_server w)"
  have inv: "server_inv ?s" and gsa: "gsa_inv ?m" and obs: "connections_known w"
    using assms(1) by (simp_all add: world_inv_def server_inv_def)
  have sess: "sessions ?m k = Some sess" "sess_ID sess = k"
    using assms(2) gsa_inv_ID [OF gsa] by (simp_all add: GetSession_def)
  have m': "sv_sessionMgr ?s' = ReleaseSession k ?m"
    using assms(2,3) sess(2) by (simp add: handleSessionEnd_def Let_def)
  have mach: "machine_of ?s' v = (if is_active sess \<and> v = sess_VehicleID sess
      then TransitionSystem StateIdle (machine_of ?s v) else machine_of ?s v)" for v
    using assms(2,3) by (simp add: handleSessionEnd_def Let_def)
  have rel: "ReleaseSession k ?m = ?m\<lparr>vehicleController := (if is_active sess
      then (vehicleController ?m)(sess_VehicleID sess := None) else vehicleController ?m),
      sessions := (sessions ?m)(k := None)\<rparr>"
    using sess by (simp add: ReleaseSession_eq [OF gsa])
  have "machine_step\<^sup>*\<^sup>* newMachine (machine_of ?s' v) \<and> settled (System (machine_of ?s' v)) \<and>
      (System (machine_of ?s' v) = StateIdle \<longleftrightarrow> vehicleController (ReleaseSession k ?m) v = None)" for v
  proof -
    have old: "machine_step\<^sup>*\<^sup>* newMachine (machine_of ?s v)" "settled (System (machine_of ?s v))"
      "System (machine_of ?s v) = StateIdle \<longleftrightarrow> vehicleController ?m v = None"
      using inv by (auto simp: server_inv_def)
    then show ?thesis
      using mach [of v] rel idle_from_settled [OF old(2)]
      by (auto simp: settled_def intro: rtranclp.rtrancl_into_rtrancl machine_step.system)
  qed
  moreover have "gsa_inv (ReleaseSession k ?m)" using gsa by blast
  ultimately have "server_inv ?s'" using m' by (simp add: server_inv_def)
  moreover have "connections_known (w\<lparr>w_server := ?s'\<rparr>)"
    using obs m' rel by (auto simp: connections_known_def)
  ultimately show ?thesis by (simp add: world_inv_def)
qed

lemma world_inv_end_all:
  assumes "world_inv w" and "iter_order (sessions (sv_sessionMgr (w_server w))) ks"
  shows "world_inv (w\<lparr>w_server := fst (handleSessionEnd ks [] (w_server w))\<rparr>)"
proof -
  let ?s = "w_server w" and ?s' = "fst (handleSessionEnd ks [] (w_server w))"
  let ?m = "sv_sessionMgr (w_server w)"
  have inv: "server_inv ?s" and gsa: "gsa_inv ?m" using assms(1) by (simp_all add: world_inv_def server_inv_def)
  have ids: "distinct (ActiveVehicleIDs ks ?m)" "set (ActiveVehicleIDs ks ?m) = sess_VehicleID ` ran (sessions ?m)"
    by (simp_all add: ActiveVehicleIDs_def distinct_dedup_by set_dedup_by iter_order_values [OF assms(2)])
  have mach: "machine_of ?s' v = (if v \<in> set (ActiveVehicleIDs ks ?m) \<and> GetSessionByVehicle ?m v \<noteq> None
      then TransitionSystem StateIdle (machine_of ?s v) else machine_of ?s v)" for v
    by (simp add: handleSessionEnd_def Let_def end_vehicles_machine [OF ids(1)])
  have "machine_step\<^sup>*\<^sup>* newMachine (machine_of ?s' v) \<and> System (machine_of ?s' v) = StateIdle" for v
  proof -
    have old: "machine_step\<^sup>*\<^sup>* newMachine (machine_of ?s v)" "settled (System (machine_of ?s v))"
      "System (machine_of ?s v) = StateIdle \<longleftrightarrow> vehicleController ?m v = None"
      using inv by (auto simp: server_inv_def)
    show ?thesis
    proof (cases "vehicleController ?m v")
      case None
      then show ?thesis using old mach [of v] idle_from_settled [OF old(2)]
        by (auto intro: rtranclp.rtrancl_into_rtrancl machine_step.system)
    next
      case (Some c)
      then obtain t where "sessions ?m c = Some t" "sess_VehicleID t = v"
        by (rule controller_session [OF gsa])
      with Some have "v \<in> set (ActiveVehicleIDs ks ?m)" "GetSessionByVehicle ?m v \<noteq> None"
        using ids(2) by (auto simp: ran_def GetSessionByVehicle_def)
      then show ?thesis using mach [of v] old idle_from_settled [OF old(2)]
        by (auto intro: rtranclp.rtrancl_into_rtrancl machine_step.system)
    qed
  qed
  moreover have "sv_sessionMgr ?s' = EndSession ?m" by (simp add: handleSessionEnd_def Let_def)
  ultimately show ?thesis
    by (auto simp: world_inv_def server_inv_def connections_known_def settled_def EndSession_def gsa_inv_def)
qed

lemma world_inv_end:
  assumes "world_inv w" and "iter_order (sessions (sv_sessionMgr (w_server w))) ks"
  shows "world_inv (w\<lparr>w_server := fst (handleSessionEnd ks k (w_server w))\<rparr>)"
proof (cases "k = []")
  case True
  with world_inv_end_all [OF assms] show ?thesis by simp
next
  case False
  show ?thesis
  proof (cases "GetSession (sv_sessionMgr (w_server w)) k")
    case None
    with False assms(1) show ?thesis by (simp add: handleSessionEnd_def)
  next
    case (Some sess)
    from world_inv_end_one [OF assms(1) Some False] show ?thesis .
  qed
qed

text \<open>The server after start-up, without connections.\<close>

definition initial_world :: "world \<Rightarrow> bool" where
  "initial_world w \<longleftrightarrow> (\<exists>url aw vs now. w = \<lparr>w_server = newControlServer url aw vs now, w_open = []\<rparr>)"

lemma newControlServer_machine [simp]: "machine_of (newControlServer url aw vs now) v = newMachine"
  by (simp add: machine_of_def StateMachine_def ctx_eq newControlServer_def WithTelemetryChecker_def
      WithUserChecker_def registry_WithAuditWriter_def NewRegistry_def new_context_def)

interpretation control_server: transition_system initial_world world_step world_inv
proof
  fix w
  assume "initial_world w"
  then obtain url aw vs now where w: "w = \<lparr>w_server = newControlServer url aw vs now, w_open = []\<rparr>"
    by (auto simp: initial_world_def)
  have "sv_sessionMgr (newControlServer url aw vs now) = NewManager True" by (simp add: newControlServer_def)
  then show "world_inv w"
    unfolding w world_inv_def server_inv_def connections_known_def
    by (simp add: settled_def newMachine_def NewManager_def gsa_inv_def)
next
  fix w w'
  assume "world_step w w'" and "world_inv w"
  then show "world_inv w'"
  proof cases
    case (session_start k ks eid now role body)
    with \<open>world_inv w\<close> show ?thesis by (simp add: world_inv_start)
  next
    case (session_end ks sid)
    with \<open>world_inv w\<close> show ?thesis by (simp add: world_inv_end)
  next
    case (handover_confirm ks resp body)
    with \<open>world_inv w\<close> show ?thesis by (simp add: world_inv_confirm)
  next
    case ws_open
    with \<open>world_inv w\<close> show ?thesis using world_inv_open by blast
  next
    case ws_close
    with \<open>world_inv w\<close> show ?thesis using world_inv_close by blast
  next
    case bus_tick
    with \<open>world_inv w\<close> show ?thesis using calm_world calm_bus by blast
  qed (use \<open>world_inv w\<close> in \<open>auto intro!: calm_world calm_media calm_request calm_cancel calm_emergency_stop
        calm_message calm_vehicle_endpoints calm_list calm_context\<close>)
qed

end
