(* ===== verification/Server_Properties.thy ===== *)
theory Server_Properties
  imports Server_Invariant
begin

text \<open>
  What the control server guarantees over any interleaving of requests, connections and watchdogs: the
  agreement between sessions and machines, who may take a vehicle out of SAFE_MODE, the session
  lifecycle, the emergency stop, and the isolation of the vehicles from each other.
\<close>

section \<open>Reachable states\<close>

definition reachable_world :: "world \<Rightarrow> bool" where
  "reachable_world w \<longleftrightarrow> (\<exists>w0. initial_world w0 \<and> world_step\<^sup>*\<^sup>* w0 w)"

lemma reachable_world_inv: "reachable_world w \<Longrightarrow> world_inv w"
  unfolding reachable_world_def using control_server.reachable_inv by blast

lemma reachable_step: "reachable_world w \<Longrightarrow> world_step w w' \<Longrightarrow> reachable_world w'"
  unfolding reachable_world_def by (meson rtranclp.rtrancl_into_rtrancl)

lemma reachable_gsa: "reachable_world w \<Longrightarrow> gsa_inv (sv_sessionMgr (w_server w))"
  by (auto dest!: reachable_world_inv simp: world_inv_def server_inv_def)

lemma reachable_machine:
  assumes "reachable_world w"
  shows "machine_step\<^sup>*\<^sup>* newMachine (machine_of (w_server w) v)"
    "settled (System (machine_of (w_server w) v))"
    "System (machine_of (w_server w) v) = StateIdle \<longleftrightarrow> vehicleController (sv_sessionMgr (w_server w)) v = None"
  using reachable_world_inv [OF assms] by (auto simp: world_inv_def server_inv_def)

lemma locked_iff:
  "gsa_inv m \<Longrightarrow> IsVehicleLocked m v \<longleftrightarrow> vehicleController m v \<noteq> None"
  by (auto simp: IsVehicleLocked_def split: option.splits elim: controller_session)

lemma by_vehicle_iff:
  "gsa_inv m \<Longrightarrow> GetSessionByVehicle m v = None \<longleftrightarrow> vehicleController m v = None"
  by (auto simp: GetSessionByVehicle_def split: option.splits elim: controller_session)

section \<open>A running session, for the examples\<close>

definition demo_jwt :: jwt_lib where
  "demo_jwt secret tok = Some (TokenView True (Some \<lparr>cl_Subject = tok, cl_Role = ''VEHICLE''\<rparr>))"

definition demo_start :: world where
  "demo_start = \<lparr>w_server = newControlServer [] None NoopVehicleStore 0, w_open = []\<rparr>"

definition demo_connected :: world where
  "demo_connected = demo_start\<lparr>w_server :=
     fst (vehicle_ServeWS demo_jwt [] True False 0 [] ''v1'' 7 (w_server demo_start))\<rparr>"

definition demo_session :: world where
  "demo_session = demo_connected\<lparr>w_server :=
     fst (handleSessionStart [] ''s1'' [] 0 ''OPERATOR'' (Some (''v1'', ''alice'')) (w_server demo_connected))\<rparr>"

lemma demo_connected_reachable: "reachable_world demo_connected"
proof -
  have "reachable_world demo_start"
    unfolding reachable_world_def initial_world_def demo_start_def by blast
  then show ?thesis
    unfolding demo_connected_def by (rule reachable_step) (rule world_step.vehicle_open)
qed

lemma demo_connected_facts:
  "Connected (sv_conns (w_server demo_connected)) ''v1''"
  "sv_sessionMgr (w_server demo_connected) = NewManager True"
  "w_open demo_connected = []"
  by (simp_all add: demo_connected_def demo_start_def vehicle_ServeWS_def validateJWT_def extractToken_def
      demo_jwt_def hasPrefix_def Connected_def conn_register_def newControlServer_def Let_def)

lemma demo_session_reachable: "reachable_world demo_session"
  unfolding demo_session_def
  by (rule reachable_step [OF demo_connected_reachable], rule world_step.session_start)
     (simp_all add: demo_connected_facts NewManager_def)

lemma demo_session_manager:
  "sv_sessionMgr (w_server demo_session) = fst (StartSession ''s1'' 0 ''v1'' ''alice'' (NewManager True))"
  by (simp add: demo_session_def handleSessionStart_def demo_connected_facts NewManager_def StartSession_def
      advance_fields Let_def)

lemma demo_session_facts:
  "vehicleController (sv_sessionMgr (w_server demo_session)) ''v1'' = Some ''s1''"
  "sessions (sv_sessionMgr (w_server demo_session)) ''s1'' =
     Some \<lparr>sess_ID = ''s1'', sess_VehicleID = ''v1'', sess_OperatorID = ''alice'',
       sess_OperatorRole = RoleActiveOperator, sess_CreatedAt = 0\<rparr>"
  by (simp_all add: demo_session_manager StartSession_def NewManager_def Let_def)

section \<open>Properties\<close>



section \<open>Leaving SAFE_MODE\<close>

lemma calm_safe:
  "calm s s' \<Longrightarrow> System (machine_of s v) = StateSafeMode \<Longrightarrow> System (machine_of s' v) = StateSafeMode"
  by (auto simp: calm_def quiet_def)

lemma start_safe:
  assumes "reachable_world w" and "System (machine_of (w_server w) v) = StateSafeMode"
  shows "System (machine_of (fst (handleSessionStart ks k eid now role b (w_server w))) v) = StateSafeMode"
proof -
  let ?s = "w_server w"
  obtain s' rep where r: "handleSessionStart ks k eid now role b ?s = (s', rep)" by (metis prod.exhaust)
  have busy: "vehicleController (sv_sessionMgr ?s) v \<noteq> None"
    using reachable_machine(3) [OF assms(1), of v] assms(2) by auto
  from r have "machine_of s' v = machine_of ?s v"
  proof (cases rule: start_cases)
    case (started vid oid m sess)
    then show ?thesis
      using busy by (auto simp: StartSession_eq [OF reachable_gsa [OF assms(1)]] is_active_def advance_machine Let_def)
  qed simp
  with r assms(2) show ?thesis by simp
qed

lemma confirm_safe:
  assumes "System (machine_of s v) = StateSafeMode"
  shows "System (machine_of (fst (handleHandoverConfirm ks resp b s)) v) = StateSafeMode"
proof -
  have "fst (handleHandoverConfirm ks resp b s) = fst (handleHandoverConfirm ks resp b s)" by (rule refl)
  then show ?thesis
    by (cases rule: confirm_cases) (use assms in \<open>auto simp: System_TransitionOperator\<close>)
qed

lemma end_safe:
  assumes "System (machine_of s v) = StateSafeMode"
    and "System (machine_of (fst (handleSessionEnd ks sid s)) v) \<noteq> StateSafeMode" and "sid \<noteq> []"
  shows "\<exists>x. GetSession (sv_sessionMgr s) sid = Some x \<and> is_active x \<and> sess_VehicleID x = v"
  using assms by (auto simp: handleSessionEnd_def Let_def split: option.splits if_splits)

lemma open_safe:
  assumes "ServeWS jwt secret up rq s = (s', HttpOk code (Some ws))"
    and "System (machine_of s v) = StateSafeMode" and "System (machine_of s' v) \<noteq> StateSafeMode"
  shows "\<not> wc_isObserver ws \<and> sess_VehicleID (wc_sess ws) = v \<and>
    GetSession (sv_sessionMgr s) (rq_session_id rq) = Some (wc_sess ws) \<and>
    validateJWT jwt secret (extractToken (rq_Authorization rq) (rq_token rq)) = Some (wc_claims ws)"
  using assms
  by (auto simp: ServeWS_def authenticateWS_def Let_def split: reply.splits prod.splits if_splits option.splits)

text \<open>C2: the control server takes a vehicle out of SAFE_MODE in two ways only: a session-end request (for
  the session that controls it, or for all sessions), and the WebSocket reconnect, with a valid token, of
  its controlling session. No watchdog, media or telemetry report, handover, new session or message of
  another vehicle does.\<close>

theorem safe_mode_left_only_by_operator:
  assumes "reachable_world w" and "world_step w w'"
    and "System (machine_of (w_server w) v) = StateSafeMode"
    and "System (machine_of (w_server w') v) \<noteq> StateSafeMode"
  shows "(\<exists>ks sid. w_server w' = fst (handleSessionEnd ks sid (w_server w)) \<and>
           (sid = [] \<or> (\<exists>x. GetSession (sv_sessionMgr (w_server w)) sid = Some x \<and> is_active x \<and> sess_VehicleID x = v))) \<or>
         (\<exists>jwt secret rq ws code. ServeWS jwt secret True rq (w_server w) = (w_server w', HttpOk code (Some ws)) \<and>
           \<not> wc_isObserver ws \<and> sess_VehicleID (wc_sess ws) = v \<and>
           validateJWT jwt secret (extractToken (rq_Authorization rq) (rq_token rq)) = Some (wc_claims ws))"
proof -
  have no_calm: "\<not> calm (w_server w) (w_server w')" using calm_safe assms(3,4) by blast
  from assms(2) show ?thesis
  proof cases
    case session_start
    with start_safe [OF assms(1,3)] assms(4) show ?thesis by simp
  next
    case (session_end ks sid)
    with end_safe [OF assms(3), of ks sid] assms(4) show ?thesis by (cases "sid = []") auto
  next
    case handover_confirm
    with confirm_safe [OF assms(3)] assms(4) show ?thesis by simp
  next
    case (ws_open jwt secret up rq s' code ws)
    have "up" using ws_open(2) by (auto simp: ServeWS_def Let_def split: reply.splits prod.splits if_splits)
    then have "ServeWS jwt secret True rq (w_server w) = (w_server w', HttpOk code (Some ws))" using ws_open by simp
    moreover from open_safe [OF this assms(3,4)] have "\<not> wc_isObserver ws" "sess_VehicleID (wc_sess ws) = v"
      "validateJWT jwt secret (extractToken (rq_Authorization rq) (rq_token rq)) = Some (wc_claims ws)" by auto
    ultimately show ?thesis by blast
  next
    case (ws_close ws ks now eid)
    have "calm (w_server w) (w_server w')" if "\<not> wc_isObserver ws"
      using calm_operator_disconnect [OF that] ws_close by simp
    moreover have "machine_of (w_server w') v = machine_of (w_server w) v" if "wc_isObserver ws"
      using that ws_close by (simp add: handleWSDisconnect_def Let_def)
    ultimately show ?thesis using no_calm assms(3,4) by (cases "wc_isObserver ws") auto
  next
    case bus_tick
    with calm_bus no_calm show ?thesis by auto
  qed (use no_calm in \<open>simp_all add: calm_media calm_request calm_cancel calm_emergency_stop
        calm_message calm_vehicle_endpoints calm_list calm_context\<close>)
qed

lemma demo_start_machine: "machine_of (w_server demo_connected) v = newMachine"
  by (simp add: demo_connected_def demo_start_def vehicle_ServeWS_def Let_def split: option.split)

lemma demo_session_machine: "machine_of (w_server demo_session) ''v1'' = started_machine newMachine"
  by (simp add: demo_session_def handleSessionStart_def demo_connected_facts NewManager_def StartSession_def
      advance_machine is_active_def demo_start_machine Let_def)

definition demo_stopped :: world where
  "demo_stopped = demo_session\<lparr>w_server := fst (handleEmergencyStop [''s1''] 0 (\<lambda>_. []) [] (w_server demo_session))\<rparr>"

lemma demo_stopped_reachable: "reachable_world demo_stopped"
  unfolding demo_stopped_def
  by (rule reachable_step [OF demo_session_reachable]) (rule world_step.emergency_stop)

lemma demo_stopped_safe: "System (machine_of (w_server demo_stopped) ''v1'') = StateSafeMode"
  by (simp add: demo_stopped_def handleEmergencyStop_def emergency_stop_vehicle_def GetSessionByVehicle_def
      ActiveVehicleIDs_def demo_session_facts demo_session_machine TransitionSystem_SafeMode started_idle newMachine_def Let_def)

theorem safe_mode_left_only_by_operator_witness:
  "\<exists>w'. world_step demo_stopped w' \<and> System (machine_of (w_server demo_stopped) ''v1'') = StateSafeMode \<and>
     System (machine_of (w_server w') ''v1'') = StateIdle \<and>
     (\<exists>ks sid. w_server w' = fst (handleSessionEnd ks sid (w_server demo_stopped)) \<or>
        (\<exists>jwt secret rq ws code. ServeWS jwt secret True rq (w_server demo_stopped) = (w_server w', HttpOk code (Some ws))))"
proof -
  let ?w' = "demo_stopped\<lparr>w_server := fst (handleSessionEnd [''s1''] ''s1'' (w_server demo_stopped))\<rparr>"
  have mgr: "sessions (sv_sessionMgr (w_server demo_stopped)) = sessions (sv_sessionMgr (w_server demo_session))"
    using calm_emergency_stop by (simp add: demo_stopped_def calm_def)
  have step: "world_step demo_stopped ?w'"
    by (rule world_step.session_end)
       (simp add: mgr iter_order_def demo_session_manager StartSession_def NewManager_def Let_def)
  have idle: "System (machine_of (w_server ?w') ''v1'') = StateIdle"
    using demo_stopped_safe
    by (simp add: handleSessionEnd_def GetSession_def mgr demo_session_facts is_active_def
        System_TransitionSystem isValidTransition_def Let_def)
  have "\<exists>ks sid. w_server ?w' = fst (handleSessionEnd ks sid (w_server demo_stopped)) \<or>
      (\<exists>jwt secret rq ws code. ServeWS jwt secret True rq (w_server demo_stopped) = (w_server ?w', HttpOk code (Some ws)))"
    using safe_mode_left_only_by_operator [OF demo_stopped_reachable step demo_stopped_safe] idle by auto
  with step idle demo_stopped_safe show ?thesis by blast
qed

section \<open>Emergency stop\<close>

lemma emergency_stop_vehicle_machine:
  "machine_of (emergency_stop_vehicle ks now eid vid s) v =
     (if v = vid then TransitionSystem StateSafeMode (machine_of s v) else machine_of s v)"
  by (auto simp: emergency_stop_vehicle_def Let_def split: option.split)

lemma emergency_stop_vehicles_machine:
  "distinct vs \<Longrightarrow> machine_of (fold (emergency_stop_vehicle ks now eid) vs s) v =
     (if v \<in> set vs then TransitionSystem StateSafeMode (machine_of s v) else machine_of s v)"
  by (induction vs arbitrary: s) (auto simp: emergency_stop_vehicle_machine)

lemma safe_mode_result:
  assumes "reachable_world w" and "m = machine_of (w_server w) v"
  shows "TransitionSystem StateSafeMode m =
    (if System m = StateIdle then m else m\<lparr>System := StateSafeMode, Control := ControlBlocked, degradedReasons := {}\<rparr>)"
proof -
  have "machine_step\<^sup>*\<^sup>* newMachine m" using reachable_machine(1) [OF assms(1)] assms(2) by simp
  then have "control_coupled m" "safe_mode_clean m"
    using machine_control.reachable_inv machine_safe.reachable_inv by blast+
  then show ?thesis by (simp add: TransitionSystem_SafeMode control_coupled_def safe_mode_clean_def)
qed

lemma controlled_is_target:
  assumes "gsa_inv m" and "iter_order (sessions m) ks" and "vehicleController m v = Some c"
  shows "v \<in> set (ActiveVehicleIDs ks m)"
proof -
  obtain t where "sessions m c = Some t" "sess_VehicleID t = v" by (rule controller_session [OF assms(1,3)])
  then show ?thesis by (auto simp: ActiveVehicleIDs_def set_dedup_by iter_order_values [OF assms(2)] ran_def)
qed

text \<open>C8: an emergency-stop request for a vehicle, or without a vehicle for the whole fleet, leaves every
  targeted vehicle that has a controlling session in SAFE_MODE with commands blocked; all other vehicles
  and every session stay as they were, whatever the order in which the sessions are visited.\<close>

theorem emergency_stop_request:
  assumes "reachable_world w" and "s = w_server w" and "iter_order (sessions (sv_sessionMgr s)) ks"
    and "handleEmergencyStop ks now eids vid s = (s', rep)"
  shows "machine_of s' v =
      (if IsVehicleLocked (sv_sessionMgr s) v \<and> (vid = [] \<or> v = vid)
       then (machine_of s v)\<lparr>System := StateSafeMode, Control := ControlBlocked, degradedReasons := {}\<rparr>
       else machine_of s v) \<and>
    sessions (sv_sessionMgr s') = sessions (sv_sessionMgr s) \<and> status rep = StatusAccepted"
proof -
  let ?vs = "if vid = [] then ActiveVehicleIDs ks (sv_sessionMgr s) else [vid]"
  have gsa: "gsa_inv (sv_sessionMgr s)" using reachable_gsa assms(1,2) by simp
  have idle: "System (machine_of s v) = StateIdle \<longleftrightarrow> \<not> IsVehicleLocked (sv_sessionMgr s) v"
    using reachable_machine(3) [OF assms(1), of v] locked_iff [OF gsa, of v] assms(2) by simp
  have "v \<in> set (ActiveVehicleIDs ks (sv_sessionMgr s))" if "IsVehicleLocked (sv_sessionMgr s) v"
    using that controlled_is_target [OF gsa assms(3), of v] locked_iff [OF gsa] by auto
  moreover have "machine_of s' v = (if v \<in> set ?vs then TransitionSystem StateSafeMode (machine_of s v) else machine_of s v)"
    using assms(4) emergency_stop_vehicles_machine [of ?vs]
    by (auto simp: handleEmergencyStop_def ActiveVehicleIDs_def distinct_dedup_by)
  moreover have "sessions (sv_sessionMgr s') = sessions (sv_sessionMgr s)"
    using calm_emergency_stop [of s ks now eids vid] assms(4) by (simp add: calm_def)
  moreover have "status rep = StatusAccepted" using assms(4) by (auto simp: handleEmergencyStop_def Let_def)
  ultimately show ?thesis
    using safe_mode_result [OF assms(1), of "machine_of s v" v] assms(2) idle by auto
qed

theorem emergency_stop_request_witness:
  "\<exists>s'. System (machine_of s' ''v1'') = StateSafeMode \<and>
     s' = fst (handleEmergencyStop [''s1''] 0 (\<lambda>_. []) [] (w_server demo_session))"
proof -
  have i: "iter_order (sessions (sv_sessionMgr (w_server demo_session))) [''s1'']"
    by (simp add: iter_order_def demo_session_manager StartSession_def NewManager_def Let_def)
  have "IsVehicleLocked (sv_sessionMgr (w_server demo_session)) ''v1''"
    using demo_session_facts by (simp add: IsVehicleLocked_def)
  with emergency_stop_request [OF demo_session_reachable refl i surjective_pairing, where v = "''v1''" and vid = "[]"]
  show ?thesis by simp
qed

section \<open>Session lifecycle\<close>

text \<open>The watchdogs of a vehicle run for a session: dead-man not yet armed, no ACK pending, the pollers on.\<close>

definition watching :: "session_id \<Rightarrow> vehicle_id \<Rightarrow> operator_id \<Rightarrow> VehicleContext \<Rightarrow> bool" where
  "watching sid vid oid c \<longleftrightarrow>
     \<not> dm_stopped (vc_Deadman c) \<and> \<not> dm_armed (vc_Deadman c) \<and>
     dm_sessionID (vc_Deadman c) = sid \<and> dm_vehicleID (vc_Deadman c) = vid \<and>
     \<not> va_stopped (vc_VehicleACKWatchdog c) \<and> va_pendingTimer (vc_VehicleACKWatchdog c) = None \<and>
     va_sessionID (vc_VehicleACKWatchdog c) = sid \<and> va_vehicleID (vc_VehicleACKWatchdog c) = vid \<and>
     (\<forall>a. vc_AuthWatchdog c = Some a \<longrightarrow> auw_cancel a \<noteq> None \<and> auw_sessionID a = sid \<and> auw_username a = oid) \<and>
     (\<forall>t. vc_TelemetryWatchdog c = Some t \<longrightarrow> tw_cancel t \<noteq> None \<and> tw_sessionID t = sid)"

definition watchdogs_off :: "VehicleContext \<Rightarrow> bool" where
  "watchdogs_off c \<longleftrightarrow>
     dm_stopped (vc_Deadman c) \<and> va_stopped (vc_VehicleACKWatchdog c) \<and> va_pendingTimer (vc_VehicleACKWatchdog c) = None \<and>
     (\<forall>a. vc_AuthWatchdog c = Some a \<longrightarrow> auw_cancel a = None) \<and>
     (\<forall>t. vc_TelemetryWatchdog c = Some t \<longrightarrow> tw_cancel t = None)"

lemma advance_watching:
  "watching (sess_ID sess) (sess_VehicleID sess) (sess_OperatorID sess)
     (context_of (advanceVehicleToActiveOperator ks now eid sess s) (sess_VehicleID sess))"
  by (auto simp: watching_def advance_context deadman_Start_def vehicle_ack_Start_def auth_Start_def
      telemetry_Start_def Let_def)

lemma poller_stopped: "auw_cancel (auth_Stop a) = None" "tw_cancel (telemetry_Stop t) = None"
  by (simp_all add: auth_Stop_def telemetry_Stop_def split: option.split)

lemma stop_watchdogs_off: "watchdogs_off ((stop_watchdogs c)\<lparr>vc_SM := m\<rparr>)"
  by (auto simp: watchdogs_off_def stop_watchdogs_def deadman_Stop_def vehicle_ack_Stop_def poller_stopped)

text \<open>C9: a session-start request is accepted exactly if it names a vehicle and an operator, the vehicle is
  connected, and an OBSERVER only joins a vehicle that is already controlled. Every other request leaves
  the server as it is. On a controlled vehicle the new session is an OBSERVER and no context changes; on a
  free one it is the ACTIVE_OPERATOR, the vehicle is CONNECTED with control and operator active, and the
  dead-man, vehicle ACK, auth and telemetry watchdogs run for this session. Other vehicles are not touched.\<close>

theorem session_start_request:
  assumes "reachable_world w" and "s = w_server w" and "sessions (sv_sessionMgr s) k = None"
    and "handleSessionStart ks k eid now role (Some (vid, oid)) s = (s', rep)"
  shows "(status rep = StatusOK \<longleftrightarrow> vid \<noteq> [] \<and> oid \<noteq> [] \<and> Connected (sv_conns s) vid \<and>
        (role = ''OBSERVER'' \<longrightarrow> IsVehicleLocked (sv_sessionMgr s) vid)) \<and>
    (status rep \<noteq> StatusOK \<longrightarrow> s' = s) \<and>
    (v \<noteq> vid \<longrightarrow> context_of s' v = context_of s v) \<and>
    (status rep = StatusOK \<longrightarrow> (\<exists>sess. GetSession (sv_sessionMgr s') k = Some sess \<and> sess_OperatorID sess = oid \<and>
       sess_VehicleID sess = vid \<and> (is_active sess \<longleftrightarrow> \<not> IsVehicleLocked (sv_sessionMgr s) vid) \<and>
       (if is_active sess
        then System (machine_of s' vid) = StateConnected \<and> Control (machine_of s' vid) = ControlActive \<and>
          Operator (machine_of s' vid) = OpActive \<and>
          watching k vid oid (context_of s' vid)
        else context_of s' vid = context_of s vid)))"
proof -
  have gsa: "gsa_inv (sv_sessionMgr s)" using reachable_gsa assms(1,2) by simp
  have idle: "System (machine_of s vid) = StateIdle \<longleftrightarrow> vehicleController (sv_sessionMgr s) vid = None"
    using reachable_machine(3) [OF assms(1)] assms(2) by simp
  have ok: "status rep = StatusOK \<longleftrightarrow> vid \<noteq> [] \<and> oid \<noteq> [] \<and> Connected (sv_conns s) vid \<and>
      (role = ''OBSERVER'' \<longrightarrow> IsVehicleLocked (sv_sessionMgr s) vid)"
    using assms(4)
    by (auto simp: handleSessionStart_def status_defs Let_def split: prod.splits if_splits)
  from assms(4) show ?thesis
  proof (cases rule: start_cases)
    case rejected
    with ok show ?thesis by simp
  next
    case (started v' o' m sess)
    have "sess_ID sess = k" "sess_VehicleID sess = vid" "sess_OperatorID sess = oid" "sessions m k = Some sess"
      "is_active sess \<longleftrightarrow> vehicleController (sv_sessionMgr s) vid = None"
      using started(1,3) by (auto simp: StartSession_eq [OF gsa] is_active_def Let_def split: if_splits)
    moreover have "GetSession (sv_sessionMgr s') k = Some sess"
      using started(5) \<open>sessions m k = Some sess\<close> by (simp add: GetSession_def advance_fields)
    moreover have "status rep = StatusOK" using started(4) by simp
    ultimately show ?thesis
      using ok started(5) started_idle [of "machine_of s vid"] idle locked_iff [OF gsa, of vid]
        advance_watching [of sess ks now eid "s\<lparr>sv_sessionMgr := m\<rparr>"]
      by (auto simp: advance_context advance_machine Let_def)
  qed
qed

theorem session_start_request_witness:
  "\<exists>s' rep. handleSessionStart [] ''s1'' [] 0 ''OPERATOR'' (Some (''v1'', ''alice'')) (w_server demo_connected) = (s', rep) \<and>
     status rep = StatusOK"
proof -
  let ?r = "handleSessionStart [] ''s1'' [] 0 ''OPERATOR'' (Some (''v1'', ''alice'')) (w_server demo_connected)"
  have n: "sessions (sv_sessionMgr (w_server demo_connected)) ''s1'' = None"
    by (simp add: demo_connected_facts NewManager_def)
  have "status (snd ?r) = StatusOK"
    using session_start_request [OF demo_connected_reachable refl n surjective_pairing, of "[]" "[]" 0 "''OPERATOR''" "''v1''" "''alice''" "[]"]
      demo_connected_facts(1) by simp
  then show ?thesis by (metis surjective_pairing)
qed



section \<open>Isolation of the vehicles\<close>

text \<open>A change of the state that reaches the context of one vehicle only.\<close>

definition local_to :: "vehicle_id \<Rightarrow> Server \<Rightarrow> Server \<Rightarrow> bool" where
  "local_to vid s s' \<longleftrightarrow> (\<forall>v. v \<noteq> vid \<longrightarrow> context_of s' v = context_of s v)"

lemma local_to_refl [simp]: "local_to vid s s"
  by (simp add: local_to_def)

lemma context_of_with_SM:
  "ctx (with_SM vid f r) v = (if v = vid then (ctx r vid)\<lparr>vc_SM := f (vc_SM (ctx r vid))\<rparr> else ctx r v)"
  by (simp add: with_SM_def ctx_with_ctx_if)

lemma local_start: "\<exists>vid. local_to vid s (fst (handleSessionStart ks k eid now role b s))"
proof -
  obtain s' rep where r: "handleSessionStart ks k eid now role b s = (s', rep)" by (metis prod.exhaust)
  then have "\<exists>vid. local_to vid s s'"
  proof (cases rule: start_cases)
    case (started vid oid m sess)
    then have "local_to (sess_VehicleID sess) s s'" by (simp add: local_to_def advance_context Let_def)
    then show ?thesis ..
  qed auto
  with r show ?thesis by simp
qed

lemma local_end: "sid \<noteq> [] \<Longrightarrow> \<exists>vid. local_to vid s (fst (handleSessionEnd ks sid s))"
  by (cases "GetSession (sv_sessionMgr s) sid")
     (auto simp: handleSessionEnd_def local_to_def Let_def)

lemma local_handover:
  "local_to (case b of None \<Rightarrow> [] | Some (vid, _) \<Rightarrow> vid) s (fst (handleHandoverRequest b s))"
  "local_to (case vb of None \<Rightarrow> [] | Some vid \<Rightarrow> vid) s (fst (handleHandoverCancel vb s))"
  "local_to (case cb of None \<Rightarrow> [] | Some (vid, _) \<Rightarrow> vid) s (fst (handleHandoverConfirm ks resp cb s))"
proof -
  show "local_to (case b of None \<Rightarrow> [] | Some (vid, _) \<Rightarrow> vid) s (fst (handleHandoverRequest b s))"
    by (auto simp: handleHandoverRequest_def with_handover_def handover_of_def RequestHandover_eq local_to_def
        context_of_with_SM context_of_def Let_def split: option.splits)
  show "local_to (case vb of None \<Rightarrow> [] | Some vid \<Rightarrow> vid) s (fst (handleHandoverCancel vb s))"
    by (auto simp: handleHandoverCancel_def with_handover_def handover_of_def CancelHandover_def local_to_def
        context_of_with_SM context_of_def split: option.splits)
  show "local_to (case cb of None \<Rightarrow> [] | Some (vid, _) \<Rightarrow> vid) s (fst (handleHandoverConfirm ks resp cb s))"
    by (auto simp: handleHandoverConfirm_def with_handover_def handover_of_def ConfirmHandover_def local_to_def
        context_of_with_SM context_of_def Let_def split: option.splits sum.splits)
qed

lemma local_media: "local_to (case b of None \<Rightarrow> [] | Some (vid, _) \<Rightarrow> vid) s (fst (handleMediaEvent b s))"
  by (auto simp: handleMediaEvent_def local_to_def Let_def split: option.splits)

lemma local_emergency: "vid \<noteq> [] \<Longrightarrow> local_to vid s (fst (handleEmergencyStop ks now eids vid s))"
  by (auto simp: handleEmergencyStop_def emergency_stop_vehicle_def local_to_def Let_def split: option.splits)

lemma local_open:
  "ServeWS jwt secret up rq s = (s', HttpOk code (Some ws)) \<Longrightarrow> local_to (sess_VehicleID (wc_sess ws)) s s'"
  by (auto simp: ServeWS_def local_to_def Let_def split: reply.splits prod.splits if_splits)

lemma local_close: "local_to (sess_VehicleID (wc_sess ws)) s (handleWSDisconnect ks now eid ws s)"
  by (auto simp: handleWSDisconnect_def auditWSDisconnect_def local_to_def Let_def split: prod.splits)

lemma local_vehicle:
  "local_to vid s (vehicle_message vid a s)" "local_to vid s (vehicle_disconnect now vid s)"
  "local_to vid s (fst (handleVehicleState vid s))"
  "local_to x s (fst (vehicle_ServeWS jwt secret up db now auth tok c s))"
  "local_to x s (fst (handleVehiclesCreate db now b s))"
  "local_to x s (fst (handleVehicleDelete db vid s))"
  by (auto simp: vehicle_message_def vehicle_disconnect_def handleVehicleState_def vehicle_ServeWS_def
      handleVehiclesCreate_def handleVehicleDelete_def local_to_def Let_def
      split: option.splits prod.splits sum.splits bool.splits store_error.splits)

lemma local_list: "local_to x s (fst (handleVehiclesList db s))"
proof -
  have "context_of (fold (\<lambda>v. on_ctx (veh_ID v) id) vs s) v = context_of s v" for vs :: "Vehicle list" and v
    by (induction vs arbitrary: s) simp_all
  then show ?thesis by (simp add: handleVehiclesList_def local_to_def split: sum.split)
qed

lemma local_message:
  assumes "reachable_world w" and "ws \<in> set (w_open w)"
  shows "local_to (sess_VehicleID (wc_sess ws)) (w_server w)
    (fst (processWSMessage rnd marshal_ok write_ok ws msg (w_server w)))"
proof -
  obtain s' ack go where r: "processWSMessage rnd marshal_ok write_ok ws msg (w_server w) = (s', ack, go)"
    by (metis prod.exhaust)
  then have "local_to (sess_VehicleID (wc_sess ws)) (w_server w) s'"
  proof (cases rule: processWSMessage_cases)
    case (handled cs b' r' es a s1)
    have "sess_VehicleID cs = sess_VehicleID (wc_sess ws)"
      using reachable_world_inv [OF assms(1)] handled(1) assms(2)
      by (auto simp: world_inv_def connections_known_def GetSession_def)
    moreover have "ctx r' v = context_of s1 v" if "v \<noteq> sess_VehicleID cs" for v
      using handled(4) that by (cases rule: Handle_cases) (simp_all add: context_of_def)
    ultimately show ?thesis using handled(3,5) by (auto simp: local_to_def)
  qed (simp_all add: local_to_def)
  with r show ?thesis by simp
qed

text \<open>C3: a step of the control server reaches the state machine and the watchdogs of one vehicle at most.
  The exceptions are exactly the three fleet-wide actions: the session-end request without a session, the
  emergency stop without a vehicle, and the trigger of the safety bus watchdog.\<close>

theorem vehicle_isolation:
  assumes "reachable_world w" and "world_step w w'"
  shows "(\<exists>vid. \<forall>v. v \<noteq> vid \<longrightarrow> context_of (w_server w') v = context_of (w_server w) v) \<or>
    (\<exists>ks. w_server w' = fst (handleSessionEnd ks [] (w_server w))) \<or>
    (\<exists>ks now eids. w_server w' = fst (handleEmergencyStop ks now eids [] (w_server w))) \<or>
    (\<exists>threshold now resp ids failures f' r' es.
       bus_run_tick StateMachine with_SM threshold now resp ids failures (sv_contexts (w_server w)) = (f', r', es) \<and>
       w_server w' = emit es ((w_server w)\<lparr>sv_contexts := r'\<rparr>))"
    (is "?local \<or> ?others")
proof -
  have loc: "?thesis" if "\<exists>vid. local_to vid (w_server w) (w_server w')"
    using that by (auto simp: local_to_def)
  note locals = local_handover local_media local_open local_close local_vehicle local_list
    local_message [OF assms(1)]
  from assms(2) show ?thesis
  proof cases
    case (session_start k ks eid now role body)
    with local_start [of "w_server w" ks k eid now role body] show ?thesis by (intro loc) simp
  next
    case (session_end ks sid)
    with local_end [of sid "w_server w" ks] loc show ?thesis by (cases "sid = []") auto
  next
    case (emergency_stop ks now eids vid)
    then show ?thesis
      using local_emergency [of vid "w_server w" ks now eids] loc by (cases "vid = []") auto
  next
    case (context_step vid c' es)
    then have "local_to vid (w_server w) (w_server w')" by (simp add: local_to_def)
    with loc show ?thesis by blast
  next
    case (bus_tick threshold now resp ids failures f' r' es)
    from bus_tick(1) have "w_server w' = emit es ((w_server w)\<lparr>sv_contexts := r'\<rparr>)" by simp
    with bus_tick(2) show ?thesis by blast
  qed (rule loc, simp, rule exI, rule locals, assumption?)+
qed

theorem vehicle_isolation_witness:
  "\<exists>w'. world_step demo_session w' \<and>
    ((\<exists>vid. \<forall>v. v \<noteq> vid \<longrightarrow> context_of (w_server w') v = context_of (w_server demo_session) v) \<or>
     (\<exists>ks. w_server w' = fst (handleSessionEnd ks [] (w_server demo_session))) \<or>
     (\<exists>ks now eids. w_server w' = fst (handleEmergencyStop ks now eids [] (w_server demo_session))) \<or>
     (\<exists>threshold now resp ids failures f' r' es.
       bus_run_tick StateMachine with_SM threshold now resp ids failures (sv_contexts (w_server demo_session)) = (f', r', es) \<and>
       w_server w' = emit es ((w_server demo_session)\<lparr>sv_contexts := r'\<rparr>)))"
proof -
  let ?w' = "demo_session\<lparr>w_server := fst (handleMediaEvent (Some (''v1'', ''MEDIA_FAILED'')) (w_server demo_session))\<rparr>"
  have step: "world_step demo_session ?w'" by (rule world_step.media_event)
  show ?thesis by (rule exI [of _ ?w'], rule conjI [OF step vehicle_isolation [OF demo_session_reachable step]])
qed

end
