(* ===== verification/Auth_Service.thy ===== *)
theory Auth_Service
  imports Tokens
begin

text \<open>
  The auth service (\<open>internal/authservice\<close>, \<open>cmd/auth-service\<close>): the users table, the issuing and
  checking of tokens, and the user administration. \<open>bcrypt\<close> and \<open>golang-jwt\<close> are parameters: \<open>hash\<close>
  (with its salt; \<open>None\<close> for a password it refuses), \<open>compare\<close>, \<open>sign\<close> and \<open>jwt now\<close>, the verification at
  a time. \<open>db_up\<close> says whether the statement reaches the database.
\<close>

section \<open>Users\<close>

definition RoleAdmin :: string where "RoleAdmin = ''ADMIN''"
definition RoleActive :: string where "RoleActive = ''ACTIVE_OPERATOR''"
definition RoleObs :: string where "RoleObs = ''OBSERVER''"
definition RoleVehicle :: string where "RoleVehicle = ''VEHICLE''"

lemmas role_defs = RoleAdmin_def RoleActive_def RoleObs_def RoleVehicle_def

record User =
  u_ID :: int
  u_Username :: string
  u_Role :: string
  u_IsActive :: bool
  u_CreatedAt :: instant
  u_LastAuthAt :: "instant option"

text \<open>A row has two columns more than \<open>User\<close>.\<close>

record user_row = User +
  ur_display_name :: string
  ur_password_hash :: string

text \<open>The table and its \<open>SERIAL\<close> sequence, which advances also for an insert that then fails.\<close>

record user_table =
  ut_rows :: "user_row list"
  ut_next :: int

definition usersSchema :: user_table where
  "usersSchema = \<lparr>ut_rows = [], ut_next = 1\<rparr>"

datatype userstore_error = HashFailed | DbFailed | DuplicateUsername | InvalidCredentials | Deactivated
  | UserNotFound | EmptyAdminPassword

type_synonym bcrypt_hash = "string \<Rightarrow> string option"
type_synonym bcrypt_compare = "string \<Rightarrow> string \<Rightarrow> bool"

definition row_by_name :: "string \<Rightarrow> user_table \<Rightarrow> user_row option" where
  "row_by_name username t = find (\<lambda>r. u_Username r = username) (ut_rows t)"

definition users_insert ::
  "instant \<Rightarrow> string \<Rightarrow> string \<Rightarrow> string \<Rightarrow> string \<Rightarrow> user_table \<Rightarrow> user_table" where
  "users_insert now username display h role t =
     t\<lparr>ut_rows := ut_rows t @
         [\<lparr>u_ID = ut_next t, u_Username = username, u_Role = role, u_IsActive = True, u_CreatedAt = now,
           u_LastAuthAt = None, ur_display_name = display, ur_password_hash = h\<rparr>],
       ut_next := ut_next t + 1\<rparr>"

definition users_Create ::
  "bcrypt_hash \<Rightarrow> bool \<Rightarrow> instant \<Rightarrow> string \<Rightarrow> string \<Rightarrow> string \<Rightarrow> user_table \<Rightarrow> user_table \<times> (userstore_error + unit)" where
  "users_Create hash db_up now username password role t =
     (case hash password of
        None \<Rightarrow> (t, Inl HashFailed)
      | Some h \<Rightarrow>
          if \<not> db_up then (t, Inl DbFailed)
          else if row_by_name username t \<noteq> None then (t\<lparr>ut_next := ut_next t + 1\<rparr>, Inl DuplicateUsername)
          else (users_insert now username username h role t, Inr ()))"

text \<open>The rows that the condition selects, updated by \<open>f\<close>.\<close>

definition users_update :: "(user_row \<Rightarrow> bool) \<Rightarrow> (user_row \<Rightarrow> user_row) \<Rightarrow> user_table \<Rightarrow> user_table" where
  "users_update P f t = t\<lparr>ut_rows := map (\<lambda>r. if P r then f r else r) (ut_rows t)\<rparr>"

definition Authenticate ::
  "bcrypt_compare \<Rightarrow> bool \<Rightarrow> bool \<Rightarrow> instant \<Rightarrow> string \<Rightarrow> string \<Rightarrow> user_table \<Rightarrow> user_table \<times> (userstore_error + User)" where
  "Authenticate compare db_up update_ok now username password t =
     (if \<not> db_up then (t, Inl DbFailed)
      else case row_by_name username t of
        None \<Rightarrow> (t, Inl InvalidCredentials)
      | Some r \<Rightarrow>
          if \<not> u_IsActive r then (t, Inl Deactivated)
          else if \<not> compare (ur_password_hash r) password then (t, Inl InvalidCredentials)
          else
            (if update_ok then users_update (\<lambda>x. u_Username x = username) (\<lambda>x. x\<lparr>u_LastAuthAt := Some now\<rparr>) t else t,
             Inr (User.truncate r)))"

definition FindByID :: "bool \<Rightarrow> int \<Rightarrow> user_table \<Rightarrow> userstore_error + User option" where
  "FindByID db_up i t =
     (if \<not> db_up then Inl DbFailed
      else Inr (map_option User.truncate (find (\<lambda>r. u_ID r = i) (ut_rows t))))"

definition users_List :: "bool \<Rightarrow> user_table \<Rightarrow> userstore_error + User list" where
  "users_List db_up t =
     (if \<not> db_up then Inl DbFailed else Inr (map User.truncate (sort_key u_ID (ut_rows t))))"

definition users_Delete :: "bool \<Rightarrow> int \<Rightarrow> user_table \<Rightarrow> user_table \<times> (userstore_error + unit)" where
  "users_Delete db_up i t =
     (if \<not> db_up then (t, Inl DbFailed)
      else if \<exists>r\<in>set (ut_rows t). u_ID r = i
      then (t\<lparr>ut_rows := filter (\<lambda>r. u_ID r \<noteq> i) (ut_rows t)\<rparr>, Inr ())
      else (t, Inl UserNotFound))"

definition UpdateRole :: "bool \<Rightarrow> int \<Rightarrow> string \<Rightarrow> user_table \<Rightarrow> user_table \<times> (userstore_error + unit)" where
  "UpdateRole db_up i role t =
     (if \<not> db_up then (t, Inl DbFailed)
      else if \<exists>r\<in>set (ut_rows t). u_ID r = i
      then (users_update (\<lambda>r. u_ID r = i) (\<lambda>r. r\<lparr>u_Role := role\<rparr>) t, Inr ())
      else (t, Inl UserNotFound))"

definition SeedAdmin ::
  "bcrypt_hash \<Rightarrow> bool \<Rightarrow> instant \<Rightarrow> string \<Rightarrow> string \<Rightarrow> user_table \<Rightarrow> user_table \<times> (userstore_error + unit)" where
  "SeedAdmin hash db_up now username password t =
     (if password = [] then (t, Inl EmptyAdminPassword)
      else case hash password of
        None \<Rightarrow> (t, Inl HashFailed)
      | Some h \<Rightarrow>
          if \<not> db_up then (t, Inl DbFailed)
          else if row_by_name username t \<noteq> None
          then (users_update (\<lambda>r. u_Username r = username) (\<lambda>r. r\<lparr>u_Role := RoleAdmin, ur_password_hash := h\<rparr>)
                  (t\<lparr>ut_next := ut_next t + 1\<rparr>), Inr ())
          else (users_insert now username ''Administrator'' h RoleAdmin t, Inr ()))"

section \<open>Tokens\<close>

text \<open>\<open>sign secret claims iat exp\<close> is the signed token, or \<open>None\<close> if signing fails.\<close>

type_synonym jwt_signer = "string \<Rightarrow> Claims \<Rightarrow> instant \<Rightarrow> instant \<Rightarrow> string option"

definition IssueToken ::
  "jwt_signer \<Rightarrow> string \<Rightarrow> instant \<Rightarrow> string \<Rightarrow> string \<Rightarrow> duration \<Rightarrow> string option" where
  "IssueToken sign secret now subject role ttl =
     sign secret \<lparr>cl_Subject = subject, cl_Role = role\<rparr> now (now + ttl)"

definition ParseToken :: "jwt_lib \<Rightarrow> string \<Rightarrow> string \<Rightarrow> Claims option" where
  "ParseToken jwt secret tok = validateJWT jwt secret tok"

datatype auth_error = ErrInvalidCredentials | ErrInvalidToken | ErrHandoverUnauthorized
  | ErrTargetIDRequired | ErrIssue

definition login ::
  "bcrypt_compare \<Rightarrow> jwt_signer \<Rightarrow> string \<Rightarrow> bool \<Rightarrow> bool \<Rightarrow> instant \<Rightarrow> string \<Rightarrow> string \<Rightarrow> user_table \<Rightarrow>
   user_table \<times> (auth_error + string)" where
  "login compare sign secret db_up update_ok now username password t =
     (let (t', res) = Authenticate compare db_up update_ok now username password t in
      case res of
        Inl _ \<Rightarrow> (t', Inl ErrInvalidCredentials)
      | Inr user \<Rightarrow>
          (case IssueToken sign secret now (u_Username user) (u_Role user) (24 * Hour) of
             None \<Rightarrow> (t', Inl ErrIssue)
           | Some tok \<Rightarrow> (t', Inr tok)))"

definition refreshToken :: "jwt_lib \<Rightarrow> jwt_signer \<Rightarrow> string \<Rightarrow> instant \<Rightarrow> string \<Rightarrow> auth_error + string" where
  "refreshToken jwt sign secret now tok =
     (case ParseToken jwt secret tok of
        None \<Rightarrow> Inl ErrInvalidToken
      | Some c \<Rightarrow>
          (case IssueToken sign secret now (cl_Subject c) (cl_Role c) (24 * Hour) of
             None \<Rightarrow> Inl ErrIssue
           | Some tok' \<Rightarrow> Inr tok'))"

definition handoverToken ::
  "jwt_lib \<Rightarrow> jwt_signer \<Rightarrow> string \<Rightarrow> instant \<Rightarrow> string \<Rightarrow> string \<Rightarrow> auth_error + string" where
  "handoverToken jwt sign secret now currentToken targetID =
     (if currentToken \<noteq> [] \<and> ParseToken jwt secret currentToken = None then Inl ErrHandoverUnauthorized
      else if targetID = [] then Inl ErrTargetIDRequired
      else case IssueToken sign secret now targetID RoleActive (1 * Hour) of
        None \<Rightarrow> Inl ErrIssue
      | Some tok \<Rightarrow> Inr tok)"

definition canModifyUser :: "string \<Rightarrow> User \<Rightarrow> bool" where
  "canModifyUser callerUsername target \<longleftrightarrow> callerUsername \<noteq> u_Username target"

section \<open>Handlers\<close>

definition OperatorLogin ::
  "bcrypt_compare \<Rightarrow> jwt_signer \<Rightarrow> string \<Rightarrow> bool \<Rightarrow> bool \<Rightarrow> instant \<Rightarrow> (string \<times> string) option \<Rightarrow> user_table \<Rightarrow>
   user_table \<times> string reply" where
  "OperatorLogin compare sign secret db_up update_ok now body t =
     (case body of
        None \<Rightarrow> (t, HttpError StatusBadRequest ''invalid request'')
      | Some (username, password) \<Rightarrow>
          let (t', res) = login compare sign secret db_up update_ok now username password t
          in (t', case res of
                Inl ErrInvalidCredentials \<Rightarrow> HttpError StatusUnauthorized ''invalid credentials''
              | Inl _ \<Rightarrow> HttpError StatusInternalServerError ''token issuance failed''
              | Inr tok \<Rightarrow> HttpOk StatusOK tok))"

text \<open>The password of the request is not looked at.\<close>

definition VehicleRegister ::
  "jwt_signer \<Rightarrow> string \<Rightarrow> instant \<Rightarrow> (string \<times> string) option \<Rightarrow> string reply" where
  "VehicleRegister sign secret now body =
     (case body of
        None \<Rightarrow> HttpError StatusBadRequest ''invalid request''
      | Some (username, _) \<Rightarrow>
          (case IssueToken sign secret now username RoleVehicle (168 * Hour) of
             None \<Rightarrow> HttpError StatusInternalServerError ''token issuance failed''
           | Some tok \<Rightarrow> HttpOk StatusOK tok))"

text \<open>The reply of a check: \<open>Valid\<close>, subject and role; the error text is left out.\<close>

definition ValidateToken :: "jwt_lib \<Rightarrow> string \<Rightarrow> string option \<Rightarrow> (bool \<times> string \<times> string) reply" where
  "ValidateToken jwt secret body =
     (case body of
        None \<Rightarrow> HttpError StatusBadRequest ''invalid request''
      | Some tok \<Rightarrow>
          (case ParseToken jwt secret tok of
             None \<Rightarrow> HttpOk StatusOK (False, [], [])
           | Some c \<Rightarrow> HttpOk StatusOK (True, cl_Subject c, cl_Role c)))"

definition RefreshToken :: "jwt_lib \<Rightarrow> jwt_signer \<Rightarrow> string \<Rightarrow> instant \<Rightarrow> string option \<Rightarrow> string reply" where
  "RefreshToken jwt sign secret now body =
     (case body of
        None \<Rightarrow> HttpError StatusBadRequest ''invalid request''
      | Some tok \<Rightarrow>
          (case refreshToken jwt sign secret now tok of
             Inl ErrInvalidToken \<Rightarrow> HttpError StatusUnauthorized ''invalid token''
           | Inl _ \<Rightarrow> HttpError StatusInternalServerError ''token refresh failed''
           | Inr tok' \<Rightarrow> HttpOk StatusOK tok'))"

definition HandoverToken ::
  "jwt_lib \<Rightarrow> jwt_signer \<Rightarrow> string \<Rightarrow> instant \<Rightarrow> (string \<times> string) option \<Rightarrow> string reply" where
  "HandoverToken jwt sign secret now body =
     (case body of
        None \<Rightarrow> HttpError StatusBadRequest ''invalid request''
      | Some (currentToken, targetID) \<Rightarrow>
          (case handoverToken jwt sign secret now currentToken targetID of
             Inl ErrHandoverUnauthorized \<Rightarrow> HttpError StatusUnauthorized ''unauthorized''
           | Inl ErrTargetIDRequired \<Rightarrow> HttpError StatusBadRequest ''target_id required''
           | Inl _ \<Rightarrow> HttpError StatusInternalServerError ''handover token issuance failed''
           | Inr tok \<Rightarrow> HttpOk StatusOK tok))"

definition claimsFromRequest :: "jwt_lib \<Rightarrow> string \<Rightarrow> string \<Rightarrow> Claims option" where
  "claimsFromRequest jwt secret authorization =
     (if \<not> hasPrefix authorization ''Bearer '' then None
      else ParseToken jwt secret (trimPrefix authorization ''Bearer ''))"

definition callerID :: "jwt_lib \<Rightarrow> string \<Rightarrow> string \<Rightarrow> string" where
  "callerID jwt secret authorization =
     (if \<not> hasPrefix authorization ''Bearer '' then []
      else case ParseToken jwt secret (trimPrefix authorization ''Bearer '') of
        None \<Rightarrow> []
      | Some c \<Rightarrow> cl_Subject c)"

definition RequireAdmin ::
  "jwt_lib \<Rightarrow> string \<Rightarrow> string \<Rightarrow> (user_table \<Rightarrow> user_table \<times> 'a reply) \<Rightarrow> user_table \<Rightarrow> user_table \<times> 'a reply" where
  "RequireAdmin jwt secret authorization handler t =
     (case claimsFromRequest jwt secret authorization of
        None \<Rightarrow> (t, HttpError StatusUnauthorized ''unauthorized'')
      | Some c \<Rightarrow>
          if cl_Role c \<noteq> RoleAdmin then (t, HttpError StatusForbidden ''forbidden'') else handler t)"

definition ListUsers :: "bool \<Rightarrow> user_table \<Rightarrow> user_table \<times> User list reply" where
  "ListUsers db_up t =
     (t, case users_List db_up t of
           Inl _ \<Rightarrow> HttpError StatusInternalServerError ''query failed''
         | Inr us \<Rightarrow> HttpOk StatusOK us)"

text \<open>The error text of the store is left out of the replies from here on.\<close>

definition CreateUser ::
  "bcrypt_hash \<Rightarrow> bool \<Rightarrow> instant \<Rightarrow> (string \<times> string \<times> string) option \<Rightarrow> user_table \<Rightarrow> user_table \<times> unit reply" where
  "CreateUser hash db_up now body t =
     (case body of
        None \<Rightarrow> (t, HttpError StatusBadRequest ''invalid request'')
      | Some (username, password, role) \<Rightarrow>
          if username = [] \<or> password = [] then (t, HttpError StatusBadRequest ''username and password required'')
          else
            let role' = (if role = [] then RoleObs else role);
                (t', res) = users_Create hash db_up now username password role' t
            in (t', case res of Inl _ \<Rightarrow> HttpError StatusConflict ''create failed'' | Inr _ \<Rightarrow> HttpOk StatusCreated ()))"

definition DeleteUser :: "bool \<Rightarrow> string \<Rightarrow> int option \<Rightarrow> user_table \<Rightarrow> user_table \<times> unit reply" where
  "DeleteUser db_up caller path_id t =
     (case path_id of
        None \<Rightarrow> (t, HttpError StatusBadRequest ''invalid id'')
      | Some i \<Rightarrow>
          (case FindByID db_up i t of
             Inr (Some target) \<Rightarrow>
               if \<not> canModifyUser caller target then (t, HttpError StatusForbidden ''cannot delete own account'')
               else
                 let (t', res) = users_Delete db_up i t
                 in (t', case res of Inl _ \<Rightarrow> HttpError StatusNotFound ''delete failed'' | Inr _ \<Rightarrow> HttpOk StatusNoContent ())
           | _ \<Rightarrow> (t, HttpError StatusNotFound ''user not found'')))"

definition UpdateUserRole ::
  "bool \<Rightarrow> string \<Rightarrow> int option \<Rightarrow> string option \<Rightarrow> user_table \<Rightarrow> user_table \<times> unit reply" where
  "UpdateUserRole db_up caller path_id body t =
     (case path_id of
        None \<Rightarrow> (t, HttpError StatusBadRequest ''invalid id'')
      | Some i \<Rightarrow>
          (case body of
             None \<Rightarrow> (t, HttpError StatusBadRequest ''invalid request'')
           | Some role \<Rightarrow>
               if role = [] then (t, HttpError StatusBadRequest ''role required'')
               else case FindByID db_up i t of
                 Inr (Some target) \<Rightarrow>
                   if \<not> canModifyUser caller target then (t, HttpError StatusForbidden ''cannot change own role'')
                   else
                     let (t', res) = UpdateRole db_up i role t
                     in (t', case res of Inl _ \<Rightarrow> HttpError StatusNotFound ''update failed'' | Inr _ \<Rightarrow> HttpOk StatusNoContent ())
               | _ \<Rightarrow> (t, HttpError StatusNotFound ''user not found'')))"

section \<open>The accounts under any sequence of requests\<close>

text \<open>The requests that reach the table: logins, the administration behind the ADMIN check (the caller of
  \<open>DeleteUser\<close> and \<open>UpdateUserRole\<close> is read from the same header), and the seeding at start-up.\<close>

datatype admin_request =
  AdminCreate bcrypt_hash bool instant "(string \<times> string \<times> string) option"
| AdminDelete bool "int option"
| AdminUpdateRole bool "int option" "string option"

fun admin_handler :: "string \<Rightarrow> admin_request \<Rightarrow> user_table \<Rightarrow> user_table \<times> unit reply" where
  "admin_handler caller (AdminCreate hash db_up now body) = CreateUser hash db_up now body"
| "admin_handler caller (AdminDelete db_up i) = DeleteUser db_up caller i"
| "admin_handler caller (AdminUpdateRole db_up i body) = UpdateUserRole db_up caller i body"

definition administrate :: "jwt_lib \<Rightarrow> string \<Rightarrow> string \<Rightarrow> admin_request \<Rightarrow> user_table \<Rightarrow> user_table \<times> unit reply" where
  "administrate jwt secret authorization rq =
     RequireAdmin jwt secret authorization (admin_handler (callerID jwt secret authorization) rq)"

inductive auth_step :: "user_table \<Rightarrow> user_table \<Rightarrow> bool" where
  login: "auth_step t (fst (OperatorLogin compare sign secret db_up update_ok now body t))"
| admin: "auth_step t (fst (administrate jwt secret authorization rq t))"
| seed: "auth_step t (fst (SeedAdmin hash db_up now username password t))"

inductive_cases auth_stepE: "auth_step t t'"

definition users_inv :: "user_table \<Rightarrow> bool" where
  "users_inv t \<longleftrightarrow> distinct (map u_ID (ut_rows t)) \<and> distinct (map u_Username (ut_rows t)) \<and>
     (\<forall>r\<in>set (ut_rows t). u_ID r < ut_next t)"

lemma row_by_name_None: "row_by_name u t = None \<longleftrightarrow> u \<notin> u_Username ` set (ut_rows t)"
  by (auto simp: row_by_name_def find_None_iff)

lemma row_by_name_Some: "row_by_name u t = Some r \<Longrightarrow> r \<in> set (ut_rows t) \<and> u_Username r = u"
  unfolding row_by_name_def by (drule find_SomeD) simp

lemma users_inv_insert [intro]:
  "users_inv t \<Longrightarrow> row_by_name u t = None \<Longrightarrow> users_inv (users_insert now u d h role t)"
  by (auto simp: users_inv_def users_insert_def row_by_name_None)

lemma users_inv_next [intro]: "users_inv t \<Longrightarrow> users_inv (t\<lparr>ut_next := ut_next t + 1\<rparr>)"
  by (auto simp: users_inv_def)

lemma users_inv_update [intro]:
  assumes "users_inv t" and "\<And>r. u_ID (f r) = u_ID r" and "\<And>r. u_Username (f r) = u_Username r"
  shows "users_inv (users_update P f t)"
proof -
  have "map u_ID (map (\<lambda>r. if P r then f r else r) (ut_rows t)) = map u_ID (ut_rows t)"
    "map u_Username (map (\<lambda>r. if P r then f r else r) (ut_rows t)) = map u_Username (ut_rows t)"
    using assms(2,3) by (auto simp: comp_def)
  then show ?thesis using assms unfolding users_inv_def users_update_def by (auto simp del: map_map)
qed

lemma users_inv_filter: "users_inv t \<Longrightarrow> users_inv (t\<lparr>ut_rows := filter P (ut_rows t)\<rparr>)"
  by (auto simp: users_inv_def intro: distinct_filter inj_on_subset simp: distinct_map)

lemma users_inv_admin: "users_inv t \<Longrightarrow> users_inv (fst (admin_handler caller rq t))"
  by (cases rq)
    (auto simp: CreateUser_def users_Create_def DeleteUser_def users_Delete_def UpdateUserRole_def UpdateRole_def
      Let_def intro: users_inv_filter split: option.splits prod.splits if_splits sum.splits)

lemma users_inv_login: "users_inv t \<Longrightarrow> users_inv (fst (OperatorLogin compare sign secret db_up update_ok now body t))"
  by (auto simp: OperatorLogin_def login_def Authenticate_def Let_def
      split: option.splits prod.splits if_splits sum.splits)

interpretation accounts: transition_system "\<lambda>t. t = usersSchema" auth_step users_inv
proof
  show "users_inv t" if "t = usersSchema" for t
    using that by (simp add: users_inv_def usersSchema_def)
next
  fix t t'
  assume "auth_step t t'" and inv: "users_inv t"
  then show "users_inv t'"
  proof cases
    case login
    with inv show ?thesis by (simp add: users_inv_login)
  next
    case admin
    with inv show ?thesis
      by (auto simp: administrate_def RequireAdmin_def intro: users_inv_admin split: option.split)
  next
    case seed
    with inv show ?thesis by (auto simp: SeedAdmin_def split: option.splits if_splits)
  qed
qed

section \<open>What the libraries promise\<close>

text \<open>\<open>bcrypt\<close>: a hash is accepted for the password it was made from and, for passwords of at most 72
  bytes, for no other. \<open>golang-jwt\<close>: a token verifies under the secret that signed it, with its claims,
  before its expiry, which \<open>NewNumericDate\<close> truncates to whole seconds.\<close>

definition bcrypt_contract :: "bcrypt_hash \<Rightarrow> bcrypt_compare \<Rightarrow> bool" where
  "bcrypt_contract hash compare \<longleftrightarrow>
     (\<forall>p h. hash p = Some h \<longrightarrow> (\<forall>p'. length p' \<le> 72 \<longrightarrow> (compare h p' \<longleftrightarrow> p' = p)))"

definition expiry :: "instant \<Rightarrow> instant" where
  "expiry e = e div Second * Second"

definition token_contract :: "jwt_signer \<Rightarrow> (instant \<Rightarrow> jwt_lib) \<Rightarrow> bool" where
  "token_contract sign jwt \<longleftrightarrow>
     (\<forall>secret c iat e tok. sign secret c iat e = Some tok \<longrightarrow>
        (\<forall>now. jwt now secret tok = Some (TokenView True (if now < expiry e then Some c else None))))"

lemma token_contractD:
  assumes "token_contract sign jwt" and "sign secret c iat e = Some tok"
  shows "validateJWT (jwt now) secret tok = (if now < expiry e then Some c else None)"
proof -
  have "jwt now secret tok = Some (TokenView True (if now < expiry e then Some c else None))"
    using assms by (auto simp: token_contract_def)
  then show ?thesis by (simp add: validateJWT_def)
qed

lemma bearer_token: "requireJWT jwt secret (''Bearer '' @ tok) = validateJWT jwt secret tok"
  unfolding requireJWT_def by (simp del: append.simps)

section \<open>Properties\<close>

text \<open>After any sequence of logins, administration requests (with whatever tokens) and restarts, no two
  accounts share an id or a user name, so an id or a name selects at most one account.\<close>

theorem accounts_unique:
  assumes "auth_step\<^sup>*\<^sup>* usersSchema t" and "r \<in> set (ut_rows t)" and "r' \<in> set (ut_rows t)"
    and "u_ID r = u_ID r' \<or> u_Username r = u_Username r'"
  shows "r = r' \<and> FindByID True (u_ID r) t = Inr (Some (User.truncate r)) \<and> row_by_name (u_Username r) t = Some r"
proof -
  have inv: "users_inv t" using accounts.reachable_inv [OF refl assms(1)] .
  have uniq: "x = r" if "x \<in> set (ut_rows t)" "u_ID x = u_ID r \<or> u_Username x = u_Username r" for x
    using inv that assms(2) by (auto simp: users_inv_def distinct_map dest: inj_onD)
  obtain x where x: "find (\<lambda>x. u_ID x = u_ID r) (ut_rows t) = Some x"
    using assms(2) by (cases "find (\<lambda>x. u_ID x = u_ID r) (ut_rows t)") (auto simp: find_None_iff)
  obtain y where y: "row_by_name (u_Username r) t = Some y"
    using assms(2) by (cases "row_by_name (u_Username r) t") (auto simp: row_by_name_None)
  have "x = r" using uniq [of x] find_SomeD [OF x] by simp
  moreover have "y = r" using uniq [of y] row_by_name_Some [OF y] by simp
  moreover have "r' = r" using uniq [of r'] assms(3,4) by auto
  ultimately show ?thesis using x y by (simp add: FindByID_def)
qed

theorem accounts_unique_witness:
  "\<exists>t r. auth_step\<^sup>*\<^sup>* usersSchema t \<and> r \<in> set (ut_rows t) \<and> row_by_name ''admin'' t = Some r"
proof -
  let ?t = "fst (SeedAdmin (\<lambda>p. Some p) True 0 ''admin'' ''pw'' usersSchema)"
  let ?r = "hd (ut_rows ?t)"
  have reach: "auth_step\<^sup>*\<^sup>* usersSchema ?t" by (blast intro: auth_step.seed)
  have r: "?r \<in> set (ut_rows ?t)" "u_Username ?r = ''admin''"
    by (simp_all add: SeedAdmin_def users_insert_def usersSchema_def row_by_name_def)
  have "row_by_name ''admin'' ?t = Some ?r"
    using accounts_unique [OF reach r(1) r(1)] r(2) by simp
  with reach r(1) show ?thesis by blast
qed


text \<open>Libraries for the examples: hashes and tokens that show their contents.\<close>

definition demo_sign :: jwt_signer where
  "demo_sign secret c iat e =
     (if secret = ''k'' \<and> e = 24 * Hour then
        (if c = \<lparr>cl_Subject = ''admin'', cl_Role = ''ADMIN''\<rparr> then Some ''t1''
         else if c = \<lparr>cl_Subject = ''bob'', cl_Role = ''OBSERVER''\<rparr> then Some ''t2'' else None)
      else None)"

definition demo_verify :: "instant \<Rightarrow> jwt_lib" where
  "demo_verify now secret tok =
     (if now < expiry (24 * Hour) \<and> tok = ''t1'' then Some (TokenView True (Some \<lparr>cl_Subject = ''admin'', cl_Role = ''ADMIN''\<rparr>))
      else if now < expiry (24 * Hour) \<and> tok = ''t2'' then Some (TokenView True (Some \<lparr>cl_Subject = ''bob'', cl_Role = ''OBSERVER''\<rparr>))
      else Some (TokenView True None))"

lemma demo_token_contract: "token_contract demo_sign demo_verify"
  by (auto simp: token_contract_def demo_sign_def demo_verify_def split: if_splits)

lemma demo_bcrypt_contract: "bcrypt_contract Some (=)"
  by (auto simp: bcrypt_contract_def)

definition demo_users :: user_table where
  "demo_users = fst (SeedAdmin Some True 0 ''admin'' ''pw'' usersSchema)"

lemma demo_users_eq:
  "demo_users = \<lparr>ut_rows = [\<lparr>u_ID = 1, u_Username = ''admin'', u_Role = ''ADMIN'', u_IsActive = True,
     u_CreatedAt = 0, u_LastAuthAt = None, ur_display_name = ''Administrator'', ur_password_hash = ''pw''\<rparr>], ut_next = 2\<rparr>"
  by (simp add: demo_users_def SeedAdmin_def users_insert_def usersSchema_def row_by_name_def RoleAdmin_def)


text \<open>C37: a created account can be used, and only with its password: a login with the password gets a token
  that the control server accepts for this user and role until it expires after 24 hours, and a login with
  any other password of at most 72 bytes is refused.\<close>

theorem account_round_trip:
  assumes "bcrypt_contract hash compare" and "token_contract sign jwt"
    and "CreateUser hash True t0 (Some (user, pw, role)) t = (t1, HttpOk code ())"
    and "OperatorLogin compare sign secret True upd now (Some (user, pw')) t1 = (t2, rep)"
    and "length pw' \<le> 72"
    and "claims = \<lparr>cl_Subject = user, cl_Role = (if role = [] then ''OBSERVER'' else role)\<rparr>"
  shows "(pw' \<noteq> pw \<longrightarrow> rep = HttpError StatusUnauthorized ''invalid credentials'') \<and>
    (pw' = pw \<longrightarrow>
      (case sign secret claims now (now + 24 * Hour) of
         None \<Rightarrow> rep = HttpError StatusInternalServerError ''token issuance failed''
       | Some tok \<Rightarrow> rep = HttpOk StatusOK tok \<and>
           (\<forall>later. requireJWT (jwt later) secret (''Bearer '' @ tok) =
              (if later < expiry (now + 24 * Hour) then Some claims else None))))"
proof -
  obtain h where h: "hash pw = Some h" and fresh: "row_by_name user t = None"
    and t1: "t1 = users_insert t0 user user h (cl_Role claims) t"
    using assms(3,6)
    by (auto simp: CreateUser_def users_Create_def RoleObs_def Let_def split: option.splits prod.splits if_splits)
  let ?r = "\<lparr>u_ID = ut_next t, u_Username = user, u_Role = cl_Role claims, u_IsActive = True, u_CreatedAt = t0,
    u_LastAuthAt = None, ur_display_name = user, ur_password_hash = h\<rparr>"
  have row: "row_by_name user t1 = Some ?r"
    using fresh unfolding t1 row_by_name_def users_insert_def by (auto simp: find_append)
  have cmp: "compare h pw' \<longleftrightarrow> pw' = pw" using assms(1,5) h by (auto simp: bcrypt_contract_def)
  have claims: "\<lparr>cl_Subject = user, cl_Role = cl_Role claims\<rparr> = claims" using assms(6) by simp
  show ?thesis
  proof (cases "pw' = pw")
    case False
    then show ?thesis using assms(4) row cmp
      by (simp add: OperatorLogin_def login_def Authenticate_def)
  next
    case True
    then show ?thesis using assms(4) row cmp claims token_contractD [OF assms(2)]
      by (auto simp: OperatorLogin_def login_def Authenticate_def IssueToken_def User.truncate_def bearer_token
          simp del: append.simps split: option.splits)
  qed
qed

theorem account_round_trip_witness:
  "\<exists>t1 t2 tok. CreateUser Some True 0 (Some (''bob'', ''secret'', [])) demo_users = (t1, HttpOk StatusCreated ()) \<and>
     OperatorLogin (=) demo_sign ''k'' True True 0 (Some (''bob'', ''secret'')) t1 = (t2, HttpOk StatusOK tok) \<and>
     requireJWT (demo_verify 1) ''k'' (''Bearer '' @ tok) = Some \<lparr>cl_Subject = ''bob'', cl_Role = ''OBSERVER''\<rparr>"
proof -
  let ?t1 = "fst (CreateUser Some True 0 (Some (''bob'', ''secret'', [])) demo_users)"
  let ?l = "OperatorLogin (=) demo_sign ''k'' True True 0 (Some (''bob'', ''secret'')) ?t1"
  have c: "CreateUser Some True 0 (Some (''bob'', ''secret'', [])) demo_users = (?t1, HttpOk StatusCreated ())"
    by (simp add: CreateUser_def users_Create_def row_by_name_def demo_users_eq)
  have "snd ?l = HttpOk StatusOK ''t2'' \<and>
     requireJWT (demo_verify 1) ''k'' (''Bearer '' @ ''t2'') = Some \<lparr>cl_Subject = ''bob'', cl_Role = ''OBSERVER''\<rparr>"
    using account_round_trip [OF demo_bcrypt_contract demo_token_contract c surjective_pairing _ refl, of "''secret''" "''k''" True 0]
    by (simp add: demo_sign_def expiry_def Hour_def Second_def)
  with c show ?thesis by (metis surjective_pairing)
qed

section \<open>What else the service shows\<close>

text \<open>A refresh looks at the token only: the holder of a valid ADMIN token gets new ADMIN tokens, 24 hours
  at a time, also after the account was demoted or deleted.\<close>

theorem refresh_ignores_accounts:
  assumes "token_contract sign jwt" and "validateJWT (jwt now) secret tok = Some c"
    and "RefreshToken (jwt now) sign secret now (Some tok) = HttpOk code tok'"
  shows "validateJWT (jwt later) secret tok' = (if later < expiry (now + 24 * Hour) then Some c else None)"
proof -
  have "sign secret c now (now + 24 * Hour) = Some tok'"
    using assms(2,3)
    by (cases c) (auto simp: RefreshToken_def refreshToken_def ParseToken_def IssueToken_def
        split: option.splits sum.splits auth_error.splits)
  from token_contractD [OF assms(1) this] show ?thesis .
qed

text \<open>The handover endpoint needs no credential: a request with an empty current token gets an
  ACTIVE_OPERATOR token for any name.\<close>

theorem handover_token_unauthenticated:
  assumes "targetID \<noteq> []"
  shows "HandoverToken jwt sign secret now (Some ([], targetID)) =
    (case sign secret \<lparr>cl_Subject = targetID, cl_Role = ''ACTIVE_OPERATOR''\<rparr> now (now + Hour) of
       None \<Rightarrow> HttpError StatusInternalServerError ''handover token issuance failed''
     | Some tok \<Rightarrow> HttpOk StatusOK tok)"
  using assms by (simp add: HandoverToken_def handoverToken_def IssueToken_def RoleActive_def split: option.split)

end
