(* ===== verification/System_Properties.thy ===== *)
theory System_Properties
  imports Server_Properties Auth_Service
begin

text \<open>
  Properties that span services: what the tokens of the auth service allow at the control server.
\<close>

text \<open>The vehicle registration issues a token without looking at a credential, and the control server's
  endpoints check that a token is valid but not for which role. Whoever can reach both services can
  therefore become the ACTIVE_OPERATOR of a free, connected vehicle.\<close>

theorem vehicle_token_starts_session:
  assumes "token_contract sign jwt"
    and "VehicleRegister sign secret now (Some (name, pw)) = HttpOk code tok"
    and "later < expiry (now + 168 * Hour)"
    and "reachable_world w" and "s = w_server w" and "sessions (sv_sessionMgr s) k = None"
    and "Connected (sv_conns s) vid" and "\<not> IsVehicleLocked (sv_sessionMgr s) vid"
    and "vid \<noteq> []" and "oid \<noteq> []"
  shows "\<exists>s' sess. authorized (jwt later) secret (''Bearer '' @ tok)
      (\<lambda>c. handleSessionStart ks k eid later (cl_Role c) (Some (vid, oid))) s = (s', HttpOk StatusOK sess) \<and>
    is_active sess"
proof -
  have "sign secret \<lparr>cl_Subject = name, cl_Role = ''VEHICLE''\<rparr> now (now + 168 * Hour) = Some tok"
    using assms(2) by (auto simp: VehicleRegister_def IssueToken_def RoleVehicle_def split: option.splits)
  from token_contractD [OF assms(1) this, of later] assms(3)
  have v: "requireJWT (jwt later) secret (''Bearer '' @ tok) = Some \<lparr>cl_Subject = name, cl_Role = ''VEHICLE''\<rparr>"
    unfolding bearer_token by simp
  obtain s' rep where r: "handleSessionStart ks k eid later ''VEHICLE'' (Some (vid, oid)) s = (s', rep)"
    by (metis prod.exhaust)
  have gsa: "gsa_inv (sv_sessionMgr s)" using reachable_gsa assms(4,5) by simp
  from r show ?thesis
  proof (cases rule: start_cases)
    case rejected
    with r assms(7,9,10) show ?thesis by (auto simp: handleSessionStart_def Let_def split: prod.splits)
  next
    case (started vid' oid' m sess)
    have "is_active sess"
      using started(1,3) locked_iff [OF gsa, of vid] assms(8)
      by (auto simp: StartSession_eq [OF gsa] is_active_def Let_def)
    with v r started(4) show ?thesis by (simp add: authorized_def del: append.simps)
  qed
qed

end
