(* ===== verification/Control_Mux.thy ===== *)
theory Control_Mux
  imports Server_Properties
begin

text \<open>
  The routes of the control server (\<open>newMux\<close> in \<open>cmd/control-server/main.go\<close>): which handler serves which
  request and which routes stand behind \<open>requireJWT\<close>. A request is a route with its decoded input, as
  \<open>net/http\<close> and \<open>encoding/json\<close> give it; \<open>control_env\<close> holds what a handler takes from outside (tokens,
  clock, generated ids, the iteration order of the session loops, the outcome of the database, of the
  token service and of the WebSocket upgrade). The read loop of an operator connection follows.
\<close>

section \<open>Routes\<close>

record vehicle_request =
  vr_Authorization :: string
  vr_token :: string
  vr_conn :: conn

datatype control_route =
    OpenWS ws_request
  | OpenVehicleWS vehicle_request
  | PostSessionStart "(vehicle_id \<times> operator_id) option"
  | PostSessionEnd session_id
  | PostLogout
  | PostHandoverRequest "(vehicle_id \<times> operator_id \<times> operator_id) option"
  | PostHandoverConfirm "(vehicle_id \<times> operator_id) option"
  | PostHandoverCancel "vehicle_id option"
  | PostMediaEvent "(vehicle_id \<times> string) option"
  | PostStop vehicle_id
  | PostLog "frontend_log option"
  | GetAuditEvents session_id
  | GetRecording session_id
  | PostMediaAuth "(string \<times> string \<times> string) option"
  | GetAckLatest vehicle_id
  | GetWhipKey
  | GetVehicleList
  | PostVehicle "(vehicle_id \<times> string \<times> string) option"
  | RemoveVehicle vehicle_id
  | GetSessions
  | GetVehicleState vehicle_id
  | GetICEConfig
  | GetControlHealth

datatype control_body =
    NoContent
  | SessionBody Session
  | AuditBody "SafetyAuditEvent list"
  | RecordingBody "nat \<times> Entry list"
  | AckBody "VehicleCommandAck \<times> bool"
  | WhipKeyBody string
  | VehiclesBody "(Vehicle \<times> string) list"
  | SessionsBody "(session_id \<times> vehicle_id \<times> operator_id \<times> string \<times> instant) list"
  | VehicleStateBody "string \<times> string \<times> string \<times> string"
  | ICEBody "iceServer list"
  | HealthBody string
  | OperatorOpened "wsConn option"
  | VehicleOpened "vehicle_id option"

record control_env =
  ce_cfg :: serverConfig
  ce_jwt :: jwt_lib
  ce_ks :: "session_id list"
  ce_now :: instant
  ce_newID :: session_id
  ce_eventID :: event_id
  ce_eventIDs :: "vehicle_id \<Rightarrow> event_id"
  ce_token_reply :: "string + nat"
  ce_db_up :: bool
  ce_query :: "session_id \<Rightarrow> SafetyAuditEvent list option"
  ce_upgraded :: bool

definition handleHealth :: "string reply" where
  "handleHealth = HttpOk StatusOK ''control-server''"

definition newMux :: "control_env \<Rightarrow> string \<Rightarrow> control_route \<Rightarrow> Server \<Rightarrow> Server \<times> control_body reply" where
  "newMux env authorization r s =
     (let cfg = ce_cfg env;
          auth = authorized (ce_jwt env) (cfg_secret cfg) authorization;
          unit_body = map_prod id (map_reply (\<lambda>_. NoContent))
      in case r of
        OpenWS rq \<Rightarrow>
          map_prod id (map_reply OperatorOpened) (ServeWS (ce_jwt env) (cfg_secret cfg) (ce_upgraded env) rq s)
      | OpenVehicleWS rq \<Rightarrow>
          map_prod id (map_reply VehicleOpened) (vehicle_ServeWS (ce_jwt env) (cfg_secret cfg) (ce_upgraded env)
            (ce_db_up env) (ce_now env) (vr_Authorization rq) (vr_token rq) (vr_conn rq) s)
      | PostSessionStart body \<Rightarrow> auth (\<lambda>c s. map_prod id (map_reply SessionBody)
          (handleSessionStart (ce_ks env) (ce_newID env) (ce_eventID env) (ce_now env) (cl_Role c) body s)) s
      | PostSessionEnd sid \<Rightarrow> auth (\<lambda>c s. unit_body (handleSessionEnd (ce_ks env) sid s)) s
      | PostLogout \<Rightarrow> auth (\<lambda>c s. unit_body (handleLogout (ce_ks env) (cl_Subject c) s)) s
      | PostHandoverRequest body \<Rightarrow> auth (\<lambda>c s. unit_body (handleHandoverRequest body s)) s
      | PostHandoverConfirm body \<Rightarrow>
          auth (\<lambda>c s. unit_body (handleHandoverConfirm (ce_ks env) (ce_token_reply env) body s)) s
      | PostHandoverCancel body \<Rightarrow> auth (\<lambda>c s. unit_body (handleHandoverCancel body s)) s
      | PostMediaEvent body \<Rightarrow> auth (\<lambda>c s. unit_body (handleMediaEvent body s)) s
      | PostStop vid \<Rightarrow>
          auth (\<lambda>c s. unit_body (handleEmergencyStop (ce_ks env) (ce_now env) (ce_eventIDs env) vid s)) s
      | PostLog body \<Rightarrow> (s, map_reply (\<lambda>_. NoContent) (snd (handleLog body)))
      | GetAuditEvents sid \<Rightarrow> auth (\<lambda>c s. (s, map_reply AuditBody (handleAuditEvents (ce_query env) sid))) s
      | GetRecording sid \<Rightarrow> auth (\<lambda>c s. (s, map_reply RecordingBody (handleRecording sid s))) s
      | PostMediaAuth body \<Rightarrow> (s, map_reply (\<lambda>_. NoContent) (handleMediaAuth (cfg_whipStreamKey cfg) body s))
      | GetAckLatest vid \<Rightarrow> (s, map_reply AckBody (handleVehicleAckLatest vid s))
      | GetWhipKey \<Rightarrow> (s, HttpOk StatusOK (WhipKeyBody (handleDevWhipKey cfg)))
      | GetVehicleList \<Rightarrow> map_prod id (map_reply VehiclesBody) (handleVehiclesList (ce_db_up env) s)
      | PostVehicle body \<Rightarrow> auth (\<lambda>c s. unit_body (handleVehiclesCreate (ce_db_up env) (ce_now env) body s)) s
      | RemoveVehicle vid \<Rightarrow> auth (\<lambda>c s. unit_body (handleVehicleDelete (ce_db_up env) vid s)) s
      | GetSessions \<Rightarrow> auth (\<lambda>c s. (s, map_reply SessionsBody (handleSessions (ce_ks env) s))) s
      | GetVehicleState vid \<Rightarrow> map_prod id (map_reply VehicleStateBody) (handleVehicleState vid s)
      | GetICEConfig \<Rightarrow> (s, HttpOk StatusOK (ICEBody (handleICEConfig cfg)))
      | GetControlHealth \<Rightarrow> (s, map_reply HealthBody handleHealth))"

section \<open>Who may change the server\<close>

text \<open>The routes that anybody may call.\<close>

fun public_route :: "control_route \<Rightarrow> bool" where
  "public_route (PostLog _) = True"
| "public_route (PostMediaAuth _) = True"
| "public_route (GetAckLatest _) = True"
| "public_route GetWhipKey = True"
| "public_route GetVehicleList = True"
| "public_route (GetVehicleState _) = True"
| "public_route GetICEConfig = True"
| "public_route GetControlHealth = True"
| "public_route _ = False"

text \<open>The claims a request proves: the WebSocket endpoints also take the token from the query string, and
  the vehicles' one insists on the role.\<close>

fun proven_claims :: "control_env \<Rightarrow> string \<Rightarrow> control_route \<Rightarrow> Claims option" where
  "proven_claims env authorization (OpenWS rq) =
     (let tok = extractToken (rq_Authorization rq) (rq_token rq)
      in if tok = [] then None else validateJWT (ce_jwt env) (cfg_secret (ce_cfg env)) tok)"
| "proven_claims env authorization (OpenVehicleWS rq) =
     (case validateJWT (ce_jwt env) (cfg_secret (ce_cfg env)) (extractToken (vr_Authorization rq) (vr_token rq)) of
        None \<Rightarrow> None
      | Some c \<Rightarrow> if cl_Role c = ''VEHICLE'' then Some c else None)"
| "proven_claims env authorization _ = requireJWT (ce_jwt env) (cfg_secret (ce_cfg env)) authorization"

text \<open>Nothing has changed but that the context of a vehicle may have been created, with the contents it
  would have been given anyway.\<close>

definition untouched :: "Server \<Rightarrow> Server \<Rightarrow> bool" where
  "untouched s s' \<longleftrightarrow> (\<exists>r. s' = s\<lparr>sv_contexts := r\<rparr>) \<and> (\<forall>v. context_of s' v = context_of s v)"

lemma untouched_refl [simp]: "untouched s s"
  by (auto simp: untouched_def intro: exI [of _ "sv_contexts s"])

lemma untouched_trans: "untouched a b \<Longrightarrow> untouched b c \<Longrightarrow> untouched a c"
  by (auto simp: untouched_def)

lemma untouched_lookup [simp]: "untouched s (on_ctx v id s)"
  by (auto simp: untouched_def on_ctx_def context_of_def ctx_with_ctx_if)

lemma untouched_list: "untouched s (fst (handleVehiclesList db s))"
proof -
  have "untouched s (fold (\<lambda>v. on_ctx (veh_ID v) id) vs s)" for vs :: "Vehicle list"
    by (induction vs arbitrary: s) (auto intro: untouched_trans [OF untouched_lookup])
  then show ?thesis by (auto simp: handleVehiclesList_def split: sum.split)
qed

lemma untouched_state: "untouched s (fst (handleVehicleState vid s))"
  by (auto simp: handleVehicleState_def Let_def split: prod.split)

lemma public_untouched:
  assumes "public_route r"
  shows "untouched s (fst (newMux env authorization r s))"
  using assms untouched_list untouched_state by (cases r) (auto simp: newMux_def Let_def)

lemma unproven_refused:
  assumes "\<not> public_route r" and "proven_claims env authorization r = None"
  shows "\<exists>msg. newMux env authorization r s = (s, HttpError StatusUnauthorized msg)"
  using assms
  by (cases r)
    (auto simp: newMux_def authorized_def ServeWS_def authenticateWS_def vehicle_ServeWS_def Let_def
      split: option.splits if_splits)

text \<open>No handler behind the token check answers 401 itself.\<close>

lemma proven_not_refused:
  assumes "proven_claims env authorization r = Some c" and "\<not> public_route r"
  shows "status (snd (newMux env authorization r s)) \<noteq> StatusUnauthorized"
  using assms
  by (cases r)
    (auto simp: newMux_def authorized_def Let_def status_defs ServeWS_def authenticateWS_def vehicle_ServeWS_def
      handleSessionStart_def handleSessionEnd_def handleLogout_def handleHandoverRequest_def handleHandoverConfirm_def
      handleHandoverCancel_def handleMediaEvent_def handleEmergencyStop_def handleAuditEvents_def handleRecording_def
      handleVehiclesCreate_def handleVehicleDelete_def handleSessions_def
      split: option.splits if_splits prod.splits sum.splits bool.splits store_error.splits)

section \<open>The routes and the runs of the server\<close>

text \<open>A request that is served changes the server by a step of \<open>world_step\<close>, or not at all; a connection
  that is opened joins the open ones.\<close>

definition served :: "control_body reply \<Rightarrow> Server \<Rightarrow> world \<Rightarrow> world" where
  "served rep s' w =
     (case rep of
        HttpOk _ (OperatorOpened (Some ws)) \<Rightarrow> w\<lparr>w_server := s', w_open := ws # w_open w\<rparr>
      | _ \<Rightarrow> w\<lparr>w_server := s'\<rparr>)"

lemma served_no_connection:
  "\<forall>code ws. rep \<noteq> HttpOk code (OperatorOpened (Some ws)) \<Longrightarrow> served rep s' w = w\<lparr>w_server := s'\<rparr>"
  by (auto simp: served_def split: reply.splits control_body.splits option.splits)

lemma authorized_fst:
  "fst (authorized jwt secret a h s) = (case requireJWT jwt secret a of None \<Rightarrow> s | Some c \<Rightarrow> fst (h c s))"
  by (simp add: authorized_def split: option.split)

lemma mux_step:
  assumes "s = w_server w" and "\<And>rq. r \<noteq> OpenWS rq"
    and "iter_order (sessions (sv_sessionMgr s)) (ce_ks env)"
    and "sessions (sv_sessionMgr s) (ce_newID env) = None" and "ce_newID env \<notin> (sess_ID \<circ> wc_sess) ` set (w_open w)"
  shows "fst (newMux env a r s) = s \<or> world_step w (w\<lparr>w_server := fst (newMux env a r s)\<rparr>)"
  using assms(2-) unfolding assms(1)
  by (cases r)
    (auto simp: newMux_def authorized_fst handleLogout_def Let_def split: option.split intro: world_step.intros)

lemma mux_no_connection:
  assumes "\<And>rq. r \<noteq> OpenWS rq" and "newMux env a r s = (s', rep)"
  shows "rep \<noteq> HttpOk code (OperatorOpened x)"
proof -
  have m: "map_reply f rep' \<noteq> HttpOk code (OperatorOpened x)" if "\<And>y. f y \<noteq> OperatorOpened x" for f rep'
    using that by (cases rep') auto
  have "snd (newMux env a r s) \<noteq> HttpOk code (OperatorOpened x)"
    using assms(1) by (cases r) (auto simp: newMux_def authorized_def Let_def m split: option.split)
  with assms(2) show ?thesis by simp
qed

text \<open>Whatever is sent to the routes, the server stays within the reachable states.\<close>

theorem requests_are_steps:
  assumes "reachable_world w" and "newMux env a r (w_server w) = (s', rep)"
    and "iter_order (sessions (sv_sessionMgr (w_server w))) (ce_ks env)"
    and "sessions (sv_sessionMgr (w_server w)) (ce_newID env) = None"
    and "ce_newID env \<notin> (sess_ID \<circ> wc_sess) ` set (w_open w)"
  shows "reachable_world (served rep s' w)"
proof (cases "\<exists>rq. r = OpenWS rq")
  case True
  then obtain rq where r: "r = OpenWS rq" ..
  obtain rep' where o: "ServeWS (ce_jwt env) (cfg_secret (ce_cfg env)) (ce_upgraded env) rq (w_server w) = (s', rep')"
    and rep: "rep = map_reply OperatorOpened rep'"
    using assms(2) unfolding r by (cases "ServeWS (ce_jwt env) (cfg_secret (ce_cfg env)) (ce_upgraded env) rq (w_server w)")
      (auto simp: newMux_def Let_def)
  show ?thesis
  proof (cases "\<exists>code ws. rep' = HttpOk code (Some ws)")
    case True
    then obtain code ws where "rep' = HttpOk code (Some ws)" by blast
    with o rep show ?thesis
      by (auto simp: served_def intro: reachable_step [OF assms(1) world_step.ws_open])
  next
    case False
    then have "s' = w_server w" and "served rep s' w = w\<lparr>w_server := s'\<rparr>"
      using o rep
      by (auto simp: ServeWS_def Let_def served_def split: reply.splits prod.splits if_splits control_body.splits option.splits)
    with assms(1) show ?thesis by simp
  qed
next
  case False
  then have "served rep s' w = w\<lparr>w_server := s'\<rparr>"
    using mux_no_connection [OF _ assms(2)] by (intro served_no_connection) blast
  moreover have "s' = w_server w \<or> world_step w (w\<lparr>w_server := s'\<rparr>)"
    using mux_step [OF refl _ assms(3-5), of r a] False assms(2) by simp
  ultimately show ?thesis using assms(1) reachable_step by (auto simp: world.update_convs)
qed

text \<open>C5: only requests that prove their caller's claims with a valid token change the control server. However
  many requests arrive without one, or on the public routes, every session, handover, recording,
  connection, acknowledgement, table row and every vehicle's machine and watchdogs stay as they are and
  nothing is sent. Behind the token check a request is answered 401 exactly if its token proves no claims.\<close>

theorem requests_need_tokens:
  assumes "\<And>env a r. (env, a, r) \<in> set rs \<Longrightarrow> public_route r \<or> proven_claims env a r = None"
  shows "untouched s (fold (\<lambda>(env, a, r) s. fst (newMux env a r s)) rs s) \<and>
    (\<not> public_route r' \<longrightarrow>
       (status (snd (newMux env' a' r' s)) = StatusUnauthorized \<longleftrightarrow> proven_claims env' a' r' = None))"
proof
  have one: "untouched t (fst (newMux env a r t))" if "public_route r \<or> proven_claims env a r = None" for env a r t
    using that public_untouched unproven_refused [of r env a t] by (cases "public_route r") auto
  show "untouched s (fold (\<lambda>(env, a, r) s. fst (newMux env a r s)) rs s)"
    using assms
  proof (induction rs arbitrary: s)
    case (Cons q rs)
    obtain env a r where q: "q = (env, a, r)" by (cases q)
    then have "untouched s (fst (newMux env a r s))" using one Cons.prems by simp
    moreover have "untouched (fst (newMux env a r s)) (fold (\<lambda>(env, a, r) s. fst (newMux env a r s)) rs (fst (newMux env a r s)))"
      using Cons.IH Cons.prems by simp
    ultimately show ?case unfolding q by (auto intro: untouched_trans)
  qed simp
  show "\<not> public_route r' \<longrightarrow>
      (status (snd (newMux env' a' r' s)) = StatusUnauthorized \<longleftrightarrow> proven_claims env' a' r' = None)"
    using unproven_refused [of r' env' a' s] proven_not_refused [of env' a' r' _ s]
    by (cases "proven_claims env' a' r'") auto
qed

definition demo_env :: control_env where
  "demo_env =
     \<lparr>ce_cfg = \<lparr>cfg_port = [], cfg_secret = ''secret'', cfg_safetyURL = [], cfg_sfuURL = [], cfg_authURL = [],
        cfg_telemetryURL = [], cfg_whipStreamKey = [], cfg_mediamtxAPIURL = [], cfg_turnExternalIP = [],
        cfg_turnPort = [], cfg_turnUser = [], cfg_turnPassword = [], cfg_databaseURL = []\<rparr>,
      ce_jwt = demo_jwt, ce_ks = [''s1''], ce_now = 0, ce_newID = ''s2'', ce_eventID = [], ce_eventIDs = \<lambda>_. [],
      ce_token_reply = Inr 200, ce_db_up = True, ce_query = \<lambda>_. None, ce_upgraded = True\<rparr>"

theorem requests_need_tokens_witness:
  "untouched (w_server demo_session)
     (fold (\<lambda>(env, a, r) s. fst (newMux env a r s))
       [(demo_env, [], PostStop ''v1''), (demo_env, ''Bearer x'', GetVehicleState ''v1'')] (w_server demo_session)) \<and>
   status (snd (newMux demo_env [] (PostStop ''v1'') (w_server demo_session))) = StatusUnauthorized \<and>
   status (snd (newMux demo_env ''Bearer x'' (PostStop ''v1'') (w_server demo_session))) \<noteq> StatusUnauthorized"
proof -
  let ?rs = "[(demo_env, [], PostStop ''v1''), (demo_env, ''Bearer x'', GetVehicleState ''v1'')]"
  have none: "proven_claims demo_env [] (PostStop ''v1'') = None" by (simp add: requireJWT_def hasPrefix_def)
  have some: "proven_claims demo_env ''Bearer x'' (PostStop ''v1'') \<noteq> None"
    by (simp add: requireJWT_def hasPrefix_def validateJWT_def demo_env_def demo_jwt_def)
  have rs: "public_route r \<or> proven_claims env a r = None" if "(env, a, r) \<in> set ?rs" for env a r
    using that none by auto
  have "\<not> public_route (PostStop ''v1'')" by simp
  with requests_need_tokens [of ?rs "w_server demo_session" "PostStop ''v1''" demo_env "[]"]
    requests_need_tokens [of ?rs "w_server demo_session" "PostStop ''v1''" demo_env "''Bearer x''"] rs none some
  show ?thesis by blast
qed

section \<open>The read loop of an operator connection\<close>

text \<open>\<open>readLoop\<close>: the messages \<open>ReadMessage\<close> delivers until it fails, each with what the other goroutines have
  done to the server while it was blocked, and what they do before the deferred disconnect. The result is
  the server after the disconnect and the acknowledgements that were sent.\<close>

fun read_messages ::
  "(rat \<Rightarrow> rat) \<Rightarrow> (ControlAck \<Rightarrow> bool) \<Rightarrow> (conn \<Rightarrow> string \<Rightarrow> bool) \<Rightarrow> wsConn \<Rightarrow>
   ((Server \<Rightarrow> Server) \<times> ws_message) list \<Rightarrow> Server \<Rightarrow> Server \<times> ControlAck list" where
  "read_messages rnd marshal_ok write_ok ws [] s = (s, [])"
| "read_messages rnd marshal_ok write_ok ws ((others, msg) # ms) s =
     (let (s1, ack, go) = processWSMessage rnd marshal_ok write_ok ws msg (others s);
          sent = (case ack of None \<Rightarrow> [] | Some a \<Rightarrow> [a])
      in if \<not> go then (s1, sent)
         else let (s2, more) = read_messages rnd marshal_ok write_ok ws ms s1 in (s2, sent @ more))"

definition readLoop ::
  "(rat \<Rightarrow> rat) \<Rightarrow> (ControlAck \<Rightarrow> bool) \<Rightarrow> (conn \<Rightarrow> string \<Rightarrow> bool) \<Rightarrow> session_id list \<Rightarrow> instant \<Rightarrow> event_id \<Rightarrow> wsConn \<Rightarrow>
   ((Server \<Rightarrow> Server) \<times> ws_message) list \<Rightarrow> (Server \<Rightarrow> Server) \<Rightarrow> Server \<Rightarrow> Server \<times> ControlAck list" where
  "readLoop rnd marshal_ok write_ok ks now eid ws ms others s =
     (let (s1, sent) = read_messages rnd marshal_ok write_ok ws ms s
      in (handleWSDisconnect ks now eid ws (others s1), sent))"

text \<open>What the other goroutines may do: any steps of the server that leave this connection open.\<close>

definition leaves_open :: "wsConn \<Rightarrow> (Server \<Rightarrow> Server) \<Rightarrow> bool" where
  "leaves_open ws others \<longleftrightarrow>
     (\<forall>w. reachable_world w \<and> ws \<in> set (w_open w) \<longrightarrow>
        (\<exists>w'. reachable_world w' \<and> ws \<in> set (w_open w') \<and> w_server w' = others (w_server w)))"

lemma leaves_open_id [simp]: "leaves_open ws (\<lambda>s. s)"
  by (auto simp: leaves_open_def)

lemma leaves_openD:
  assumes "leaves_open ws others" and "reachable_world w" and "ws \<in> set (w_open w)"
  obtains w' where "reachable_world w'" and "ws \<in> set (w_open w')" and "w_server w' = others (w_server w)"
  using assms unfolding leaves_open_def by blast

lemma read_messages_reach:
  assumes "reachable_world w" and "ws \<in> set (w_open w)" and "list_all (leaves_open ws \<circ> fst) ms"
  shows "\<exists>w'. reachable_world w' \<and> ws \<in> set (w_open w') \<and>
    w_server w' = fst (read_messages rnd marshal_ok write_ok ws ms (w_server w))"
  using assms
proof (induction ms arbitrary: w)
  case Nil
  then show ?case by auto
next
  case (Cons m ms)
  obtain others msg where m: "m = (others, msg)" by (cases m)
  from Cons.prems m obtain w1 where w1: "reachable_world w1" "ws \<in> set (w_open w1)" "w_server w1 = others (w_server w)"
    by (auto elim: leaves_openD)
  obtain s1 ack go where p: "processWSMessage rnd marshal_ok write_ok ws msg (others (w_server w)) = (s1, ack, go)"
    by (metis prod.exhaust)
  let ?w2 = "w1\<lparr>w_server := s1\<rparr>"
  have w2: "reachable_world ?w2"
    using reachable_step [OF w1(1) world_step.ws_message [OF w1(2), of rnd marshal_ok write_ok msg]] w1(3) p by simp
  show ?case
  proof (cases go)
    case True
    from Cons.IH [OF w2] w1(2) Cons.prems(3) show ?thesis
      unfolding m using p True by (simp add: Let_def case_prod_beta)
  next
    case False
    with w2 w1(2) p show ?thesis unfolding m by (intro exI [of _ ?w2]) simp
  qed
qed

lemma read_messages_acks: "length (snd (read_messages rnd marshal_ok write_ok ws ms s)) \<le> length ms"
proof (induction ms arbitrary: s)
  case (Cons m ms)
  obtain others msg where m: "m = (others, msg)" by (cases m)
  obtain s1 ack go where p: "processWSMessage rnd marshal_ok write_ok ws msg (others s) = (s1, ack, go)"
    by (metis prod.exhaust)
  with Cons.IH [of s1] show ?case
    unfolding m by (cases ack; cases go) (auto simp: Let_def case_prod_beta)
qed simp

lemma disconnect_machine:
  assumes "\<not> wc_isObserver ws" and "GetSession (sv_sessionMgr s) (sess_ID (wc_sess ws)) \<noteq> None"
    and "vid = sess_VehicleID (wc_sess ws)"
  shows "machine_of (handleWSDisconnect ks now eid ws s) vid =
    (if System (machine_of s vid) = StateSafeMode then machine_of s vid
     else TransitionOperator OpNoOperator (TransitionSystem StateSafeMode (machine_of s vid)))"
  using assms by (auto simp: handleWSDisconnect_def auditWSDisconnect_def Get_def Let_def)

lemma disconnect_safe:
  assumes "reachable_world w" and "ws \<in> set (w_open w)" and "\<not> wc_isObserver ws"
    and "s' = handleWSDisconnect ks now eid ws (w_server w)"
    and "GetSession (sv_sessionMgr s') (sess_ID (wc_sess ws)) = Some cs" and "is_active cs"
  shows "System (machine_of s' (sess_VehicleID cs)) = StateSafeMode \<and>
    Control (machine_of s' (sess_VehicleID cs)) = ControlBlocked"
proof -
  let ?s = "w_server w" and ?v = "sess_VehicleID cs"
  have inv: "world_inv w" by (rule reachable_world_inv) fact
  then have gsa: "gsa_inv (sv_sessionMgr ?s)" by (simp add: world_inv_def server_inv_def)
  have "sessions (sv_sessionMgr s') = sessions (sv_sessionMgr ?s)"
    using calm_operator_disconnect [OF assms(3)] assms(4) by (simp add: calm_def)
  with assms(5) have k: "GetSession (sv_sessionMgr ?s) (sess_ID (wc_sess ws)) = Some cs"
    by (simp add: GetSession_def)
  then have v: "?v = sess_VehicleID (wc_sess ws)"
    using inv assms(2) by (auto simp: world_inv_def connections_known_def GetSession_def)
  have "vehicleController (sv_sessionMgr ?s) ?v \<noteq> None"
    using gsa_inv_active [OF gsa] k assms(6) by (auto simp: GetSession_def)
  then have live: "System (machine_of ?s ?v) \<noteq> StateIdle" using reachable_machine(3) [OF assms(1)] by simp
  have coupled: "control_coupled (machine_of ?s ?v)"
    using machine_control.reachable_inv [OF refl reachable_machine(1) [OF assms(1)]] .
  have "machine_of s' ?v = (if System (machine_of ?s ?v) = StateSafeMode then machine_of ?s ?v
     else TransitionOperator OpNoOperator (TransitionSystem StateSafeMode (machine_of ?s ?v)))"
    unfolding assms(4) by (rule disconnect_machine) (use assms(3) k v in auto)
  then show ?thesis
    using live coupled safe_mode_result [OF assms(1) refl, of ?v]
    by (simp add: TransitionOperator_NoOperator control_coupled_def)
qed

text \<open>The whole life of a controlling connection: the loop ends, the server is in a reachable state again, at
  most one acknowledgement was sent per message, and if the session is still alive at the end its vehicle is in
  SAFE_MODE with commands blocked, whatever was sent and whatever else happened meanwhile.\<close>

theorem connection_ends_safe:
  assumes "reachable_world w" and "ws \<in> set (w_open w)" and "\<not> wc_isObserver ws"
    and "list_all (leaves_open ws \<circ> fst) ms" and "leaves_open ws others"
    and "readLoop rnd marshal_ok write_ok ks now eid ws ms others (w_server w) = (s', sent)"
  shows "(\<exists>w'. reachable_world w' \<and> w_server w' = s') \<and> length sent \<le> length ms \<and>
    (\<forall>cs. GetSession (sv_sessionMgr s') (sess_ID (wc_sess ws)) = Some cs \<and> is_active cs \<longrightarrow>
       System (machine_of s' (sess_VehicleID cs)) = StateSafeMode \<and>
       Control (machine_of s' (sess_VehicleID cs)) = ControlBlocked)"
proof (intro conjI allI impI)
  let ?r = "read_messages rnd marshal_ok write_ok ws ms (w_server w)"
  obtain w1 where w1: "reachable_world w1" "ws \<in> set (w_open w1)" "w_server w1 = fst ?r"
    using read_messages_reach [OF assms(1,2,4)] by blast
  then obtain w2 where w2: "reachable_world w2" "ws \<in> set (w_open w2)" "w_server w2 = others (fst ?r)"
    using assms(5) by (auto elim: leaves_openD)
  have s': "s' = handleWSDisconnect ks now eid ws (w_server w2)" and sent: "sent = snd ?r"
    using assms(6) w2(3) by (auto simp: readLoop_def split: prod.splits)
  show "\<exists>w'. reachable_world w' \<and> w_server w' = s'"
    using reachable_step [OF w2(1) world_step.ws_close [OF w2(2), of ks now eid]] s' by force
  show "length sent \<le> length ms" unfolding sent by (rule read_messages_acks)
  fix cs
  assume cs: "GetSession (sv_sessionMgr s') (sess_ID (wc_sess ws)) = Some cs \<and> is_active cs"
  then show "System (machine_of s' (sess_VehicleID cs)) = StateSafeMode"
    and "Control (machine_of s' (sess_VehicleID cs)) = ControlBlocked"
    using disconnect_safe [OF w2(1,2) assms(3) s', of cs] by simp_all
qed

end
