(* ===== verification/Webrtc_SFU.thy ===== *)
theory Webrtc_SFU
  imports Prelude
begin

text \<open>
  The media forwarding unit (\<open>internal/webrtcsfu/sfu.go\<close>, \<open>cmd/webrtc-sfu/main.go\<close>): peers, the routing of
  sessions to operators, and the last session event. The WebRTC stack is outside: the outcome of creating
  a connection, a track and an answer is an argument, connections and tracks are numbers, and the
  auxiliary field \<open>sfu_closed\<close> collects the connections the code has closed. A packet is forwarded in one
  step, as if \<open>forwardTrack\<close> held the lock between its reads.
\<close>

section \<open>State\<close>

definition EventCreated :: string where "EventCreated = ''SESSION_CREATED''"
definition EventOperatorAssigned :: string where "EventOperatorAssigned = ''SESSION_OPERATOR_ASSIGNED''"
definition EventOperatorHandover :: string where "EventOperatorHandover = ''SESSION_OPERATOR_HANDOVER''"
definition EventDegraded :: string where "EventDegraded = ''SESSION_DEGRADED''"
definition EventSafeMode :: string where "EventSafeMode = ''SESSION_SAFE_MODE''"
definition EventEnded :: string where "EventEnded = ''SESSION_ENDED''"

lemmas session_event_defs = EventCreated_def EventOperatorAssigned_def EventOperatorHandover_def
  EventDegraded_def EventSafeMode_def EventEnded_def

record SessionEvent =
  se_Type :: string
  se_SessionID :: session_id
  se_OperatorID :: operator_id

record Peer =
  peer_ID :: string
  peer_Role :: string
  peer_SessionID :: session_id
  peer_Connection :: nat
  peer_Tracks :: "nat list"

record SFU =
  peers :: "string \<rightharpoonup> Peer"
  routing :: "session_id \<rightharpoonup> string list"
  sfu_state :: "session_id \<rightharpoonup> string"
  sfu_closed :: "nat set"

definition NewSFU :: SFU where
  "NewSFU = \<lparr>peers = Map.empty, routing = Map.empty, sfu_state = Map.empty, sfu_closed = {}\<rparr>"

section \<open>Operations\<close>

definition peers_of :: "session_id \<Rightarrow> SFU \<Rightarrow> string set" where
  "peers_of sid s = {p. \<exists>pr. peers s p = Some pr \<and> peer_SessionID pr = sid}"

definition dropStreams :: "session_id \<Rightarrow> SFU \<Rightarrow> SFU" where
  "dropStreams sid s =
     s\<lparr>peers := (\<lambda>p. case peers s p of
                  None \<Rightarrow> None
                | Some pr \<Rightarrow> if peer_SessionID pr = sid then None else Some pr),
       sfu_closed := sfu_closed s \<union> (\<lambda>p. peer_Connection (the (peers s p))) ` peers_of sid s\<rparr>"

definition HandleSessionEvent :: "SessionEvent \<Rightarrow> SFU \<Rightarrow> SFU" where
  "HandleSessionEvent ev s =
     (let sid = se_SessionID ev; s1 = s\<lparr>sfu_state := (sfu_state s)(sid \<mapsto> se_Type ev)\<rparr> in
      if se_Type ev = EventCreated then s1\<lparr>routing := (routing s1)(sid \<mapsto> [])\<rparr>
      else if se_Type ev = EventOperatorAssigned \<or> se_Type ev = EventOperatorHandover
      then s1\<lparr>routing := (routing s1)(sid \<mapsto> [se_OperatorID ev])\<rparr>
      else if se_Type ev = EventSafeMode then dropStreams sid s1
      else if se_Type ev = EventEnded then
        (let s2 = dropStreams sid s1
         in s2\<lparr>routing := (routing s2)(sid := None), sfu_state := (sfu_state s2)(sid := None)\<rparr>)
      else s1)"

definition GetSessionState :: "session_id \<Rightarrow> SFU \<Rightarrow> string option" where
  "GetSessionState sid s = sfu_state s sid"

text \<open>\<open>pc\<close> is the new connection, \<open>answer\<close> the outcome of the offer/answer exchange, which closes the
  connection on an error.\<close>

definition CreateVehicleOffer ::
  "string + nat \<Rightarrow> string + string \<Rightarrow> session_id \<Rightarrow> string \<Rightarrow> SFU \<Rightarrow> SFU \<times> (string + string)" where
  "CreateVehicleOffer pc answer sid pid s =
     (case pc of
        Inl e \<Rightarrow> (s, Inl e)
      | Inr c \<Rightarrow>
          (case answer of
             Inl e \<Rightarrow> (s\<lparr>sfu_closed := insert c (sfu_closed s)\<rparr>, Inl e)
           | Inr sdp \<Rightarrow>
               (s\<lparr>peers := (peers s)(pid \<mapsto> \<lparr>peer_ID = pid, peer_Role = ''vehicle'', peer_SessionID = sid,
                                             peer_Connection = c, peer_Tracks = []\<rparr>)\<rparr>, Inr sdp)))"

definition registerOperatorSubscription ::
  "session_id \<Rightarrow> operator_id \<Rightarrow> nat \<Rightarrow> nat \<Rightarrow> SFU \<Rightarrow> SFU \<times> bool" where
  "registerOperatorSubscription sid oid c track s =
     (let s1 = s\<lparr>peers := (peers s)(oid \<mapsto> \<lparr>peer_ID = oid, peer_Role = ''operator'', peer_SessionID = sid,
                                           peer_Connection = c, peer_Tracks = [track]\<rparr>)\<rparr>;
          existing = (case routing s1 sid of None \<Rightarrow> [] | Some ids \<Rightarrow> ids)
      in if oid \<in> set existing then (s1, True)
         else (s1\<lparr>routing := (routing s1)(sid \<mapsto> existing @ [oid])\<rparr>, False))"

text \<open>\<open>track\<close> is the outcome of creating and adding the local track.\<close>

definition SubscribeOperator ::
  "string + nat \<Rightarrow> string + nat \<Rightarrow> string + string \<Rightarrow> session_id \<Rightarrow> operator_id \<Rightarrow> SFU \<Rightarrow> SFU \<times> (string + string)" where
  "SubscribeOperator pc track answer sid oid s =
     (case pc of
        Inl e \<Rightarrow> (s, Inl e)
      | Inr c \<Rightarrow>
          (case track of
             Inl e \<Rightarrow> (s\<lparr>sfu_closed := insert c (sfu_closed s)\<rparr>, Inl e)
           | Inr t \<Rightarrow>
               (case answer of
                  Inl e \<Rightarrow> (s\<lparr>sfu_closed := insert c (sfu_closed s)\<rparr>, Inl e)
                | Inr sdp \<Rightarrow> (fst (registerOperatorSubscription sid oid c t s), Inr sdp))))"

definition removePeer :: "string \<Rightarrow> SFU \<Rightarrow> SFU" where
  "removePeer pid s =
     (case peers s pid of
        None \<Rightarrow> s
      | Some pr \<Rightarrow>
          s\<lparr>peers := (peers s)(pid := None), sfu_closed := insert (peer_Connection pr) (sfu_closed s)\<rparr>)"

text \<open>One packet of \<open>forwardTrack\<close>: the operators and local tracks it is written to, in order.\<close>

definition forwardTrack :: "session_id \<Rightarrow> SFU \<Rightarrow> (operator_id \<times> nat) list" where
  "forwardTrack sid s =
     (if sfu_state s sid = Some EventSafeMode then []
      else concat (map (\<lambda>oid. case peers s oid of
                           None \<Rightarrow> []
                         | Some pr \<Rightarrow> map (Pair oid) (peer_Tracks pr))
                     (case routing s sid of None \<Rightarrow> [] | Some ids \<Rightarrow> ids)))"

section \<open>HTTP\<close>

definition handleSessionState :: "session_id \<Rightarrow> SFU \<Rightarrow> string reply" where
  "handleSessionState sid s =
     (case GetSessionState sid s of
        None \<Rightarrow> HttpError StatusNotFound ''unknown session''
      | Some st \<Rightarrow> HttpOk StatusOK st)"

definition handleSessionEvent :: "SessionEvent option \<Rightarrow> SFU \<Rightarrow> SFU \<times> unit reply" where
  "handleSessionEvent body s =
     (case body of
        None \<Rightarrow> (s, HttpError StatusBadRequest ''invalid event'')
      | Some ev \<Rightarrow> (HandleSessionEvent ev s, HttpOk StatusAccepted ()))"

definition handleVehicleOffer ::
  "string + nat \<Rightarrow> (string \<Rightarrow> string + string) \<Rightarrow> session_id \<Rightarrow> string \<Rightarrow> string option \<Rightarrow> SFU \<Rightarrow> SFU \<times> string reply" where
  "handleVehicleOffer pc negotiate sid pid body s =
     (case body of
        None \<Rightarrow> (s, HttpError StatusBadRequest ''invalid request'')
      | Some sdp \<Rightarrow>
          let (s', res) = CreateVehicleOffer pc (negotiate sdp) sid pid s
          in (s', case res of Inl e \<Rightarrow> HttpError StatusInternalServerError e | Inr a \<Rightarrow> HttpOk StatusOK a))"

definition handleOperatorSubscribe ::
  "string + nat \<Rightarrow> string + nat \<Rightarrow> (string \<Rightarrow> string + string) \<Rightarrow> session_id \<Rightarrow> operator_id \<Rightarrow> string option \<Rightarrow> SFU \<Rightarrow>
   SFU \<times> string reply" where
  "handleOperatorSubscribe pc track negotiate sid oid body s =
     (case body of
        None \<Rightarrow> (s, HttpError StatusBadRequest ''invalid request'')
      | Some sdp \<Rightarrow>
          let (s', res) = SubscribeOperator pc track (negotiate sdp) sid oid s
          in (s', case res of Inl e \<Rightarrow> HttpError StatusInternalServerError e | Inr a \<Rightarrow> HttpOk StatusOK a))"

section \<open>Runs\<close>

inductive sfu_step :: "SFU \<Rightarrow> SFU \<Rightarrow> bool" where
  event: "sfu_step s (fst (handleSessionEvent body s))"
| offer: "sfu_step s (fst (handleVehicleOffer pc negotiate sid pid vbody s))"
| subscribe: "sfu_step s (fst (handleOperatorSubscribe pc track negotiate sid oid vbody s))"
| ice_failed: "sfu_step s (removePeer pid s)"

text \<open>The steps without a session event for \<open>sid\<close>.\<close>

inductive sfu_step_without :: "session_id \<Rightarrow> SFU \<Rightarrow> SFU \<Rightarrow> bool" for sid where
  other_event: "(\<And>ev. body = Some ev \<Longrightarrow> se_SessionID ev \<noteq> sid) \<Longrightarrow>
    sfu_step_without sid s (fst (handleSessionEvent body s))"
| other_offer: "sfu_step_without sid s (fst (handleVehicleOffer pc negotiate sid' pid vbody s))"
| other_subscribe: "sfu_step_without sid s (fst (handleOperatorSubscribe pc track negotiate sid' oid vbody s))"
| other_ice: "sfu_step_without sid s (removePeer pid s)"

lemma dropStreams_fields [simp]:
  "routing (dropStreams sid s) = routing s" "sfu_state (dropStreams sid s) = sfu_state s"
  by (simp_all add: dropStreams_def)

lemma dropStreams_peers:
  "peers (dropStreams sid s) p = Some pr \<longleftrightarrow> peers s p = Some pr \<and> peer_SessionID pr \<noteq> sid"
  by (auto simp: dropStreams_def split: option.splits)

lemma sfu_state_other: "sfu_step_without sid s s' \<Longrightarrow> sfu_state s' sid = sfu_state s sid"
  by (induction rule: sfu_step_without.induct)
    (auto simp: handleSessionEvent_def HandleSessionEvent_def handleVehicleOffer_def CreateVehicleOffer_def
      handleOperatorSubscribe_def SubscribeOperator_def registerOperatorSubscription_def removePeer_def Let_def
      split: option.splits sum.splits)

lemma sfu_states_other: "(sfu_step_without sid)\<^sup>*\<^sup>* s s' \<Longrightarrow> sfu_state s' sid = sfu_state s sid"
  by (induction rule: rtranclp_induct) (simp_all add: sfu_state_other)

text \<open>Every routing list names an operator once, and every peer has at most one track.\<close>

definition sfu_inv :: "SFU \<Rightarrow> bool" where
  "sfu_inv s \<longleftrightarrow> (\<forall>sid ids. routing s sid = Some ids \<longrightarrow> distinct ids) \<and>
     (\<forall>p pr. peers s p = Some pr \<longrightarrow> length (peer_Tracks pr) \<le> 1)"

lemma sfu_inv_event: "sfu_inv s \<Longrightarrow> sfu_inv (HandleSessionEvent ev s)"
  by (auto simp: sfu_inv_def HandleSessionEvent_def dropStreams_peers Let_def)

lemma sfu_inv_subscribe: "sfu_inv s \<Longrightarrow> sfu_inv (fst (SubscribeOperator pc track answer sid oid s))"
  by (auto simp: sfu_inv_def SubscribeOperator_def registerOperatorSubscription_def Let_def split: sum.splits option.splits)

interpretation forwarding: transition_system "\<lambda>s. s = NewSFU" sfu_step sfu_inv
proof
  show "sfu_inv s" if "s = NewSFU" for s using that by (simp add: sfu_inv_def NewSFU_def)
next
  fix s s'
  assume "sfu_step s s'" and inv: "sfu_inv s"
  then show "sfu_inv s'"
  proof cases
    case event
    with inv show ?thesis by (auto simp: handleSessionEvent_def sfu_inv_event split: option.split)
  next
    case offer
    with inv show ?thesis
      by (auto simp: sfu_inv_def handleVehicleOffer_def CreateVehicleOffer_def Let_def split: option.splits sum.splits)
  next
    case subscribe
    with inv show ?thesis
      by (auto simp: handleOperatorSubscribe_def Let_def split: option.split prod.split
          dest: sfu_inv_subscribe) (metis fst_conv sfu_inv_subscribe)
  next
    case ice_failed
    with inv show ?thesis by (auto simp: sfu_inv_def removePeer_def split: option.split)
  qed
qed

lemma distinct_targets:
  assumes "distinct ids" and "\<And>p pr. m p = Some pr \<Longrightarrow> length (peer_Tracks pr) \<le> 1"
  shows "distinct (concat (map (\<lambda>oid. case m oid of None \<Rightarrow> [] | Some pr \<Rightarrow> map (Pair oid) (peer_Tracks pr)) ids))"
  using assms(1)
proof (induction ids)
  case (Cons oid ids)
  have "distinct (case m oid of None \<Rightarrow> [] | Some pr \<Rightarrow> map (Pair oid) (peer_Tracks pr))"
  proof (cases "m oid")
    case (Some pr)
    then have "length (peer_Tracks pr) \<le> 1" by (rule assms(2))
    then have "distinct (peer_Tracks pr)" by (cases "peer_Tracks pr") auto
    with Some show ?thesis by (simp add: distinct_map inj_on_def)
  qed simp
  with Cons show ?case by (auto split: option.splits)
qed simp

section \<open>Properties\<close>

text \<open>SESSION_SAFE_MODE silences a session: all its peers are removed and their connections closed at
  once, and until the next event for this session arrives no packet of it is forwarded to anyone, whatever
  other events, offers, subscriptions and connection failures happen.\<close>

theorem sfu_safe_mode_silent:
  assumes "se_Type ev = EventSafeMode" and "sid = se_SessionID ev" and "s1 = HandleSessionEvent ev s"
    and "(sfu_step_without sid)\<^sup>*\<^sup>* s1 s2"
  shows "forwardTrack sid s2 = [] \<and> peers_of sid s1 = {} \<and>
    (\<forall>p pr. peers s p = Some pr \<and> peer_SessionID pr = sid \<longrightarrow> peer_Connection pr \<in> sfu_closed s1)"
proof -
  have s1: "s1 = dropStreams sid (s\<lparr>sfu_state := (sfu_state s)(sid \<mapsto> EventSafeMode)\<rparr>)"
    using assms(1-3) by (simp add: HandleSessionEvent_def session_event_defs Let_def)
  then have "sfu_state s1 sid = Some EventSafeMode" by simp
  then have "sfu_state s2 sid = Some EventSafeMode" using sfu_states_other [OF assms(4)] by simp
  moreover have "peers_of sid s1 = {}" using s1 by (simp add: peers_of_def dropStreams_peers)
  moreover have "peer_Connection pr \<in> sfu_closed s1" if "peers s p = Some pr" "peer_SessionID pr = sid" for p pr
    using that unfolding s1 dropStreams_def by (force simp: peers_of_def)
  ultimately show ?thesis by (auto simp: forwardTrack_def)
qed

definition demo_sfu :: SFU where
  "demo_sfu = fst (SubscribeOperator (Inr 1) (Inr 10) (Inr ''answer'') ''s1'' ''alice''
     (HandleSessionEvent \<lparr>se_Type = EventCreated, se_SessionID = ''s1'', se_OperatorID = ''alice''\<rparr> NewSFU))"

theorem sfu_safe_mode_silent_witness:
  "forwardTrack ''s1'' demo_sfu = [(''alice'', 10)] \<and>
   forwardTrack ''s1'' (HandleSessionEvent \<lparr>se_Type = EventSafeMode, se_SessionID = ''s1'', se_OperatorID = []\<rparr> demo_sfu) = []"
proof -
  let ?ev = "\<lparr>se_Type = EventSafeMode, se_SessionID = ''s1'', se_OperatorID = []\<rparr>"
  have "forwardTrack ''s1'' (HandleSessionEvent ?ev demo_sfu) = []"
    using sfu_safe_mode_silent [of ?ev "''s1''" "HandleSessionEvent ?ev demo_sfu" demo_sfu] by simp
  then show ?thesis
    by (simp add: demo_sfu_def SubscribeOperator_def registerOperatorSubscription_def HandleSessionEvent_def
        NewSFU_def forwardTrack_def session_event_defs Let_def)
qed

text \<open>In every reachable state a packet of a session goes, unless the session is in SAFE_MODE, exactly to
  the tracks of the connected operators its routing names, and to each of them once.\<close>

lemma forward_exact:
  assumes "sfu_step\<^sup>*\<^sup>* NewSFU s"
  shows "distinct (forwardTrack sid s) \<and>
    ((oid, t) \<in> set (forwardTrack sid s) \<longleftrightarrow>
       sfu_state s sid \<noteq> Some EventSafeMode \<and>
       (\<exists>ids pr. routing s sid = Some ids \<and> oid \<in> set ids \<and> peers s oid = Some pr \<and> t \<in> set (peer_Tracks pr)))"
proof -
  have inv: "sfu_inv s" using forwarding.reachable_inv [OF refl assms] .
  have "distinct (forwardTrack sid s)"
    using inv distinct_targets [of "case routing s sid of None \<Rightarrow> [] | Some ids \<Rightarrow> ids" "peers s"]
    by (auto simp: forwardTrack_def sfu_inv_def split: option.splits)
  moreover have "(oid, t) \<in> set (case peers s x of None \<Rightarrow> [] | Some pr \<Rightarrow> map (Pair x) (peer_Tracks pr)) \<longleftrightarrow>
      x = oid \<and> (\<exists>pr. peers s oid = Some pr \<and> t \<in> set (peer_Tracks pr))" for x
    by (cases "peers s x") auto
  ultimately show ?thesis by (cases "routing s sid") (simp_all add: forwardTrack_def)
qed

text \<open>An event whose type the unit does not know only overwrites the recorded state: after SESSION_SAFE_MODE
  it lifts the block for whoever subscribes afterwards.\<close>

theorem unknown_event_lifts_block:
  assumes "se_Type ev \<notin> {EventCreated, EventOperatorAssigned, EventOperatorHandover, EventSafeMode, EventEnded}"
    and "sid = se_SessionID ev" and "s' = HandleSessionEvent ev s"
  shows "sfu_state s' sid = Some (se_Type ev) \<and> routing s' = routing s \<and> peers s' = peers s \<and>
    sfu_state s' sid \<noteq> Some EventSafeMode"
  using assms by (simp add: HandleSessionEvent_def Let_def)

end
