(* ===== verification/Service_Composition.thy ===== *)
theory Service_Composition
  imports Control_Mux Webrtc_SFU
begin

text \<open>
  The control server together with the services it notifies: the media forwarding unit, which gets the session
  events (\<open>internal/controlserver/session/sfu_publisher.go\<close>), and the safety service, which gets the safety events
  and emergency stops (\<open>internal/controlserver/safety/http_publisher.go\<close>). A notification is an effect of the
  control server's model; here it is handed to the receiver's handler. Session events are sent by one goroutine
  each and a failed request is only logged, so they may arrive in any order or not at all.
\<close>

section \<open>Notifying the media forwarding unit\<close>

text \<open>\<open>HTTPSFUPublisher\<close>: \<open>reached\<close> says whether the request got through.\<close>

definition publish_session_event :: "bool \<Rightarrow> string \<Rightarrow> session_id \<Rightarrow> operator_id \<Rightarrow> SFU \<Rightarrow> SFU" where
  "publish_session_event reached eventType sid oid sfu =
     (if reached then fst (handleSessionEvent (Some (SessionEvent.make eventType sid oid)) sfu) else sfu)"

text \<open>The session events among the effects of the control server.\<close>

fun session_event_of :: "effect \<Rightarrow> (string \<times> session_id \<times> operator_id) option" where
  "session_event_of (PublishSessionEvent ty sid oid) = Some (ty, sid, oid)"
| "session_event_of _ = None"

definition session_events :: "effect list \<Rightarrow> (string \<times> session_id \<times> operator_id) list" where
  "session_events es = List.map_filter session_event_of es"

text \<open>The requests as they reach the unit: each with its outcome, in the order of arrival.\<close>

definition arrive :: "(bool \<times> string \<times> session_id \<times> operator_id) list \<Rightarrow> SFU \<Rightarrow> SFU" where
  "arrive evs sfu = fold (\<lambda>(reached, ty, sid, oid). publish_session_event reached ty sid oid) evs sfu"

text \<open>\<open>evs\<close> are the requests that \<open>es\<close> causes, in whatever order and with whatever outcomes, but not all lost.\<close>

definition arrivals :: "effect list \<Rightarrow> (bool \<times> string \<times> session_id \<times> operator_id) list \<Rightarrow> bool" where
  "arrivals es evs \<longleftrightarrow> mset (map snd evs) = mset (session_events es) \<and> (\<exists>e\<in>set evs. fst e)"

lemma session_events_simps [simp]:
  "session_events [] = []" "session_events (es @ fs) = session_events es @ session_events fs"
  "session_events (e # es) = (case session_event_of e of None \<Rightarrow> [] | Some x \<Rightarrow> [x]) @ session_events es"
  by (simp_all add: session_events_def map_filter_def split: option.split)

lemma session_events_audit [simp]: "session_events (write_audit aw ev) = []"
  by (simp add: write_audit_def split: option.split)

lemma SessionEvent_make [simp]:
  "SessionEvent.se_Type (SessionEvent.make ty sid oid) = ty"
  "SessionEvent.se_SessionID (SessionEvent.make ty sid oid) = sid"
  by (simp_all add: SessionEvent.make_def)

text \<open>Identical requests, at least one of which gets through: the unit ends up as after the last one that does.\<close>

lemma arrive_last:
  assumes "\<And>e. e \<in> set evs \<Longrightarrow> snd e = (ty, sid, oid)" and "\<exists>e\<in>set evs. fst e"
  shows "\<exists>sfu'. arrive evs sfu = HandleSessionEvent (SessionEvent.make ty sid oid) sfu'"
  using assms
proof (induction evs rule: rev_induct)
  case (snoc e evs)
  obtain b where e: "e = (b, ty, sid, oid)" using snoc.prems(1) [of e] by (cases e) auto
  show ?case
  proof (cases b)
    case True
    then show ?thesis unfolding e by (auto simp: arrive_def publish_session_event_def handleSessionEvent_def)
  next
    case False
    then show ?thesis
      using snoc.IH snoc.prems unfolding e by (auto simp: arrive_def publish_session_event_def)
  qed
qed simp

section \<open>Loss of control\<close>

text \<open>The two requests after which an operator no longer drives the session \<open>sid\<close>: its controlling connection is
  lost, or an emergency stop hits its vehicle. \<open>ks\<close> is the iteration order of the session loops.\<close>

inductive control_lost :: "session_id list \<Rightarrow> world \<Rightarrow> Session \<Rightarrow> Server \<Rightarrow> bool" where
  connection: "ws \<in> set (w_open w) \<Longrightarrow> \<not> wc_isObserver ws \<Longrightarrow>
    GetSession (sv_sessionMgr (w_server w)) (sess_ID (wc_sess ws)) = Some cs \<Longrightarrow>
    control_lost ks w cs (handleWSDisconnect ks now eid ws (w_server w))"
| emergency: "vid = [] \<or> vid = sess_VehicleID cs \<Longrightarrow>
    GetSession (sv_sessionMgr (w_server w)) (sess_ID cs) = Some cs \<Longrightarrow>
    control_lost ks w cs (fst (handleEmergencyStop ks now eids vid (w_server w)))"

text \<open>The session manager stays wired to the unit.\<close>

lemma sfuPublisher_ops [simp]:
  "sfuPublisher (fst (StartSession k now vid oid m)) = sfuPublisher m"
  "sfuPublisher (ReleaseSession k m) = sfuPublisher m" "sfuPublisher (EndSession m) = sfuPublisher m"
  "sfuPublisher (UpdateOperator ks vid oid role m) = sfuPublisher m"
  "sfuPublisher (SaveCheckpoint ks now a b c m) = sfuPublisher m"
  by (simp_all add: StartSession_def ReleaseSession_def EndSession_def UpdateOperator_def SaveCheckpoint_def Let_def
      split: option.split prod.split)

lemma emergency_stop_frame [simp]:
  "sessions (sv_sessionMgr (emergency_stop_vehicle ks now eid v s)) = sessions (sv_sessionMgr s)"
  "vehicleController (sv_sessionMgr (emergency_stop_vehicle ks now eid v s)) = vehicleController (sv_sessionMgr s)"
  "sfuPublisher (sv_sessionMgr (emergency_stop_vehicle ks now eid v s)) = sfuPublisher (sv_sessionMgr s)"
  by (simp_all add: emergency_stop_vehicle_def Let_def split: option.split)

lemma emergency_stops_frame [simp]:
  "sfuPublisher (sv_sessionMgr (fold (emergency_stop_vehicle ks now eid) vs s)) = sfuPublisher (sv_sessionMgr s)"
  by (induction vs arbitrary: s) simp_all

lemma end_vehicles_frame [simp]:
  "sfuPublisher (sv_sessionMgr (fold end_vehicle vs s)) = sfuPublisher (sv_sessionMgr s)"
  by simp

lemma untouched_sessions: "untouched s s' \<Longrightarrow> sv_sessionMgr s' = sv_sessionMgr s"
  by (auto simp: untouched_def)

lemma vehicle_endpoints_frame [simp]:
  "sv_sessionMgr (fst (vehicle_ServeWS jwt secret up db now a tok c s)) = sv_sessionMgr s"
  "sv_sessionMgr (vehicle_message vid ack s) = sv_sessionMgr s"
  "sv_sessionMgr (vehicle_disconnect now vid s) = sv_sessionMgr s"
  "sv_sessionMgr (fst (handleVehiclesCreate db now b s)) = sv_sessionMgr s"
  "sv_sessionMgr (fst (handleVehicleDelete db vid s)) = sv_sessionMgr s"
  "sv_sessionMgr (fst (handleVehiclesList db s)) = sv_sessionMgr s"
  "sv_sessionMgr (fst (handleVehicleState vid s)) = sv_sessionMgr s"
  by (auto simp: vehicle_ServeWS_def vehicle_message_def vehicle_disconnect_def handleVehiclesCreate_def
      handleVehicleDelete_def Let_def untouched_sessions [OF untouched_list] untouched_sessions [OF untouched_state]
      split: option.splits prod.splits sum.splits bool.splits store_error.splits)

lemma open_close_publisher [simp]:
  "ServeWS jwt secret up rq s = (s', rep) \<Longrightarrow> sv_sessionMgr s' = sv_sessionMgr s"
  "sfuPublisher (sv_sessionMgr (handleWSDisconnect ks now eid ws s)) = sfuPublisher (sv_sessionMgr s)"
  by (auto simp: ServeWS_def handleWSDisconnect_def auditWSDisconnect_def Let_def split: reply.splits prod.splits if_splits)

lemma step_keeps_publisher:
  assumes "world_step w w'"
  shows "sfuPublisher (sv_sessionMgr (w_server w')) = sfuPublisher (sv_sessionMgr (w_server w))"
  using assms
proof cases
  case (session_start k ks eid now role body)
  obtain s' rep where r: "handleSessionStart ks k eid now role body (w_server w) = (s', rep)" by (metis prod.exhaust)
  then show ?thesis
  proof (cases rule: start_cases)
    case rejected
    with r session_start(1) show ?thesis by simp
  next
    case (started vid oid m sess)
    with sfuPublisher_ops(1) [of k now vid oid "sv_sessionMgr (w_server w)"] r session_start(1)
    show ?thesis by (simp add: advance_fields)
  qed
next
  case (handover_confirm ks resp body)
  then show ?thesis by (cases rule: confirm_cases [OF refl, of ks resp body "w_server w"]) simp_all
next
  case (ws_message ws rnd marshal_ok write_ok msg)
  obtain s' ack go where p: "processWSMessage rnd marshal_ok write_ok ws msg (w_server w) = (s', ack, go)"
    by (metis prod.exhaust)
  then have "sv_sessionMgr s' = sv_sessionMgr (w_server w)" by (cases rule: processWSMessage_cases) auto
  with p ws_message(1) show ?thesis by simp
qed (auto simp: handleSessionEnd_def handleHandoverRequest_def handleHandoverCancel_def handleMediaEvent_def
      handleEmergencyStop_def with_handover_def handover_of_def RequestHandover_eq CancelHandover_def Let_def
      split: option.splits prod.splits if_splits)

lemma reachable_publisher: "reachable_world w \<Longrightarrow> sfuPublisher (sv_sessionMgr (w_server w))"
  unfolding reachable_world_def
proof (elim exE conjE)
  fix w0
  assume "world_step\<^sup>*\<^sup>* w0 w" and "initial_world w0"
  then show ?thesis
    by (induction rule: rtranclp_induct)
      (auto simp: initial_world_def newControlServer_def NewManager_def step_keeps_publisher)
qed

text \<open>With a single controlling session, every session event of an operation names it.\<close>

definition sole_controller :: "Session \<Rightarrow> Manager \<Rightarrow> bool" where
  "sole_controller cs m \<longleftrightarrow> sessions m (sess_ID cs) = Some cs \<and> is_active cs \<and>
     (\<forall>k x. sessions m k = Some x \<and> is_active x \<longrightarrow> k = sess_ID cs)"

lemma sole_push:
  assumes "sole_controller cs m" and "iter_order (sessions m) ks" and "sfuPublisher m"
  shows "session_events (PushSFUEvent ks ty m) = [(ty, sess_ID cs, sess_OperatorID cs)]"
proof -
  have "range_find is_active (sessions m) ks = Some (sess_ID cs, cs)"
    using assms(1,2) by (intro range_find_unique) (auto simp: sole_controller_def)
  with assms(3) show ?thesis by (simp add: PushSFUEvent_def)
qed

lemma sole_checkpoint [simp]: "sole_controller cs (SaveCheckpoint ks now a b c m) = sole_controller cs m"
  by (simp add: sole_controller_def)

text \<open>The effects an operation adds, and the session events among them.\<close>

definition adds_events :: "Server \<Rightarrow> Server \<Rightarrow> (string \<times> session_id \<times> operator_id) list \<Rightarrow> bool" where
  "adds_events s s' evs \<longleftrightarrow> (\<exists>es. sv_effects s' = sv_effects s @ es \<and> session_events es = evs)"

lemma adds_events_same: "sv_effects s' = sv_effects s \<Longrightarrow> adds_events s s' []"
  by (auto simp: adds_events_def)

lemma adds_events_trans: "adds_events s s1 a \<Longrightarrow> adds_events s1 s2 b \<Longrightarrow> adds_events s s2 (a @ b)"
  by (auto simp: adds_events_def)

lemma disconnect_events:
  assumes "\<not> wc_isObserver ws" and "GetSession (sv_sessionMgr s) (sess_ID (wc_sess ws)) \<noteq> None"
    and "sole_controller cs (sv_sessionMgr s)" and "iter_order (sessions (sv_sessionMgr s)) ks"
    and "sfuPublisher (sv_sessionMgr s)"
  shows "adds_events s (handleWSDisconnect ks now eid ws s) [(''SESSION_SAFE_MODE'', sess_ID cs, sess_OperatorID cs)]"
  using assms sole_push [of cs "SaveCheckpoint ks now a b c (sv_sessionMgr s)" ks "''SESSION_SAFE_MODE''" for a b c]
  by (auto simp: adds_events_def handleWSDisconnect_def auditWSDisconnect_def Get_def Let_def)

lemma emergency_vehicle_events:
  assumes "sole_controller cs (sv_sessionMgr s)" and "iter_order (sessions (sv_sessionMgr s)) ks"
    and "sfuPublisher (sv_sessionMgr s)"
  shows "adds_events s (emergency_stop_vehicle ks now eid v s)
    (if \<exists>x. GetSessionByVehicle (sv_sessionMgr s) v = Some x \<and> sess_ID x \<noteq> []
     then [(''SESSION_SAFE_MODE'', sess_ID cs, sess_OperatorID cs)] else [])"
  using assms sole_push [of cs "SaveCheckpoint ks now a b c (sv_sessionMgr s)" ks "''SESSION_SAFE_MODE''" for a b c]
  by (auto simp: adds_events_def emergency_stop_vehicle_def Let_def split: option.split)

lemma emergency_events:
  assumes "sole_controller cs (sv_sessionMgr s)" and "iter_order (sessions (sv_sessionMgr s)) ks"
    and "sfuPublisher (sv_sessionMgr s)"
  shows "\<exists>n. adds_events s (fold (emergency_stop_vehicle ks now eid) vs s)
      (replicate n (''SESSION_SAFE_MODE'', sess_ID cs, sess_OperatorID cs)) \<and>
    ((\<exists>v\<in>set vs. \<exists>x. GetSessionByVehicle (sv_sessionMgr s) v = Some x \<and> sess_ID x \<noteq> []) \<longrightarrow> 0 < n)"
  using assms
proof (induction vs arbitrary: s)
  case Nil
  then show ?case using adds_events_same [OF refl, of s] by (intro exI [of _ 0]) simp
next
  case (Cons v vs)
  let ?s1 = "emergency_stop_vehicle ks now eid v s"
  let ?e = "(''SESSION_SAFE_MODE'', sess_ID cs, sess_OperatorID cs)"
  let ?c = "\<exists>x. GetSessionByVehicle (sv_sessionMgr s) v = Some x \<and> sess_ID x \<noteq> []"
  have same: "GetSessionByVehicle (sv_sessionMgr ?s1) u = GetSessionByVehicle (sv_sessionMgr s) u" for u
    by (simp add: GetSessionByVehicle_def split: option.split)
  have "sole_controller cs (sv_sessionMgr ?s1)" using Cons.prems(1) by (simp add: sole_controller_def)
  with Cons.IH [of ?s1] Cons.prems(2,3) obtain n where
    n: "adds_events ?s1 (fold (emergency_stop_vehicle ks now eid) vs ?s1) (replicate n ?e)"
      "(\<exists>u\<in>set vs. \<exists>x. GetSessionByVehicle (sv_sessionMgr s) u = Some x \<and> sess_ID x \<noteq> []) \<longrightarrow> 0 < n"
    by (auto simp: same)
  from adds_events_trans [OF emergency_vehicle_events [OF Cons.prems, of now eid v] n(1)]
  have "adds_events s (fold (emergency_stop_vehicle ks now eid) (v # vs) s) (replicate (if ?c then Suc n else n) ?e)"
    by (auto split: if_splits)
  with n(2) show ?case by (intro exI [of _ "if ?c then Suc n else n"]) auto
qed

lemma control_lost_events:
  assumes "reachable_world w" and "control_lost ks w cs s'" and "sole_controller cs (sv_sessionMgr (w_server w))"
    and "iter_order (sessions (sv_sessionMgr (w_server w))) ks" and "sess_ID cs \<noteq> []"
  obtains n where "adds_events (w_server w) s' (replicate (Suc n) (''SESSION_SAFE_MODE'', sess_ID cs, sess_OperatorID cs))"
proof -
  let ?s = "w_server w" and ?e = "(''SESSION_SAFE_MODE'', sess_ID cs, sess_OperatorID cs)"
  note pub = reachable_publisher [OF assms(1)] and gsa = reachable_gsa [OF assms(1)]
  have ctl: "vehicleController (sv_sessionMgr ?s) (sess_VehicleID cs) = Some (sess_ID cs)"
    using assms(3) gsa_inv_active [OF gsa] by (auto simp: sole_controller_def)
  from assms(2) show thesis
  proof cases
    case (connection ws now eid)
    have "adds_events ?s s' [?e]"
      unfolding connection(1) using disconnect_events [OF connection(3) _ assms(3,4) pub] connection(4) by simp
    then show thesis by (intro that [of 0]) simp
  next
    case (emergency vid now eids)
    let ?vs = "if vid = [] then ActiveVehicleIDs ks (sv_sessionMgr ?s) else [vid]"
    have "sess_VehicleID cs \<in> set ?vs"
      using emergency(2) controlled_is_target [OF gsa assms(4) ctl] by auto
    moreover have "GetSessionByVehicle (sv_sessionMgr ?s) (sess_VehicleID cs) = Some cs"
      using ctl assms(3) by (simp add: GetSessionByVehicle_def sole_controller_def)
    ultimately have hit: "\<exists>v\<in>set ?vs. \<exists>x. GetSessionByVehicle (sv_sessionMgr ?s) v = Some x \<and> sess_ID x \<noteq> []"
      using assms(5) by blast
    from emergency_events [OF assms(3,4) pub, of now eids ?vs] hit
    obtain n where "adds_events ?s s' (replicate n ?e)" "0 < n"
      unfolding emergency(1) handleEmergencyStop_def Let_def by auto
    then show thesis by (cases n) (auto intro: that)
  qed
qed

lemma control_lost_machine:
  assumes "reachable_world w" and "control_lost ks w cs s'" and "is_active cs"
    and "iter_order (sessions (sv_sessionMgr (w_server w))) ks"
  shows "System (machine_of s' (sess_VehicleID cs)) = StateSafeMode \<and>
    Control (machine_of s' (sess_VehicleID cs)) = ControlBlocked"
  using assms(2)
proof cases
  case (connection ws now eid)
  have "sessions (sv_sessionMgr s') = sessions (sv_sessionMgr (w_server w))"
    using calm_operator_disconnect [OF connection(3)] connection(1) by (simp add: calm_def)
  with connection(4) have "GetSession (sv_sessionMgr s') (sess_ID (wc_sess ws)) = Some cs" by (simp add: GetSession_def)
  from disconnect_safe [OF assms(1) connection(2,3,1) this assms(3)] show ?thesis .
next
  case (emergency vid now eids)
  let ?m = "sv_sessionMgr (w_server w)" and ?v = "sess_VehicleID cs"
  let ?vs = "if vid = [] then ActiveVehicleIDs ks ?m else [vid]"
  have ctl: "vehicleController ?m ?v = Some (sess_ID cs)"
    using emergency(3) assms(3) gsa_inv_active [OF reachable_gsa [OF assms(1)]] by (auto simp: GetSession_def)
  then have "?v \<in> set ?vs"
    using emergency(2) controlled_is_target [OF reachable_gsa [OF assms(1)] assms(4)] by auto
  moreover have "distinct ?vs" by (simp add: ActiveVehicleIDs_def distinct_dedup_by)
  ultimately have "machine_of s' ?v = TransitionSystem StateSafeMode (machine_of (w_server w) ?v)"
    using emergency_stop_vehicles_machine [of ?vs] unfolding emergency(1) by (simp add: handleEmergencyStop_def)
  then show ?thesis
    using safe_mode_result [OF assms(1) refl, of ?v] reachable_machine(3) [OF assms(1), of ?v] ctl by simp
qed


text \<open>SAFE_MODE of one session does not touch what is forwarded for another, unless they share a peer.\<close>

lemma safe_mode_elsewhere:
  assumes "sid' \<noteq> sid"
    and "\<And>oid pr. peers sfu oid = Some pr \<Longrightarrow> oid \<in> set (case routing sfu sid of None \<Rightarrow> [] | Some ids \<Rightarrow> ids) \<Longrightarrow>
      peer_SessionID pr \<noteq> sid'"
  shows "forwardTrack sid (HandleSessionEvent (SessionEvent.make ''SESSION_SAFE_MODE'' sid' oid') sfu) = forwardTrack sid sfu"
proof -
  let ?sfu1 = "sfu\<lparr>sfu_state := (sfu_state sfu)(sid' \<mapsto> ''SESSION_SAFE_MODE'')\<rparr>"
  have h: "HandleSessionEvent (SessionEvent.make ''SESSION_SAFE_MODE'' sid' oid') sfu = dropStreams sid' ?sfu1"
    by (simp add: HandleSessionEvent_def session_event_defs Let_def)
  have "peers (dropStreams sid' ?sfu1) oid = peers sfu oid"
    if "oid \<in> set (case routing sfu sid of None \<Rightarrow> [] | Some ids \<Rightarrow> ids)" for oid
    using assms(2) [of oid] that by (auto simp: dropStreams_def split: option.split)
  then have "map (\<lambda>oid. case peers (dropStreams sid' ?sfu1) oid of None \<Rightarrow> [] | Some pr \<Rightarrow> map (Pair oid) (peer_Tracks pr))
      (case routing sfu sid of None \<Rightarrow> [] | Some ids \<Rightarrow> ids) =
    map (\<lambda>oid. case peers sfu oid of None \<Rightarrow> [] | Some pr \<Rightarrow> map (Pair oid) (peer_Tracks pr))
      (case routing sfu sid of None \<Rightarrow> [] | Some ids \<Rightarrow> ids)"
    by (intro map_cong refl) simp
  then show ?thesis unfolding h forwardTrack_def using assms(1) by (simp del: map_eq_conv)
qed

definition demo_controller :: Session where
  "demo_controller = \<lparr>sess_ID = ''s1'', sess_VehicleID = ''v1'', sess_OperatorID = ''alice'',
     sess_OperatorRole = RoleActiveOperator, sess_CreatedAt = 0\<rparr>"

section \<open>Properties\<close>

text \<open>C7: when the operator of the only controlled vehicle loses the connection, or an emergency stop hits the
  vehicle, the vehicle is in SAFE_MODE with commands blocked and at least one session event is sent to the media
  forwarding unit. In whatever order these requests arrive, however many of them are lost but one, the unit drops
  and closes every peer of the session at once and forwards no packet of it until it is told otherwise.\<close>

theorem media_stops_with_control:
  assumes "reachable_world w" and "control_lost ks w cs s'" and "sole_controller cs (sv_sessionMgr (w_server w))"
    and "iter_order (sessions (sv_sessionMgr (w_server w))) ks" and "sess_ID cs \<noteq> []"
    and "sv_effects s' = sv_effects (w_server w) @ es"
  shows "System (machine_of s' (sess_VehicleID cs)) = StateSafeMode \<and>
    Control (machine_of s' (sess_VehicleID cs)) = ControlBlocked \<and> session_events es \<noteq> [] \<and>
    (\<forall>evs sfu sfu'. arrivals es evs \<and> (sfu_step_without (sess_ID cs))\<^sup>*\<^sup>* (arrive evs sfu) sfu' \<longrightarrow>
       peers_of (sess_ID cs) (arrive evs sfu) = {} \<and> forwardTrack (sess_ID cs) sfu' = [])"
proof -
  let ?e = "(''SESSION_SAFE_MODE'', sess_ID cs, sess_OperatorID cs)"
  obtain n where "adds_events (w_server w) s' (replicate (Suc n) ?e)"
    by (rule control_lost_events [OF assms(1-5)])
  with assms(6) have es: "session_events es = replicate (Suc n) ?e" by (auto simp: adds_events_def)
  have quiet: "peers_of (sess_ID cs) (arrive evs sfu) = {} \<and> forwardTrack (sess_ID cs) sfu' = []"
    if a: "arrivals es evs" and st: "(sfu_step_without (sess_ID cs))\<^sup>*\<^sup>* (arrive evs sfu) sfu'" for evs sfu sfu'
  proof -
    have "set (map snd evs) = set (session_events es)" using a unfolding arrivals_def by (metis set_mset_mset)
    then have "snd e = ?e" if "e \<in> set evs" for e using that es by auto
    moreover have "\<exists>e\<in>set evs. fst e" using a by (simp add: arrivals_def)
    ultimately obtain sfu0 where
      "arrive evs sfu = HandleSessionEvent (SessionEvent.make ''SESSION_SAFE_MODE'' (sess_ID cs) (sess_OperatorID cs)) sfu0"
      using arrive_last by blast
    from sfu_safe_mode_silent [OF _ _ this st] show ?thesis by (simp add: EventSafeMode_def)
  qed
  have "is_active cs" using assms(3) by (simp add: sole_controller_def)
  from control_lost_machine [OF assms(1,2) this assms(4)] es quiet show ?thesis by auto
qed

theorem media_stops_with_control_witness:
  "\<exists>s' es evs. control_lost [''s1''] demo_session demo_controller s' \<and>
     sv_effects s' = sv_effects (w_server demo_session) @ es \<and> arrivals es evs \<and>
     forwardTrack ''s1'' demo_sfu = [(''alice'', 10)] \<and> forwardTrack ''s1'' (arrive evs demo_sfu) = []"
proof -
  let ?s = "w_server demo_session" and ?k = "[''s1'']"
  let ?s' = "fst (handleEmergencyStop ?k 0 (\<lambda>_. []) ''v1'' ?s)"
  have m: "sessions (sv_sessionMgr ?s) = [''s1'' \<mapsto> demo_controller]"
    by (simp add: demo_session_manager StartSession_def NewManager_def demo_controller_def Let_def)
  have sole: "sole_controller demo_controller (sv_sessionMgr ?s)"
    by (simp add: sole_controller_def m demo_controller_def is_active_def)
  have ord: "iter_order (sessions (sv_sessionMgr ?s)) ?k" by (simp add: iter_order_def m)
  have lost: "control_lost ?k demo_session demo_controller ?s'"
    by (rule control_lost.emergency) (simp_all add: GetSession_def m, simp_all add: demo_controller_def)
  have id: "sess_ID demo_controller = ''s1''" by (simp add: demo_controller_def)
  obtain n where "adds_events ?s ?s' (replicate (Suc n) (''SESSION_SAFE_MODE'', ''s1'', sess_OperatorID demo_controller))"
    using control_lost_events [OF demo_session_reachable lost sole ord] id by auto
  then obtain es where es: "sv_effects ?s' = sv_effects ?s @ es"
    "session_events es = replicate (Suc n) (''SESSION_SAFE_MODE'', ''s1'', sess_OperatorID demo_controller)"
    by (auto simp: adds_events_def)
  let ?evs = "map (Pair True) (session_events es)"
  have a: "arrivals es ?evs" using es(2) by (auto simp: arrivals_def comp_def)
  have "forwardTrack ''s1'' (arrive ?evs demo_sfu) = []"
    using media_stops_with_control [OF demo_session_reachable lost sole ord _ es(1)] id a by auto
  moreover have "forwardTrack ''s1'' demo_sfu = [(''alice'', 10)]"
    by (simp add: demo_sfu_def SubscribeOperator_def registerOperatorSubscription_def HandleSessionEvent_def
        NewSFU_def forwardTrack_def session_event_defs Let_def)
  ultimately show ?thesis using lost es(1) a by blast
qed

text \<open>Without the restriction to a single controlled vehicle this fails: the event that is meant for one session
  can name another. There is then an iteration order of the session loop in which the loss of the operator of
  \<open>ws\<close> is reported for the session \<open>other\<close> instead, and the unit goes on forwarding the session of \<open>ws\<close> to its
  operators as before.\<close>

theorem media_survives_loss:
  assumes "reachable_world w" and "\<not> wc_isObserver ws" and "sid = sess_ID (wc_sess ws)"
    and "GetSession (sv_sessionMgr (w_server w)) sid \<noteq> None"
    and "sessions (sv_sessionMgr (w_server w)) (sess_ID other) = Some other" and "is_active other" and "sess_ID other \<noteq> sid"
    and "finite (dom (sessions (sv_sessionMgr (w_server w))))"
    and "\<And>oid pr. peers sfu oid = Some pr \<Longrightarrow> oid \<in> set (case routing sfu sid of None \<Rightarrow> [] | Some ids \<Rightarrow> ids) \<Longrightarrow>
      peer_SessionID pr \<noteq> sess_ID other"
  shows "\<exists>ks es. iter_order (sessions (sv_sessionMgr (w_server w))) ks \<and>
    sv_effects (handleWSDisconnect ks now eid ws (w_server w)) = sv_effects (w_server w) @ es \<and>
    session_events es = [(''SESSION_SAFE_MODE'', sess_ID other, sess_OperatorID other)] \<and>
    (\<forall>evs. arrivals es evs \<longrightarrow> forwardTrack sid (arrive evs sfu) = forwardTrack sid sfu)"
proof -
  let ?m = "sv_sessionMgr (w_server w)" and ?e = "(''SESSION_SAFE_MODE'', sess_ID other, sess_OperatorID other)"
  obtain ks where ks: "iter_order (sessions ?m) ks"
    "range_find is_active (sessions ?m) ks = Some (sess_ID other, other)"
    by (rule chosen_first [OF assms(5,8), of is_active, OF assms(6)])
  have pub: "sfuPublisher ?m" by (rule reachable_publisher) fact
  have "session_events (PushSFUEvent ks ty (SaveCheckpoint ks t a b c ?m)) = [(ty, sess_ID other, sess_OperatorID other)]" for ty t a b c
    using ks(2) pub by (simp add: PushSFUEvent_def)
  then have "adds_events (w_server w) (handleWSDisconnect ks now eid ws (w_server w)) [?e]"
    using assms(2-4) by (auto simp: adds_events_def handleWSDisconnect_def auditWSDisconnect_def Get_def Let_def)
  then obtain es where es: "sv_effects (handleWSDisconnect ks now eid ws (w_server w)) = sv_effects (w_server w) @ es"
    "session_events es = [?e]" by (auto simp: adds_events_def)
  have "forwardTrack sid (arrive evs sfu) = forwardTrack sid sfu" if "arrivals es evs" for evs
  proof -
    from that es(2) have "evs = [(True, ?e)]"
      by (cases evs) (auto simp: arrivals_def)
    then show ?thesis using safe_mode_elsewhere [OF assms(7,9)] by (simp add: arrive_def publish_session_event_def handleSessionEvent_def)
  qed
  with ks(1) es show ?thesis by blast
qed

end
