(* ===== verification/Safety_Reporting.thy ===== *)
theory Safety_Reporting
  imports Control_Mux
begin

text \<open>
  The control server and the safety service together: which entries into SAFE_MODE the control server reports
  (\<open>internal/controlserver/safety/http_publisher.go\<close>), and what the safety service then knows. A report is a POST
  whose failure is only logged; \<open>reached\<close> says whether it got through and \<open>now\<close> when it arrived.
\<close>

section \<open>Publishing to the safety service\<close>

definition http_TriggerEmergencyStop :: "bool \<Rightarrow> instant \<Rightarrow> session_id \<Rightarrow> vehicle_id \<Rightarrow> string \<Rightarrow> Bus \<Rightarrow> Bus" where
  "http_TriggerEmergencyStop reached now sid vid reason b =
     (if reached
      then fst (newSafetyMux now (PostEmergencyStop (Some \<lparr>esr_session_id = sid, esr_vehicle_id = vid, esr_reason = reason\<rparr>)) b)
      else b)"

definition http_PublishEvent :: "bool \<Rightarrow> instant \<Rightarrow> SafetyEvent \<Rightarrow> Bus \<Rightarrow> Bus" where
  "http_PublishEvent reached now event b =
     (if reached then fst (newSafetyMux now (PostEvent (Some event)) b) else b)"

text \<open>An effect of the control server as the safety service sees it.\<close>

fun notify :: "bool \<times> instant \<times> effect \<Rightarrow> Bus \<Rightarrow> Bus" where
  "notify (reached, now, PublishEvent event) = http_PublishEvent reached now event"
| "notify (reached, now, PostEmergencyStopToBus sid vid reason) = http_TriggerEmergencyStop reached now sid vid reason"
| "notify _ = id"

fun safety_notice :: "effect \<Rightarrow> bool" where
  "safety_notice (PublishEvent _) = True"
| "safety_notice (PostEmergencyStopToBus _ _ _) = True"
| "safety_notice _ = False"

lemma notify_SafeMode:
  "SafeMode (bus_state (notify (reached, now, e) b)) \<longleftrightarrow> SafeMode (bus_state b) \<or> reached \<and> safety_notice e"
  by (cases e)
    (simp_all add: http_PublishEvent_def http_TriggerEmergencyStop_def bus_defs)

lemma notify_all_SafeMode:
  "SafeMode (bus_state (fold notify ns b)) \<longleftrightarrow>
     SafeMode (bus_state b) \<or> (\<exists>(reached, now, e)\<in>set ns. reached \<and> safety_notice e)"
proof (induction ns arbitrary: b)
  case (Cons n ns)
  obtain reached now e where "n = (reached, now, e)" by (cases n)
  with Cons show ?case by (simp add: notify_SafeMode disj_assoc)
qed simp

section \<open>Which steps report\<close>

definition enters :: "vehicle_id \<Rightarrow> Server \<Rightarrow> Server \<Rightarrow> bool" where
  "enters v s s' \<longleftrightarrow> System (machine_of s v) \<noteq> StateSafeMode \<and> System (machine_of s' v) = StateSafeMode"

definition reported :: "Server \<Rightarrow> Server \<Rightarrow> bool" where
  "reported s s' \<longleftrightarrow> (\<exists>es. sv_effects s' = sv_effects s @ es \<and> ((\<exists>v. enters v s s') \<longrightarrow> (\<exists>e\<in>set es. safety_notice e)))"

lemma reported_emit: "(\<And>v. enters v s s' \<Longrightarrow> \<exists>e\<in>set es. safety_notice e) \<Longrightarrow> sv_effects s' = sv_effects s @ es \<Longrightarrow> reported s s'"
  by (auto simp: reported_def)

lemma reported_same: "(\<And>v. \<not> enters v s s') \<Longrightarrow> sv_effects s' = sv_effects s \<Longrightarrow> reported s s'"
  by (auto simp: reported_def)

lemma reported_refl [simp]: "reported s s"
  by (simp add: reported_def enters_def)

lemma into_safe_mode:
  "System (TransitionMedia x m) = StateSafeMode \<Longrightarrow> System m = StateSafeMode"
  "System (TransitionSystem StateIdle m) = StateSafeMode \<Longrightarrow> System m = StateSafeMode"
  "os \<noteq> OpNoOperator \<Longrightarrow> System (TransitionOperator os m) = System m"
  "System (started_machine m) = StateSafeMode \<Longrightarrow> System m = StateSafeMode"
  by (auto simp: System_ops started_machine_def split: if_splits)

lemma reported_background:
  assumes "background (context_of s vid) c' es"
  shows "reported s (emit es (on_ctx vid (\<lambda>_. c') s))"
proof -
  have "(\<exists>e\<in>set es. safety_notice e) \<or> (System (vc_SM c') = StateSafeMode \<longrightarrow> System (vc_SM (context_of s vid)) = StateSafeMode)"
    using assms
  proof (induction "context_of s vid" c' es rule: background.induct)
    case (telemetry_poll i res)
    then show ?case
      by (auto simp: telemetry_poll_def telemetry_run_tick_def telemetry_tick_def System_ops Let_def
          split: option.splits prod.splits if_splits)
  qed (auto simp: run_deadman_callback_def run_ack_callback_def run_vehicle_ack_callback_def expire_timers_def
    auth_tick_def deadman_fire_def ack_fire_def vehicle_ack_fire_def auth_run_tick_def auth_fire_def Let_def
    split: nat.splits prod.splits if_splits option.splits)
  then show ?thesis by (intro reported_emit [of _ _ es]) (auto simp: enters_def split: if_splits)
qed

lemma reported_bus:
  assumes "bus_run_tick StateMachine with_SM threshold now resp ids failures (sv_contexts s) = (f', r', es)"
  shows "reported s (emit es (s\<lparr>sv_contexts := r'\<rparr>))"
proof -
  have grow: "\<exists>es'. snd (triggerSafeModeFleetWide StateMachine with_SM now ids (r, es0)) = es0 @ es' \<and>
      (\<forall>v\<in>set ids. System (StateMachine r v) \<noteq> StateSafeMode \<longrightarrow> (\<exists>e\<in>set es'. safety_notice e))" for ids r es0
  proof (induction ids arbitrary: r es0)
    case (Cons v ids)
    obtain r1 es1 where t: "trip_vehicle StateMachine with_SM now v (r, es0) = (r1, es1)" by (metis prod.exhaust)
    obtain es2 where "snd (triggerSafeModeFleetWide StateMachine with_SM now ids (r1, es1)) = es1 @ es2"
      "\<forall>u\<in>set ids. System (StateMachine r1 u) \<noteq> StateSafeMode \<longrightarrow> (\<exists>e\<in>set es2. safety_notice e)"
      using Cons.IH [of r1 es1] by blast
    moreover have "StateMachine r1 u = (if u = v \<and> System (StateMachine r v) \<noteq> StateSafeMode
        then TransitionSystem StateSafeMode (StateMachine r u) else StateMachine r u)" for u
      using registry.trip_vehicle_machine [of now v r es0 u] t by simp
    ultimately show ?case
      using t by (cases "System (StateMachine r v) = StateSafeMode")
        (auto simp: triggerSafeModeFleetWide_def trip_vehicle_def split: if_splits)
  qed (simp add: triggerSafeModeFleetWide_def)
  have "\<exists>e\<in>set es. safety_notice e" if "enters v s (emit es (s\<lparr>sv_contexts := r'\<rparr>))" for v
    using that assms grow [of ids "sv_contexts s" "[]"] registry.trigger_machine [of now ids "sv_contexts s" "[]" v]
    by (auto simp: bus_run_tick_def enters_def machine_of_def split: prod.splits if_splits)
  then show ?thesis by (intro reported_emit) auto
qed

lemma reported_message: "reported s (fst (processWSMessage rnd marshal_ok write_ok ws msg s))"
proof -
  obtain s' ack go where p: "processWSMessage rnd marshal_ok write_ok ws msg s = (s', ack, go)" by (metis prod.exhaust)
  then have "reported s s'"
  proof (cases rule: processWSMessage_cases)
    case no_session
    then show ?thesis by (intro reported_same) (auto simp: enters_def acked_def split: if_splits)
  next
    case (handled cs b' r' es a s1)
    have m1: "StateMachine (sv_contexts s1) v = machine_of s v" for v
      using handled(3) by (simp add: machine_of_def [symmetric] message_received_def)
    have "\<exists>e\<in>set es. safety_notice e" if e: "enters v s s'" for v
    proof -
      have s': "machine_of s' v = StateMachine r' v"
        unfolding handled(5) by (simp add: acked_def)
      from handled(4) show ?thesis
      proof (cases rule: Handle_cases)
        case (dispatched c vc' ok err)
        then have "v = sess_VehicleID cs \<and> cmd_Type c = COMMAND_TYPE_EMERGENCY_STOP"
          using e s' m1 [of v] dispatch_machine [OF dispatched(3)]
          by (auto simp: enters_def StateMachine_def ctx_with_ctx_if simp del: vc_SM_ctx split: if_splits)
        with dispatched(3) show ?thesis by (auto simp: dispatch_def handleEmergencyStop_engine_def)
      qed (use e s' m1 [of v] in \<open>auto simp: enters_def\<close>)
    qed
    moreover have "sv_effects s' = sv_effects s @ es" using handled(3,5) by simp
    ultimately show ?thesis by (rule reported_emit)
  qed simp
  with p show ?thesis by simp
qed

lemma reported_emergency: "reported s (fst (handleEmergencyStop ks now eids vid s))"
proof -
  let ?f = "emergency_stop_vehicle ks now eids"
  have one: "\<exists>es. sv_effects (?f v t) = sv_effects t @ es \<and> (\<exists>e\<in>set es. safety_notice e)" for v t
    by (auto simp: emergency_stop_vehicle_def Let_def split: option.split)
  have "\<exists>es. sv_effects (fold ?f vs t) = sv_effects t @ es \<and> (vs \<noteq> [] \<longrightarrow> (\<exists>e\<in>set es. safety_notice e))" for vs t
  proof (induction vs arbitrary: t)
    case (Cons v vs)
    from one [of v t] Cons.IH [of "?f v t"] show ?case by force
  qed simp
  then have "reported t (fold ?f vs t)" for vs t
    unfolding reported_def by (cases "vs = []") (simp add: enters_def, metis)
  then show ?thesis by (simp add: handleEmergencyStop_def Let_def)
qed

lemma reported_start: "reported s (fst (handleSessionStart ks k eid now role b s))"
proof -
  obtain s' rep where r: "handleSessionStart ks k eid now role b s = (s', rep)" by (metis prod.exhaust)
  then have "reported s s'"
  proof (cases rule: start_cases)
    case (started vid oid m sess)
    let ?s1 = "s\<lparr>sv_sessionMgr := m\<rparr>"
    have "\<exists>es. sv_effects (advanceVehicleToActiveOperator ks now eid sess ?s1) = sv_effects s @ es"
      by (simp add: advanceVehicleToActiveOperator_def Let_def split: prod.split)
    moreover have "\<not> enters v s (advanceVehicleToActiveOperator ks now eid sess ?s1)" for v
      by (auto simp: enters_def advance_machine dest: into_safe_mode(4) split: if_splits)
    moreover have "reported s ?s1" by (rule reported_same) (simp_all add: enters_def)
    ultimately show ?thesis using started(5) by (auto simp: reported_def)
  qed simp
  with r show ?thesis by simp
qed

lemma reported_requests:
  "reported s (fst (handleHandoverRequest hb s))" "reported s (fst (handleHandoverCancel vb s))"
  by (auto simp: reported_def enters_def handleHandoverRequest_def handleHandoverCancel_def with_handover_def
      handover_of_def RequestHandover_eq CancelHandover_def machine_of_def StateMachine_with_SM_if
      into_safe_mode(3) Let_def split: option.splits prod.splits if_splits)

lemma reported_media: "reported s (fst (handleMediaEvent mb s))"
  by (auto simp: reported_def enters_def handleMediaEvent_def Let_def
      dest: into_safe_mode(1) split: option.splits prod.splits if_splits)

lemma reported_vehicle:
  "reported s (fst (vehicle_ServeWS jwt secret up db now a tok c s))"
  "reported s (vehicle_message vid ack s)" "reported s (vehicle_disconnect now vid s)"
  "reported s (fst (handleVehiclesCreate db now nb s))" "reported s (fst (handleVehicleDelete db vid s))"
  by (auto simp: reported_def enters_def vehicle_ServeWS_def vehicle_message_def vehicle_disconnect_def
      handleVehiclesCreate_def handleVehicleDelete_def Let_def
      split: option.splits prod.splits sum.splits bool.splits store_error.splits if_splits)

lemma reported_untouched: "untouched s s' \<Longrightarrow> reported s s'"
  by (intro reported_same) (auto simp: untouched_def enters_def machine_of_eq simp del: vc_SM_context_of)

lemma end_vehicles_effects [simp]: "sv_effects (fold end_vehicle vs s) = sv_effects s"
proof -
  have "sv_effects (end_vehicle v t) = sv_effects t" for v t by (simp add: end_vehicle_def split: option.split)
  then show ?thesis by (induction vs arbitrary: s) simp_all
qed

lemma reported_end: "reported s (fst (handleSessionEnd ks sid s))"
proof -
  have "distinct (ActiveVehicleIDs ks (sv_sessionMgr s))" by (simp add: ActiveVehicleIDs_def distinct_dedup_by)
  then have "\<not> enters v s (fst (handleSessionEnd ks sid s))" for v
    by (auto simp: enters_def handleSessionEnd_def end_vehicles_machine Let_def
        dest: into_safe_mode(2) split: option.splits if_splits)
  moreover have "\<exists>es. sv_effects (fst (handleSessionEnd ks sid s)) = sv_effects s @ es"
    by (simp add: handleSessionEnd_def Let_def split: option.split)
  ultimately show ?thesis by (auto simp: reported_def)
qed

lemma reported_confirm: "reported s (fst (handleHandoverConfirm ks resp b s))" (is "reported s ?s'")
proof -
  have "?s' = ?s'" by (rule refl)
  then have "\<not> enters v s ?s'" for v by (cases rule: confirm_cases) (auto simp: enters_def into_safe_mode(3))
  moreover have "\<exists>es. sv_effects ?s' = sv_effects s @ es"
    by (simp add: handleHandoverConfirm_def with_handover_def Let_def split: option.split prod.split)
  ultimately show ?thesis by (auto simp: reported_def)
qed

lemma reported_open:
  assumes "ServeWS jwt secret up rq s = (s', rep)"
  shows "reported s s'"
  using assms recover_system
  by (auto simp: reported_def enters_def ServeWS_def Let_def split: reply.splits prod.splits if_splits)

lemma reported_close:
  "sv_publisher s \<or> wc_isObserver ws \<Longrightarrow> reported s (handleWSDisconnect ks now eid ws s)"
  by (auto simp: reported_def enters_def handleWSDisconnect_def auditWSDisconnect_def Get_def Let_def split: if_splits)

text \<open>Every step but the loss of an operator's connection, when no publisher is wired.\<close>

lemma step_reported:
  assumes "world_step w w'"
  shows "reported (w_server w) (w_server w') \<or>
    (\<exists>ws\<in>set (w_open w). \<not> wc_isObserver ws \<and> \<not> sv_publisher (w_server w) \<and>
       (\<exists>ks now eid. w_server w' = handleWSDisconnect ks now eid ws (w_server w)))"
  using assms
proof cases
  case (ws_close ws ks now eid)
  then show ?thesis using reported_close [of "w_server w" ws ks now eid] by auto
qed (auto intro: reported_background reported_bus reported_message reported_emergency reported_start reported_requests
    reported_media reported_vehicle reported_end reported_confirm reported_open
    reported_untouched [OF untouched_list] reported_untouched [OF untouched_state])

section \<open>Properties\<close>



text \<open>The wiring never changes.\<close>

lemma end_vehicles_publisher [simp]: "sv_publisher (fold end_vehicle vs s) = sv_publisher s"
proof -
  have "sv_publisher (end_vehicle v t) = sv_publisher t" for v t by (simp add: end_vehicle_def split: option.split)
  then show ?thesis by (induction vs arbitrary: s) simp_all
qed

lemma emergency_publisher [simp]: "sv_publisher (fold (emergency_stop_vehicle ks now eids) vs s) = sv_publisher s"
proof -
  have "sv_publisher (emergency_stop_vehicle ks now eids v t) = sv_publisher t" for v t
    by (simp add: emergency_stop_vehicle_def Let_def split: option.split)
  then show ?thesis by (induction vs arbitrary: s) simp_all
qed

lemma untouched_publisher: "untouched s s' \<Longrightarrow> sv_publisher s' = sv_publisher s"
  by (auto simp: untouched_def)

lemma message_publisher: "sv_publisher (fst (processWSMessage rnd marshal_ok write_ok ws msg s)) = sv_publisher s"
proof -
  obtain s' ack go where p: "processWSMessage rnd marshal_ok write_ok ws msg s = (s', ack, go)" by (metis prod.exhaust)
  then have "sv_publisher s' = sv_publisher s" by (cases rule: processWSMessage_cases) auto
  with p show ?thesis by simp
qed

lemma handler_publisher:
  "sv_publisher (fst (handleSessionStart ks k eid now role b s)) = sv_publisher s"
  "sv_publisher (fst (handleSessionEnd ks sid s)) = sv_publisher s"
  "sv_publisher (fst (handleHandoverRequest hb s)) = sv_publisher s"
  "sv_publisher (fst (handleHandoverConfirm ks resp cb s)) = sv_publisher s"
  "sv_publisher (fst (handleHandoverCancel vb s)) = sv_publisher s"
  "sv_publisher (fst (handleMediaEvent mb s)) = sv_publisher s"
  "sv_publisher (fst (handleEmergencyStop ks now eids vid s)) = sv_publisher s"
  by (auto simp: handleSessionStart_def advanceVehicleToActiveOperator_def handleSessionEnd_def handleHandoverRequest_def
      handleHandoverConfirm_def handleHandoverCancel_def handleMediaEvent_def handleEmergencyStop_def with_handover_def Let_def
      split: option.splits prod.splits if_splits)

lemma connection_publisher:
  "ServeWS jwt secret up rq s = (s', rep) \<Longrightarrow> sv_publisher s' = sv_publisher s"
  "sv_publisher (handleWSDisconnect ks now eid ws s) = sv_publisher s"
  "sv_publisher (fst (vehicle_ServeWS jwt secret up db now a tok c s)) = sv_publisher s"
  "sv_publisher (vehicle_message vid ack s) = sv_publisher s" "sv_publisher (vehicle_disconnect now vid s) = sv_publisher s"
  "sv_publisher (fst (handleVehiclesCreate db now nb s)) = sv_publisher s"
  "sv_publisher (fst (handleVehicleDelete db vid s)) = sv_publisher s"
  by (auto simp: ServeWS_def handleWSDisconnect_def auditWSDisconnect_def vehicle_ServeWS_def vehicle_message_def
      vehicle_disconnect_def handleVehiclesCreate_def handleVehicleDelete_def Let_def
      split: option.splits prod.splits sum.splits bool.splits store_error.splits reply.splits if_splits)

lemma reachable_unwired: "reachable_world w \<Longrightarrow> \<not> sv_publisher (w_server w)"
  unfolding reachable_world_def
proof (elim exE conjE)
  fix w0
  assume "world_step\<^sup>*\<^sup>* w0 w" and "initial_world w0"
  then show ?thesis
  proof (induction rule: rtranclp_induct)
    case (step w1 w2)
    from step.hyps(2) step.IH [OF step.prems] show ?case
      by cases (auto simp: handler_publisher connection_publisher message_publisher
          untouched_publisher [OF untouched_list] untouched_publisher [OF untouched_state])
  qed (auto simp: initial_world_def newControlServer_def)
qed

text \<open>The exception is real: in every reachable state, losing the connection that controls a live vehicle brings the
  vehicle into SAFE_MODE and reports nothing.\<close>

theorem operator_loss_unreported:
  assumes "reachable_world w" and "ws \<in> set (w_open w)" and "\<not> wc_isObserver ws"
    and "GetSession (sv_sessionMgr (w_server w)) (sess_ID (wc_sess ws)) = Some cs" and "is_active cs"
    and "System (machine_of (w_server w) (sess_VehicleID cs)) \<noteq> StateSafeMode"
    and "s' = handleWSDisconnect ks now eid ws (w_server w)"
  shows "enters (sess_VehicleID cs) (w_server w) s' \<and>
    (\<exists>es. sv_effects s' = sv_effects (w_server w) @ es \<and> (\<forall>e\<in>set es. \<not> safety_notice e))"
proof
  have "GetSession (sv_sessionMgr s') (sess_ID (wc_sess ws)) = Some cs"
    using calm_operator_disconnect [OF assms(3)] assms(4,7) by (simp add: calm_def GetSession_def)
  from disconnect_safe [OF assms(1-3,7) this assms(5)] assms(6)
  show "enters (sess_VehicleID cs) (w_server w) s'" by (simp add: enters_def)
  have "\<forall>e\<in>set (write_audit aw ev). \<not> safety_notice e" for aw ev by (cases aw) (simp_all add: write_audit_def)
  moreover have "\<forall>e\<in>set (PushSFUEvent ks ty m). \<not> safety_notice e" for ty m
    by (auto simp: PushSFUEvent_def split: option.split)
  ultimately show "\<exists>es. sv_effects s' = sv_effects (w_server w) @ es \<and> (\<forall>e\<in>set es. \<not> safety_notice e)"
    using reachable_unwired [OF assms(1)] assms(3,4,7)
    by (auto simp: handleWSDisconnect_def auditWSDisconnect_def Get_def Let_def)
qed

end
