(* ===== verification/Telemetry_Service.thy ===== *)
theory Telemetry_Service
  imports Pollers Config
begin

text \<open>
  The telemetry service (\<open>internal/telemetryservice\<close>, \<open>cmd/telemetry-service/main.go\<close>): it keeps the latest
  telemetry event per vehicle and serves it over HTTP, where the control server's checker polls it. Decoding of
  the protocol buffer (\<open>unmarshal\<close>) and the broker's answers are parameters. The client behind \<open>MQTTConnection\<close>
  is a library; its in-memory stand-in \<open>FakeMQTTConnection\<close> is modelled.
\<close>

section \<open>Events\<close>

record CorrelationHeader =
  ch_EventId :: event_id
  ch_VehicleId :: vehicle_id
  ch_SessionId :: session_id
  ch_Timestamp :: "64 word"

record TelemetryEvent =
  te_Header :: "CorrelationHeader option"
  te_SpeedKmh :: float64
  te_BatteryPct :: float64
  te_Latitude :: float64
  te_Longitude :: float64
  te_Status :: string
  te_SteerCommanded :: float64
  te_ThrottleCommanded :: float64
  te_BrakeCommanded :: float64
  te_SteerActual :: float64
  te_ThrottleActual :: float64

section \<open>The client\<close>

text \<open>\<open>tc_subscribed\<close>: the broker delivers to this connection. The library forgets subscriptions when the connection
  is lost, and calls the connect handler after every connect and reconnect.\<close>

record Client =
  tc_latest :: "vehicle_id \<rightharpoonup> TelemetryEvent"
  tc_connected :: bool
  tc_subscribed :: bool

definition NewClient :: Client where
  "NewClient = \<lparr>tc_latest = Map.empty, tc_connected = False, tc_subscribed = False\<rparr>"

definition subscribe :: "bool \<Rightarrow> Client \<Rightarrow> Client" where
  "subscribe granted c = (if granted then c\<lparr>tc_subscribed := True\<rparr> else c)"

text \<open>\<open>Connect\<close> fails without a usable CA certificate or if the broker refuses; the flag says that it succeeded.\<close>

definition Connect :: "bool \<Rightarrow> bool \<Rightarrow> bool \<Rightarrow> Client \<Rightarrow> Client \<times> bool" where
  "Connect ca_ok broker_ok granted c =
     (if \<not> ca_ok then (c, False)
      else if \<not> broker_ok then (c, False)
      else (subscribe granted (c\<lparr>tc_connected := True\<rparr>), True))"

definition connection_lost :: "Client \<Rightarrow> Client" where
  "connection_lost c = c\<lparr>tc_connected := False, tc_subscribed := False\<rparr>"

definition reconnected :: "bool \<Rightarrow> Client \<Rightarrow> Client" where
  "reconnected granted c = subscribe granted (c\<lparr>tc_connected := True\<rparr>)"

definition handleMessage :: "(string \<Rightarrow> TelemetryEvent option) \<Rightarrow> string \<Rightarrow> Client \<Rightarrow> Client" where
  "handleMessage unmarshal payload c =
     (case unmarshal payload of
        None \<Rightarrow> c
      | Some event \<Rightarrow>
          let vehicleID = (case te_Header event of None \<Rightarrow> [] | Some h \<Rightarrow> ch_VehicleId h)
          in if vehicleID = [] then c else c\<lparr>tc_latest := (tc_latest c)(vehicleID \<mapsto> event)\<rparr>)"

definition GetLatest :: "Client \<Rightarrow> vehicle_id \<Rightarrow> TelemetryEvent option" where
  "GetLatest c v = tc_latest c v"

definition Disconnect :: "Client \<Rightarrow> Client" where
  "Disconnect c = (if tc_connected c then c\<lparr>tc_connected := False, tc_subscribed := False\<rparr> else c)"

section \<open>The endpoint\<close>

record telemetry_body =
  tb_vehicle_id :: vehicle_id
  tb_session_id :: session_id
  tb_event :: TelemetryEvent
  tb_timestamp :: "64 word"

definition GetHeader :: "(CorrelationHeader \<Rightarrow> 'a) \<Rightarrow> 'a \<Rightarrow> TelemetryEvent \<Rightarrow> 'a" where
  "GetHeader field zero e = (case te_Header e of None \<Rightarrow> zero | Some h \<Rightarrow> field h)"

definition latest_endpoint :: "string \<Rightarrow> Client \<Rightarrow> telemetry_body reply" where
  "latest_endpoint path c =
     (let vehicleID = trimPrefix path ''/telemetry/latest/''
      in if vehicleID = [] then HttpError StatusBadRequest ''vehicle_id required''
         else case GetLatest c vehicleID of
           None \<Rightarrow> HttpError StatusNotFound ''no telemetry for vehicle''
         | Some e \<Rightarrow> HttpOk StatusOK \<lparr>tb_vehicle_id = GetHeader ch_VehicleId [] e, tb_session_id = GetHeader ch_SessionId [] e,
             tb_event = e, tb_timestamp = GetHeader ch_Timestamp 0 e\<rparr>)"

text \<open>What the checker of the control server reads of the reply.\<close>

fun as_response :: "telemetry_body reply \<Rightarrow> telemetry_response" where
  "as_response (HttpError code msg) = Response code None"
| "as_response (HttpOk code body) = Response code (Some (tb_timestamp body))"

section \<open>The in-memory connection\<close>

record FakeMQTTConnection =
  fm_ConnectErr :: bool
  fm_SubscribeErr :: bool
  fm_connectCalls :: nat
  fm_connected :: bool
  fm_disconnectCalls :: nat
  fm_lastQuiesceMs :: nat
  fm_subscribedTopic :: string
  fm_handler :: bool

definition newFakeMQTTConnection :: FakeMQTTConnection where
  "newFakeMQTTConnection = \<lparr>fm_ConnectErr = False, fm_SubscribeErr = False, fm_connectCalls = 0, fm_connected = False,
     fm_disconnectCalls = 0, fm_lastQuiesceMs = 0, fm_subscribedTopic = [], fm_handler = False\<rparr>"

definition fm_Connect :: "FakeMQTTConnection \<Rightarrow> FakeMQTTConnection \<times> bool" where
  "fm_Connect f =
     (let f1 = f\<lparr>fm_connectCalls := fm_connectCalls f + 1\<rparr>
      in if fm_ConnectErr f then (f1, False) else (f1\<lparr>fm_connected := True\<rparr>, True))"

definition fm_Subscribe :: "string \<Rightarrow> FakeMQTTConnection \<Rightarrow> FakeMQTTConnection \<times> bool" where
  "fm_Subscribe topic f =
     (if fm_SubscribeErr f then (f, False) else (f\<lparr>fm_subscribedTopic := topic, fm_handler := True\<rparr>, True))"

definition fm_Disconnect :: "nat \<Rightarrow> FakeMQTTConnection \<Rightarrow> FakeMQTTConnection" where
  "fm_Disconnect quiesceMs f =
     f\<lparr>fm_disconnectCalls := fm_disconnectCalls f + 1, fm_lastQuiesceMs := quiesceMs, fm_connected := False\<rparr>"

text \<open>\<open>Deliver\<close> calls the registered handler and panics, \<open>None\<close>, if there is none.\<close>

definition Deliver :: "(string \<Rightarrow> 's \<Rightarrow> 's) \<Rightarrow> string \<Rightarrow> FakeMQTTConnection \<Rightarrow> 's \<Rightarrow> 's option" where
  "Deliver handler payload f s = (if fm_handler f then Some (handler payload s) else None)"

section \<open>The latest event wins\<close>

text \<open>The last event for a vehicle among the payloads received.\<close>

definition event_for :: "(string \<Rightarrow> TelemetryEvent option) \<Rightarrow> vehicle_id \<Rightarrow> string \<Rightarrow> TelemetryEvent option" where
  "event_for unmarshal v payload =
     (case unmarshal payload of
        Some e \<Rightarrow> if GetHeader ch_VehicleId [] e = v \<and> v \<noteq> [] then Some e else None
      | None \<Rightarrow> None)"

definition last_event :: "(string \<Rightarrow> TelemetryEvent option) \<Rightarrow> vehicle_id \<Rightarrow> string list \<Rightarrow> TelemetryEvent option" where
  "last_event unmarshal v payloads =
     (let es = List.map_filter (event_for unmarshal v) payloads in if es = [] then None else Some (last es))"

lemma handleMessage_latest:
  "GetLatest (handleMessage unmarshal p c) v =
     (case event_for unmarshal v p of Some e \<Rightarrow> Some e | None \<Rightarrow> GetLatest c v)"
  by (auto simp: handleMessage_def GetLatest_def event_for_def GetHeader_def Let_def split: option.split)

lemma received_latest: "GetLatest (fold (handleMessage unmarshal) ps NewClient) v = last_event unmarshal v ps"
proof (induction ps rule: rev_induct)
  case Nil
  show ?case by (simp add: GetLatest_def NewClient_def last_event_def map_filter_def)
next
  case (snoc p ps)
  have "last_event unmarshal v (ps @ [p]) = (case event_for unmarshal v p of Some e \<Rightarrow> Some e | None \<Rightarrow> last_event unmarshal v ps)"
    by (simp add: last_event_def map_filter_def Let_def split: option.split)
  with snoc show ?case by (simp add: handleMessage_latest split: option.split)
qed

text \<open>The watchdog of the control server sees the freshness of the last event a vehicle published. Whatever payloads
  the telemetry service has received from any vehicles, the checker's poll for a vehicle is negative if none of them was
  a readable event naming it, and otherwise compares the timestamp of the last such event with its clock (in
  milliseconds, away from the bounds of 64 bits).\<close>

theorem telemetry_end_to_end:
  assumes "v \<noteq> []" and "sint maxAge = limit * 1000000" and "0 \<le> sint now" and "sint now < 2 ^ 63 div 1000000"
    and "\<And>e. last_event unmarshal v ps = Some e \<Longrightarrow>
      0 \<le> sint (GetHeader ch_Timestamp 0 e) \<and> sint (GetHeader ch_Timestamp 0 e) < 2 ^ 63 div 1000000"
  shows "HasFreshTelemetry now
      (as_response (latest_endpoint (''/telemetry/latest/'' @ v) (fold (handleMessage unmarshal) ps NewClient))) maxAge =
    (case last_event unmarshal v ps of
       None \<Rightarrow> Some False
     | Some e \<Rightarrow> Some (sint now - sint (GetHeader ch_Timestamp 0 e) \<le> limit))"
proof (cases "last_event unmarshal v ps")
  case None
  with assms(1) show ?thesis
    by (simp add: latest_endpoint_def received_latest HasFreshTelemetry_def status_defs Let_def del: append.simps)
next
  case (Some e)
  have "sint (telemetry_age now (GetHeader ch_Timestamp 0 e)) = (sint now - sint (GetHeader ch_Timestamp 0 e)) * 1000000"
    using assms(3,4) assms(5) [OF Some] by (intro telemetry_age_sint) simp_all
  then have "sint (telemetry_age now (GetHeader ch_Timestamp 0 e)) \<le> sint maxAge \<longleftrightarrow>
      sint now - sint (GetHeader ch_Timestamp 0 e) \<le> limit"
    unfolding assms(2) by (simp only: mult_le_cancel_right_pos [of "1000000 :: int"])
  with Some assms(1) show ?thesis
    by (simp add: latest_endpoint_def received_latest HasFreshTelemetry_def status_defs Let_def del: append.simps)
qed

text \<open>After a lost connection no message is handled until the broker accepts the subscription again, and the connect
  handler asks for it on every reconnect.\<close>

lemma resubscribes: "tc_subscribed (reconnected True (connection_lost c))" "\<not> tc_subscribed (connection_lost c)"
  "tc_latest (reconnected b (connection_lost c)) = tc_latest c"
  by (simp_all add: reconnected_def subscribe_def connection_lost_def)

end
