(* ===== verification/Fleet_Data.thy ===== *)
theory Fleet_Data
  imports Prelude
begin

text \<open>
  The data of the fleet domain (\<open>internal/fleetservice/store.go\<close>, \<open>internal/fleetgateway/gateway.go\<close>):
  zones, stations, tasks, live status, alerts, and the matrix of task transitions. Optional columns and
  pointers are \<open>option\<close>s; the named string types stay strings, since requests carry arbitrary ones.
\<close>

section \<open>Rows\<close>

record Zone =
  z_ID :: string
  z_Name :: string
  z_Environment :: string
  z_SVGGeometry :: string
  z_GeoBounds :: "string option"
  z_CreatedAt :: instant

record Station =
  st_ID :: string
  st_ZoneID :: string
  st_Name :: string
  st_PositionX :: "float64 option"
  st_PositionY :: "float64 option"
  st_PositionLat :: "float64 option"
  st_PositionLon :: "float64 option"
  st_CreatedAt :: instant

record Task =
  t_ID :: string
  t_VehicleID :: vehicle_id
  t_FromStationID :: string
  t_ToStationID :: string
  t_Status :: string
  t_Priority :: int
  t_CreatedAt :: instant
  t_CompletedAt :: "instant option"
  t_StatusChangedBy :: "string option"
  t_AllowedTransitions :: "string list"

record TaskStatusHistoryEntry =
  th_ID :: string
  th_TaskID :: string
  th_FromStatus :: "string option"
  th_ToStatus :: string
  th_ChangedBy :: string
  th_ChangedAt :: instant

record VehicleStatus =
  vs_VehicleID :: vehicle_id
  vs_BatteryPct :: "float64 option"
  vs_Speed :: "float64 option"
  vs_PositionLat :: "float64 option"
  vs_PositionLon :: "float64 option"
  vs_PositionZoneID :: "string option"
  vs_PositionX :: "float64 option"
  vs_PositionY :: "float64 option"
  vs_AutonomyMode :: string
  vs_CurrentTaskID :: "string option"
  vs_UpdatedAt :: instant

record VehiclePositionHistoryPoint =
  ph_VehicleID :: vehicle_id
  ph_PositionLat :: float64
  ph_PositionLon :: float64
  ph_RecordedAt :: instant

record Alert =
  al_ID :: string
  al_VehicleID :: vehicle_id
  al_Severity :: string
  al_Message :: string
  al_CreatedAt :: instant
  al_AcknowledgedAt :: "instant option"
  al_AcknowledgedBy :: "string option"

record FleetVehicle =
  fv_ID :: vehicle_id
  fv_DisplayName :: string
  fv_VehicleType :: "string option"
  fv_Status :: "VehicleStatus option"

section \<open>Errors\<close>

datatype fleet_error = ErrTaskNotFound | ErrInvalidTransition | ErrVehicleNotFound | ErrStore

section \<open>Task transitions\<close>

definition TaskPending :: string where "TaskPending = ''pending''"
definition TaskInProgress :: string where "TaskInProgress = ''in_progress''"
definition TaskCompleted :: string where "TaskCompleted = ''completed''"
definition TaskCancelled :: string where "TaskCancelled = ''cancelled''"

lemmas task_status_defs = TaskPending_def TaskInProgress_def TaskCompleted_def TaskCancelled_def

definition taskTransitionSources :: "string \<Rightarrow> string list option" where
  "taskTransitionSources target =
     (if target = TaskInProgress then Some [TaskPending]
      else if target = TaskCompleted then Some [TaskInProgress]
      else if target = TaskCancelled then Some [TaskPending, TaskInProgress]
      else None)"

definition taskTransitionOrder :: "string list" where
  "taskTransitionOrder = [TaskInProgress, TaskCompleted, TaskCancelled]"

definition allowedTaskTransitions :: "string \<Rightarrow> string list" where
  "allowedTaskTransitions st =
     filter (\<lambda>target. case taskTransitionSources target of
                         None \<Rightarrow> False
                       | Some sources \<Rightarrow> st \<in> set sources) taskTransitionOrder"

text \<open>The edge relation of the matrix, and how many transitions a task in a status can still make.\<close>

definition task_edge :: "string \<Rightarrow> string \<Rightarrow> bool" where
  "task_edge from to \<longleftrightarrow> (\<exists>sources. taskTransitionSources to = Some sources \<and> from \<in> set sources)"

definition transitions_left :: "string \<Rightarrow> nat" where
  "transitions_left st = (if st = TaskPending then 2 else if st = TaskInProgress then 1 else 0)"

lemma task_edge_iff:
  "task_edge from to \<longleftrightarrow>
     from = TaskPending \<and> (to = TaskInProgress \<or> to = TaskCancelled) \<or>
     from = TaskInProgress \<and> (to = TaskCompleted \<or> to = TaskCancelled)"
  by (auto simp: task_edge_def taskTransitionSources_def task_status_defs split: if_splits)

lemma task_edge_decreases: "task_edge from to \<Longrightarrow> transitions_left to < transitions_left from"
  by (auto simp: task_edge_iff transitions_left_def task_status_defs)

lemma allowed_iff_edge: "to \<in> set (allowedTaskTransitions from) \<longleftrightarrow> task_edge from to"
  by (auto simp: allowedTaskTransitions_def taskTransitionOrder_def task_edge_def taskTransitionSources_def
      task_status_defs split: if_splits)

section \<open>Events of the gateway\<close>

text \<open>The zero \<open>time.Time\<close> of an event without a timestamp is \<open>None\<close>.\<close>

record VehicleStatusEvent =
  ve_VehicleID :: vehicle_id
  ve_BatteryPct :: "float64 option"
  ve_Speed :: "float64 option"
  ve_PositionLat :: "float64 option"
  ve_PositionLon :: "float64 option"
  ve_PositionZoneID :: "string option"
  ve_AutonomyMode :: string
  ve_CurrentTaskID :: "string option"
  ve_Timestamp :: "instant option"

record VehicleAlertEvent =
  vae_VehicleID :: vehicle_id
  vae_Severity :: string
  vae_Message :: string
  vae_Timestamp :: "instant option"

record TaskAssignment =
  ta_TaskID :: string
  ta_VehicleID :: vehicle_id
  ta_FromStationID :: string
  ta_ToStationID :: string
  ta_Priority :: int

text \<open>Topics of the message broker. The gateway subscribes with a wildcard for the vehicle.\<close>

definition StatusTopic :: "vehicle_id \<Rightarrow> string" where "StatusTopic v = ''fleet/'' @ v @ ''/status''"
definition AlertTopic :: "vehicle_id \<Rightarrow> string" where "AlertTopic v = ''fleet/'' @ v @ ''/alert''"
definition TaskTopic :: "vehicle_id \<Rightarrow> string" where "TaskTopic v = ''fleet/'' @ v @ ''/task''"

lemma topics_disjoint:
  "StatusTopic v \<noteq> AlertTopic v'" "StatusTopic v \<noteq> TaskTopic v'" "AlertTopic v \<noteq> TaskTopic v'"
  by (rule notI, drule arg_cong [of _ _ last], simp add: StatusTopic_def AlertTopic_def TaskTopic_def)+

end
