(* ===== verification/Fleet_Store.thy ===== *)
theory Fleet_Store
  imports Fleet_Data
begin

text \<open>
  \<open>PostgresFleetStore\<close> (\<open>internal/fleetservice/store.go\<close>): the tables as lists of rows in insertion order,
  with the constraints of the schema (primary keys, foreign keys, \<open>CHECK\<close>s) as the reasons for which a
  statement fails. \<open>up\<close> says whether a statement reaches the database (\<open>ups i\<close> for the \<open>i\<close>-th statement of an
  operation that runs several), \<open>now\<close> is the database clock, and generated ids are arguments and new.
  \<open>f4\<close> rounds to a \<open>REAL\<close> column (\<open>None\<close> out of range) and \<open>jsonb\<close> normalises a JSON text (\<open>None\<close> if it is none).
\<close>

section \<open>Tables\<close>

record vehicle_row =
  vr_id :: vehicle_id
  vr_display_name :: string
  vr_vehicle_type :: "string option"
  vr_created_at :: instant

record fleet_db =
  fd_vehicles :: "vehicle_row list"
  fd_zones :: "Zone list"
  fd_stations :: "Station list"
  fd_tasks :: "Task list"
  fd_history :: "TaskStatusHistoryEntry list"
  fd_status :: "VehicleStatus list"
  fd_positions :: "VehiclePositionHistoryPoint list"
  fd_alerts :: "Alert list"

definition empty_fleet_db :: fleet_db where
  "empty_fleet_db = \<lparr>fd_vehicles = [], fd_zones = [], fd_stations = [], fd_tasks = [], fd_history = [],
     fd_status = [], fd_positions = [], fd_alerts = []\<rparr>"

text \<open>Rows are found and replaced by their key.\<close>

definition row_for :: "('r \<Rightarrow> 'k) \<Rightarrow> 'k \<Rightarrow> 'r list \<Rightarrow> 'r option" where
  "row_for key k rows = find (\<lambda>r. key r = k) rows"

definition put_row :: "('r \<Rightarrow> 'k) \<Rightarrow> 'k \<Rightarrow> 'r \<Rightarrow> 'r list \<Rightarrow> 'r list" where
  "put_row key k r rows = map (\<lambda>x. if key x = k then r else x) rows"

definition exists_row :: "('r \<Rightarrow> 'k) \<Rightarrow> 'k \<Rightarrow> 'r list \<Rightarrow> bool" where
  "exists_row key k rows \<longleftrightarrow> (\<exists>r\<in>set rows. key r = k)"

lemma row_for_None: "row_for key k rows = None \<longleftrightarrow> \<not> exists_row key k rows"
  by (auto simp: row_for_def exists_row_def find_None_iff)

lemma row_for_Some: "row_for key k rows = Some r \<Longrightarrow> r \<in> set rows \<and> key r = k"
  unfolding row_for_def by (drule find_SomeD)

lemma row_for_exists: "exists_row key k rows \<longleftrightarrow> row_for key k rows \<noteq> None"
  by (simp add: row_for_None)

lemma row_for_put: "key r = k \<Longrightarrow> row_for key k' (put_row key k r rows) =
    (if k' = k then (if exists_row key k rows then Some r else None) else row_for key k' rows)"
  by (induction rows) (auto simp: row_for_def put_row_def exists_row_def)

lemma keys_put_row: "key r = k \<Longrightarrow> map key (put_row key k r rows) = map key rows"
  by (induction rows) (auto simp: put_row_def)

lemma row_for_snoc: "row_for key k (rows @ [r]) =
    (case row_for key k rows of Some x \<Rightarrow> Some x | None \<Rightarrow> if key r = k then Some r else None)"
  by (simp add: row_for_def find_append split: option.split)

section \<open>Vehicles, zones and stations\<close>

definition EnsureVehicleExists :: "bool \<Rightarrow> instant \<Rightarrow> vehicle_id \<Rightarrow> fleet_db \<Rightarrow> fleet_db \<times> (fleet_error + unit)" where
  "EnsureVehicleExists up now vid db =
     (if \<not> up then (db, Inl ErrStore)
      else if exists_row vr_id vid (fd_vehicles db) then (db, Inr ())
      else (db\<lparr>fd_vehicles := fd_vehicles db @
              [\<lparr>vr_id = vid, vr_display_name = vid, vr_vehicle_type = None, vr_created_at = now\<rparr>]\<rparr>, Inr ()))"

definition SetVehicleType :: "bool \<Rightarrow> vehicle_id \<Rightarrow> string \<Rightarrow> fleet_db \<Rightarrow> fleet_db \<times> (fleet_error + unit)" where
  "SetVehicleType up vid ty db =
     (if \<not> up then (db, Inl ErrStore)
      else if \<not> exists_row vr_id vid (fd_vehicles db) then (db, Inl ErrStore)
      else (db\<lparr>fd_vehicles :=
              map (\<lambda>r. if vr_id r = vid then r\<lparr>vr_vehicle_type := Some ty\<rparr> else r) (fd_vehicles db)\<rparr>, Inr ()))"

definition AddZone ::
  "(string \<Rightarrow> string option) \<Rightarrow> bool \<Rightarrow> instant \<Rightarrow> Zone \<Rightarrow> fleet_db \<Rightarrow> fleet_db \<times> (fleet_error + unit)" where
  "AddZone jsonb up now z db =
     (if \<not> up \<or> exists_row z_ID (z_ID z) (fd_zones db) \<or> z_Environment z \<notin> {''indoor'', ''outdoor''}
      then (db, Inl ErrStore)
      else
        case z_GeoBounds z of
          None \<Rightarrow> (db\<lparr>fd_zones := fd_zones db @ [z\<lparr>z_CreatedAt := now\<rparr>]\<rparr>, Inr ())
        | Some g \<Rightarrow>
            (case jsonb g of
               None \<Rightarrow> (db, Inl ErrStore)
             | Some g' \<Rightarrow>
                 (db\<lparr>fd_zones := fd_zones db @ [z\<lparr>z_CreatedAt := now, z_GeoBounds := Some g'\<rparr>]\<rparr>, Inr ())))"

definition ListZones :: "bool \<Rightarrow> fleet_db \<Rightarrow> fleet_error + Zone list" where
  "ListZones up db = (if up then Inr (sort_key z_CreatedAt (fd_zones db)) else Inl ErrStore)"

definition AddStation :: "bool \<Rightarrow> instant \<Rightarrow> Station \<Rightarrow> fleet_db \<Rightarrow> fleet_db \<times> (fleet_error + unit)" where
  "AddStation up now st db =
     (if \<not> up \<or> exists_row st_ID (st_ID st) (fd_stations db) \<or> \<not> exists_row z_ID (st_ZoneID st) (fd_zones db)
      then (db, Inl ErrStore)
      else (db\<lparr>fd_stations := fd_stations db @ [st\<lparr>st_CreatedAt := now\<rparr>]\<rparr>, Inr ()))"

definition ListStations :: "bool \<Rightarrow> fleet_db \<Rightarrow> fleet_error + Station list" where
  "ListStations up db = (if up then Inr (sort_key st_CreatedAt (fd_stations db)) else Inl ErrStore)"

section \<open>Tasks\<close>

definition task_status_ok :: "string \<Rightarrow> bool" where
  "task_status_ok st \<longleftrightarrow> st \<in> {TaskPending, TaskInProgress, TaskCompleted, TaskCancelled}"

text \<open>\<open>priority\<close> is a 32-bit \<open>INTEGER\<close> column; of the request only the inserted columns reach the row.\<close>

definition CreateTask ::
  "bool \<Rightarrow> instant \<Rightarrow> string \<Rightarrow> Task \<Rightarrow> fleet_db \<Rightarrow> fleet_db \<times> (fleet_error + Task)" where
  "CreateTask up now newID t db =
     (let t1 = t\<lparr>t_ID := newID, t_Status := (if t_Status t = [] then TaskPending else t_Status t)\<rparr> in
      if \<not> up \<or> \<not> exists_row vr_id (t_VehicleID t1) (fd_vehicles db)
         \<or> \<not> exists_row st_ID (t_FromStationID t1) (fd_stations db)
         \<or> \<not> exists_row st_ID (t_ToStationID t1) (fd_stations db)
         \<or> \<not> task_status_ok (t_Status t1) \<or> t_Priority t1 < - (2 ^ 31) \<or> 2 ^ 31 \<le> t_Priority t1
      then (db, Inl ErrStore)
      else
        let t2 = t1\<lparr>t_CreatedAt := now\<rparr>;
            row = t2\<lparr>t_CompletedAt := None, t_StatusChangedBy := None, t_AllowedTransitions := []\<rparr>
        in (db\<lparr>fd_tasks := fd_tasks db @ [row]\<rparr>,
            Inr (t2\<lparr>t_AllowedTransitions := allowedTaskTransitions (t_Status t2)\<rparr>)))"

definition with_allowed :: "Task \<Rightarrow> Task" where
  "with_allowed t = t\<lparr>t_AllowedTransitions := allowedTaskTransitions (t_Status t)\<rparr>"

definition ListTasks :: "bool \<Rightarrow> fleet_db \<Rightarrow> fleet_error + Task list" where
  "ListTasks up db =
     (if up then Inr (map with_allowed (rev (sort_key t_CreatedAt (fd_tasks db)))) else Inl ErrStore)"

definition recordTaskStatusTransition ::
  "(nat \<Rightarrow> bool) \<Rightarrow> instant \<Rightarrow> string \<Rightarrow> Task \<Rightarrow> string \<Rightarrow> string \<Rightarrow> fleet_db \<Rightarrow> fleet_db \<times> (fleet_error + unit)" where
  "recordTaskStatusTransition ups now newID t previousStatus changedBy db =
     (let terminal = (t_Status t = TaskCompleted \<or> t_Status t = TaskCancelled);
          db1 = (if terminal
                 then db\<lparr>fd_status := map (\<lambda>vs. if vs_VehicleID vs = t_VehicleID t \<and> vs_CurrentTaskID vs = Some (t_ID t)
                                               then vs\<lparr>vs_CurrentTaskID := None\<rparr> else vs) (fd_status db)\<rparr>
                 else db)
      in if terminal \<and> \<not> ups 1 then (db, Inl ErrStore)
         else if \<not> ups 2 then (db1, Inl ErrStore)
         else (db1\<lparr>fd_history := fd_history db1 @
                 [\<lparr>th_ID = newID, th_TaskID = t_ID t, th_FromStatus = Some previousStatus, th_ToStatus = t_Status t,
                   th_ChangedBy = changedBy, th_ChangedAt = now\<rparr>]\<rparr>, Inr ()))"

text \<open>The conditional update is one statement; the bookkeeping afterwards is not in its transaction.\<close>

definition UpdateTaskStatus ::
  "(nat \<Rightarrow> bool) \<Rightarrow> instant \<Rightarrow> string \<Rightarrow> string \<Rightarrow> string \<Rightarrow> string \<Rightarrow> fleet_db \<Rightarrow> fleet_db \<times> (fleet_error + Task)" where
  "UpdateTaskStatus ups now newID tid newStatus changedBy db =
     (case taskTransitionSources newStatus of
        None \<Rightarrow> (db, Inl ErrInvalidTransition)
      | Some sources \<Rightarrow>
          if \<not> ups 0 then (db, Inl ErrStore)
          else case row_for t_ID tid (fd_tasks db) of
            None \<Rightarrow> (db, Inl (if ups 1 then ErrTaskNotFound else ErrInvalidTransition))
          | Some t \<Rightarrow>
              if t_Status t \<notin> set sources then (db, Inl ErrInvalidTransition)
              else
                let t1 = t\<lparr>t_Status := newStatus,
                           t_CompletedAt := (if newStatus = TaskCompleted then Some now else t_CompletedAt t),
                           t_StatusChangedBy := Some changedBy\<rparr>;
                    (db2, res) = recordTaskStatusTransition ups now newID t1 (t_Status t) changedBy
                      (db\<lparr>fd_tasks := put_row t_ID tid t1 (fd_tasks db)\<rparr>)
                in (db2, case res of Inl e \<Rightarrow> Inl e | Inr _ \<Rightarrow> Inr (with_allowed t1)))"

definition GetTaskStatusHistory :: "(nat \<Rightarrow> bool) \<Rightarrow> string \<Rightarrow> fleet_db \<Rightarrow> fleet_error + TaskStatusHistoryEntry list" where
  "GetTaskStatusHistory ups tid db =
     (if \<not> ups 0 then Inl ErrStore
      else if \<not> exists_row t_ID tid (fd_tasks db) then Inl ErrTaskNotFound
      else if \<not> ups 1 then Inl ErrStore
      else Inr (sort_key th_ChangedAt (filter (\<lambda>h. th_TaskID h = tid) (fd_history db))))"

section \<open>Status, positions and alerts\<close>

definition real_opt :: "(float64 \<Rightarrow> float64 option) \<Rightarrow> float64 option \<Rightarrow> float64 option option" where
  "real_opt f4 x = (case x of None \<Rightarrow> Some None | Some v \<Rightarrow> map_option Some (f4 v))"

definition UpsertVehicleStatus ::
  "(float64 \<Rightarrow> float64 option) \<Rightarrow> bool \<Rightarrow> instant \<Rightarrow> VehicleStatus \<Rightarrow> fleet_db \<Rightarrow> fleet_db \<times> (fleet_error + unit)" where
  "UpsertVehicleStatus f4 up now vs db =
     (case (real_opt f4 (vs_BatteryPct vs), real_opt f4 (vs_Speed vs)) of
        (Some battery, Some speed) \<Rightarrow>
          if \<not> up \<or> \<not> exists_row vr_id (vs_VehicleID vs) (fd_vehicles db)
             \<or> (\<exists>z. vs_PositionZoneID vs = Some z \<and> \<not> exists_row z_ID z (fd_zones db))
             \<or> (\<exists>t. vs_CurrentTaskID vs = Some t \<and> \<not> exists_row t_ID t (fd_tasks db))
             \<or> vs_AutonomyMode vs \<notin> {''autonomous'', ''teleoperated'', ''manual''}
          then (db, Inl ErrStore)
          else
            let row = vs\<lparr>vs_BatteryPct := battery, vs_Speed := speed, vs_UpdatedAt := now\<rparr>
            in (db\<lparr>fd_status :=
                  (if exists_row vs_VehicleID (vs_VehicleID vs) (fd_status db)
                   then put_row vs_VehicleID (vs_VehicleID vs) row (fd_status db)
                   else fd_status db @ [row])\<rparr>, Inr ())
      | _ \<Rightarrow> (db, Inl ErrStore))"

definition positionHistoryMinInterval :: duration where "positionHistoryMinInterval = 10 * Second"
definition positionHistoryRetention :: duration where "positionHistoryRetention = 30 * 24 * Hour"

definition RecordPositionHistory ::
  "bool \<Rightarrow> instant \<Rightarrow> vehicle_id \<Rightarrow> float64 option \<Rightarrow> float64 option \<Rightarrow> fleet_db \<Rightarrow> fleet_db \<times> (fleet_error + unit)" where
  "RecordPositionHistory up now vid lat lon db =
     (case (lat, lon) of
        (Some la, Some lo) \<Rightarrow>
          if \<not> up then (db, Inl ErrStore)
          else if \<exists>p\<in>set (fd_positions db). ph_VehicleID p = vid \<and> now - positionHistoryMinInterval < ph_RecordedAt p
          then (db, Inr ())
          else if \<not> exists_row vr_id vid (fd_vehicles db) then (db, Inl ErrStore)
          else (db\<lparr>fd_positions := fd_positions db @
                  [\<lparr>ph_VehicleID = vid, ph_PositionLat = la, ph_PositionLon = lo, ph_RecordedAt = now\<rparr>]\<rparr>, Inr ())
      | _ \<Rightarrow> (db, Inr ()))"

definition GetVehiclePositionHistory ::
  "(nat \<Rightarrow> bool) \<Rightarrow> vehicle_id \<Rightarrow> fleet_db \<Rightarrow> fleet_error + VehiclePositionHistoryPoint list" where
  "GetVehiclePositionHistory ups vid db =
     (if \<not> ups 0 then Inl ErrStore
      else if \<not> exists_row vr_id vid (fd_vehicles db) then Inl ErrVehicleNotFound
      else if \<not> ups 1 then Inl ErrStore
      else Inr (sort_key ph_RecordedAt (filter (\<lambda>p. ph_VehicleID p = vid) (fd_positions db))))"

definition PruneVehiclePositionHistory :: "bool \<Rightarrow> instant \<Rightarrow> fleet_db \<Rightarrow> fleet_db \<times> (fleet_error + unit)" where
  "PruneVehiclePositionHistory up now db =
     (if \<not> up then (db, Inl ErrStore)
      else (db\<lparr>fd_positions := filter (\<lambda>p. \<not> ph_RecordedAt p < now - positionHistoryRetention) (fd_positions db)\<rparr>, Inr ()))"

text \<open>The query has no order; the model gives the insertion order.\<close>

definition ListVehicleStatus :: "bool \<Rightarrow> fleet_db \<Rightarrow> fleet_error + VehicleStatus list" where
  "ListVehicleStatus up db = (if up then Inr (fd_status db) else Inl ErrStore)"

definition ListVehiclesWithStatus :: "bool \<Rightarrow> fleet_db \<Rightarrow> fleet_error + FleetVehicle list" where
  "ListVehiclesWithStatus up db =
     (if up then Inr (map (\<lambda>v. \<lparr>fv_ID = vr_id v, fv_DisplayName = vr_display_name v, fv_VehicleType = vr_vehicle_type v,
                                fv_Status = row_for vs_VehicleID (vr_id v) (fd_status db)\<rparr>)
                       (sort_key vr_created_at (fd_vehicles db)))
      else Inl ErrStore)"

definition CreateAlert :: "bool \<Rightarrow> instant \<Rightarrow> string \<Rightarrow> Alert \<Rightarrow> fleet_db \<Rightarrow> fleet_db \<times> (fleet_error + Alert)" where
  "CreateAlert up now newID a db =
     (if \<not> up \<or> \<not> exists_row vr_id (al_VehicleID a) (fd_vehicles db) \<or> al_Severity a \<notin> {''info'', ''warning'', ''critical''}
      then (db, Inl ErrStore)
      else
        let a1 = a\<lparr>al_ID := newID, al_CreatedAt := now\<rparr>
        in (db\<lparr>fd_alerts := fd_alerts db @ [a1\<lparr>al_AcknowledgedAt := None, al_AcknowledgedBy := None\<rparr>]\<rparr>, Inr a1))"

definition ListAlerts :: "bool \<Rightarrow> fleet_db \<Rightarrow> fleet_error + Alert list" where
  "ListAlerts up db = (if up then Inr (rev (sort_key al_CreatedAt (fd_alerts db))) else Inl ErrStore)"

definition AcknowledgeAlert :: "bool \<Rightarrow> instant \<Rightarrow> string \<Rightarrow> string \<Rightarrow> fleet_db \<Rightarrow> fleet_db \<times> (fleet_error + unit)" where
  "AcknowledgeAlert up now aid by_op db =
     (if \<not> up then (db, Inl ErrStore)
      else if \<not> exists_row al_ID aid (fd_alerts db) then (db, Inl ErrStore)
      else (db\<lparr>fd_alerts := map (\<lambda>a. if al_ID a = aid
                                     then a\<lparr>al_AcknowledgedAt := Some now, al_AcknowledgedBy := Some by_op\<rparr> else a)
                             (fd_alerts db)\<rparr>, Inr ()))"

text \<open>The \<open>vehicles\<close> table is shared: the control server's registry deletes rows from it. The database refuses while
  a task, a status or an alert refers to the vehicle, and drops its positions with it.\<close>

definition DeleteVehicle :: "bool \<Rightarrow> vehicle_id \<Rightarrow> fleet_db \<Rightarrow> fleet_db \<times> (fleet_error + unit)" where
  "DeleteVehicle up v db =
     (if \<not> up \<or> exists_row t_VehicleID v (fd_tasks db) \<or> exists_row vs_VehicleID v (fd_status db) \<or>
         exists_row al_VehicleID v (fd_alerts db)
      then (db, Inl ErrStore)
      else if \<not> exists_row vr_id v (fd_vehicles db) then (db, Inl ErrVehicleNotFound)
      else (db\<lparr>fd_vehicles := filter (\<lambda>r. vr_id r \<noteq> v) (fd_vehicles db),
               fd_positions := filter (\<lambda>p. ph_VehicleID p \<noteq> v) (fd_positions db)\<rparr>, Inr ()))"

section \<open>Start-up\<close>

text \<open>The clean-up of the placeholder rows: both deletions run in one transaction, which fails if a deleted
  zone is still the zone of a vehicle's status. Then the backfill of the history (\<open>newIDs\<close> are the generated
  ids, one per task in the order of the query) and the first pruning.\<close>

definition hasSuffix :: "string \<Rightarrow> string \<Rightarrow> bool" where
  "hasSuffix s x \<longleftrightarrow> length x \<le> length s \<and> drop (length s - length x) s = x"

definition taskuiDemoSeedCleanup :: "fleet_db \<Rightarrow> fleet_db option" where
  "taskuiDemoSeedCleanup db =
     (let stations = filter (\<lambda>s. \<not> (hasSuffix (st_ID s) ''-taskui'' \<and>
                       (\<forall>t\<in>set (fd_tasks db). t_FromStationID t \<noteq> st_ID s \<and> t_ToStationID t \<noteq> st_ID s))) (fd_stations db);
          gone = (\<lambda>z. hasSuffix (z_ID z) ''-taskui'' \<and> (\<forall>s\<in>set stations. st_ZoneID s \<noteq> z_ID z))
      in if \<exists>z\<in>set (fd_zones db). gone z \<and> (\<exists>vs\<in>set (fd_status db). vs_PositionZoneID vs = Some (z_ID z)) then None
         else Some (db\<lparr>fd_stations := stations, fd_zones := filter (\<lambda>z. \<not> gone z) (fd_zones db)\<rparr>))"

definition queryLegacyTransitions :: "fleet_db \<Rightarrow> Task list" where
  "queryLegacyTransitions db =
     filter (\<lambda>t. t_Status t \<noteq> TaskPending \<and> t_StatusChangedBy t \<noteq> None \<and> \<not> exists_row th_TaskID (t_ID t) (fd_history db))
       (fd_tasks db)"

definition backfilledHistoryRow :: "string \<Rightarrow> Task \<Rightarrow> TaskStatusHistoryEntry" where
  "backfilledHistoryRow newID t =
     \<lparr>th_ID = newID, th_TaskID = t_ID t,
      th_FromStatus = (if t_Status t = TaskInProgress then Some TaskPending
                       else if t_Status t = TaskCompleted then Some TaskInProgress else None),
      th_ToStatus = t_Status t, th_ChangedBy = the (t_StatusChangedBy t),
      th_ChangedAt = (case t_CompletedAt t of Some c \<Rightarrow> c | None \<Rightarrow> t_CreatedAt t)\<rparr>"

definition backfillTaskStatusHistory :: "(nat \<Rightarrow> string) \<Rightarrow> fleet_db \<Rightarrow> fleet_db" where
  "backfillTaskStatusHistory newIDs db =
     db\<lparr>fd_history := fd_history db @
       map (\<lambda>(i, t). backfilledHistoryRow (newIDs i) t) (enumerate 0 (queryLegacyTransitions db))\<rparr>"

definition NewPostgresFleetStore :: "(nat \<Rightarrow> string) \<Rightarrow> instant \<Rightarrow> fleet_db \<Rightarrow> fleet_db \<times> (fleet_error + unit)" where
  "NewPostgresFleetStore newIDs now db =
     (case taskuiDemoSeedCleanup db of
        None \<Rightarrow> (db, Inl ErrStore)
      | Some db1 \<Rightarrow> PruneVehiclePositionHistory True now (backfillTaskStatusHistory newIDs db1))"

section \<open>The schema's guarantees\<close>

definition fleet_wf :: "fleet_db \<Rightarrow> bool" where
  "fleet_wf db \<longleftrightarrow>
     distinct (map vr_id (fd_vehicles db)) \<and> distinct (map z_ID (fd_zones db)) \<and>
     distinct (map st_ID (fd_stations db)) \<and> distinct (map t_ID (fd_tasks db)) \<and>
     distinct (map vs_VehicleID (fd_status db)) \<and>
     (\<forall>s\<in>set (fd_stations db). exists_row z_ID (st_ZoneID s) (fd_zones db)) \<and>
     (\<forall>t\<in>set (fd_tasks db). exists_row vr_id (t_VehicleID t) (fd_vehicles db) \<and>
        exists_row st_ID (t_FromStationID t) (fd_stations db) \<and> exists_row st_ID (t_ToStationID t) (fd_stations db) \<and>
        task_status_ok (t_Status t)) \<and>
     (\<forall>h\<in>set (fd_history db). exists_row t_ID (th_TaskID h) (fd_tasks db)) \<and>
     (\<forall>vs\<in>set (fd_status db). exists_row vr_id (vs_VehicleID vs) (fd_vehicles db) \<and>
        (\<forall>z. vs_PositionZoneID vs = Some z \<longrightarrow> exists_row z_ID z (fd_zones db)) \<and>
        (\<forall>t. vs_CurrentTaskID vs = Some t \<longrightarrow> exists_row t_ID t (fd_tasks db))) \<and>
     (\<forall>p\<in>set (fd_positions db). exists_row vr_id (ph_VehicleID p) (fd_vehicles db)) \<and>
     (\<forall>a\<in>set (fd_alerts db). exists_row vr_id (al_VehicleID a) (fd_vehicles db) \<and>
        al_Severity a \<in> {''info'', ''warning'', ''critical''})"

lemma exists_row_append [simp]: "exists_row key k (xs @ ys) \<longleftrightarrow> exists_row key k xs \<or> exists_row key k ys"
  by (auto simp: exists_row_def)

lemma exists_row_single [simp]: "exists_row key k [r] \<longleftrightarrow> key r = k" "\<not> exists_row key k []"
  by (auto simp: exists_row_def)

lemma exists_row_map: "exists_row key k rows \<longleftrightarrow> k \<in> set (map key rows)"
  by (auto simp: exists_row_def)

lemma exists_row_put: "key r = k \<Longrightarrow> exists_row key k' (put_row key k r rows) \<longleftrightarrow> exists_row key k' rows"
  by (simp add: exists_row_map keys_put_row del: set_map)

lemma set_put_row: "x \<in> set (put_row key k r rows) \<Longrightarrow> x = r \<or> x \<in> set rows"
  by (auto simp: put_row_def split: if_splits)

lemma map_update_keys: "(\<And>r. key (f r) = key r) \<Longrightarrow> map key (map (\<lambda>r. if P r then f r else r) rows) = map key rows"
  by auto

lemma exists_row_update: "(\<And>r. key (f r) = key r) \<Longrightarrow>
    exists_row key k (map (\<lambda>r. if P r then f r else r) rows) \<longleftrightarrow> exists_row key k rows"
  by (simp add: exists_row_map map_update_keys del: set_map map_map)

lemma wf_vehicles:
  "fleet_wf db \<Longrightarrow> fleet_wf (fst (EnsureVehicleExists up now vid db))"
  "fleet_wf db \<Longrightarrow> fleet_wf (fst (SetVehicleType up vid ty db))"
proof -
  show "fleet_wf db \<Longrightarrow> fleet_wf (fst (EnsureVehicleExists up now vid db))"
    by (auto simp: EnsureVehicleExists_def fleet_wf_def exists_row_map)
  show "fleet_wf db \<Longrightarrow> fleet_wf (fst (SetVehicleType up vid ty db))"
    by (auto simp: SetVehicleType_def fleet_wf_def exists_row_update map_update_keys simp del: map_map)
qed

lemma wf_zone: "fleet_wf db \<Longrightarrow> fleet_wf (fst (AddZone jsonb up now z db))"
  by (auto simp: AddZone_def fleet_wf_def exists_row_map split: option.split)

lemma wf_station: "fleet_wf db \<Longrightarrow> fleet_wf (fst (AddStation up now st db))"
  by (auto simp: AddStation_def fleet_wf_def exists_row_map)

lemma wf_create_task:
  "fleet_wf db \<Longrightarrow> \<not> exists_row t_ID newID (fd_tasks db) \<Longrightarrow> fleet_wf (fst (CreateTask up now newID t db))"
  by (auto simp: CreateTask_def fleet_wf_def exists_row_map Let_def)

lemma wf_upsert: "fleet_wf db \<Longrightarrow> fleet_wf (fst (UpsertVehicleStatus f4 up now vs db))"
  by (auto simp: UpsertVehicleStatus_def fleet_wf_def keys_put_row Let_def exists_row_map dest!: set_put_row
      split: option.splits)

lemma wf_positions:
  "fleet_wf db \<Longrightarrow> fleet_wf (fst (RecordPositionHistory up now vid lat lon db))"
  "fleet_wf db \<Longrightarrow> fleet_wf (fst (PruneVehiclePositionHistory up now db))"
  by (auto simp: RecordPositionHistory_def PruneVehiclePositionHistory_def fleet_wf_def split: option.splits)

lemma wf_alerts:
  "fleet_wf db \<Longrightarrow> fleet_wf (fst (CreateAlert up now newID a db))"
  "fleet_wf db \<Longrightarrow> fleet_wf (fst (AcknowledgeAlert up now aid by_op db))"
  by (auto simp: CreateAlert_def AcknowledgeAlert_def fleet_wf_def Let_def)

lemma exists_row_other: "exists_row key k rows \<Longrightarrow> k \<noteq> v \<Longrightarrow> exists_row key k (filter (\<lambda>r. key r \<noteq> v) rows)"
  by (auto simp: exists_row_def)

lemma wf_delete: "fleet_wf db \<Longrightarrow> fleet_wf (fst (DeleteVehicle up v db))"
  unfolding DeleteVehicle_def fleet_wf_def
  by (auto simp: distinct_map_filter intro!: exists_row_other) (auto simp: exists_row_def)

lemma wf_record:
  assumes "fleet_wf db" and "exists_row t_ID (t_ID t) (fd_tasks db)"
  shows "fleet_wf (fst (recordTaskStatusTransition ups now newID t prev by_op db))"
proof -
  let ?f = "\<lambda>vs. if vs_VehicleID vs = t_VehicleID t \<and> vs_CurrentTaskID vs = Some (t_ID t)
              then vs\<lparr>vs_CurrentTaskID := None\<rparr> else vs"
  have keys: "map vs_VehicleID (map ?f (fd_status db)) = map vs_VehicleID (fd_status db)" by auto
  have "fleet_wf (db\<lparr>fd_status := map ?f (fd_status db)\<rparr>)"
    using assms(1) unfolding fleet_wf_def by (simp add: keys del: map_map) auto
  then show ?thesis
    using assms by (auto simp: recordTaskStatusTransition_def fleet_wf_def Let_def)
qed

lemma wf_update_task: "fleet_wf db \<Longrightarrow> fleet_wf (fst (UpdateTaskStatus ups now newID tid st by_op db))"
proof (cases "taskTransitionSources st")
  case (Some sources)
  assume wf: "fleet_wf db"
  show ?thesis
  proof (cases "\<exists>t. ups 0 \<and> row_for t_ID tid (fd_tasks db) = Some t \<and> t_Status t \<in> set sources")
    case True
    then obtain t where t: "ups 0" "row_for t_ID tid (fd_tasks db) = Some t" "t_Status t \<in> set sources" by blast
    let ?t = "t\<lparr>t_Status := st, t_CompletedAt := (if st = TaskCompleted then Some now else t_CompletedAt t),
                t_StatusChangedBy := Some by_op\<rparr>"
    have row: "t \<in> set (fd_tasks db)" "t_ID t = tid" using row_for_Some [OF t(2)] by auto
    have ex: "exists_row t_ID (t_ID t) (fd_tasks db)" using row by (auto simp: exists_row_def)
    have "task_status_ok st"
      using Some by (auto simp: taskTransitionSources_def task_status_ok_def split: if_splits)
    then have "fleet_wf (db\<lparr>fd_tasks := put_row t_ID tid ?t (fd_tasks db)\<rparr>)"
      using wf row unfolding fleet_wf_def
      by (auto simp: keys_put_row exists_row_put dest!: set_put_row)
    then have "fleet_wf (fst (recordTaskStatusTransition ups now newID ?t (t_Status t) by_op
        (db\<lparr>fd_tasks := put_row t_ID tid ?t (fd_tasks db)\<rparr>)))" (is "fleet_wf (fst ?r)")
      using row ex by (intro wf_record) (simp_all add: exists_row_put)
    moreover have "fst (UpdateTaskStatus ups now newID tid st by_op db) = fst ?r"
      using Some t by (simp add: UpdateTaskStatus_def Let_def split: prod.split)
    ultimately show ?thesis by simp
  next
    case False
    with Some wf show ?thesis by (auto simp: UpdateTaskStatus_def split: option.split)
  qed
qed (simp add: UpdateTaskStatus_def)

lemma exists_row_filter:
  "exists_row key k rows \<Longrightarrow> (\<And>r. r \<in> set rows \<Longrightarrow> key r = k \<Longrightarrow> P r) \<Longrightarrow> exists_row key k (filter P rows)"
  by (auto simp: exists_row_def)

lemma wf_cleanup:
  assumes "fleet_wf db" and "taskuiDemoSeedCleanup db = Some db1"
  shows "fleet_wf db1"
proof -
  let ?keep = "\<lambda>s. \<not> (hasSuffix (st_ID s) ''-taskui'' \<and>
    (\<forall>t\<in>set (fd_tasks db). t_FromStationID t \<noteq> st_ID s \<and> t_ToStationID t \<noteq> st_ID s))"
  let ?stations = "filter ?keep (fd_stations db)"
  let ?gone = "\<lambda>z. hasSuffix (z_ID z) ''-taskui'' \<and> (\<forall>s\<in>set ?stations. st_ZoneID s \<noteq> z_ID z)"
  let ?zones = "filter (\<lambda>z. \<not> ?gone z) (fd_zones db)"
  have db1: "db1 = db\<lparr>fd_stations := ?stations, fd_zones := ?zones\<rparr>"
    and used: "\<And>z vs. z \<in> set (fd_zones db) \<Longrightarrow> vs \<in> set (fd_status db) \<Longrightarrow> vs_PositionZoneID vs = Some (z_ID z) \<Longrightarrow> \<not> ?gone z"
    using assms(2) by (auto simp: taskuiDemoSeedCleanup_def Let_def split: if_splits)
  have d: "distinct (map st_ID ?stations)" "distinct (map z_ID ?zones)"
    using assms(1) by (simp_all add: fleet_wf_def distinct_map_filter)
  have "exists_row z_ID (st_ZoneID s) ?zones" if "s \<in> set ?stations" for s
    using assms(1) that by (intro exists_row_filter) (auto simp: fleet_wf_def)
  moreover have "exists_row st_ID (t_FromStationID t) ?stations" "exists_row st_ID (t_ToStationID t) ?stations"
    if "t \<in> set (fd_tasks db)" for t
    using assms(1) that by (auto simp: fleet_wf_def intro!: exists_row_filter)
  moreover have "exists_row z_ID z ?zones" if "vs \<in> set (fd_status db)" "vs_PositionZoneID vs = Some z" for vs z
  proof (rule exists_row_filter)
    show "exists_row z_ID z (fd_zones db)" using assms(1) that by (auto simp: fleet_wf_def)
    show "\<not> ?gone r" if "r \<in> set (fd_zones db)" "z_ID r = z" for r
      using used [OF that(1) \<open>vs \<in> set (fd_status db)\<close>] \<open>vs_PositionZoneID vs = Some z\<close> that(2) by simp
  qed
  ultimately show ?thesis using assms(1) d unfolding db1 fleet_wf_def by simp
qed

lemma backfilled_task:
  assumes "h \<in> set (fd_history (backfillTaskStatusHistory newIDs db))"
  shows "h \<in> set (fd_history db) \<or> (\<exists>t\<in>set (queryLegacyTransitions db). th_TaskID h = t_ID t)"
proof -
  have "h \<in> set (fd_history db) \<or>
      (\<exists>i<length (queryLegacyTransitions db). h = backfilledHistoryRow (newIDs i) (queryLegacyTransitions db ! i))"
    using assms by (auto simp: backfillTaskStatusHistory_def in_set_enumerate_eq)
  then show ?thesis by (auto simp: backfilledHistoryRow_def intro: nth_mem)
qed

lemma wf_startup: "fleet_wf db \<Longrightarrow> fleet_wf (fst (NewPostgresFleetStore newIDs now db))"
proof (cases "taskuiDemoSeedCleanup db")
  case (Some db1)
  assume "fleet_wf db"
  from wf_cleanup [OF this Some] have wf: "fleet_wf db1" .
  have "exists_row t_ID (th_TaskID h) (fd_tasks db1)" if "h \<in> set (fd_history (backfillTaskStatusHistory newIDs db1))" for h
    using backfilled_task [OF that] wf by (auto simp: fleet_wf_def queryLegacyTransitions_def exists_row_def)
  moreover obtain hs where "backfillTaskStatusHistory newIDs db1 = db1\<lparr>fd_history := hs\<rparr>"
    by (simp add: backfillTaskStatusHistory_def)
  ultimately have "fleet_wf (backfillTaskStatusHistory newIDs db1)"
    using wf by (simp add: fleet_wf_def)
  with Some show ?thesis by (simp add: NewPostgresFleetStore_def wf_positions)
qed (simp add: NewPostgresFleetStore_def)

section \<open>Runs of the store\<close>

text \<open>The calls that change the store, with every outcome of the database; generated task ids are new.\<close>

inductive store_step :: "fleet_db \<Rightarrow> fleet_db \<Rightarrow> bool" where
  ensure: "store_step db (fst (EnsureVehicleExists up now vid db))"
| set_type: "store_step db (fst (SetVehicleType up vid ty db))"
| zone: "store_step db (fst (AddZone jsonb up now z db))"
| station: "store_step db (fst (AddStation up now st db))"
| create_task: "\<not> exists_row t_ID newID (fd_tasks db) \<Longrightarrow> store_step db (fst (CreateTask up now newID t db))"
| update_task: "store_step db (fst (UpdateTaskStatus ups now newID tid newStatus changedBy db))"
| upsert: "store_step db (fst (UpsertVehicleStatus f4 up now vs db))"
| position: "store_step db (fst (RecordPositionHistory up now vid lat lon db))"
| prune: "store_step db (fst (PruneVehiclePositionHistory up now db))"
| create_alert: "store_step db (fst (CreateAlert up now newID a db))"
| acknowledge: "store_step db (fst (AcknowledgeAlert up now aid by_op db))"
| delete_vehicle: "store_step db (fst (DeleteVehicle up v db))"
| startup: "store_step db (fst (NewPostgresFleetStore newIDs now db))"

interpretation fleet_tables: transition_system "\<lambda>db. db = empty_fleet_db" store_step fleet_wf
proof
  show "fleet_wf db" if "db = empty_fleet_db" for db using that by (simp add: fleet_wf_def empty_fleet_db_def)
next
  show "fleet_wf db'" if "store_step db db'" "fleet_wf db" for db db'
    using that
    by cases (simp_all add: wf_vehicles wf_zone wf_station wf_create_task wf_update_task wf_upsert wf_positions
        wf_alerts wf_delete wf_startup)
qed

end
