(* ===== verification/Fleet_Fake_Store.thy ===== *)
theory Fleet_Fake_Store
  imports Fleet_Store
begin

text \<open>
  \<open>FakeFleetStore\<close> (\<open>internal/fleetservice/fake_store.go\<close>): the in-memory store, with maps for the rows and
  slices for their order. A Go map of structs is a map of records here; the entries of \<open>vehicles\<close> are
  pointers in the code, but each is reachable through the map only.
\<close>

record fakeVehicle =
  fk_id :: vehicle_id
  fk_displayName :: string
  fk_vehicleType :: "string option"

record FakeFleetStore =
  fs_vehicles :: "vehicle_id \<rightharpoonup> fakeVehicle"
  fs_vehicleOrder :: "vehicle_id list"
  fs_zones :: "string \<rightharpoonup> Zone"
  fs_zoneOrder :: "string list"
  fs_stations :: "string \<rightharpoonup> Station"
  fs_stationOrder :: "string list"
  fs_tasks :: "string \<rightharpoonup> Task"
  fs_taskOrder :: "string list"
  fs_taskStatusHistory :: "string \<rightharpoonup> TaskStatusHistoryEntry list"
  fs_vehicleStatus :: "vehicle_id \<rightharpoonup> VehicleStatus"
  fs_positionHistory :: "vehicle_id \<rightharpoonup> VehiclePositionHistoryPoint list"
  fs_alerts :: "string \<rightharpoonup> Alert"
  fs_alertOrder :: "string list"

definition NewFakeFleetStore :: FakeFleetStore where
  "NewFakeFleetStore = \<lparr>fs_vehicles = Map.empty, fs_vehicleOrder = [], fs_zones = Map.empty, fs_zoneOrder = [],
     fs_stations = Map.empty, fs_stationOrder = [], fs_tasks = Map.empty, fs_taskOrder = [],
     fs_taskStatusHistory = Map.empty, fs_vehicleStatus = Map.empty, fs_positionHistory = Map.empty,
     fs_alerts = Map.empty, fs_alertOrder = []\<rparr>"

text \<open>A missing entry of a map of slices reads as the nil slice.\<close>

definition slice :: "('k \<rightharpoonup> 'v list) \<Rightarrow> 'k \<Rightarrow> 'v list" where
  "slice m k = (case m k of None \<Rightarrow> [] | Some xs \<Rightarrow> xs)"

lemma slice_upd [simp]: "slice (m(k \<mapsto> xs)) k' = (if k' = k then xs else slice m k')"
  by (simp add: slice_def)

lemma slice_empty [simp]: "slice Map.empty k = []"
  by (simp add: slice_def)

definition fake_EnsureVehicleExists :: "vehicle_id \<Rightarrow> FakeFleetStore \<Rightarrow> FakeFleetStore \<times> (fleet_error + unit)" where
  "fake_EnsureVehicleExists vid f =
     (if fs_vehicles f vid \<noteq> None then (f, Inr ())
      else (f\<lparr>fs_vehicles := (fs_vehicles f)(vid \<mapsto> \<lparr>fk_id = vid, fk_displayName = vid, fk_vehicleType = None\<rparr>),
              fs_vehicleOrder := fs_vehicleOrder f @ [vid]\<rparr>, Inr ()))"

definition fake_SetVehicleType :: "vehicle_id \<Rightarrow> string \<Rightarrow> FakeFleetStore \<Rightarrow> FakeFleetStore \<times> (fleet_error + unit)" where
  "fake_SetVehicleType vid ty f =
     (case fs_vehicles f vid of
        None \<Rightarrow> (f, Inl ErrStore)
      | Some v \<Rightarrow> (f\<lparr>fs_vehicles := (fs_vehicles f)(vid \<mapsto> v\<lparr>fk_vehicleType := Some ty\<rparr>)\<rparr>, Inr ()))"

definition fake_AddZone :: "instant \<Rightarrow> Zone \<Rightarrow> FakeFleetStore \<Rightarrow> FakeFleetStore \<times> (fleet_error + unit)" where
  "fake_AddZone now z f =
     (if fs_zones f (z_ID z) \<noteq> None then (f, Inl ErrStore)
      else (f\<lparr>fs_zones := (fs_zones f)(z_ID z \<mapsto> z\<lparr>z_CreatedAt := now\<rparr>),
              fs_zoneOrder := fs_zoneOrder f @ [z_ID z]\<rparr>, Inr ()))"

definition fake_ListZones :: "FakeFleetStore \<Rightarrow> fleet_error + Zone list" where
  "fake_ListZones f = Inr (map (\<lambda>k. the (fs_zones f k)) (fs_zoneOrder f))"

definition fake_AddStation :: "instant \<Rightarrow> Station \<Rightarrow> FakeFleetStore \<Rightarrow> FakeFleetStore \<times> (fleet_error + unit)" where
  "fake_AddStation now st f =
     (if fs_zones f (st_ZoneID st) = None then (f, Inl ErrStore)
      else if fs_stations f (st_ID st) \<noteq> None then (f, Inl ErrStore)
      else (f\<lparr>fs_stations := (fs_stations f)(st_ID st \<mapsto> st\<lparr>st_CreatedAt := now\<rparr>),
              fs_stationOrder := fs_stationOrder f @ [st_ID st]\<rparr>, Inr ()))"

definition fake_ListStations :: "FakeFleetStore \<Rightarrow> fleet_error + Station list" where
  "fake_ListStations f = Inr (map (\<lambda>k. the (fs_stations f k)) (fs_stationOrder f))"

definition fake_CreateTask :: "instant \<Rightarrow> string \<Rightarrow> Task \<Rightarrow> FakeFleetStore \<Rightarrow> FakeFleetStore \<times> (fleet_error + Task)" where
  "fake_CreateTask now newID t f =
     (if fs_vehicles f (t_VehicleID t) = None then (f, Inl ErrStore)
      else if fs_stations f (t_FromStationID t) = None then (f, Inl ErrStore)
      else if fs_stations f (t_ToStationID t) = None then (f, Inl ErrStore)
      else
        let t1 = t\<lparr>t_ID := newID, t_Status := (if t_Status t = [] then TaskPending else t_Status t), t_CreatedAt := now\<rparr>
        in (f\<lparr>fs_tasks := (fs_tasks f)(newID \<mapsto> t1), fs_taskOrder := fs_taskOrder f @ [newID]\<rparr>,
            Inr (t1\<lparr>t_AllowedTransitions := allowedTaskTransitions (t_Status t1)\<rparr>)))"

definition fake_ListTasks :: "FakeFleetStore \<Rightarrow> fleet_error + Task list" where
  "fake_ListTasks f = Inr (map (\<lambda>k. with_allowed (the (fs_tasks f k))) (rev (fs_taskOrder f)))"

definition fake_UpdateTaskStatus ::
  "instant \<Rightarrow> string \<Rightarrow> string \<Rightarrow> string \<Rightarrow> string \<Rightarrow> FakeFleetStore \<Rightarrow> FakeFleetStore \<times> (fleet_error + Task)" where
  "fake_UpdateTaskStatus now newID tid newStatus changedBy f =
     (case taskTransitionSources newStatus of
        None \<Rightarrow> (f, Inl ErrInvalidTransition)
      | Some sources \<Rightarrow>
          (case fs_tasks f tid of
             None \<Rightarrow> (f, Inl ErrTaskNotFound)
           | Some t \<Rightarrow>
               if t_Status t \<notin> set sources then (f, Inl ErrInvalidTransition)
               else
                 let t1 = t\<lparr>t_Status := newStatus, t_StatusChangedBy := Some changedBy,
                            t_CompletedAt := (if newStatus = TaskCompleted then Some now else t_CompletedAt t)\<rparr>;
                     f1 = f\<lparr>fs_tasks := (fs_tasks f)(tid \<mapsto> t1)\<rparr>;
                     f2 = (if newStatus = TaskCompleted \<or> newStatus = TaskCancelled then
                             (case fs_vehicleStatus f1 (t_VehicleID t1) of
                                Some vs \<Rightarrow>
                                  if vs_CurrentTaskID vs = Some (t_ID t1)
                                  then f1\<lparr>fs_vehicleStatus := (fs_vehicleStatus f1)(t_VehicleID t1 \<mapsto> vs\<lparr>vs_CurrentTaskID := None\<rparr>)\<rparr>
                                  else f1
                              | None \<Rightarrow> f1)
                           else f1);
                     e = \<lparr>th_ID = newID, th_TaskID = t_ID t1, th_FromStatus = Some (t_Status t), th_ToStatus = newStatus,
                          th_ChangedBy = changedBy, th_ChangedAt = now\<rparr>
                 in (f2\<lparr>fs_taskStatusHistory :=
                        (fs_taskStatusHistory f2)(t_ID t1 \<mapsto> slice (fs_taskStatusHistory f2) (t_ID t1) @ [e])\<rparr>,
                     Inr (with_allowed t1))))"

definition fake_GetTaskStatusHistory :: "string \<Rightarrow> FakeFleetStore \<Rightarrow> fleet_error + TaskStatusHistoryEntry list" where
  "fake_GetTaskStatusHistory tid f =
     (if fs_tasks f tid = None then Inl ErrTaskNotFound else Inr (slice (fs_taskStatusHistory f) tid))"

definition fake_UpsertVehicleStatus :: "instant \<Rightarrow> VehicleStatus \<Rightarrow> FakeFleetStore \<Rightarrow> FakeFleetStore \<times> (fleet_error + unit)" where
  "fake_UpsertVehicleStatus now vs f =
     (f\<lparr>fs_vehicleStatus := (fs_vehicleStatus f)(vs_VehicleID vs \<mapsto> vs\<lparr>vs_UpdatedAt := now\<rparr>)\<rparr>, Inr ())"

definition fake_RecordPositionHistory ::
  "instant \<Rightarrow> vehicle_id \<Rightarrow> float64 option \<Rightarrow> float64 option \<Rightarrow> FakeFleetStore \<Rightarrow> FakeFleetStore \<times> (fleet_error + unit)" where
  "fake_RecordPositionHistory now vid lat lon f =
     (case (lat, lon) of
        (Some la, Some lo) \<Rightarrow>
          let points = slice (fs_positionHistory f) vid in
          if points \<noteq> [] \<and> now - ph_RecordedAt (last points) < positionHistoryMinInterval then (f, Inr ())
          else (f\<lparr>fs_positionHistory := (fs_positionHistory f)(vid \<mapsto> points @
                  [\<lparr>ph_VehicleID = vid, ph_PositionLat = la, ph_PositionLon = lo, ph_RecordedAt = now\<rparr>])\<rparr>, Inr ())
      | _ \<Rightarrow> (f, Inr ()))"

definition fake_GetVehiclePositionHistory :: "vehicle_id \<Rightarrow> FakeFleetStore \<Rightarrow> fleet_error + VehiclePositionHistoryPoint list" where
  "fake_GetVehiclePositionHistory vid f =
     (if fs_vehicles f vid = None then Inl ErrVehicleNotFound else Inr (slice (fs_positionHistory f) vid))"

definition fake_PruneVehiclePositionHistory :: "instant \<Rightarrow> FakeFleetStore \<Rightarrow> FakeFleetStore \<times> (fleet_error + unit)" where
  "fake_PruneVehiclePositionHistory now f =
     (f\<lparr>fs_positionHistory :=
          map_option (filter (\<lambda>p. now - positionHistoryRetention < ph_RecordedAt p)) \<circ> fs_positionHistory f\<rparr>, Inr ())"

definition fake_ListVehicleStatus :: "FakeFleetStore \<Rightarrow> fleet_error + VehicleStatus list" where
  "fake_ListVehicleStatus f = Inr (List.map_filter (fs_vehicleStatus f) (fs_vehicleOrder f))"

definition fake_ListVehiclesWithStatus :: "FakeFleetStore \<Rightarrow> fleet_error + FleetVehicle list" where
  "fake_ListVehiclesWithStatus f =
     Inr (map (\<lambda>k. let v = the (fs_vehicles f k)
                   in \<lparr>fv_ID = fk_id v, fv_DisplayName = fk_displayName v, fv_VehicleType = fk_vehicleType v,
                       fv_Status = fs_vehicleStatus f k\<rparr>) (fs_vehicleOrder f))"

definition fake_CreateAlert :: "instant \<Rightarrow> string \<Rightarrow> Alert \<Rightarrow> FakeFleetStore \<Rightarrow> FakeFleetStore \<times> (fleet_error + Alert)" where
  "fake_CreateAlert now newID a f =
     (let a1 = a\<lparr>al_ID := newID, al_CreatedAt := now\<rparr>
      in (f\<lparr>fs_alerts := (fs_alerts f)(newID \<mapsto> a1), fs_alertOrder := fs_alertOrder f @ [newID]\<rparr>, Inr a1))"

definition fake_ListAlerts :: "FakeFleetStore \<Rightarrow> fleet_error + Alert list" where
  "fake_ListAlerts f = Inr (map (\<lambda>k. the (fs_alerts f k)) (rev (fs_alertOrder f)))"

definition fake_AcknowledgeAlert :: "instant \<Rightarrow> string \<Rightarrow> string \<Rightarrow> FakeFleetStore \<Rightarrow> FakeFleetStore \<times> (fleet_error + unit)" where
  "fake_AcknowledgeAlert now aid by_op f =
     (case fs_alerts f aid of
        None \<Rightarrow> (f, Inl ErrStore)
      | Some a \<Rightarrow>
          (f\<lparr>fs_alerts := (fs_alerts f)(aid \<mapsto> a\<lparr>al_AcknowledgedAt := Some now, al_AcknowledgedBy := Some by_op\<rparr>)\<rparr>, Inr ()))"

end
