(* ===== verification/Fleet_Equivalence.thy ===== *)
theory Fleet_Equivalence
  imports Fleet_Fake_Store
begin

text \<open>
  The two implementations of the \<open>FleetStore\<close> interface side by side. \<open>store_call\<close> lists the calls that change
  the store; both stores answer them with the same replies and keep showing the same data, as long as the
  calls respect what only the database checks (\<open>admissible\<close>) and the clock does not run backwards.
\<close>

section \<open>Tables and maps\<close>

definition keyed_rows :: "('r \<Rightarrow> 'k) \<Rightarrow> 'k list \<Rightarrow> ('k \<rightharpoonup> 'r) \<Rightarrow> 'r list \<Rightarrow> bool" where
  "keyed_rows key order m rows \<longleftrightarrow>
     distinct order \<and> set order = dom m \<and> (\<forall>k r. m k = Some r \<longrightarrow> key r = k) \<and> rows = map (\<lambda>k. the (m k)) order"

definition ordered_rows :: "('r \<Rightarrow> instant) \<Rightarrow> instant \<Rightarrow> 'r list \<Rightarrow> bool" where
  "ordered_rows created t rows \<longleftrightarrow> sorted (map created rows) \<and> (\<forall>r\<in>set rows. created r \<le> t)"

lemma keyed_lookup: "keyed_rows key order m rows \<Longrightarrow> row_for key k rows = m k"
proof -
  assume r: "keyed_rows key order m rows"
  then have keys: "\<And>k'. k' \<in> set order \<Longrightarrow> key (the (m k')) = k'" by (auto simp: keyed_rows_def)
  show ?thesis
  proof (cases "m k")
    case None
    then have "\<not> exists_row key k rows" using r keys by (auto simp: keyed_rows_def exists_row_def)
    with None show ?thesis by (simp add: row_for_None)
  next
    case (Some x)
    then have "k \<in> set order" "rows = map (\<lambda>k. the (m k)) order" using r by (auto simp: keyed_rows_def)
    then have "exists_row key k rows" using keys by (auto simp: exists_row_def)
    then obtain y where y: "row_for key k rows = Some y" by (auto simp: row_for_exists)
    from row_for_Some [OF y] have "y \<in> set rows" "key y = k" by blast+
    then obtain k' where "k' \<in> set order" "y = the (m k')" using r by (auto simp: keyed_rows_def)
    with keys \<open>key y = k\<close> have "y = the (m k)" by simp
    with y Some show ?thesis by simp
  qed
qed

lemma keyed_exists: "keyed_rows key order m rows \<Longrightarrow> exists_row key k rows \<longleftrightarrow> m k \<noteq> None"
  by (simp add: row_for_exists keyed_lookup)

lemma keyed_empty [simp]: "keyed_rows key [] Map.empty []"
  by (simp add: keyed_rows_def)

lemma keyed_insert:
  assumes "keyed_rows key order m rows" and "m (key r) = None" and "k = key r"
  shows "keyed_rows key (order @ [k]) (m(k \<mapsto> r)) (rows @ [r])"
proof -
  have "key r \<notin> set order" using assms by (auto simp: keyed_rows_def)
  then show ?thesis using assms by (auto simp: keyed_rows_def)
qed

lemma keyed_update:
  assumes "keyed_rows key order m rows" and "m k = Some r0" and "key r = k"
  shows "keyed_rows key order (m(k \<mapsto> r)) (put_row key k r rows)"
proof -
  have keys: "\<And>k'. k' \<in> set order \<Longrightarrow> key (the (m k')) = k'" using assms(1) by (auto simp: keyed_rows_def)
  then have "put_row key k r rows = map (\<lambda>k'. the ((m(k \<mapsto> r)) k')) order"
    using assms(1) by (auto simp: keyed_rows_def put_row_def)
  then show ?thesis using assms by (auto simp: keyed_rows_def)
qed

lemma keyed_keys: "keyed_rows key order m rows \<Longrightarrow> map key rows = order"
proof -
  assume r: "keyed_rows key order m rows"
  then have "key (the (m k)) = k" if "k \<in> set order" for k using that by (auto simp: keyed_rows_def)
  then have "map (\<lambda>k. key (the (m k))) order = order" by (intro map_idI)
  with r show ?thesis by (simp add: keyed_rows_def comp_def)
qed

lemma keyed_distinct: "keyed_rows key order m rows \<Longrightarrow> distinct (map key rows)"
  by (simp add: keyed_keys) (simp add: keyed_rows_def)

lemma put_row_update:
  assumes "row_for key k rows = Some r" and "distinct (map key rows)"
  shows "map (\<lambda>x. if key x = k then g x else x) rows = put_row key k (g r) rows"
proof -
  have "x = r" if "x \<in> set rows" "key x = k" for x
    using row_for_Some [OF assms(1)] assms(2) that by (auto simp: distinct_map inj_on_def)
  then show ?thesis by (auto simp: put_row_def)
qed

lemma ordered_empty [simp]: "ordered_rows created t []"
  by (simp add: ordered_rows_def)

lemma ordered_mono: "ordered_rows created t rows \<Longrightarrow> t \<le> t' \<Longrightarrow> ordered_rows created t' rows"
  by (fastforce simp: ordered_rows_def)

lemma ordered_insert: "ordered_rows created t rows \<Longrightarrow> created r = t \<Longrightarrow> ordered_rows created t (rows @ [r])"
  by (auto simp: ordered_rows_def sorted_append)

lemma ordered_same: "map created rows' = map created rows \<Longrightarrow> ordered_rows created t rows \<Longrightarrow> ordered_rows created t rows'"
  unfolding ordered_rows_def by (metis image_iff image_set)

lemma sort_key_sorted: "sorted (map f xs) \<Longrightarrow> sort_key f xs = xs"
  by (induction xs) (simp_all add: insort_is_Cons)

lemma ordered_sort: "ordered_rows created t rows \<Longrightarrow> sort_key created rows = rows"
  by (simp add: ordered_rows_def sort_key_sorted)

lemma ordered_filter: "ordered_rows created t rows \<Longrightarrow> ordered_rows created t (filter P rows)"
  by (simp add: ordered_rows_def sorted_filter)

section \<open>Calls\<close>

text \<open>The calls that change a store; generated ids are part of the call.\<close>

datatype store_call =
    CEnsureVehicle vehicle_id
  | CSetVehicleType vehicle_id string
  | CAddZone Zone
  | CAddStation Station
  | CCreateTask string Task
  | CUpdateTaskStatus string string string string
  | CUpsertStatus VehicleStatus
  | CRecordPosition vehicle_id "float64 option" "float64 option"
  | CPrunePositions
  | CCreateAlert string Alert
  | CAcknowledgeAlert string string

datatype store_reply = RNone | RTask Task | RAlert Alert

definition as_reply :: "('a \<Rightarrow> store_reply) \<Rightarrow> 's \<times> (fleet_error + 'a) \<Rightarrow> 's \<times> (fleet_error + store_reply)" where
  "as_reply f r = (fst r, case snd r of Inl e \<Rightarrow> Inl e | Inr x \<Rightarrow> Inr (f x))"

fun pg_call ::
  "(float64 \<Rightarrow> float64 option) \<Rightarrow> (string \<Rightarrow> string option) \<Rightarrow> instant \<Rightarrow> store_call \<Rightarrow> fleet_db \<Rightarrow>
     fleet_db \<times> (fleet_error + store_reply)" where
  "pg_call f4 jsonb now (CEnsureVehicle v) db = as_reply (\<lambda>_. RNone) (EnsureVehicleExists True now v db)"
| "pg_call f4 jsonb now (CSetVehicleType v ty) db = as_reply (\<lambda>_. RNone) (SetVehicleType True v ty db)"
| "pg_call f4 jsonb now (CAddZone z) db = as_reply (\<lambda>_. RNone) (AddZone jsonb True now z db)"
| "pg_call f4 jsonb now (CAddStation st) db = as_reply (\<lambda>_. RNone) (AddStation True now st db)"
| "pg_call f4 jsonb now (CCreateTask i t) db = as_reply RTask (CreateTask True now i t db)"
| "pg_call f4 jsonb now (CUpdateTaskStatus i tid new op) db = as_reply RTask (UpdateTaskStatus (\<lambda>_. True) now i tid new op db)"
| "pg_call f4 jsonb now (CUpsertStatus vs) db = as_reply (\<lambda>_. RNone) (UpsertVehicleStatus f4 True now vs db)"
| "pg_call f4 jsonb now (CRecordPosition v la lo) db = as_reply (\<lambda>_. RNone) (RecordPositionHistory True now v la lo db)"
| "pg_call f4 jsonb now CPrunePositions db = as_reply (\<lambda>_. RNone) (PruneVehiclePositionHistory True now db)"
| "pg_call f4 jsonb now (CCreateAlert i a) db = as_reply RAlert (CreateAlert True now i a db)"
| "pg_call f4 jsonb now (CAcknowledgeAlert aid op) db = as_reply (\<lambda>_. RNone) (AcknowledgeAlert True now aid op db)"

fun fake_call :: "instant \<Rightarrow> store_call \<Rightarrow> FakeFleetStore \<Rightarrow> FakeFleetStore \<times> (fleet_error + store_reply)" where
  "fake_call now (CEnsureVehicle v) f = as_reply (\<lambda>_. RNone) (fake_EnsureVehicleExists v f)"
| "fake_call now (CSetVehicleType v ty) f = as_reply (\<lambda>_. RNone) (fake_SetVehicleType v ty f)"
| "fake_call now (CAddZone z) f = as_reply (\<lambda>_. RNone) (fake_AddZone now z f)"
| "fake_call now (CAddStation st) f = as_reply (\<lambda>_. RNone) (fake_AddStation now st f)"
| "fake_call now (CCreateTask i t) f = as_reply RTask (fake_CreateTask now i t f)"
| "fake_call now (CUpdateTaskStatus i tid new op) f = as_reply RTask (fake_UpdateTaskStatus now i tid new op f)"
| "fake_call now (CUpsertStatus vs) f = as_reply (\<lambda>_. RNone) (fake_UpsertVehicleStatus now vs f)"
| "fake_call now (CRecordPosition v la lo) f = as_reply (\<lambda>_. RNone) (fake_RecordPositionHistory now v la lo f)"
| "fake_call now CPrunePositions f = as_reply (\<lambda>_. RNone) (fake_PruneVehiclePositionHistory now f)"
| "fake_call now (CCreateAlert i a) f = as_reply RAlert (fake_CreateAlert now i a f)"
| "fake_call now (CAcknowledgeAlert aid op) f = as_reply (\<lambda>_. RNone) (fake_AcknowledgeAlert now aid op f)"

text \<open>What only the database checks or changes: \<open>CHECK\<close>s, the foreign keys of status, position and alert rows,
  the width of \<open>priority\<close>, rounding and JSON normalisation, the columns an insert leaves out; and the one instant
  at which the two prunings disagree.\<close>

definition unrounded :: "(float64 \<Rightarrow> float64 option) \<Rightarrow> float64 option \<Rightarrow> bool" where
  "unrounded f4 x \<longleftrightarrow> (\<forall>v\<in>set_option x. f4 v = Some v)"

fun admissible ::
  "(float64 \<Rightarrow> float64 option) \<Rightarrow> (string \<Rightarrow> string option) \<Rightarrow> instant \<Rightarrow> store_call \<Rightarrow> fleet_db \<Rightarrow> bool" where
  "admissible f4 jsonb now (CAddZone z) db \<longleftrightarrow>
     z_Environment z \<in> {''indoor'', ''outdoor''} \<and> (\<forall>g\<in>set_option (z_GeoBounds z). jsonb g = Some g)"
| "admissible f4 jsonb now (CCreateTask i t) db \<longleftrightarrow>
     \<not> exists_row t_ID i (fd_tasks db) \<and> (t_Status t = [] \<or> task_status_ok (t_Status t)) \<and>
     - (2 ^ 31) \<le> t_Priority t \<and> t_Priority t < 2 ^ 31 \<and> t_CompletedAt t = None \<and> t_StatusChangedBy t = None"
| "admissible f4 jsonb now (CUpsertStatus vs) db \<longleftrightarrow>
     exists_row vr_id (vs_VehicleID vs) (fd_vehicles db) \<and>
     (\<forall>z\<in>set_option (vs_PositionZoneID vs). exists_row z_ID z (fd_zones db)) \<and>
     (\<forall>t\<in>set_option (vs_CurrentTaskID vs). exists_row t_ID t (fd_tasks db)) \<and>
     vs_AutonomyMode vs \<in> {''autonomous'', ''teleoperated'', ''manual''} \<and>
     unrounded f4 (vs_BatteryPct vs) \<and> unrounded f4 (vs_Speed vs)"
| "admissible f4 jsonb now (CRecordPosition v la lo) db \<longleftrightarrow> exists_row vr_id v (fd_vehicles db)"
| "admissible f4 jsonb now CPrunePositions db \<longleftrightarrow>
     (\<forall>p\<in>set (fd_positions db). ph_RecordedAt p \<noteq> now - positionHistoryRetention)"
| "admissible f4 jsonb now (CCreateAlert i a) db \<longleftrightarrow>
     \<not> exists_row al_ID i (fd_alerts db) \<and> exists_row vr_id (al_VehicleID a) (fd_vehicles db) \<and>
     al_Severity a \<in> {''info'', ''warning'', ''critical''} \<and> al_AcknowledgedAt a = None \<and> al_AcknowledgedBy a = None"
| "admissible f4 jsonb now c db \<longleftrightarrow> True"

section \<open>The simulation relation\<close>

definition vehicle_view :: "vehicle_row \<Rightarrow> fakeVehicle" where
  "vehicle_view r = \<lparr>fk_id = vr_id r, fk_displayName = vr_display_name r, fk_vehicleType = vr_vehicle_type r\<rparr>"

definition strip :: "Task \<Rightarrow> Task" where
  "strip t = t\<lparr>t_AllowedTransitions := []\<rparr>"

definition mirrors :: "instant \<Rightarrow> FakeFleetStore \<Rightarrow> fleet_db \<Rightarrow> bool" where
  "mirrors t f db \<longleftrightarrow>
     (keyed_rows fk_id (fs_vehicleOrder f) (fs_vehicles f) (map vehicle_view (fd_vehicles db)) \<and>
      ordered_rows vr_created_at t (fd_vehicles db)) \<and>
     (keyed_rows z_ID (fs_zoneOrder f) (fs_zones f) (fd_zones db) \<and> ordered_rows z_CreatedAt t (fd_zones db)) \<and>
     (keyed_rows st_ID (fs_stationOrder f) (fs_stations f) (fd_stations db) \<and> ordered_rows st_CreatedAt t (fd_stations db)) \<and>
     (keyed_rows t_ID (fs_taskOrder f) (map_option strip \<circ> fs_tasks f) (fd_tasks db) \<and>
      ordered_rows t_CreatedAt t (fd_tasks db)) \<and>
     ((\<forall>k. slice (fs_taskStatusHistory f) k = filter (\<lambda>h. th_TaskID h = k) (fd_history db)) \<and>
      ordered_rows th_ChangedAt t (fd_history db)) \<and>
     (\<forall>k. fs_vehicleStatus f k = row_for vs_VehicleID k (fd_status db)) \<and>
     ((\<forall>k. slice (fs_positionHistory f) k = filter (\<lambda>p. ph_VehicleID p = k) (fd_positions db)) \<and>
      ordered_rows ph_RecordedAt t (fd_positions db)) \<and>
     (keyed_rows al_ID (fs_alertOrder f) (fs_alerts f) (fd_alerts db) \<and> ordered_rows al_CreatedAt t (fd_alerts db))"

lemma mirrors_empty: "mirrors t NewFakeFleetStore empty_fleet_db"
  by (simp add: mirrors_def NewFakeFleetStore_def empty_fleet_db_def row_for_def comp_def)

lemma mirrors_mono: "mirrors t f db \<Longrightarrow> t \<le> t' \<Longrightarrow> mirrors t' f db"
  unfolding mirrors_def by (blast intro: ordered_mono)

lemma view_exists: "exists_row fk_id v (map vehicle_view rows) \<longleftrightarrow> exists_row vr_id v rows"
  by (simp add: exists_row_def vehicle_view_def)

lemma mirrors_lookups:
  assumes "mirrors t f db"
  shows mirrors_vehicle: "exists_row vr_id v (fd_vehicles db) \<longleftrightarrow> fs_vehicles f v \<noteq> None"
    and mirrors_zone: "exists_row z_ID k (fd_zones db) \<longleftrightarrow> fs_zones f k \<noteq> None"
    and mirrors_station: "exists_row st_ID k (fd_stations db) \<longleftrightarrow> fs_stations f k \<noteq> None"
    and mirrors_task: "row_for t_ID k (fd_tasks db) = map_option strip (fs_tasks f k)"
    and mirrors_alert: "row_for al_ID k (fd_alerts db) = fs_alerts f k"
proof -
  have k: "keyed_rows fk_id (fs_vehicleOrder f) (fs_vehicles f) (map vehicle_view (fd_vehicles db))"
    "keyed_rows z_ID (fs_zoneOrder f) (fs_zones f) (fd_zones db)"
    "keyed_rows st_ID (fs_stationOrder f) (fs_stations f) (fd_stations db)"
    "keyed_rows t_ID (fs_taskOrder f) (map_option strip \<circ> fs_tasks f) (fd_tasks db)"
    "keyed_rows al_ID (fs_alertOrder f) (fs_alerts f) (fd_alerts db)"
    using assms by (simp_all add: mirrors_def)
  show "exists_row vr_id v (fd_vehicles db) \<longleftrightarrow> fs_vehicles f v \<noteq> None"
    using keyed_exists [OF k(1), of v] by (simp add: view_exists)
  show "exists_row z_ID k (fd_zones db) \<longleftrightarrow> fs_zones f k \<noteq> None"
    "exists_row st_ID k (fd_stations db) \<longleftrightarrow> fs_stations f k \<noteq> None"
    using keyed_exists [OF k(2)] keyed_exists [OF k(3)] by simp_all
  show "row_for t_ID k (fd_tasks db) = map_option strip (fs_tasks f k)" using keyed_lookup [OF k(4)] by simp
  show "row_for al_ID k (fd_alerts db) = fs_alerts f k" using keyed_lookup [OF k(5)] by simp
qed

section \<open>One call\<close>

definition simulates ::
  "(float64 \<Rightarrow> float64 option) \<Rightarrow> (string \<Rightarrow> string option) \<Rightarrow> instant \<Rightarrow> store_call \<Rightarrow> FakeFleetStore \<Rightarrow> fleet_db \<Rightarrow> bool" where
  "simulates f4 jsonb now c f db \<longleftrightarrow>
     snd (fake_call now c f) = snd (pg_call f4 jsonb now c db) \<and>
     mirrors now (fst (fake_call now c f)) (fst (pg_call f4 jsonb now c db))"

lemma sim_ensure: "mirrors now f db \<Longrightarrow> simulates f4 jsonb now (CEnsureVehicle v) f db"
proof -
  assume m: "mirrors now f db"
  show ?thesis
  proof (cases "fs_vehicles f v")
    case None
    let ?r = "\<lparr>vr_id = v, vr_display_name = v, vr_vehicle_type = None, vr_created_at = now\<rparr>"
    have "\<not> exists_row vr_id v (fd_vehicles db)" using mirrors_vehicle [OF m] None by simp
    moreover have "keyed_rows fk_id (fs_vehicleOrder f @ [v]) ((fs_vehicles f)(v \<mapsto> vehicle_view ?r))
        (map vehicle_view (fd_vehicles db) @ [vehicle_view ?r])"
      using m None by (intro keyed_insert) (simp_all add: mirrors_def vehicle_view_def)
    ultimately show ?thesis
      using m None
      by (simp add: simulates_def as_reply_def EnsureVehicleExists_def fake_EnsureVehicleExists_def mirrors_def
          ordered_insert vehicle_view_def)
  next
    case (Some x)
    then have "exists_row vr_id v (fd_vehicles db)" using mirrors_vehicle [OF m] by simp
    with m Some show ?thesis
      by (simp add: simulates_def as_reply_def EnsureVehicleExists_def fake_EnsureVehicleExists_def)
  qed
qed

lemma sim_set_type: "mirrors now f db \<Longrightarrow> simulates f4 jsonb now (CSetVehicleType v ty) f db"
proof -
  assume m: "mirrors now f db"
  show ?thesis
  proof (cases "fs_vehicles f v")
    case None
    then have "\<not> exists_row vr_id v (fd_vehicles db)" using mirrors_vehicle [OF m] by simp
    with m None show ?thesis by (simp add: simulates_def as_reply_def SetVehicleType_def fake_SetVehicleType_def)
  next
    case (Some x)
    let ?g = "\<lambda>x. x\<lparr>fk_vehicleType := Some ty\<rparr>"
    let ?rows = "map (\<lambda>r. if vr_id r = v then r\<lparr>vr_vehicle_type := Some ty\<rparr> else r) (fd_vehicles db)"
    have k: "keyed_rows fk_id (fs_vehicleOrder f) (fs_vehicles f) (map vehicle_view (fd_vehicles db))"
      and o: "ordered_rows vr_created_at now (fd_vehicles db)"
      using m by (simp_all add: mirrors_def)
    have look: "row_for fk_id v (map vehicle_view (fd_vehicles db)) = Some x" using keyed_lookup [OF k] Some by simp
    have "map vehicle_view ?rows = map (\<lambda>x. if fk_id x = v then ?g x else x) (map vehicle_view (fd_vehicles db))"
      by (simp add: vehicle_view_def)
    also have "\<dots> = put_row fk_id v (?g x) (map vehicle_view (fd_vehicles db))"
      by (rule put_row_update [OF look keyed_distinct [OF k]])
    finally have "keyed_rows fk_id (fs_vehicleOrder f) ((fs_vehicles f)(v \<mapsto> ?g x)) (map vehicle_view ?rows)"
      using keyed_update [OF k Some, of "?g x"] row_for_Some [OF look] by simp
    moreover have "ordered_rows vr_created_at now ?rows" by (rule ordered_same [OF _ o]) simp
    moreover have "exists_row vr_id v (fd_vehicles db)" using mirrors_vehicle [OF m] Some by simp
    ultimately show ?thesis
      using m Some by (simp add: simulates_def as_reply_def SetVehicleType_def fake_SetVehicleType_def mirrors_def)
  qed
qed

lemma sim_zone:
  assumes m: "mirrors now f db" and adm: "admissible f4 jsonb now (CAddZone z) db"
  shows "simulates f4 jsonb now (CAddZone z) f db"
proof (cases "fs_zones f (z_ID z)")
  case None
  let ?z = "z\<lparr>z_CreatedAt := now\<rparr>"
  have "AddZone jsonb True now z db = (db\<lparr>fd_zones := fd_zones db @ [?z]\<rparr>, Inr ())"
    using adm None mirrors_zone [OF m, of "z_ID z"] by (cases "z_GeoBounds z") (auto simp: AddZone_def)
  moreover have "keyed_rows z_ID (fs_zoneOrder f @ [z_ID z]) ((fs_zones f)(z_ID z \<mapsto> ?z)) (fd_zones db @ [?z])"
    using m None by (intro keyed_insert) (simp_all add: mirrors_def)
  ultimately show ?thesis
    using m None by (simp add: simulates_def as_reply_def fake_AddZone_def mirrors_def ordered_insert)
next
  case (Some x)
  then have "exists_row z_ID (z_ID z) (fd_zones db)" using mirrors_zone [OF m] by simp
  with m Some show ?thesis by (simp add: simulates_def as_reply_def fake_AddZone_def AddZone_def)
qed

lemma sim_station:
  assumes m: "mirrors now f db"
  shows "simulates f4 jsonb now (CAddStation st) f db"
proof (cases "fs_zones f (st_ZoneID st) \<noteq> None \<and> fs_stations f (st_ID st) = None")
  case True
  let ?s = "st\<lparr>st_CreatedAt := now\<rparr>"
  have "keyed_rows st_ID (fs_stationOrder f @ [st_ID st]) ((fs_stations f)(st_ID st \<mapsto> ?s)) (fd_stations db @ [?s])"
    using m True by (intro keyed_insert) (simp_all add: mirrors_def)
  then show ?thesis
    using m True mirrors_zone [OF m] mirrors_station [OF m]
    by (simp add: simulates_def as_reply_def fake_AddStation_def AddStation_def mirrors_def ordered_insert)
next
  case False
  then show ?thesis
    using m mirrors_zone [OF m] mirrors_station [OF m]
    by (auto simp: simulates_def as_reply_def fake_AddStation_def AddStation_def)
qed

lemma strip_upd: "map_option strip \<circ> m(i \<mapsto> t) = (map_option strip \<circ> m)(i \<mapsto> strip t)"
  by auto

lemma mirrors_insert_task:
  assumes "mirrors now f db" and "fs_tasks f i = None" and "t_ID t = i" and "t_CreatedAt t = now"
  shows "mirrors now (f\<lparr>fs_tasks := (fs_tasks f)(i \<mapsto> t), fs_taskOrder := fs_taskOrder f @ [i]\<rparr>)
    (db\<lparr>fd_tasks := fd_tasks db @ [strip t]\<rparr>)"
proof -
  have "keyed_rows t_ID (fs_taskOrder f @ [i]) ((map_option strip \<circ> fs_tasks f)(i \<mapsto> strip t)) (fd_tasks db @ [strip t])"
    using assms by (intro keyed_insert) (simp_all add: mirrors_def strip_def)
  moreover have "ordered_rows t_CreatedAt now (fd_tasks db @ [strip t])"
    using assms by (intro ordered_insert) (simp_all add: mirrors_def strip_def)
  ultimately show ?thesis using assms(1) by (simp add: mirrors_def strip_upd)
qed

lemma sim_create_task:
  assumes m: "mirrors now f db" and adm: "admissible f4 jsonb now (CCreateTask i t) db"
  shows "simulates f4 jsonb now (CCreateTask i t) f db"
proof (cases "fs_vehicles f (t_VehicleID t) \<noteq> None \<and> fs_stations f (t_FromStationID t) \<noteq> None
    \<and> fs_stations f (t_ToStationID t) \<noteq> None")
  case True
  let ?t = "t\<lparr>t_ID := i, t_Status := (if t_Status t = [] then TaskPending else t_Status t), t_CreatedAt := now\<rparr>"
  have free: "fs_tasks f i = None" using adm mirrors_task [OF m, of i] by (simp add: row_for_exists)
  have "task_status_ok (t_Status ?t)" using adm by (auto simp: task_status_ok_def)
  moreover have "exists_row vr_id (t_VehicleID t) (fd_vehicles db)" "exists_row st_ID (t_FromStationID t) (fd_stations db)"
    "exists_row st_ID (t_ToStationID t) (fd_stations db)"
    using True mirrors_vehicle [OF m] mirrors_station [OF m] by auto
  ultimately have "CreateTask True now i t db = (db\<lparr>fd_tasks := fd_tasks db @
      [?t\<lparr>t_CompletedAt := None, t_StatusChangedBy := None, t_AllowedTransitions := []\<rparr>]\<rparr>, Inr (with_allowed ?t))"
    using adm unfolding CreateTask_def with_allowed_def Let_def admissible.simps by (simp del: not_less)
  moreover have "?t\<lparr>t_CompletedAt := None, t_StatusChangedBy := None, t_AllowedTransitions := []\<rparr> = strip ?t"
    using adm by (cases t) (simp add: strip_def)
  ultimately have pg: "CreateTask True now i t db = (db\<lparr>fd_tasks := fd_tasks db @ [strip ?t]\<rparr>, Inr (with_allowed ?t))"
    by (rule subst [rotated])
  have fk: "fake_CreateTask now i t f =
      (f\<lparr>fs_tasks := (fs_tasks f)(i \<mapsto> ?t), fs_taskOrder := fs_taskOrder f @ [i]\<rparr>, Inr (with_allowed ?t))"
    using True by (simp add: fake_CreateTask_def with_allowed_def Let_def)
  show ?thesis
    unfolding simulates_def pg_call.simps fake_call.simps as_reply_def pg fk fst_conv snd_conv
    using mirrors_insert_task [OF m free, of ?t] by simp
next
  case False
  then show ?thesis
    using m mirrors_vehicle [OF m] mirrors_station [OF m]
    by (auto simp: simulates_def as_reply_def fake_CreateTask_def CreateTask_def Let_def)
qed

lemma sim_upsert:
  assumes m: "mirrors now f db" and adm: "admissible f4 jsonb now (CUpsertStatus vs) db"
  shows "simulates f4 jsonb now (CUpsertStatus vs) f db"
proof -
  let ?row = "vs\<lparr>vs_UpdatedAt := now\<rparr>"
  let ?rows = "if exists_row vs_VehicleID (vs_VehicleID vs) (fd_status db)
    then put_row vs_VehicleID (vs_VehicleID vs) ?row (fd_status db) else fd_status db @ [?row]"
  have "real_opt f4 (vs_BatteryPct vs) = Some (vs_BatteryPct vs)" "real_opt f4 (vs_Speed vs) = Some (vs_Speed vs)"
    using adm by (auto simp: real_opt_def unrounded_def split: option.split)
  then have "UpsertVehicleStatus f4 True now vs db = (db\<lparr>fd_status := ?rows\<rparr>, Inr ())"
    using adm by (auto simp: UpsertVehicleStatus_def Let_def)
  moreover have "row_for vs_VehicleID k ?rows = (if k = vs_VehicleID vs then Some ?row else row_for vs_VehicleID k (fd_status db))" for k
    using row_for_None [of vs_VehicleID k "fd_status db"]
    by (auto simp: row_for_put row_for_snoc split: option.split)
  ultimately show ?thesis
    using m by (simp add: simulates_def as_reply_def fake_UpsertVehicleStatus_def mirrors_def)
qed

lemma recent_sample:
  assumes "ordered_rows ph_RecordedAt now rows"
  shows "(\<exists>p\<in>set rows. ph_VehicleID p = v \<and> now - d < ph_RecordedAt p) \<longleftrightarrow>
    (filter (\<lambda>p. ph_VehicleID p = v) rows \<noteq> [] \<and> now - ph_RecordedAt (last (filter (\<lambda>p. ph_VehicleID p = v) rows)) < d)"
    (is "_ \<longleftrightarrow> ?ps \<noteq> [] \<and> _")
proof -
  have "ph_RecordedAt p \<le> ph_RecordedAt (last ?ps)" if "p \<in> set ?ps" for p
  proof -
    have "ordered_rows ph_RecordedAt now ?ps" by (rule ordered_filter [OF assms])
    then have s: "sorted (map ph_RecordedAt ?ps)" by (simp add: ordered_rows_def)
    have "?ps \<noteq> []" using that by (auto simp: filter_empty_conv)
    then obtain ps q where ps: "?ps = ps @ [q]" by (meson rev_exhaust)
    show ?thesis using s that unfolding ps by (auto simp: sorted_append)
  qed
  note le = this
  have "(\<exists>p\<in>set rows. ph_VehicleID p = v \<and> now - d < ph_RecordedAt p) \<longleftrightarrow> (\<exists>p\<in>set ?ps. now - d < ph_RecordedAt p)"
    by auto
  also have "\<dots> \<longleftrightarrow> ?ps \<noteq> [] \<and> now - d < ph_RecordedAt (last ?ps)"
  proof
    assume "\<exists>p\<in>set ?ps. now - d < ph_RecordedAt p"
    then obtain p where "p \<in> set ?ps" "now - d < ph_RecordedAt p" by blast
    with le [of p] show "?ps \<noteq> [] \<and> now - d < ph_RecordedAt (last ?ps)" by (auto simp: filter_empty_conv)
  next
    assume "?ps \<noteq> [] \<and> now - d < ph_RecordedAt (last ?ps)"
    then show "\<exists>p\<in>set ?ps. now - d < ph_RecordedAt p" using last_in_set [of ?ps] by blast
  qed
  finally show ?thesis by (simp add: algebra_simps)
qed

lemma sim_position:
  assumes m: "mirrors now f db" and adm: "admissible f4 jsonb now (CRecordPosition v la lo) db"
  shows "simulates f4 jsonb now (CRecordPosition v la lo) f db"
proof (cases "\<exists>a b. la = Some a \<and> lo = Some b")
  case True
  then obtain a b where ab: "la = Some a" "lo = Some b" by blast
  let ?r = "\<lparr>ph_VehicleID = v, ph_PositionLat = a, ph_PositionLon = b, ph_RecordedAt = now\<rparr>"
  have sl: "slice (fs_positionHistory f) k = filter (\<lambda>p. ph_VehicleID p = k) (fd_positions db)" for k
    using m by (simp add: mirrors_def)
  have o: "ordered_rows ph_RecordedAt now (fd_positions db)" using m by (simp add: mirrors_def)
  show ?thesis
    using m adm ab ordered_insert [OF o, of ?r]
    by (auto simp: simulates_def as_reply_def fake_RecordPositionHistory_def RecordPositionHistory_def sl
        recent_sample [OF o] Let_def mirrors_def)
next
  case False
  with m show ?thesis
    by (auto simp: simulates_def as_reply_def fake_RecordPositionHistory_def RecordPositionHistory_def split: option.split)
qed

lemma slice_map: "slice (map_option g \<circ> m) k = (if m k = None then [] else g (slice m k))"
  by (simp add: slice_def split: option.split)

lemma sim_prune:
  assumes m: "mirrors now f db" and adm: "admissible f4 jsonb now CPrunePositions db"
  shows "simulates f4 jsonb now CPrunePositions f db"
proof -
  let ?old = "\<lambda>p. ph_RecordedAt p < now - positionHistoryRetention"
  let ?new = "\<lambda>p. now - positionHistoryRetention < ph_RecordedAt p"
  have same: "filter (\<lambda>p. \<not> ?old p) (fd_positions db) = filter ?new (fd_positions db)"
    using adm by (intro filter_cong) force+
  have "slice (map_option (filter ?new) \<circ> fs_positionHistory f) k = filter ?new (slice (fs_positionHistory f) k)" for k
    by (simp add: slice_map slice_def split: option.split)
  moreover have "slice (fs_positionHistory f) k = filter (\<lambda>p. ph_VehicleID p = k) (fd_positions db)" for k
    using m by (simp add: mirrors_def)
  ultimately have "slice (map_option (filter ?new) \<circ> fs_positionHistory f) k =
      filter (\<lambda>p. ph_VehicleID p = k) (filter ?new (fd_positions db))" for k
    by (simp add: filter_filter conj_commute)
  then show ?thesis
    using m same
    by (simp add: simulates_def as_reply_def fake_PruneVehiclePositionHistory_def PruneVehiclePositionHistory_def
        mirrors_def ordered_filter)
qed

lemma sim_create_alert:
  assumes m: "mirrors now f db" and adm: "admissible f4 jsonb now (CCreateAlert i a) db"
  shows "simulates f4 jsonb now (CCreateAlert i a) f db"
proof -
  let ?a = "a\<lparr>al_ID := i, al_CreatedAt := now\<rparr>"
  have "fs_alerts f i = None" using adm mirrors_alert [OF m, of i] by (simp add: row_for_exists)
  then have "keyed_rows al_ID (fs_alertOrder f @ [i]) ((fs_alerts f)(i \<mapsto> ?a)) (fd_alerts db @ [?a])"
    using m by (intro keyed_insert) (simp_all add: mirrors_def)
  moreover have "CreateAlert True now i a db = (db\<lparr>fd_alerts := fd_alerts db @ [?a]\<rparr>, Inr ?a)"
    using adm by (cases a) (auto simp: CreateAlert_def Let_def)
  ultimately show ?thesis
    using m by (simp add: simulates_def as_reply_def fake_CreateAlert_def mirrors_def Let_def ordered_insert)
qed

lemma sim_acknowledge:
  assumes m: "mirrors now f db"
  shows "simulates f4 jsonb now (CAcknowledgeAlert aid op) f db"
proof (cases "fs_alerts f aid")
  case None
  then have "\<not> exists_row al_ID aid (fd_alerts db)" using mirrors_alert [OF m, of aid] by (simp add: row_for_exists)
  with m None show ?thesis by (simp add: simulates_def as_reply_def fake_AcknowledgeAlert_def AcknowledgeAlert_def)
next
  case (Some a)
  let ?g = "\<lambda>a. a\<lparr>al_AcknowledgedAt := Some now, al_AcknowledgedBy := Some op\<rparr>"
  let ?rows = "map (\<lambda>a. if al_ID a = aid then ?g a else a) (fd_alerts db)"
  have k: "keyed_rows al_ID (fs_alertOrder f) (fs_alerts f) (fd_alerts db)"
    and o: "ordered_rows al_CreatedAt now (fd_alerts db)" using m by (simp_all add: mirrors_def)
  have look: "row_for al_ID aid (fd_alerts db) = Some a" using mirrors_alert [OF m] Some by simp
  then have "keyed_rows al_ID (fs_alertOrder f) ((fs_alerts f)(aid \<mapsto> ?g a)) ?rows"
    using keyed_update [OF k Some, of "?g a"] row_for_Some [OF look] put_row_update [OF look keyed_distinct [OF k], of ?g] by simp
  moreover have "ordered_rows al_CreatedAt now ?rows" by (rule ordered_same [OF _ o]) simp
  moreover have "exists_row al_ID aid (fd_alerts db)" using look by (simp add: row_for_exists)
  ultimately show ?thesis
    using m Some by (simp add: simulates_def as_reply_def fake_AcknowledgeAlert_def AcknowledgeAlert_def mirrors_def)
qed

lemma mirrors_put_task:
  assumes m: "mirrors now f db" and "fs_tasks f i = Some t" and "t_ID u = i" and "t_CreatedAt u = t_CreatedAt t"
  shows "mirrors now (f\<lparr>fs_tasks := (fs_tasks f)(i \<mapsto> u)\<rparr>) (db\<lparr>fd_tasks := put_row t_ID i (strip u) (fd_tasks db)\<rparr>)"
proof -
  have k: "keyed_rows t_ID (fs_taskOrder f) (map_option strip \<circ> fs_tasks f) (fd_tasks db)"
    and o: "ordered_rows t_CreatedAt now (fd_tasks db)" using m by (simp_all add: mirrors_def)
  have look: "row_for t_ID i (fd_tasks db) = Some (strip t)" using mirrors_task [OF m] assms(2) by simp
  have "x = strip t" if "x \<in> set (fd_tasks db)" "t_ID x = i" for x
    using that row_for_Some [OF look] keyed_distinct [OF k] by (auto simp: distinct_map inj_on_def)
  then have "t_CreatedAt x = t_CreatedAt u" if "x \<in> set (fd_tasks db)" "t_ID x = i" for x
    using that assms(4) by (metis Task.select_convs(7) Task.surjective Task.update_convs(10) strip_def)
  then have "map t_CreatedAt (put_row t_ID i (strip u) (fd_tasks db)) = map t_CreatedAt (fd_tasks db)"
    by (simp add: put_row_def strip_def)
  then have "ordered_rows t_CreatedAt now (put_row t_ID i (strip u) (fd_tasks db))" using o by (rule ordered_same)
  moreover have "keyed_rows t_ID (fs_taskOrder f) ((map_option strip \<circ> fs_tasks f)(i \<mapsto> strip u))
      (put_row t_ID i (strip u) (fd_tasks db))"
    using assms by (intro keyed_update [OF k]) (simp_all add: strip_def)
  ultimately show ?thesis using m by (simp add: mirrors_def strip_upd)
qed

lemma row_for_map: "(\<And>r. key (g r) = key r) \<Longrightarrow> row_for key k (map g rows) = map_option g (row_for key k rows)"
  by (induction rows) (simp_all add: row_for_def)

definition cleared :: "vehicle_id \<Rightarrow> string \<Rightarrow> VehicleStatus \<Rightarrow> VehicleStatus" where
  "cleared v i vs = (if vs_VehicleID vs = v \<and> vs_CurrentTaskID vs = Some i then vs\<lparr>vs_CurrentTaskID := None\<rparr> else vs)"

lemma mirrors_clear:
  assumes m: "mirrors now f db"
  shows "mirrors now
    (case fs_vehicleStatus f v of
       Some vs \<Rightarrow> if vs_CurrentTaskID vs = Some i
         then f\<lparr>fs_vehicleStatus := (fs_vehicleStatus f)(v \<mapsto> vs\<lparr>vs_CurrentTaskID := None\<rparr>)\<rparr> else f
     | None \<Rightarrow> f)
    (db\<lparr>fd_status := map (cleared v i) (fd_status db)\<rparr>)"
proof -
  have st: "fs_vehicleStatus f k = row_for vs_VehicleID k (fd_status db)" for k using m by (simp add: mirrors_def)
  have new: "row_for vs_VehicleID k (map (cleared v i) (fd_status db)) = map_option (cleared v i) (fs_vehicleStatus f k)" for k
    by (simp add: row_for_map cleared_def st)
  have key: "vs_VehicleID vs = k" if "fs_vehicleStatus f k = Some vs" for k vs
    using row_for_Some [of vs_VehicleID k "fd_status db" vs] that st by simp
  have other: "map_option (cleared v i) (fs_vehicleStatus f k) = fs_vehicleStatus f k" if "k \<noteq> v" for k
    using that key by (cases "fs_vehicleStatus f k") (auto simp: cleared_def)
  have here: "cleared v i vs = (if vs_CurrentTaskID vs = Some i then vs\<lparr>vs_CurrentTaskID := None\<rparr> else vs)"
    if "fs_vehicleStatus f v = Some vs" for vs
    using key [OF that] by (simp add: cleared_def)
  have "(\<lambda>k. map_option (cleared v i) (fs_vehicleStatus f k)) =
      (case fs_vehicleStatus f v of
         Some vs \<Rightarrow> if vs_CurrentTaskID vs = Some i then (fs_vehicleStatus f)(v \<mapsto> vs\<lparr>vs_CurrentTaskID := None\<rparr>)
                    else fs_vehicleStatus f
       | None \<Rightarrow> fs_vehicleStatus f)" (is "?new = ?upd")
  proof
    show "?new k = ?upd k" for k
    proof (cases "k = v")
      case True
      then show ?thesis using here by (cases "fs_vehicleStatus f v") simp_all
    next
      case False
      then show ?thesis using other by (cases "fs_vehicleStatus f v") simp_all
    qed
  qed
  then have "(case fs_vehicleStatus f v of
       Some vs \<Rightarrow> if vs_CurrentTaskID vs = Some i
         then f\<lparr>fs_vehicleStatus := (fs_vehicleStatus f)(v \<mapsto> vs\<lparr>vs_CurrentTaskID := None\<rparr>)\<rparr> else f
     | None \<Rightarrow> f) = f\<lparr>fs_vehicleStatus := ?new\<rparr>"
    by (cases "fs_vehicleStatus f v") simp_all
  moreover have "mirrors now (f\<lparr>fs_vehicleStatus := ?new\<rparr>) (db\<lparr>fd_status := map (cleared v i) (fd_status db)\<rparr>)"
    using m by (simp add: mirrors_def new)
  ultimately show ?thesis by (rule subst [OF sym])
qed

lemma mirrors_history:
  assumes "mirrors now f db" and "th_TaskID e = i" and "th_ChangedAt e = now"
  shows "mirrors now
    (f\<lparr>fs_taskStatusHistory := (fs_taskStatusHistory f)(i \<mapsto> slice (fs_taskStatusHistory f) i @ [e])\<rparr>)
    (db\<lparr>fd_history := fd_history db @ [e]\<rparr>)"
  using assms by (auto simp: mirrors_def ordered_insert)

lemma fake_task_key: "mirrors now f db \<Longrightarrow> fs_tasks f i = Some t \<Longrightarrow> t_ID t = i"
  using mirrors_task [of now f db i] row_for_Some [of t_ID i "fd_tasks db"] by (simp add: strip_def)

lemma sim_update:
  assumes m: "mirrors now f db"
  shows "simulates f4 jsonb now (CUpdateTaskStatus j i new op) f db"
proof (cases "\<exists>sources t. taskTransitionSources new = Some sources \<and> fs_tasks f i = Some t \<and> t_Status t \<in> set sources")
  case True
  then obtain sources t where t: "taskTransitionSources new = Some sources" "fs_tasks f i = Some t" "t_Status t \<in> set sources"
    by blast
  define u where "u = t\<lparr>t_Status := new, t_StatusChangedBy := Some op,
    t_CompletedAt := (if new = TaskCompleted then Some now else t_CompletedAt t)\<rparr>"
  have u: "t_ID u = i" "t_CreatedAt u = t_CreatedAt t" "t_Status u = new" "t_VehicleID u = t_VehicleID t"
    using fake_task_key [OF m t(2)] by (simp_all add: u_def)
  define f1 where "f1 = f\<lparr>fs_tasks := (fs_tasks f)(i \<mapsto> u)\<rparr>"
  define db1 where "db1 = db\<lparr>fd_tasks := put_row t_ID i (strip u) (fd_tasks db)\<rparr>"
  define fin where "fin = (new = TaskCompleted \<or> new = TaskCancelled)"
  define f2 where "f2 = (if fin then
      (case fs_vehicleStatus f1 (t_VehicleID t) of
         Some vs \<Rightarrow> if vs_CurrentTaskID vs = Some i
           then f1\<lparr>fs_vehicleStatus := (fs_vehicleStatus f1)(t_VehicleID t \<mapsto> vs\<lparr>vs_CurrentTaskID := None\<rparr>)\<rparr> else f1
       | None \<Rightarrow> f1) else f1)"
  define db2 where "db2 = (if fin then db1\<lparr>fd_status := map (cleared (t_VehicleID t) i) (fd_status db1)\<rparr> else db1)"
  define e where "e = \<lparr>th_ID = j, th_TaskID = i, th_FromStatus = Some (t_Status t), th_ToStatus = new,
    th_ChangedBy = op, th_ChangedAt = now\<rparr>"
  have "mirrors now f1 db1" unfolding f1_def db1_def by (rule mirrors_put_task [OF m t(2) u(1,2)])
  then have "mirrors now f2 db2" unfolding f2_def db2_def by (simp add: mirrors_clear)
  from mirrors_history [OF this, of e i]
  have final: "mirrors now (f2\<lparr>fs_taskStatusHistory := (fs_taskStatusHistory f2)(i \<mapsto> slice (fs_taskStatusHistory f2) i @ [e])\<rparr>)
      (db2\<lparr>fd_history := fd_history db2 @ [e]\<rparr>)" by (simp add: e_def)
  have fk: "fake_UpdateTaskStatus now j i new op f =
      (f2\<lparr>fs_taskStatusHistory := (fs_taskStatusHistory f2)(i \<mapsto> slice (fs_taskStatusHistory f2) i @ [e])\<rparr>, Inr (with_allowed u))"
    using t fake_task_key [OF m t(2)]
    by (cases "fs_vehicleStatus f (t_VehicleID t)")
      (simp_all add: fake_UpdateTaskStatus_def u_def f1_def fin_def f2_def e_def Let_def)
  have look: "row_for t_ID i (fd_tasks db) = Some (strip t)" using mirrors_task [OF m] t(2) by simp
  have ts: "t_Status (strip t) = t_Status t" by (simp add: strip_def)
  have su: "(strip t)\<lparr>t_Status := new, t_CompletedAt := (if new = TaskCompleted then Some now else t_CompletedAt (strip t)),
      t_StatusChangedBy := Some op\<rparr> = strip u"
    by (simp add: u_def strip_def)
  have rec: "recordTaskStatusTransition (\<lambda>_. True) now j (strip u) (t_Status t) op db1 =
      (db2\<lparr>fd_history := fd_history db2 @ [e]\<rparr>, Inr ())"
    using u by (simp add: recordTaskStatusTransition_def Let_def db2_def fin_def e_def strip_def cleared_def [abs_def])
  have pg: "UpdateTaskStatus (\<lambda>_. True) now j i new op db = (db2\<lparr>fd_history := fd_history db2 @ [e]\<rparr>, Inr (with_allowed (strip u)))"
    by (simp only: UpdateTaskStatus_def Let_def t look ts option.case if_True if_False not_True_eq_False su
        db1_def [symmetric] rec prod.case sum.case)
  have "with_allowed (strip u) = with_allowed u" by (simp add: with_allowed_def strip_def)
  then show ?thesis
    unfolding simulates_def pg_call.simps fake_call.simps as_reply_def pg fk fst_conv snd_conv using final by simp
next
  case False
  have look: "row_for t_ID i (fd_tasks db) = map_option strip (fs_tasks f i)" by (rule mirrors_task [OF m])
  show ?thesis
    using False m look
    by (cases "taskTransitionSources new"; cases "fs_tasks f i")
      (auto simp: simulates_def as_reply_def fake_UpdateTaskStatus_def UpdateTaskStatus_def strip_def)
qed

lemma call_simulates:
  assumes "mirrors t f db" and "t \<le> now" and "admissible f4 jsonb now c db"
  shows "simulates f4 jsonb now c f db"
proof -
  have "mirrors now f db" using assms(1,2) by (rule mirrors_mono)
  then show ?thesis
    using assms(3) sim_zone sim_create_task sim_upsert sim_position sim_prune sim_create_alert
    by (cases c) (simp_all add: sim_ensure sim_set_type sim_station sim_update sim_acknowledge)
qed

lemma call_is_step: "admissible f4 jsonb now c db \<Longrightarrow> store_step db (fst (pg_call f4 jsonb now c db))"
  by (cases c) (simp_all add: as_reply_def store_step.intros)

section \<open>Runs\<close>

fun run_calls ::
  "(instant \<Rightarrow> store_call \<Rightarrow> 's \<Rightarrow> 's \<times> (fleet_error + store_reply)) \<Rightarrow> (instant \<times> store_call) list \<Rightarrow> 's \<Rightarrow>
     's \<times> (fleet_error + store_reply) list" where
  "run_calls call [] s = (s, [])"
| "run_calls call ((now, c) # cs) s =
     (let (s1, r) = call now c s; (s2, rs) = run_calls call cs s1 in (s2, r # rs))"

abbreviation pg_run ::
  "(float64 \<Rightarrow> float64 option) \<Rightarrow> (string \<Rightarrow> string option) \<Rightarrow> (instant \<times> store_call) list \<Rightarrow> fleet_db \<Rightarrow>
     fleet_db \<times> (fleet_error + store_reply) list" where
  "pg_run f4 jsonb \<equiv> run_calls (pg_call f4 jsonb)"

abbreviation fake_run :: "(instant \<times> store_call) list \<Rightarrow> FakeFleetStore \<Rightarrow> FakeFleetStore \<times> (fleet_error + store_reply) list" where
  "fake_run \<equiv> run_calls fake_call"

fun admissible_run ::
  "(float64 \<Rightarrow> float64 option) \<Rightarrow> (string \<Rightarrow> string option) \<Rightarrow> instant \<Rightarrow> (instant \<times> store_call) list \<Rightarrow> fleet_db \<Rightarrow> bool" where
  "admissible_run f4 jsonb t [] db \<longleftrightarrow> True"
| "admissible_run f4 jsonb t ((now, c) # cs) db \<longleftrightarrow>
     t \<le> now \<and> admissible f4 jsonb now c db \<and> admissible_run f4 jsonb now cs (fst (pg_call f4 jsonb now c db))"

lemma run_simulates:
  "mirrors t f db \<Longrightarrow> fleet_wf db \<Longrightarrow> admissible_run f4 jsonb t cs db \<Longrightarrow>
   snd (fake_run cs f) = snd (pg_run f4 jsonb cs db) \<and> fleet_wf (fst (pg_run f4 jsonb cs db)) \<and>
   (\<exists>t'. mirrors t' (fst (fake_run cs f)) (fst (pg_run f4 jsonb cs db)))"
proof (induction cs arbitrary: t f db)
  case (Cons c cs)
  obtain now call where c: "c = (now, call)" by fastforce
  have adm: "t \<le> now" "admissible f4 jsonb now call db" "admissible_run f4 jsonb now cs (fst (pg_call f4 jsonb now call db))"
    using Cons.prems(3) c by auto
  have sim: "simulates f4 jsonb now call f db" using Cons.prems(1) adm(1,2) by (rule call_simulates)
  have "fleet_wf (fst (pg_call f4 jsonb now call db))"
    using call_is_step [OF adm(2)] Cons.prems(2) by (rule fleet_tables.step_inv)
  from sim Cons.IH [OF _ this adm(3), of "fst (fake_call now call f)"] show ?case
    by (simp add: c simulates_def Let_def split_beta)
qed auto

text \<open>What the reads show.\<close>

definition same_reads :: "FakeFleetStore \<Rightarrow> fleet_db \<Rightarrow> bool" where
  "same_reads f db \<longleftrightarrow>
     fake_ListZones f = ListZones True db \<and> fake_ListStations f = ListStations True db \<and>
     fake_ListTasks f = ListTasks True db \<and> fake_ListAlerts f = ListAlerts True db \<and>
     fake_ListVehiclesWithStatus f = ListVehiclesWithStatus True db \<and>
     map_sum id set (fake_ListVehicleStatus f) = map_sum id set (ListVehicleStatus True db) \<and>
     (\<forall>i. fake_GetTaskStatusHistory i f = GetTaskStatusHistory (\<lambda>_. True) i db) \<and>
     (\<forall>v. fake_GetVehiclePositionHistory v f = GetVehiclePositionHistory (\<lambda>_. True) v db)"

lemma keyed_list: "keyed_rows key order m rows \<Longrightarrow> map (\<lambda>k. the (m k)) order = rows"
  by (simp add: keyed_rows_def)

lemma mirrored_tasks:
  assumes "mirrors t f db"
  shows "map (\<lambda>k. with_allowed (the (fs_tasks f k))) (fs_taskOrder f) = map with_allowed (fd_tasks db)"
proof -
  have k: "keyed_rows t_ID (fs_taskOrder f) (map_option strip \<circ> fs_tasks f) (fd_tasks db)" using assms by (simp add: mirrors_def)
  have "with_allowed (the (fs_tasks f i)) = with_allowed (the ((map_option strip \<circ> fs_tasks f) i))"
    if "i \<in> set (fs_taskOrder f)" for i
  proof -
    have "i \<in> dom (map_option strip \<circ> fs_tasks f)" using that k by (simp add: keyed_rows_def)
    then obtain x where "fs_tasks f i = Some x" by auto
    then show ?thesis by (simp add: with_allowed_def strip_def)
  qed
  then have "map (\<lambda>k. with_allowed (the (fs_tasks f k))) (fs_taskOrder f) =
      map with_allowed (map (\<lambda>k. the ((map_option strip \<circ> fs_tasks f) k)) (fs_taskOrder f))"
    by simp
  then show ?thesis by (simp only: keyed_list [OF k])
qed

lemma mirrored_vehicles:
  assumes "mirrors t f db"
  shows "fake_ListVehiclesWithStatus f = ListVehiclesWithStatus True db"
proof -
  have k: "keyed_rows fk_id (fs_vehicleOrder f) (fs_vehicles f) (map vehicle_view (fd_vehicles db))"
    and o: "ordered_rows vr_created_at t (fd_vehicles db)"
    and st: "\<And>v. fs_vehicleStatus f v = row_for vs_VehicleID v (fd_status db)"
    using assms by (simp_all add: mirrors_def)
  let ?show = "\<lambda>x. \<lparr>fv_ID = fk_id x, fv_DisplayName = fk_displayName x, fv_VehicleType = fk_vehicleType x,
    fv_Status = fs_vehicleStatus f (fk_id x)\<rparr>"
  have "fk_id (the (fs_vehicles f v)) = v" if "v \<in> set (fs_vehicleOrder f)" for v
    using that k by (auto simp: keyed_rows_def)
  then have "fake_ListVehiclesWithStatus f = Inr (map ?show (map (\<lambda>v. the (fs_vehicles f v)) (fs_vehicleOrder f)))"
    by (simp add: fake_ListVehiclesWithStatus_def Let_def)
  also have "\<dots> = ListVehiclesWithStatus True db"
    unfolding keyed_list [OF k] by (simp add: ListVehiclesWithStatus_def ordered_sort [OF o] vehicle_view_def st)
  finally show ?thesis .
qed

lemma row_for_distinct: "distinct (map key rows) \<Longrightarrow> r \<in> set rows \<Longrightarrow> row_for key (key r) rows = Some r"
  by (induction rows) (auto simp: row_for_def)

lemma mirrored_status:
  assumes "mirrors t f db" and "fleet_wf db"
  shows "set (List.map_filter (fs_vehicleStatus f) (fs_vehicleOrder f)) = set (fd_status db)"
proof -
  have k: "keyed_rows fk_id (fs_vehicleOrder f) (fs_vehicles f) (map vehicle_view (fd_vehicles db))"
    and st: "\<And>v. fs_vehicleStatus f v = row_for vs_VehicleID v (fd_status db)"
    using assms(1) by (simp_all add: mirrors_def)
  have order: "set (fs_vehicleOrder f) = dom (fs_vehicles f)" using k by (simp add: keyed_rows_def)
  show ?thesis
  proof (intro equalityI subsetI)
    fix vs assume "vs \<in> set (List.map_filter (fs_vehicleStatus f) (fs_vehicleOrder f))"
    then obtain v where "fs_vehicleStatus f v = Some vs" by (force simp: map_filter_def)
    then show "vs \<in> set (fd_status db)" using st row_for_Some by metis
  next
    fix vs assume vs: "vs \<in> set (fd_status db)"
    with assms(2) have "exists_row vr_id (vs_VehicleID vs) (fd_vehicles db)" "distinct (map vs_VehicleID (fd_status db))"
      by (auto simp: fleet_wf_def)
    then have "vs_VehicleID vs \<in> set (fs_vehicleOrder f)" "fs_vehicleStatus f (vs_VehicleID vs) = Some vs"
      using mirrors_vehicle [OF assms(1)] row_for_distinct vs by (auto simp: order st)
    then show "vs \<in> set (List.map_filter (fs_vehicleStatus f) (fs_vehicleOrder f))" by (force simp: map_filter_def)
  qed
qed

lemma mirrors_same_reads:
  assumes m: "mirrors t f db" and wf: "fleet_wf db"
  shows "same_reads f db"
proof -
  have o: "ordered_rows z_CreatedAt t (fd_zones db)" "ordered_rows st_CreatedAt t (fd_stations db)"
    "ordered_rows t_CreatedAt t (fd_tasks db)" "ordered_rows al_CreatedAt t (fd_alerts db)"
    and h: "\<And>P. ordered_rows th_ChangedAt t (filter P (fd_history db))"
    and p: "\<And>P. ordered_rows ph_RecordedAt t (filter P (fd_positions db))"
    and k: "keyed_rows z_ID (fs_zoneOrder f) (fs_zones f) (fd_zones db)"
    "keyed_rows st_ID (fs_stationOrder f) (fs_stations f) (fd_stations db)"
    "keyed_rows al_ID (fs_alertOrder f) (fs_alerts f) (fd_alerts db)"
    and s: "\<And>i. slice (fs_taskStatusHistory f) i = filter (\<lambda>h. th_TaskID h = i) (fd_history db)"
    "\<And>v. slice (fs_positionHistory f) v = filter (\<lambda>p. ph_VehicleID p = v) (fd_positions db)"
    using m by (simp_all add: mirrors_def ordered_filter)
  have "exists_row t_ID i (fd_tasks db) \<longleftrightarrow> fs_tasks f i \<noteq> None" for i
    using mirrors_task [OF m, of i] by (simp add: row_for_exists)
  then have "fake_GetTaskStatusHistory i f = GetTaskStatusHistory (\<lambda>_. True) i db" for i
    by (simp add: fake_GetTaskStatusHistory_def GetTaskStatusHistory_def s ordered_sort [OF h])
  moreover have "fake_GetVehiclePositionHistory v f = GetVehiclePositionHistory (\<lambda>_. True) v db" for v
    using mirrors_vehicle [OF m, of v]
    by (simp add: fake_GetVehiclePositionHistory_def GetVehiclePositionHistory_def s ordered_sort [OF p])
  moreover have "fake_ListZones f = ListZones True db" "fake_ListStations f = ListStations True db"
    "fake_ListTasks f = ListTasks True db" "fake_ListAlerts f = ListAlerts True db"
    using o mirrored_tasks [OF m] keyed_list [OF k(1)] keyed_list [OF k(2)] keyed_list [OF k(3)]
    by (simp_all add: fake_ListZones_def ListZones_def fake_ListStations_def ListStations_def fake_ListTasks_def
        ListTasks_def fake_ListAlerts_def ListAlerts_def ordered_sort rev_map [symmetric])
  ultimately show ?thesis
    using mirrored_vehicles [OF m] mirrored_status [OF m wf]
    by (simp add: same_reads_def fake_ListVehicleStatus_def ListVehicleStatus_def)
qed

text \<open>C29: The in-memory store and the Postgres store are interchangeable. After any sequence of calls at
  non-decreasing times that respects what only the database checks, both have given the same replies, values and
  errors, and every read of the interface returns the same in both (the status list up to its order, which the
  query leaves open).\<close>

theorem fleet_stores_agree:
  assumes "admissible_run f4 jsonb t calls empty_fleet_db"
  shows "snd (fake_run calls NewFakeFleetStore) = snd (pg_run f4 jsonb calls empty_fleet_db) \<and>
    same_reads (fst (fake_run calls NewFakeFleetStore)) (fst (pg_run f4 jsonb calls empty_fleet_db))"
proof -
  have "fleet_wf empty_fleet_db" by (rule fleet_tables.start_inv) simp
  from run_simulates [OF mirrors_empty this assms] show ?thesis by (blast intro: mirrors_same_reads)
qed

definition demo_zone :: Zone where
  "demo_zone = \<lparr>z_ID = ''z'', z_Name = ''Hall'', z_Environment = ''indoor'', z_SVGGeometry = [], z_GeoBounds = None, z_CreatedAt = 0\<rparr>"

definition demo_station :: "string \<Rightarrow> Station" where
  "demo_station i = \<lparr>st_ID = i, st_ZoneID = ''z'', st_Name = i, st_PositionX = None, st_PositionY = None,
     st_PositionLat = None, st_PositionLon = None, st_CreatedAt = 0\<rparr>"

definition demo_task :: Task where
  "demo_task = \<lparr>t_ID = [], t_VehicleID = ''v'', t_FromStationID = ''a'', t_ToStationID = ''b'', t_Status = [], t_Priority = 1,
     t_CreatedAt = 0, t_CompletedAt = None, t_StatusChangedBy = None, t_AllowedTransitions = []\<rparr>"

definition demo_status :: VehicleStatus where
  "demo_status = \<lparr>vs_VehicleID = ''v'', vs_BatteryPct = Some 80, vs_Speed = None, vs_PositionLat = Some 1, vs_PositionLon = Some 2,
     vs_PositionZoneID = None, vs_PositionX = None, vs_PositionY = None, vs_AutonomyMode = ''manual'',
     vs_CurrentTaskID = Some ''t'', vs_UpdatedAt = 0\<rparr>"

definition demo_calls :: "(instant \<times> store_call) list" where
  "demo_calls =
     [(1, CEnsureVehicle ''v''), (2, CAddZone demo_zone), (3, CAddStation (demo_station ''a'')),
      (3, CAddStation (demo_station ''b'')), (4, CCreateTask ''t'' demo_task), (5, CUpsertStatus demo_status),
      (5, CRecordPosition ''v'' (Some 1) (Some 2)), (6, CUpdateTaskStatus ''h'' ''t'' TaskInProgress ''op''),
      (7, CUpdateTaskStatus ''i'' ''t'' TaskInProgress ''op''), (8, CUpdateTaskStatus ''j'' ''t'' TaskCompleted ''op'')]"

theorem fleet_stores_agree_witness:
  "admissible_run Some Some 0 demo_calls empty_fleet_db \<and>
   snd (fake_run demo_calls NewFakeFleetStore) = snd (pg_run Some Some demo_calls empty_fleet_db) \<and>
   same_reads (fst (fake_run demo_calls NewFakeFleetStore)) (fst (pg_run Some Some demo_calls empty_fleet_db))"
proof -
  have adm: "admissible_run Some Some 0 demo_calls empty_fleet_db"
    by (simp add: demo_calls_def demo_zone_def demo_station_def demo_task_def demo_status_def empty_fleet_db_def as_reply_def
        EnsureVehicleExists_def AddZone_def AddStation_def CreateTask_def UpsertVehicleStatus_def RecordPositionHistory_def
        unrounded_def real_opt_def task_status_ok_def task_status_defs exists_row_def Let_def)
  with fleet_stores_agree [OF adm] show ?thesis by blast
qed

end
