(* ===== verification/Fleet_Tasks.thy ===== *)
theory Fleet_Tasks
  imports Fleet_Equivalence
begin

text \<open>
  The life of a task. \<open>task_store\<close> is what a \<open>FleetStore\<close> promises of \<open>UpdateTaskStatus\<close> and the history: an accepted
  update moves the task along an edge of the transition matrix and appends one entry for it, a refused one
  changes nothing, and no other call touches the status or the history of an existing task. From that alone a
  task makes at most two transitions and its history is the path it took. Both stores are interpretations.
\<close>

section \<open>Paths of the matrix\<close>

fun task_path :: "string \<Rightarrow> string list \<Rightarrow> bool" where
  "task_path st [] \<longleftrightarrow> True"
| "task_path st (x # xs) \<longleftrightarrow> task_edge st x \<and> task_path x xs"

fun path_end :: "string \<Rightarrow> string list \<Rightarrow> string" where
  "path_end st [] = st"
| "path_end st (x # xs) = path_end x xs"

lemma path_bound: "task_path st xs \<Longrightarrow> length xs + transitions_left (path_end st xs) \<le> transitions_left st"
proof (induction xs arbitrary: st)
  case (Cons x xs)
  then have "length xs + transitions_left (path_end x xs) \<le> transitions_left x" "transitions_left x < transitions_left st"
    by (auto intro: task_edge_decreases)
  then show ?case by simp
qed simp

text \<open>The targets of the updates of a task that a run accepted.\<close>

fun accepted_updates :: "string \<Rightarrow> (instant \<times> store_call) list \<Rightarrow> (fleet_error + store_reply) list \<Rightarrow> string list" where
  "accepted_updates tid ((now, CUpdateTaskStatus i tid' new op) # cs) (r # rs) =
     (if tid' = tid \<and> \<not> isl r then new # accepted_updates tid cs rs else accepted_updates tid cs rs)"
| "accepted_updates tid (c # cs) (r # rs) = accepted_updates tid cs rs"
| "accepted_updates tid _ _ = []"

text \<open>Ids generated for new tasks are not in use.\<close>

fun fresh_for :: "('s \<Rightarrow> string \<Rightarrow> string option) \<Rightarrow> store_call \<Rightarrow> 's \<Rightarrow> bool" where
  "fresh_for lookup (CCreateTask i t) s \<longleftrightarrow> lookup s i = None"
| "fresh_for lookup c s \<longleftrightarrow> True"

fun fresh_run ::
  "(instant \<Rightarrow> store_call \<Rightarrow> 's \<Rightarrow> 's \<times> (fleet_error + store_reply)) \<Rightarrow> ('s \<Rightarrow> string \<Rightarrow> string option) \<Rightarrow>
     (instant \<times> store_call) list \<Rightarrow> 's \<Rightarrow> bool" where
  "fresh_run call lookup [] s \<longleftrightarrow> True"
| "fresh_run call lookup ((now, c) # cs) s \<longleftrightarrow> fresh_for lookup c s \<and> fresh_run call lookup cs (fst (call now c s))"

fun is_update :: "store_call \<Rightarrow> bool" where
  "is_update (CUpdateTaskStatus i tid new op) \<longleftrightarrow> True"
| "is_update c \<longleftrightarrow> False"

lemma accepted_other: "\<not> is_update c \<Longrightarrow> accepted_updates tid ((now, c) # cs) (r # rs) = accepted_updates tid cs rs"
  by (cases c) simp_all

section \<open>The contract\<close>

locale task_store =
  fixes call :: "instant \<Rightarrow> store_call \<Rightarrow> 's \<Rightarrow> 's \<times> (fleet_error + store_reply)"
    and lookup :: "'s \<Rightarrow> string \<Rightarrow> string option"
    and history :: "'s \<Rightarrow> string \<Rightarrow> TaskStatusHistoryEntry list"
    and ok :: "'s \<Rightarrow> bool"
  assumes call_ok: "ok s \<Longrightarrow> fresh_for lookup c s \<Longrightarrow> ok (fst (call now c s))"
    and accepts: "ok s \<Longrightarrow> lookup s tid = Some old \<Longrightarrow> task_edge old new \<Longrightarrow>
      \<not> isl (snd (call now (CUpdateTaskStatus i tid new op) s)) \<and>
      lookup (fst (call now (CUpdateTaskStatus i tid new op) s)) = (lookup s)(tid \<mapsto> new) \<and>
      history (fst (call now (CUpdateTaskStatus i tid new op) s)) = (history s)(tid := history s tid @
        [\<lparr>th_ID = i, th_TaskID = tid, th_FromStatus = Some old, th_ToStatus = new, th_ChangedBy = op, th_ChangedAt = now\<rparr>])"
    and invalid: "ok s \<Longrightarrow> lookup s tid = Some old \<Longrightarrow> \<not> task_edge old new \<Longrightarrow>
      call now (CUpdateTaskStatus i tid new op) s = (s, Inl ErrInvalidTransition)"
    and unknown: "ok s \<Longrightarrow> lookup s tid = None \<Longrightarrow> \<exists>e. call now (CUpdateTaskStatus i tid new op) s = (s, Inl e)"
    and others: "ok s \<Longrightarrow> fresh_for lookup c s \<Longrightarrow> \<not> is_update c \<Longrightarrow> lookup s tid = Some st \<Longrightarrow>
      lookup (fst (call now c s)) tid = Some st \<and> history (fst (call now c s)) tid = history s tid"
begin

text \<open>One call, seen by one task.\<close>

lemma call_task:
  assumes "ok s" and "fresh_for lookup c s" and "lookup s tid = Some st"
  obtains (stays) "lookup (fst (call now c s)) tid = Some st" "history (fst (call now c s)) tid = history s tid"
      "\<And>cs rs. accepted_updates tid ((now, c) # cs) (snd (call now c s) # rs) = accepted_updates tid cs rs"
  | (moves) new e where "task_edge st new" "lookup (fst (call now c s)) tid = Some new"
      "history (fst (call now c s)) tid = history s tid @ [e]" "th_FromStatus e = Some st" "th_ToStatus e = new"
      "\<And>cs rs. accepted_updates tid ((now, c) # cs) (snd (call now c s) # rs) = new # accepted_updates tid cs rs"
proof (cases c)
  case (CUpdateTaskStatus i tid' new op)
  show thesis
  proof (cases "lookup s tid'")
    case None
    from unknown [OF assms(1) None] obtain e where "call now c s = (s, Inl e)" unfolding CUpdateTaskStatus by blast
    with stays assms(3) show thesis by (simp add: CUpdateTaskStatus)
  next
    case (Some old)
    show thesis
    proof (cases "task_edge old new")
      case True
      note acc = accepts [OF assms(1) Some True, of now i op]
      show thesis
      proof (cases "tid' = tid")
        case True
        with acc Some assms(3) moves [of new] \<open>task_edge old new\<close> show thesis by (simp add: CUpdateTaskStatus)
      next
        case False
        with acc assms(3) stays show thesis by (simp add: CUpdateTaskStatus)
      qed
    next
      case False
      from invalid [OF assms(1) Some False, of now i op] stays assms(3) show thesis by (simp add: CUpdateTaskStatus)
    qed
  qed
qed (use stays others [OF assms(1,2) _ assms(3)] in simp_all)

lemma run_task:
  assumes "ok s" and "fresh_run call lookup cs s" and "lookup s tid = Some st"
  shows "\<exists>es. let (s', rs) = run_calls call cs s; path = accepted_updates tid cs rs
    in task_path st path \<and> lookup s' tid = Some (path_end st path) \<and> history s' tid = history s tid @ es \<and>
       map th_ToStatus es = path \<and> map th_FromStatus es = map Some (butlast (st # path))"
  using assms
proof (induction cs arbitrary: s st)
  case (Cons c cs)
  obtain now cl where c: "c = (now, cl)" by fastforce
  let ?s1 = "fst (call now cl s)" let ?r = "snd (call now cl s)" let ?rs = "snd (run_calls call cs ?s1)"
  have fresh: "fresh_for lookup cl s" "fresh_run call lookup cs ?s1" using Cons.prems(2) c by simp_all
  have ok1: "ok ?s1" by (rule call_ok [OF Cons.prems(1) fresh(1)])
  have run: "run_calls call (c # cs) s = (fst (run_calls call cs ?s1), ?r # ?rs)" by (simp add: c Let_def split_beta)
  from Cons.prems(1) fresh(1) Cons.prems(3) show ?case
  proof (cases rule: call_task [where now = now])
    case stays
    from Cons.IH [OF ok1 fresh(2) stays(1)] show ?thesis unfolding run by (simp add: c stays Let_def split_beta del: butlast.simps)
  next
    case (moves new e)
    from Cons.IH [OF ok1 fresh(2) moves(2)] obtain es
      where "let path = accepted_updates tid cs ?rs; s' = fst (run_calls call cs ?s1) in task_path new path \<and>
        lookup s' tid = Some (path_end new path) \<and> history s' tid = history ?s1 tid @ es \<and>
        map th_ToStatus es = path \<and> map th_FromStatus es = map Some (butlast (new # path))"
      by (auto simp: Let_def split_beta)
    then show ?thesis unfolding run by (intro exI [of _ "e # es"]) (simp add: c moves Let_def)
  qed
qed simp

end

section \<open>Both stores keep it\<close>

definition pg_status :: "fleet_db \<Rightarrow> string \<Rightarrow> string option" where
  "pg_status db tid = map_option t_Status (row_for t_ID tid (fd_tasks db))"

definition pg_history :: "fleet_db \<Rightarrow> string \<Rightarrow> TaskStatusHistoryEntry list" where
  "pg_history db tid = filter (\<lambda>h. th_TaskID h = tid) (fd_history db)"

definition fake_status :: "FakeFleetStore \<Rightarrow> string \<Rightarrow> string option" where
  "fake_status f tid = map_option t_Status (fs_tasks f tid)"

definition fake_history :: "FakeFleetStore \<Rightarrow> string \<Rightarrow> TaskStatusHistoryEntry list" where
  "fake_history f tid = slice (fs_taskStatusHistory f) tid"

definition fake_keys :: "FakeFleetStore \<Rightarrow> bool" where
  "fake_keys f \<longleftrightarrow> (\<forall>k t. fs_tasks f k = Some t \<longrightarrow> t_ID t = k)"

lemma edge_sources: "taskTransitionSources new = Some sources \<Longrightarrow> task_edge old new \<longleftrightarrow> old \<in> set sources"
  by (simp add: task_edge_def)

lemma no_edge: "taskTransitionSources new = None \<Longrightarrow> \<not> task_edge old new"
  by (simp add: task_edge_def)

lemma pg_other_tasks: "\<not> is_update c \<Longrightarrow> \<exists>ts. fd_tasks (fst (pg_call f4 jsonb now c db)) = fd_tasks db @ ts"
  "\<not> is_update c \<Longrightarrow> fd_history (fst (pg_call f4 jsonb now c db)) = fd_history db"
  by (cases c; auto simp: as_reply_def EnsureVehicleExists_def SetVehicleType_def AddZone_def AddStation_def CreateTask_def
      UpsertVehicleStatus_def RecordPositionHistory_def PruneVehiclePositionHistory_def CreateAlert_def AcknowledgeAlert_def
      Let_def split: option.split)+

lemma row_for_append_Some: "row_for key k rows = Some r \<Longrightarrow> row_for key k (rows @ rs) = Some r"
  by (simp add: row_for_def find_append)

lemma pg_accepts:
  assumes "row_for t_ID tid (fd_tasks db) = Some t" and "task_edge (t_Status t) new"
  shows "\<not> isl (snd (UpdateTaskStatus (\<lambda>_. True) now i tid new op db)) \<and>
    pg_status (fst (UpdateTaskStatus (\<lambda>_. True) now i tid new op db)) = (pg_status db)(tid \<mapsto> new) \<and>
    pg_history (fst (UpdateTaskStatus (\<lambda>_. True) now i tid new op db)) = (pg_history db)(tid := pg_history db tid @
      [\<lparr>th_ID = i, th_TaskID = tid, th_FromStatus = Some (t_Status t), th_ToStatus = new, th_ChangedBy = op, th_ChangedAt = now\<rparr>])"
proof -
  obtain sources where src: "taskTransitionSources new = Some sources" "t_Status t \<in> set sources"
    using assms(2) by (auto simp: task_edge_def)
  have tid: "t_ID t = tid" using row_for_Some [OF assms(1)] by simp
  have ex: "exists_row t_ID tid (fd_tasks db)" using assms(1) by (simp add: row_for_exists)
  show ?thesis
    using src assms(1) tid ex
    by (auto simp: UpdateTaskStatus_def recordTaskStatusTransition_def Let_def pg_status_def pg_history_def row_for_put
        fun_eq_iff split: prod.split)
qed

interpretation pg_tasks: task_store "pg_call f4 jsonb" pg_status pg_history "\<lambda>_. True"
proof
  fix s :: fleet_db and now :: instant and i tid old new op :: string
  assume "pg_status s tid = Some old" and e: "task_edge old new"
  then obtain t where "row_for t_ID tid (fd_tasks s) = Some t" "t_Status t = old" by (auto simp: pg_status_def)
  with pg_accepts [of tid s t new now i op] e
  show "\<not> isl (snd (pg_call f4 jsonb now (CUpdateTaskStatus i tid new op) s)) \<and>
      pg_status (fst (pg_call f4 jsonb now (CUpdateTaskStatus i tid new op) s)) = (pg_status s)(tid \<mapsto> new) \<and>
      pg_history (fst (pg_call f4 jsonb now (CUpdateTaskStatus i tid new op) s)) = (pg_history s)(tid := pg_history s tid @
        [\<lparr>th_ID = i, th_TaskID = tid, th_FromStatus = Some old, th_ToStatus = new, th_ChangedBy = op, th_ChangedAt = now\<rparr>])"
    by (simp add: as_reply_def isl_def split: sum.split)
next
  fix s :: fleet_db and now :: instant and i tid old new op :: string
  assume "pg_status s tid = Some old" and "\<not> task_edge old new"
  then show "pg_call f4 jsonb now (CUpdateTaskStatus i tid new op) s = (s, Inl ErrInvalidTransition)"
    by (auto simp: pg_status_def as_reply_def UpdateTaskStatus_def edge_sources split: option.split)
next
  fix s :: fleet_db and now :: instant and i tid new op :: string
  assume "pg_status s tid = None"
  then show "\<exists>e. pg_call f4 jsonb now (CUpdateTaskStatus i tid new op) s = (s, Inl e)"
    by (auto simp: pg_status_def as_reply_def UpdateTaskStatus_def split: option.split)
next
  fix s :: fleet_db and now :: instant and tid st c
  assume c: "\<not> is_update c" and "pg_status s tid = Some st"
  then obtain t where "row_for t_ID tid (fd_tasks s) = Some t" "t_Status t = st" by (auto simp: pg_status_def)
  with pg_other_tasks(1) [OF c, of f4 jsonb now s] pg_other_tasks(2) [OF c, of f4 jsonb now s]
  show "pg_status (fst (pg_call f4 jsonb now c s)) tid = Some st \<and>
      pg_history (fst (pg_call f4 jsonb now c s)) tid = pg_history s tid"
    by (auto simp: pg_status_def pg_history_def row_for_append_Some)
qed simp

lemma fake_other_tasks:
  assumes "\<not> is_update c" and "fresh_for fake_status c f"
  shows "fs_tasks f k = Some t \<Longrightarrow> fs_tasks (fst (fake_call now c f)) k = Some t"
    and "fs_taskStatusHistory (fst (fake_call now c f)) = fs_taskStatusHistory f"
    and "fake_keys f \<Longrightarrow> fake_keys (fst (fake_call now c f))"
  using assms
  by (cases c; auto simp: as_reply_def fake_EnsureVehicleExists_def fake_SetVehicleType_def fake_AddZone_def fake_AddStation_def
      fake_CreateTask_def fake_UpsertVehicleStatus_def fake_RecordPositionHistory_def fake_PruneVehiclePositionHistory_def
      fake_CreateAlert_def fake_AcknowledgeAlert_def fake_status_def fake_keys_def Let_def split: option.splits)+

lemma fake_accepts:
  assumes "fs_tasks f tid = Some t" and "t_ID t = tid" and "task_edge (t_Status t) new"
  shows "\<not> isl (snd (fake_UpdateTaskStatus now i tid new op f)) \<and>
    fake_status (fst (fake_UpdateTaskStatus now i tid new op f)) = (fake_status f)(tid \<mapsto> new) \<and>
    fake_history (fst (fake_UpdateTaskStatus now i tid new op f)) = (fake_history f)(tid := fake_history f tid @
      [\<lparr>th_ID = i, th_TaskID = tid, th_FromStatus = Some (t_Status t), th_ToStatus = new, th_ChangedBy = op, th_ChangedAt = now\<rparr>])"
proof -
  obtain sources where "taskTransitionSources new = Some sources" "t_Status t \<in> set sources"
    using assms(3) by (auto simp: task_edge_def)
  then show ?thesis
    using assms(1,2)
    by (cases "fs_vehicleStatus f (t_VehicleID t)")
      (simp_all add: fake_UpdateTaskStatus_def fake_status_def fake_history_def Let_def fun_eq_iff)
qed

lemma fake_update_keys: "fake_keys f \<Longrightarrow> fake_keys (fst (fake_UpdateTaskStatus now i tid new op f))"
  by (cases "fs_tasks f tid"; cases "taskTransitionSources new"; cases "fs_vehicleStatus f (t_VehicleID (the (fs_tasks f tid)))")
    (auto simp: fake_UpdateTaskStatus_def fake_keys_def Let_def)

interpretation fake_tasks: task_store fake_call fake_status fake_history fake_keys
proof
  show "fake_keys (fst (fake_call now c f))" if "fake_keys f" "fresh_for fake_status c f" for f c now
  proof (cases "is_update c")
    case True
    then show ?thesis using that(1) by (cases c) (simp_all add: as_reply_def fake_update_keys)
  next
    case False
    then show ?thesis using that by (intro fake_other_tasks(3))
  qed
next
  fix f :: FakeFleetStore and now :: instant and i tid old new op :: string
  assume k: "fake_keys f" and "fake_status f tid = Some old" and e: "task_edge old new"
  then obtain t where "fs_tasks f tid = Some t" "t_Status t = old" "t_ID t = tid" by (auto simp: fake_status_def fake_keys_def)
  with fake_accepts [of f tid t new now i op] e
  show "\<not> isl (snd (fake_call now (CUpdateTaskStatus i tid new op) f)) \<and>
      fake_status (fst (fake_call now (CUpdateTaskStatus i tid new op) f)) = (fake_status f)(tid \<mapsto> new) \<and>
      fake_history (fst (fake_call now (CUpdateTaskStatus i tid new op) f)) = (fake_history f)(tid := fake_history f tid @
        [\<lparr>th_ID = i, th_TaskID = tid, th_FromStatus = Some old, th_ToStatus = new, th_ChangedBy = op, th_ChangedAt = now\<rparr>])"
    by (simp add: as_reply_def isl_def split: sum.split)
next
  fix f :: FakeFleetStore and now :: instant and i tid old new op :: string
  assume "fake_status f tid = Some old" and "\<not> task_edge old new"
  then show "fake_call now (CUpdateTaskStatus i tid new op) f = (f, Inl ErrInvalidTransition)"
    by (auto simp: fake_status_def as_reply_def fake_UpdateTaskStatus_def edge_sources split: option.split)
next
  fix f :: FakeFleetStore and now :: instant and i tid new op :: string
  assume "fake_status f tid = None"
  then show "\<exists>e. fake_call now (CUpdateTaskStatus i tid new op) f = (f, Inl e)"
    by (auto simp: fake_status_def as_reply_def fake_UpdateTaskStatus_def split: option.split)
next
  fix f :: FakeFleetStore and now :: instant and tid st c
  assume c: "\<not> is_update c" "fresh_for fake_status c f" and "fake_status f tid = Some st"
  then obtain t where "fs_tasks f tid = Some t" "t_Status t = st" by (auto simp: fake_status_def)
  with fake_other_tasks(1) [OF c, of tid t now] fake_other_tasks(2) [OF c, of now]
  show "fake_status (fst (fake_call now c f)) tid = Some st \<and> fake_history (fst (fake_call now c f)) tid = fake_history f tid"
    by (simp add: fake_status_def fake_history_def)
qed

section \<open>Properties\<close>

text \<open>What a run of calls \<open>cs\<close> with replies \<open>rs\<close> makes of a task that is in status \<open>st\<close> at its start.\<close>

definition bounded_life ::
  "string \<Rightarrow> string \<Rightarrow> (instant \<times> store_call) list \<Rightarrow> (fleet_error + store_reply) list \<Rightarrow> string option \<Rightarrow>
     TaskStatusHistoryEntry list \<Rightarrow> TaskStatusHistoryEntry list \<Rightarrow> bool" where
  "bounded_life tid st cs rs after h h' \<longleftrightarrow>
     (let path = accepted_updates tid cs rs
      in task_path st path \<and> length path \<le> 2 \<and> after = Some (path_end st path) \<and>
         map th_ToStatus h' = map th_ToStatus h @ path \<and>
         map th_FromStatus h' = map th_FromStatus h @ map Some (butlast (st # path)))"

lemma bounded_lifeI:
  assumes "task_path st (accepted_updates tid cs rs)" and "after = Some (path_end st (accepted_updates tid cs rs))"
    and "h' = h @ es" and "map th_ToStatus es = accepted_updates tid cs rs"
    and "map th_FromStatus es = map Some (butlast (st # accepted_updates tid cs rs))"
  shows "bounded_life tid st cs rs after h h'"
proof -
  have "length (accepted_updates tid cs rs) \<le> transitions_left st" using path_bound [OF assms(1)] by simp
  also have "\<dots> \<le> 2" by (simp add: transitions_left_def)
  finally show ?thesis using assms by (simp add: bounded_life_def Let_def del: butlast.simps)
qed


definition demo_fake :: FakeFleetStore where
  "demo_fake = NewFakeFleetStore\<lparr>fs_tasks := [''t'' \<mapsto> demo_task\<lparr>t_ID := ''t'', t_Status := TaskPending\<rparr>], fs_taskOrder := [''t'']\<rparr>"

definition demo_updates :: "(instant \<times> store_call) list" where
  "demo_updates = [(1, CUpdateTaskStatus ''h'' ''t'' TaskInProgress ''op''), (2, CUpdateTaskStatus ''i'' ''t'' TaskPending ''op''),
     (3, CUpdateTaskStatus ''j'' ''t'' TaskCompleted ''op'')]"


section \<open>Referential integrity\<close>



text \<open>The update and its bookkeeping are separate statements: when the second one fails, the caller gets an error, yet the
  task has its new status, without a history entry, and a retry is refused as an invalid transition.\<close>

theorem update_not_atomic:
  assumes "row_for t_ID tid (fd_tasks db) = Some t" and "task_edge (t_Status t) new" and "ups 0" and "\<not> ups 2"
    and "UpdateTaskStatus ups now i tid new op db = (db', r)"
  shows "r = Inl ErrStore \<and> pg_status db' tid = Some new \<and> pg_history db' = pg_history db \<and>
    UpdateTaskStatus (\<lambda>_. True) now' j tid new op db' = (db', Inl ErrInvalidTransition)"
proof -
  obtain sources where src: "taskTransitionSources new = Some sources" "t_Status t \<in> set sources"
    using assms(2) by (auto simp: task_edge_def)
  have tid: "t_ID t = tid" and ex: "exists_row t_ID tid (fd_tasks db)"
    using row_for_Some [OF assms(1)] assms(1) by (simp_all add: row_for_exists)
  have r: "r = Inl ErrStore \<and> pg_status db' tid = Some new \<and> pg_history db' = pg_history db"
    using assms src tid ex
    by (auto simp: UpdateTaskStatus_def recordTaskStatusTransition_def Let_def pg_status_def pg_history_def row_for_put
        fun_eq_iff split: prod.splits if_splits)
  have "\<not> task_edge new new" by (metis task_edge_decreases less_irrefl)
  then have "UpdateTaskStatus (\<lambda>_. True) now' j tid new op db' = (db', Inl ErrInvalidTransition)"
    using r src(1) by (auto simp: UpdateTaskStatus_def pg_status_def edge_sources [OF src(1), symmetric])
  with r show ?thesis by blast
qed

end
