(* ===== verification/Fleet_Alerts.thy ===== *)
theory Fleet_Alerts
  imports Fleet_Data
begin

text \<open>
  The battery alerts (\<open>internal/fleetservice/alertengine.go\<close>): tiers with hysteresis and the engine that raises an
  alert when a vehicle's tier gets worse. The tier is shown to be the state of two independent Schmitt triggers
  over the readings of the vehicle.
\<close>

section \<open>Tiers\<close>

type_synonym tier = nat

definition batteryTierNormal :: tier where "batteryTierNormal = 0"
definition batteryTierWarning :: tier where "batteryTierWarning = 1"
definition batteryTierCritical :: tier where "batteryTierCritical = 2"

definition batteryWarningThreshold :: float64 where "batteryWarningThreshold = 20"
definition batteryWarningClear :: float64 where "batteryWarningClear = 25"
definition batteryCriticalThreshold :: float64 where "batteryCriticalThreshold = 10"
definition batteryCriticalClear :: float64 where "batteryCriticalClear = 15"

lemmas tier_defs = batteryTierNormal_def batteryTierWarning_def batteryTierCritical_def
lemmas threshold_defs = batteryWarningThreshold_def batteryWarningClear_def batteryCriticalThreshold_def
  batteryCriticalClear_def

definition batteryTier :: "float64 \<Rightarrow> tier \<Rightarrow> tier" where
  "batteryTier batteryPct current =
     (if current = batteryTierCritical then
        (if batteryPct < batteryCriticalClear then batteryTierCritical
         else if batteryPct < batteryWarningClear then batteryTierWarning
         else batteryTierNormal)
      else if current = batteryTierWarning then
        (if batteryPct < batteryCriticalThreshold then batteryTierCritical
         else if batteryPct < batteryWarningClear then batteryTierWarning
         else batteryTierNormal)
      else
        (if batteryPct < batteryCriticalThreshold then batteryTierCritical
         else if batteryPct < batteryWarningThreshold then batteryTierWarning
         else batteryTierNormal))"

section \<open>The engine\<close>

text \<open>\<open>fmt.Sprintf\<close> with \<open>%.1f\<close>: one decimal, the nearest one, ties to the even digit.\<close>

definition round_half_even :: "rat \<Rightarrow> int" where
  "round_half_even x =
     (let lo = \<lfloor>x\<rfloor>; d = x - of_int lo
      in if d < 1 / 2 \<or> (d = 1 / 2 \<and> even lo) then lo else lo + 1)"

definition format_1f :: "float64 \<Rightarrow> string" where
  "format_1f x =
     (let n = nat (round_half_even (\<bar>x\<bar> * 10))
      in (if x < 0 then ''-'' else []) @ nat_string (n div 10) @ ''.'' @ nat_string (n mod 10))"

text \<open>The map of the engine; a missing entry reads as 0.\<close>

type_synonym AlertEngine = "vehicle_id \<rightharpoonup> tier"

definition NewAlertEngine :: AlertEngine where "NewAlertEngine = Map.empty"

definition tier_of :: "AlertEngine \<Rightarrow> vehicle_id \<Rightarrow> tier" where
  "tier_of e v = (case e v of None \<Rightarrow> 0 | Some t \<Rightarrow> t)"

definition new_alert :: "vehicle_id \<Rightarrow> string \<Rightarrow> string \<Rightarrow> Alert" where
  "new_alert v severity message = \<lparr>al_ID = [], al_VehicleID = v, al_Severity = severity, al_Message = message,
     al_CreatedAt = 0, al_AcknowledgedAt = None, al_AcknowledgedBy = None\<rparr>"

definition Evaluate :: "VehicleStatus \<Rightarrow> AlertEngine \<Rightarrow> AlertEngine \<times> Alert option" where
  "Evaluate vs e =
     (case vs_BatteryPct vs of
        None \<Rightarrow> (e, None)
      | Some pct \<Rightarrow>
          let current = tier_of e (vs_VehicleID vs);
              next = batteryTier pct current;
              e1 = e(vs_VehicleID vs \<mapsto> next)
          in if next \<le> current then (e1, None)
             else if next = batteryTierWarning
             then (e1, Some (new_alert (vs_VehicleID vs) ''warning'' (''Batterie schwach ('' @ format_1f pct @ ''%)'')))
             else if next = batteryTierCritical
             then (e1, Some (new_alert (vs_VehicleID vs) ''critical'' (''Batterie kritisch ('' @ format_1f pct @ ''%)'')))
             else (e1, None))"

section \<open>Two Schmitt triggers\<close>

text \<open>\<open>trigger low high xs\<close>: some reading fell below \<open>low\<close> and none since then reached \<open>high\<close>.\<close>

definition trigger :: "float64 \<Rightarrow> float64 \<Rightarrow> float64 list \<Rightarrow> bool" where
  "trigger low high xs \<longleftrightarrow> (\<exists>ys x zs. xs = ys @ x # zs \<and> x < low \<and> (\<forall>z\<in>set zs. z < high))"

definition tier_spec :: "float64 list \<Rightarrow> tier" where
  "tier_spec xs =
     (if trigger batteryCriticalThreshold batteryCriticalClear xs then batteryTierCritical
      else if trigger batteryWarningThreshold batteryWarningClear xs then batteryTierWarning
      else batteryTierNormal)"

lemma trigger_Nil [simp]: "\<not> trigger low high []"
  by (simp add: trigger_def)

lemma trigger_snoc: "trigger low high (xs @ [x]) \<longleftrightarrow> x < low \<or> (trigger low high xs \<and> x < high)"
proof
  assume "trigger low high (xs @ [x])"
  then obtain ys y zs where s: "xs @ [x] = ys @ y # zs" "y < low" "\<forall>z\<in>set zs. z < high" by (auto simp: trigger_def)
  show "x < low \<or> (trigger low high xs \<and> x < high)"
  proof (cases zs rule: rev_cases)
    case Nil
    with s show ?thesis by simp
  next
    case (snoc zs' z)
    with s have "xs = ys @ y # zs'" "z = x" by simp_all
    with s snoc show ?thesis by (auto simp: trigger_def)
  qed
next
  assume "x < low \<or> (trigger low high xs \<and> x < high)"
  then show "trigger low high (xs @ [x])"
  proof
    assume "x < low"
    then show ?thesis unfolding trigger_def by (intro exI [of _ xs] exI [of _ x] exI [of _ "[]"]) simp
  next
    assume t: "trigger low high xs \<and> x < high"
    then obtain ys y zs where "xs = ys @ y # zs" "y < low" "\<forall>z\<in>set zs. z < high" by (auto simp: trigger_def)
    with t show ?thesis unfolding trigger_def by (intro exI [of _ ys] exI [of _ y] exI [of _ "zs @ [x]"]) simp
  qed
qed

lemma critical_implies_warning:
  "trigger batteryCriticalThreshold batteryCriticalClear xs \<Longrightarrow> trigger batteryWarningThreshold batteryWarningClear xs"
  unfolding trigger_def threshold_defs by fastforce

lemma batteryTier_spec: "batteryTier x (tier_spec xs) = tier_spec (xs @ [x])"
  using critical_implies_warning [of xs]
  by (auto simp: batteryTier_def tier_spec_def trigger_snoc tier_defs threshold_defs)

section \<open>Runs\<close>

text \<open>The battery readings of one vehicle in a sequence of reports, and the alerts the reports raise.\<close>

definition readings :: "vehicle_id \<Rightarrow> VehicleStatus list \<Rightarrow> float64 list" where
  "readings v reports = List.map_filter (\<lambda>vs. if vs_VehicleID vs = v then vs_BatteryPct vs else None) reports"

definition engine_after :: "VehicleStatus list \<Rightarrow> AlertEngine" where
  "engine_after reports = fold (\<lambda>vs e. fst (Evaluate vs e)) reports NewAlertEngine"

lemma readings_simps [simp]: "readings v [] = []"
  "readings v (rs @ [vs]) = readings v rs @ (if vs_VehicleID vs = v then (case vs_BatteryPct vs of None \<Rightarrow> [] | Some x \<Rightarrow> [x]) else [])"
  by (auto simp: readings_def map_filter_def split: option.split)

lemma Evaluate_tier: "tier_of (fst (Evaluate vs e)) v =
    (case vs_BatteryPct vs of
       Some x \<Rightarrow> if vs_VehicleID vs = v then batteryTier x (tier_of e v) else tier_of e v
     | None \<Rightarrow> tier_of e v)"
  by (auto simp: Evaluate_def tier_of_def Let_def split: option.split)

lemma engine_tier: "tier_of (engine_after reports) v = tier_spec (readings v reports)"
proof (induction reports rule: rev_induct)
  case Nil
  show ?case by (simp add: engine_after_def NewAlertEngine_def tier_of_def tier_spec_def batteryTierNormal_def)
next
  case (snoc vs rs)
  have "engine_after (rs @ [vs]) = fst (Evaluate vs (engine_after rs))" by (simp add: engine_after_def)
  with snoc show ?case by (auto simp: Evaluate_tier batteryTier_spec split: option.split)
qed

lemma tier_spec_cases: "tier_spec xs = 0 \<or> tier_spec xs = 1 \<or> tier_spec xs = 2"
  by (simp add: tier_spec_def tier_defs)

lemma Evaluate_alert: "snd (Evaluate vs e) =
    (case vs_BatteryPct vs of
       None \<Rightarrow> None
     | Some x \<Rightarrow>
         let current = tier_of e (vs_VehicleID vs); next = batteryTier x current
         in if next \<le> current then None
            else if next = 1 then Some (new_alert (vs_VehicleID vs) ''warning'' (''Batterie schwach ('' @ format_1f x @ ''%)''))
            else Some (new_alert (vs_VehicleID vs) ''critical'' (''Batterie kritisch ('' @ format_1f x @ ''%)'')))"
  by (auto simp: Evaluate_def Let_def batteryTier_def tier_defs split: option.split)

text \<open>C35: The battery alerts of a vehicle are those of two Schmitt triggers over its own readings, whatever other
  vehicles report in between: after any sequence of reports the tier is critical if some reading was below 10 and
  none since reached 15, otherwise warning if some reading was below 20 and none since reached 25; and a report
  raises an alert exactly if it makes the tier worse, with the severity of the new tier, naming the vehicle.\<close>

theorem battery_alerts_triggered:
  "tier_of (engine_after reports) v = tier_spec (readings v reports) \<and>
   map_option (\<lambda>a. (al_VehicleID a, al_Severity a)) (snd (Evaluate vs (engine_after reports))) =
     (let before = tier_spec (readings (vs_VehicleID vs) reports);
          after = tier_spec (readings (vs_VehicleID vs) (reports @ [vs]))
      in if after \<le> before then None
         else Some (vs_VehicleID vs, if after = 2 then ''critical'' else ''warning''))"
proof (cases "vs_BatteryPct vs")
  case None
  then show ?thesis by (simp add: engine_tier Evaluate_alert)
next
  case (Some x)
  then show ?thesis
    using tier_spec_cases [of "readings (vs_VehicleID vs) reports @ [x]"]
    by (auto simp: engine_tier Evaluate_alert batteryTier_spec new_alert_def Let_def)
qed

end
