(* ===== verification/Fleet_Hub.thy ===== *)
theory Fleet_Hub
  imports Fleet_Data "HOL-Library.Sublist"
begin

text \<open>
  The hub that pushes live events to the dashboard clients (\<open>internal/fleetservice/broadcast.go\<close>). \<open>Broadcast\<close> holds
  the lock for reading only, so two broadcasts may interleave; one iteration of its loop, the non-blocking send to
  one client, is the atomic step. Each client has a buffered channel, a \<open>writePump\<close> that drains it onto the
  connection, and a \<open>readPump\<close> that returns when the connection fails.
\<close>

section \<open>Events\<close>

datatype WSEvent =
    vehicle_status_event VehicleStatus
  | alert_created_event Alert
  | alert_acknowledged_event string string instant
  | task_created_event Task
  | task_status_changed_event string string "instant option" string

section \<open>Clients\<close>

text \<open>\<open>wc_conn\<close>: the connection is open; \<open>wc_pump\<close>: the \<open>writePump\<close> runs; \<open>wc_written\<close>: what it has written to the
  connection. \<open>wc_offered\<close> and \<open>wc_missed\<close> record what was broadcast to the client and how often its buffer was full.\<close>

definition clientSendBuffer :: nat where "clientSendBuffer = 32"

record wsClient =
  wc_conn :: bool
  wc_send :: "WSEvent list"
  wc_closed :: bool
  wc_pump :: bool
  wc_written :: "WSEvent list"
  wc_offered :: "WSEvent list"
  wc_missed :: nat

type_synonym client_id = nat

record Hub =
  hub_clients :: "client_id set"
  hub_conns :: "client_id \<rightharpoonup> wsClient"

definition NewHub :: Hub where
  "NewHub = \<lparr>hub_clients = {}, hub_conns = Map.empty\<rparr>"

definition new_client :: wsClient where
  "new_client = \<lparr>wc_conn = True, wc_send = [], wc_closed = False, wc_pump = True, wc_written = [], wc_offered = [], wc_missed = 0\<rparr>"

definition on_client :: "client_id \<Rightarrow> (wsClient \<Rightarrow> wsClient) \<Rightarrow> Hub \<Rightarrow> Hub" where
  "on_client k g h = h\<lparr>hub_conns := (hub_conns h)(k := map_option g (hub_conns h k))\<rparr>"

text \<open>\<open>Connect\<close> makes a client for the new connection and registers it.\<close>

definition register :: "client_id \<Rightarrow> Hub \<Rightarrow> Hub" where
  "register k h = h\<lparr>hub_clients := insert k (hub_clients h), hub_conns := (hub_conns h)(k \<mapsto> new_client)\<rparr>"

definition unregister :: "client_id \<Rightarrow> Hub \<Rightarrow> Hub" where
  "unregister k h =
     (if k \<in> hub_clients h
      then on_client k (\<lambda>c. c\<lparr>wc_closed := True\<rparr>) (h\<lparr>hub_clients := hub_clients h - {k}\<rparr>)
      else h)"

definition ClientCount :: "Hub \<Rightarrow> nat" where
  "ClientCount h = card (hub_clients h)"

text \<open>The \<open>select\<close> of \<open>Broadcast\<close>.\<close>

definition offer :: "WSEvent \<Rightarrow> wsClient \<Rightarrow> wsClient" where
  "offer p c =
     (if length (wc_send c) < clientSendBuffer
      then c\<lparr>wc_send := wc_send c @ [p], wc_offered := wc_offered c @ [p]\<rparr>
      else c\<lparr>wc_offered := wc_offered c @ [p], wc_missed := wc_missed c + 1\<rparr>)"

text \<open>The whole loop, with no other broadcast in between, in the order \<open>ks\<close> in which the map is visited.\<close>

definition Broadcast :: "client_id list \<Rightarrow> WSEvent \<Rightarrow> Hub \<Rightarrow> Hub" where
  "Broadcast ks p h = fold (\<lambda>k. on_client k (offer p)) ks h"

text \<open>One round of \<open>writePump\<close>: it takes the oldest message and writes it (\<open>ok\<close>), or closes the connection and ends.
  It also ends when the closed channel is drained.\<close>

definition writePump_round :: "bool \<Rightarrow> wsClient \<Rightarrow> wsClient" where
  "writePump_round ok c =
     (if \<not> wc_pump c then c
      else case wc_send c of
        [] \<Rightarrow> if wc_closed c then c\<lparr>wc_pump := False\<rparr> else c
      | p # ps \<Rightarrow>
          if ok \<and> wc_conn c then c\<lparr>wc_send := ps, wc_written := wc_written c @ [p]\<rparr>
          else c\<lparr>wc_send := ps, wc_conn := False, wc_pump := False\<rparr>)"

text \<open>\<open>readPump\<close> returns once the connection has failed; then \<open>Connect\<close> unregisters and its caller closes the
  connection.\<close>

definition Connect_returns :: "client_id \<Rightarrow> Hub \<Rightarrow> Hub" where
  "Connect_returns k h = on_client k (\<lambda>c. c\<lparr>wc_conn := False\<rparr>) (unregister k h)"

inductive hub_step :: "Hub \<Rightarrow> Hub \<Rightarrow> bool" where
  connect: "hub_conns h k = None \<Longrightarrow> hub_step h (register k h)"
| offer: "k \<in> hub_clients h \<Longrightarrow> hub_step h (on_client k (offer p) h)"
| pump: "hub_step h (on_client k (writePump_round ok) h)"
| disconnect: "k \<in> hub_clients h \<Longrightarrow> hub_step h (Connect_returns k h)"

section \<open>Delivery\<close>

definition client_inv :: "wsClient \<Rightarrow> bool" where
  "client_inv c \<longleftrightarrow>
     length (wc_send c) \<le> clientSendBuffer \<and>
     subseq (wc_written c @ wc_send c) (wc_offered c) \<and>
     (wc_pump c \<longrightarrow> length (wc_offered c) = length (wc_written c) + length (wc_send c) + wc_missed c)"

definition hub_inv :: "Hub \<Rightarrow> bool" where
  "hub_inv h \<longleftrightarrow>
     (\<forall>k c. hub_conns h k = Some c \<longrightarrow> client_inv c \<and> wc_closed c = (k \<notin> hub_clients h)) \<and>
     hub_clients h \<subseteq> dom (hub_conns h)"

lemma subseq_both_snoc: "subseq xs ys \<Longrightarrow> subseq (xs @ [p]) (ys @ [p])"
  by (simp add: list_emb_append_mono)

lemma client_inv_offer: "client_inv c \<Longrightarrow> client_inv (offer p c)"
  using subseq_both_snoc [of "wc_written c @ wc_send c" "wc_offered c" p]
    subseq_rev_drop_many [of "wc_written c @ wc_send c" "wc_offered c" "[p]"]
  by (simp add: client_inv_def offer_def)

lemma subseq_drop_one: "subseq (xs @ p # ps) ys \<Longrightarrow> subseq (xs @ ps) ys"
  by (meson list_emb_append_mono subseq_Cons' subseq_order.dual_order.refl subseq_order.order_trans)

lemma client_inv_pump: "client_inv c \<Longrightarrow> client_inv (writePump_round ok c)"
  by (auto simp: client_inv_def writePump_round_def intro: subseq_drop_one split: list.split)

lemma hub_inv_on_client:
  assumes "hub_inv h" and "\<And>c. client_inv c \<Longrightarrow> client_inv (g c)" and "\<And>c. wc_closed (g c) = wc_closed c"
  shows "hub_inv (on_client k g h)"
  using assms by (auto simp: hub_inv_def on_client_def)

lemma flags_keep_inv: "client_inv (c\<lparr>wc_conn := b\<rparr>) \<longleftrightarrow> client_inv c" "client_inv (c\<lparr>wc_closed := b\<rparr>) \<longleftrightarrow> client_inv c"
  by (simp_all add: client_inv_def)

lemma closed_kept: "wc_closed (offer p c) = wc_closed c" "wc_closed (writePump_round ok c) = wc_closed c"
  by (simp_all add: offer_def writePump_round_def split: list.split)

lemma hub_inv_unregister: "hub_inv h \<Longrightarrow> hub_inv (unregister k h)"
  by (auto simp: hub_inv_def unregister_def on_client_def flags_keep_inv)

interpretation hub: transition_system "\<lambda>h. h = NewHub" hub_step hub_inv
proof
  show "hub_inv h" if "h = NewHub" for h using that by (simp add: hub_inv_def NewHub_def)
next
  show "hub_inv h'" if "hub_step h h'" "hub_inv h" for h h'
    using that
  proof cases
    case (connect k)
    with that(2) show ?thesis by (auto simp: hub_inv_def register_def client_inv_def new_client_def)
  next
    case (disconnect k)
    with that(2) show ?thesis
      by (auto simp: Connect_returns_def flags_keep_inv intro!: hub_inv_on_client hub_inv_unregister)
  qed (auto intro!: hub_inv_on_client client_inv_offer client_inv_pump simp: closed_kept)
qed

text \<open>The order in which \<open>Broadcast\<close> visits the clients does not matter.\<close>

lemma Broadcast_client:
  "distinct ks \<Longrightarrow> hub_conns (Broadcast ks p h) k = (if k \<in> set ks then map_option (offer p) (hub_conns h k) else hub_conns h k)"
  "hub_clients (Broadcast ks p h) = hub_clients h"
  unfolding Broadcast_def by (induction ks arbitrary: h) (auto simp: on_client_def)

text \<open>C34: Every connected dashboard gets its events in order and, unless it is slow, all of them. In every reachable state
  what was written to a connection, followed by what waits in its buffer, is a subsequence of what was broadcast to
  it, the buffer never holds more than 32 messages, and while the connection works the only messages missing are
  those broadcast while the buffer was full. A broadcast reaches every registered client in whatever order the map
  is visited, and changes no other.\<close>

theorem hub_delivers_in_order:
  assumes "hub_step\<^sup>*\<^sup>* NewHub h" and "hub_conns h k = Some c"
  shows "subseq (wc_written c @ wc_send c) (wc_offered c) \<and> length (wc_send c) \<le> 32 \<and>
    (wc_pump c \<longrightarrow> length (wc_offered c) = length (wc_written c) + length (wc_send c) + wc_missed c) \<and>
    (wc_pump c \<and> wc_missed c = 0 \<longrightarrow> wc_written c @ wc_send c = wc_offered c) \<and>
    (\<forall>ks p. distinct ks \<and> set ks = hub_clients h \<longrightarrow>
       hub_conns (Broadcast ks p h) k = Some (if k \<in> hub_clients h then offer p c else c))"
proof -
  have "hub_inv h" by (rule hub.reachable_inv [OF _ assms(1)]) simp
  then have inv: "client_inv c" using assms(2) by (auto simp: hub_inv_def)
  have all: "wc_written c @ wc_send c = wc_offered c" if "wc_pump c" "wc_missed c = 0"
  proof -
    have s: "subseq (wc_written c @ wc_send c) (wc_offered c)"
      and "length (wc_written c @ wc_send c) = length (wc_offered c)"
      using inv that by (simp_all add: client_inv_def)
    then show ?thesis by (rule subseq_same_length)
  qed
  have "hub_conns (Broadcast ks p h) k = Some (if k \<in> hub_clients h then offer p c else c)"
    if "distinct ks \<and> set ks = hub_clients h" for ks p
    using that assms(2) by (simp add: Broadcast_client)
  with inv all show ?thesis by (simp add: client_inv_def clientSendBuffer_def)
qed

theorem hub_delivers_in_order_witness:
  "hub_step\<^sup>*\<^sup>* NewHub (on_client 7 (offer (task_status_changed_event ''t'' ''completed'' None ''op'')) (register 7 NewHub)) \<and>
   (\<exists>c. hub_conns (on_client 7 (offer (task_status_changed_event ''t'' ''completed'' None ''op'')) (register 7 NewHub)) 7 = Some c \<and>
     wc_written c @ wc_send c = wc_offered c \<and> length (wc_offered c) = 1)"
proof -
  let ?e = "task_status_changed_event ''t'' ''completed'' None ''op''"
  let ?h = "on_client 7 (offer ?e) (register 7 NewHub)"
  have "hub_step NewHub (register 7 NewHub)" by (rule hub_step.connect) (simp add: NewHub_def)
  moreover have "hub_step (register 7 NewHub) ?h" by (rule hub_step.offer) (simp add: register_def)
  ultimately have r: "hub_step\<^sup>*\<^sup>* NewHub ?h" by (meson r_into_rtranclp rtranclp_trans)
  have c: "hub_conns ?h 7 = Some (offer ?e new_client)" by (simp add: on_client_def register_def)
  from hub_delivers_in_order [OF r c] r c show ?thesis
    by (simp add: offer_def new_client_def clientSendBuffer_def)
qed

end
