(* ===== verification/Fleet_Gateway.thy ===== *)
theory Fleet_Gateway
  imports Fleet_Data
begin

text \<open>
  The gateway to the vehicles: \<open>MQTTGateway\<close> over the message broker (\<open>internal/fleetgateway/mqtt.go\<close>) and the
  in-memory \<open>MockGateway\<close> with its simulation (\<open>mock.go\<close>). A callback is a function on the state \<open>'s\<close> of the
  program it belongs to. The JSON decoder for an event (\<open>unmarshal\<close>) and the broker (which dispatches succeed)
  are parameters; locks only order the callbacks of one event.
\<close>

section \<open>Subscriptions\<close>

record 's gateway =
  gw_statusSubs :: "(VehicleStatusEvent \<Rightarrow> 's \<Rightarrow> 's) list"
  gw_alertSubs :: "(VehicleAlertEvent \<Rightarrow> 's \<Rightarrow> 's) list"

definition new_gateway :: "'s gateway" where
  "new_gateway = \<lparr>gw_statusSubs = [], gw_alertSubs = []\<rparr>"

definition SubscribeVehicleStatus :: "(VehicleStatusEvent \<Rightarrow> 's \<Rightarrow> 's) \<Rightarrow> 's gateway \<Rightarrow> 's gateway" where
  "SubscribeVehicleStatus fn g = g\<lparr>gw_statusSubs := gw_statusSubs g @ [fn]\<rparr>"

definition SubscribeVehicleAlerts :: "(VehicleAlertEvent \<Rightarrow> 's \<Rightarrow> 's) \<Rightarrow> 's gateway \<Rightarrow> 's gateway" where
  "SubscribeVehicleAlerts fn g = g\<lparr>gw_alertSubs := gw_alertSubs g @ [fn]\<rparr>"

section \<open>The gateway over MQTT\<close>

definition handleStatusMessage ::
  "(string \<Rightarrow> VehicleStatusEvent option) \<Rightarrow> string \<Rightarrow> 's gateway \<Rightarrow> 's \<Rightarrow> 's" where
  "handleStatusMessage unmarshal payload g s =
     (case unmarshal payload of None \<Rightarrow> s | Some e \<Rightarrow> fold (\<lambda>fn. fn e) (gw_statusSubs g) s)"

definition handleAlertMessage ::
  "(string \<Rightarrow> VehicleAlertEvent option) \<Rightarrow> string \<Rightarrow> 's gateway \<Rightarrow> 's \<Rightarrow> 's" where
  "handleAlertMessage unmarshal payload g s =
     (case unmarshal payload of None \<Rightarrow> s | Some e \<Rightarrow> fold (\<lambda>fn. fn e) (gw_alertSubs g) s)"

text \<open>\<open>DispatchTask\<close> publishes on the task topic of the vehicle and returns the broker's answer.\<close>

definition mqtt_DispatchTask ::
  "bool \<Rightarrow> TaskAssignment \<Rightarrow> (string \<times> TaskAssignment) list \<Rightarrow> (string \<times> TaskAssignment) list \<times> bool" where
  "mqtt_DispatchTask published task out =
     (if published then (out @ [(TaskTopic (ta_VehicleID task), task)], True) else (out, False))"

section \<open>The mock\<close>

definition mock_DispatchTask :: "TaskAssignment \<Rightarrow> bool" where
  "mock_DispatchTask task = True"

definition SimulateVehicleStatus :: "instant \<Rightarrow> VehicleStatusEvent \<Rightarrow> 's gateway \<Rightarrow> 's \<Rightarrow> 's" where
  "SimulateVehicleStatus now e g s =
     (let e1 = (if ve_Timestamp e = None then e\<lparr>ve_Timestamp := Some now\<rparr> else e)
      in fold (\<lambda>fn. fn e1) (gw_statusSubs g) s)"

definition SimulateVehicleAlert :: "instant \<Rightarrow> VehicleAlertEvent \<Rightarrow> 's gateway \<Rightarrow> 's \<Rightarrow> 's" where
  "SimulateVehicleAlert now e g s =
     (let e1 = (if vae_Timestamp e = None then e\<lparr>vae_Timestamp := Some now\<rparr> else e)
      in fold (\<lambda>fn. fn e1) (gw_alertSubs g) s)"

record simulatedVehicle =
  sv_batteryPct :: float64
  sv_lat :: float64
  sv_lon :: float64
  sv_autonomyMode :: string

record simulation =
  sim_state :: "vehicle_id \<rightharpoonup> simulatedVehicle"
  sim_running :: bool

definition NewMockGateway_sim :: simulation where
  "NewMockGateway_sim = \<lparr>sim_state = Map.empty, sim_running = False\<rparr>"

definition StartSimulation :: "vehicle_id list \<Rightarrow> float64 \<Rightarrow> float64 \<Rightarrow> simulation \<Rightarrow> simulation" where
  "StartSimulation ids startLat startLon m =
     \<lparr>sim_state = fold (\<lambda>i st. st(i \<mapsto> \<lparr>sv_batteryPct = 90, sv_lat = startLat, sv_lon = startLon,
                                        sv_autonomyMode = ''autonomous''\<rparr>)) ids (sim_state m),
      sim_running = True\<rparr>"

text \<open>\<open>Stop\<close> waits for the loop to return, so no tick follows it.\<close>

definition Stop_simulation :: "simulation \<Rightarrow> simulation" where
  "Stop_simulation m = m\<lparr>sim_running := False\<rparr>"

text \<open>One tick: \<open>rand\<close> gives for each vehicle the four random numbers drawn for it, \<open>rnd\<close> rounds to a \<open>float64\<close>, and
  \<open>ks\<close> is the order in which the map is visited.\<close>

record draws =
  dr_lat :: float64
  dr_lon :: float64
  dr_battery :: float64
  dr_alert :: float64

definition walk :: "(rat \<Rightarrow> float64) \<Rightarrow> draws \<Rightarrow> simulatedVehicle \<Rightarrow> simulatedVehicle" where
  "walk rnd d v =
     (let battery = rnd (sv_batteryPct v - rnd (dr_battery d * rnd (2 / 10)))
      in v\<lparr>sv_lat := rnd (sv_lat v + rnd (rnd (dr_lat d - 1 / 2) * rnd (5 / 10000))),
           sv_lon := rnd (sv_lon v + rnd (rnd (dr_lon d - 1 / 2) * rnd (5 / 10000))),
           sv_batteryPct := (if battery < 0 then 0 else battery)\<rparr>)"

definition status_event_of :: "vehicle_id \<Rightarrow> simulatedVehicle \<Rightarrow> VehicleStatusEvent" where
  "status_event_of i v = \<lparr>ve_VehicleID = i, ve_BatteryPct = Some (sv_batteryPct v), ve_Speed = None,
     ve_PositionLat = Some (sv_lat v), ve_PositionLon = Some (sv_lon v), ve_PositionZoneID = None,
     ve_AutonomyMode = sv_autonomyMode v, ve_CurrentTaskID = None, ve_Timestamp = None\<rparr>"

definition obstacle_message :: "vehicle_id \<Rightarrow> string" where
  "obstacle_message i = ''Hindernis auf der Strecke erkannt '' @ em_dash @ '' Fahrzeug '' @ i @
     '' kann nicht selbstst'' @ [CHR 0xC3, CHR 0xA4] @ ''ndig ausweichen''"

definition emit :: "(rat \<Rightarrow> float64) \<Rightarrow> instant \<Rightarrow> (vehicle_id \<Rightarrow> draws) \<Rightarrow> 's gateway \<Rightarrow> vehicle_id \<times> simulatedVehicle \<Rightarrow> 's \<Rightarrow> 's" where
  "emit rnd now rand g snapshot s =
     (case snapshot of (i, v) \<Rightarrow>
        let s1 = SimulateVehicleStatus now (status_event_of i v) g s
        in if dr_alert (rand i) < rnd (1 / 100)
           then SimulateVehicleAlert now \<lparr>vae_VehicleID = i, vae_Severity = ''critical'', vae_Message = obstacle_message i,
                  vae_Timestamp = None\<rparr> g s1
           else s1)"

definition simulateTick ::
  "(rat \<Rightarrow> float64) \<Rightarrow> instant \<Rightarrow> (vehicle_id \<Rightarrow> draws) \<Rightarrow> vehicle_id list \<Rightarrow> 's gateway \<Rightarrow> simulation \<Rightarrow> 's \<Rightarrow> simulation \<times> 's" where
  "simulateTick rnd now rand ks g m s =
     (let moved = (\<lambda>i. map_option (walk rnd (rand i)) (sim_state m i));
          snapshots = map (\<lambda>i. (i, the (moved i))) ks
      in (m\<lparr>sim_state := moved\<rparr>, fold (emit rnd now rand g) snapshots s))"

section \<open>What the gateways promise\<close>

text \<open>Both gateways hand an event to every subscriber once, in the order of subscription.\<close>

locale event_source =
  fixes subscribe :: "('e \<Rightarrow> 's \<Rightarrow> 's) \<Rightarrow> 'g \<Rightarrow> 'g"
    and deliver :: "'e \<Rightarrow> 'g \<Rightarrow> 's \<Rightarrow> 's"
    and fresh :: 'g
  assumes deliver_fresh: "deliver e fresh s = s"
    and deliver_subscribed: "deliver e (subscribe fn g) s = fn e (deliver e g s)"
begin

lemma deliver_all: "deliver e (fold subscribe fns fresh) s = fold (\<lambda>fn. fn e) fns s"
  by (induction fns rule: rev_induct) (simp_all add: deliver_fresh deliver_subscribed)

lemma deliver_one: "deliver e (subscribe fn fresh) s = fn e s"
  by (simp add: deliver_fresh deliver_subscribed)

end

interpretation mqtt_status: event_source SubscribeVehicleStatus "\<lambda>e. handleStatusMessage (\<lambda>_. Some e) payload" new_gateway
  by unfold_locales (simp_all add: handleStatusMessage_def SubscribeVehicleStatus_def new_gateway_def)

interpretation mqtt_alerts: event_source SubscribeVehicleAlerts "\<lambda>e. handleAlertMessage (\<lambda>_. Some e) payload" new_gateway
  by unfold_locales (simp_all add: handleAlertMessage_def SubscribeVehicleAlerts_def new_gateway_def)

lemma mock_status_stamped:
  "SimulateVehicleStatus now e g s =
     handleStatusMessage (\<lambda>_. Some (if ve_Timestamp e = None then e\<lparr>ve_Timestamp := Some now\<rparr> else e)) payload g s"
  by (simp add: SimulateVehicleStatus_def handleStatusMessage_def Let_def)

lemma mock_alert_stamped:
  "SimulateVehicleAlert now e g s =
     handleAlertMessage (\<lambda>_. Some (if vae_Timestamp e = None then e\<lparr>vae_Timestamp := Some now\<rparr> else e)) payload g s"
  by (simp add: SimulateVehicleAlert_def handleAlertMessage_def Let_def)

text \<open>The battery of a simulated vehicle only drains and never leaves the range from 0 to 90.\<close>

definition rounding :: "(rat \<Rightarrow> float64) \<Rightarrow> bool" where
  "rounding rnd \<longleftrightarrow> mono rnd \<and> rnd 0 = 0 \<and> (\<forall>x. rnd (rnd x) = rnd x)"

definition battery_ok :: "(rat \<Rightarrow> float64) \<Rightarrow> simulatedVehicle \<Rightarrow> bool" where
  "battery_ok rnd v \<longleftrightarrow> 0 \<le> sv_batteryPct v \<and> sv_batteryPct v \<le> 90 \<and> rnd (sv_batteryPct v) = sv_batteryPct v"

lemma nonneg_rounding: "rounding rnd \<Longrightarrow> 0 \<le> x \<Longrightarrow> 0 \<le> rnd x"
  unfolding rounding_def by (metis monoD)

lemma walk_battery:
  assumes r: "rounding rnd" and "battery_ok rnd v" and "0 \<le> dr_battery d"
  shows "battery_ok rnd (walk rnd d v) \<and> sv_batteryPct (walk rnd d v) \<le> sv_batteryPct v"
proof -
  let ?drain = "rnd (dr_battery d * rnd (2 / 10))"
  have "0 \<le> ?drain" using assms by (intro nonneg_rounding [OF r] mult_nonneg_nonneg) simp_all
  then have "sv_batteryPct v - ?drain \<le> sv_batteryPct v" by simp
  then have "rnd (sv_batteryPct v - ?drain) \<le> rnd (sv_batteryPct v)"
    using r unfolding rounding_def by (blast dest: monoD)
  then show ?thesis using assms(1,2) by (auto simp: walk_def battery_ok_def rounding_def Let_def)
qed

end
