(* ===== verification/Fleet_Service.thy ===== *)
theory Fleet_Service
  imports Fleet_Tasks Fleet_Alerts Fleet_Hub Fleet_Gateway Tokens
begin

text \<open>
  The fleet service: the use cases (\<open>internal/fleetservice/usecase.go\<close>), the REST handlers (\<open>handler.go\<close>) and the
  callbacks for vehicle events (\<open>cmd/fleet-service/main.go\<close>), over the Postgres store. The state is the database,
  the alert engine, the broadcasts made and the assignments published. \<open>ups\<close> gives the outcome of the database
  statements, \<open>now\<close> is the database clock and \<open>wall\<close> the clock of the process; a request body is \<open>None\<close> if it is
  not valid JSON. Fan-out to the clients is the subject of \<open>Fleet_Hub\<close>.
\<close>

record fleet =
  fl_db :: fleet_db
  fl_engine :: AlertEngine
  fl_sent :: "WSEvent list"
  fl_dispatched :: "(string \<times> TaskAssignment) list"

definition broadcast :: "WSEvent \<Rightarrow> fleet \<Rightarrow> fleet" where
  "broadcast p s = s\<lparr>fl_sent := fl_sent s @ [p]\<rparr>"

section \<open>Use cases\<close>

definition createAndDispatchTask ::
  "bool \<Rightarrow> bool \<Rightarrow> instant \<Rightarrow> string \<Rightarrow> Task \<Rightarrow> fleet \<Rightarrow> fleet \<times> (fleet_error + Task)" where
  "createAndDispatchTask up published now newID t s =
     (case CreateTask up now newID t (fl_db s) of
        (db, Inl e) \<Rightarrow> (s\<lparr>fl_db := db\<rparr>, Inl e)
      | (db, Inr created) \<Rightarrow>
          let (out, _) = mqtt_DispatchTask published
                \<lparr>ta_TaskID = t_ID created, ta_VehicleID = t_VehicleID created, ta_FromStationID = t_FromStationID created,
                  ta_ToStationID = t_ToStationID created, ta_Priority = t_Priority created\<rparr> (fl_dispatched s)
          in (s\<lparr>fl_db := db, fl_dispatched := out\<rparr>, Inr created))"

definition transitionTaskStatus ::
  "(nat \<Rightarrow> bool) \<Rightarrow> instant \<Rightarrow> string \<Rightarrow> string \<Rightarrow> string \<Rightarrow> string \<Rightarrow> fleet \<Rightarrow> fleet \<times> (fleet_error + Task)" where
  "transitionTaskStatus ups now newID tid newStatus changedBy s =
     (case UpdateTaskStatus ups now newID tid newStatus changedBy (fl_db s) of
        (db, Inl e) \<Rightarrow> (s\<lparr>fl_db := db\<rparr>, Inl e)
      | (db, Inr updated) \<Rightarrow>
          (broadcast (task_status_changed_event (t_ID updated) (t_Status updated) (t_CompletedAt updated) changedBy)
             (s\<lparr>fl_db := db\<rparr>), Inr updated))"

definition acknowledgeAlert ::
  "bool \<Rightarrow> instant \<Rightarrow> instant \<Rightarrow> string \<Rightarrow> string \<Rightarrow> fleet \<Rightarrow> fleet \<times> (fleet_error + unit)" where
  "acknowledgeAlert up now wall aid ackBy s =
     (case AcknowledgeAlert up now aid ackBy (fl_db s) of
        (db, Inl e) \<Rightarrow> (s\<lparr>fl_db := db\<rparr>, Inl e)
      | (db, Inr _) \<Rightarrow> (broadcast (alert_acknowledged_event aid ackBy wall) (s\<lparr>fl_db := db\<rparr>), Inr ()))"

section \<open>Handlers\<close>

datatype fleet_body =
    JVehicles "FleetVehicle list" | JZones "Zone list" | JZone Zone | JStations "Station list" | JStation Station
  | JTasks "Task list" | JTask Task | JHistory "TaskStatusHistoryEntry list" | JPositions "VehiclePositionHistoryPoint list"
  | JAlerts "Alert list" | JNone | JHealth

text \<open>Reads: the lists fail with 500 only, the histories also with 404 for the error \<open>missing\<close>.\<close>

definition list_reply :: "('a \<Rightarrow> fleet_body) \<Rightarrow> fleet_error + 'a \<Rightarrow> fleet_body reply" where
  "list_reply j r =
     (case r of Inl _ \<Rightarrow> HttpError StatusInternalServerError ''store error'' | Inr x \<Rightarrow> HttpOk StatusOK (j x))"

definition history_reply :: "fleet_error \<Rightarrow> ('a \<Rightarrow> fleet_body) \<Rightarrow> fleet_error + 'a \<Rightarrow> fleet_body reply" where
  "history_reply missing j r =
     (case r of
        Inl e \<Rightarrow> if e = missing then HttpError StatusNotFound ''not found''
                 else HttpError StatusInternalServerError ''store error''
      | Inr x \<Rightarrow> HttpOk StatusOK (j x))"

definition handle_ListVehicles :: "bool \<Rightarrow> fleet \<Rightarrow> fleet_body reply" where
  "handle_ListVehicles up s = list_reply JVehicles (ListVehiclesWithStatus up (fl_db s))"

definition handle_ListZones :: "bool \<Rightarrow> fleet \<Rightarrow> fleet_body reply" where
  "handle_ListZones up s = list_reply JZones (ListZones up (fl_db s))"

definition handle_ListStations :: "bool \<Rightarrow> fleet \<Rightarrow> fleet_body reply" where
  "handle_ListStations up s = list_reply JStations (ListStations up (fl_db s))"

definition handle_ListTasks :: "bool \<Rightarrow> fleet \<Rightarrow> fleet_body reply" where
  "handle_ListTasks up s = list_reply JTasks (ListTasks up (fl_db s))"

definition handle_ListAlerts :: "bool \<Rightarrow> fleet \<Rightarrow> fleet_body reply" where
  "handle_ListAlerts up s = list_reply JAlerts (ListAlerts up (fl_db s))"

definition handle_GetTaskStatusHistory :: "(nat \<Rightarrow> bool) \<Rightarrow> string \<Rightarrow> fleet \<Rightarrow> fleet_body reply" where
  "handle_GetTaskStatusHistory ups tid s = history_reply ErrTaskNotFound JHistory (GetTaskStatusHistory ups tid (fl_db s))"

definition handle_GetVehiclePositionHistory :: "(nat \<Rightarrow> bool) \<Rightarrow> vehicle_id \<Rightarrow> fleet \<Rightarrow> fleet_body reply" where
  "handle_GetVehiclePositionHistory ups v s =
     history_reply ErrVehicleNotFound JPositions (GetVehiclePositionHistory ups v (fl_db s))"

definition fleet_Health :: "fleet_body reply" where
  "fleet_Health = HttpOk StatusOK JHealth"

definition quoted :: "string \<Rightarrow> string" where
  "quoted x = [CHR 0x27] @ x @ [CHR 0x27]"

definition CreateZone :: "(string \<Rightarrow> string option) \<Rightarrow> bool \<Rightarrow> instant \<Rightarrow> Zone option \<Rightarrow> fleet \<Rightarrow> fleet \<times> fleet_body reply" where
  "CreateZone jsonb up now body s =
     (case body of
        None \<Rightarrow> (s, HttpError StatusBadRequest ''invalid JSON'')
      | Some z \<Rightarrow>
          if z_ID z = [] \<or> z_Name z = [] \<or> (z_Environment z \<noteq> ''indoor'' \<and> z_Environment z \<noteq> ''outdoor'')
          then (s, HttpError StatusBadRequest (''id, name and environment ('' @ quoted ''indoor'' @ ''|'' @ quoted ''outdoor'' @ '') required''))
          else (case AddZone jsonb up now z (fl_db s) of
              (db, Inl _) \<Rightarrow> (s\<lparr>fl_db := db\<rparr>, HttpError StatusInternalServerError ''store error'')
            | (db, Inr _) \<Rightarrow> (s\<lparr>fl_db := db\<rparr>, HttpOk StatusCreated (JZone z))))"

definition CreateStation :: "bool \<Rightarrow> instant \<Rightarrow> Station option \<Rightarrow> fleet \<Rightarrow> fleet \<times> fleet_body reply" where
  "CreateStation up now body s =
     (case body of
        None \<Rightarrow> (s, HttpError StatusBadRequest ''invalid JSON'')
      | Some st \<Rightarrow>
          if st_ID st = [] \<or> st_ZoneID st = [] \<or> st_Name st = []
          then (s, HttpError StatusBadRequest ''id, zone_id and name required'')
          else (case AddStation up now st (fl_db s) of
              (db, Inl _) \<Rightarrow> (s\<lparr>fl_db := db\<rparr>, HttpError StatusInternalServerError ''store error'')
            | (db, Inr _) \<Rightarrow> (s\<lparr>fl_db := db\<rparr>, HttpOk StatusCreated (JStation st))))"

definition handle_CreateTask ::
  "bool \<Rightarrow> bool \<Rightarrow> instant \<Rightarrow> string \<Rightarrow> Task option \<Rightarrow> fleet \<Rightarrow> fleet \<times> fleet_body reply" where
  "handle_CreateTask up published now newID body s =
     (case body of
        None \<Rightarrow> (s, HttpError StatusBadRequest ''invalid JSON'')
      | Some t \<Rightarrow>
          if t_VehicleID t = [] \<or> t_FromStationID t = [] \<or> t_ToStationID t = []
          then (s, HttpError StatusBadRequest ''vehicle_id, from_station_id and to_station_id required'')
          else (case createAndDispatchTask up published now newID t s of
              (s1, Inl _) \<Rightarrow> (s1, HttpError StatusInternalServerError ''store error'')
            | (s1, Inr created) \<Rightarrow> (broadcast (task_created_event created) s1, HttpOk StatusCreated (JTask created))))"

definition handle_UpdateTaskStatus ::
  "(nat \<Rightarrow> bool) \<Rightarrow> instant \<Rightarrow> string \<Rightarrow> string \<Rightarrow> (string \<times> string) option \<Rightarrow> fleet \<Rightarrow> fleet \<times> fleet_body reply" where
  "handle_UpdateTaskStatus ups now newID tid body s =
     (case body of
        None \<Rightarrow> (s, HttpError StatusBadRequest ''invalid JSON'')
      | Some (newStatus, changedBy) \<Rightarrow>
          if newStatus = [] \<or> changedBy = []
          then (s, HttpError StatusBadRequest ''status and changed_by required'')
          else (case transitionTaskStatus ups now newID tid newStatus changedBy s of
              (s1, Inl ErrTaskNotFound) \<Rightarrow> (s1, HttpError StatusNotFound ''not found'')
            | (s1, Inl ErrInvalidTransition) \<Rightarrow> (s1, HttpError StatusConflict ''invalid status transition'')
            | (s1, Inl _) \<Rightarrow> (s1, HttpError StatusInternalServerError ''store error'')
            | (s1, Inr updated) \<Rightarrow> (s1, HttpOk StatusOK (JTask updated))))"

definition handle_AcknowledgeAlert ::
  "bool \<Rightarrow> instant \<Rightarrow> instant \<Rightarrow> string \<Rightarrow> string option \<Rightarrow> fleet \<Rightarrow> fleet \<times> fleet_body reply" where
  "handle_AcknowledgeAlert up now wall aid body s =
     (case body of
        None \<Rightarrow> (s, HttpError StatusBadRequest ''invalid JSON'')
      | Some ackBy \<Rightarrow>
          if ackBy = [] then (s, HttpError StatusBadRequest ''acknowledged_by required'')
          else (case acknowledgeAlert up now wall aid ackBy s of
              (s1, Inl _) \<Rightarrow> (s1, HttpError StatusNotFound ''not found'')
            | (s1, Inr _) \<Rightarrow> (s1, HttpOk StatusNoContent JNone)))"

section \<open>Authorisation and routes\<close>

definition validateToken :: "jwt_lib \<Rightarrow> string \<Rightarrow> string \<Rightarrow> bool" where
  "validateToken jwt secret tok \<longleftrightarrow>
     (case jwt secret tok of None \<Rightarrow> False | Some (TokenView hmac claims) \<Rightarrow> hmac \<and> claims \<noteq> None)"

definition RequireAuth :: "jwt_lib \<Rightarrow> string \<Rightarrow> string \<Rightarrow> (fleet \<Rightarrow> fleet \<times> fleet_body reply) \<Rightarrow> fleet \<Rightarrow> fleet \<times> fleet_body reply" where
  "RequireAuth jwt secret authorization next s =
     (if \<not> hasPrefix authorization ''Bearer '' then (s, HttpError StatusUnauthorized ''unauthorized'')
      else if \<not> validateToken jwt secret (trimPrefix authorization ''Bearer '')
      then (s, HttpError StatusUnauthorized ''unauthorized'')
      else next s)"

text \<open>The WebSocket endpoint: whether the connection is handed to the hub.\<close>

definition wsToken :: "string \<Rightarrow> string \<Rightarrow> string" where
  "wsToken authorization query =
     (if hasPrefix authorization ''Bearer '' then trimPrefix authorization ''Bearer '' else query)"

definition fleet_ServeWS :: "jwt_lib \<Rightarrow> string \<Rightarrow> bool \<Rightarrow> string \<Rightarrow> string \<Rightarrow> client_id \<Rightarrow> Hub \<Rightarrow> Hub" where
  "fleet_ServeWS jwt secret upgraded authorization query k h =
     (let tok = wsToken authorization query
      in if tok = [] \<or> \<not> validateToken jwt secret tok \<or> \<not> upgraded then h else register k h)"

datatype fleet_route =
    GetHealth | GetVehicles | GetZones | PostZone "Zone option" | GetStations | PostStation "Station option"
  | GetTasks | PostTask string "Task option" | PatchTaskStatus string string "(string \<times> string) option"
  | GetTaskHistory string | GetVehicleHistory string | GetAlerts | PostAcknowledge string "string option"

record fleet_env =
  fe_jwt :: jwt_lib
  fe_secret :: string
  fe_jsonb :: "string \<Rightarrow> string option"
  fe_ups :: "nat \<Rightarrow> bool"
  fe_published :: bool
  fe_now :: instant
  fe_wall :: instant

definition fleet_handler :: "fleet_env \<Rightarrow> fleet_route \<Rightarrow> fleet \<Rightarrow> fleet \<times> fleet_body reply" where
  "fleet_handler env r s =
     (case r of
        GetHealth \<Rightarrow> (s, fleet_Health)
      | GetVehicles \<Rightarrow> (s, handle_ListVehicles (fe_ups env 0) s)
      | GetZones \<Rightarrow> (s, handle_ListZones (fe_ups env 0) s)
      | PostZone body \<Rightarrow> CreateZone (fe_jsonb env) (fe_ups env 0) (fe_now env) body s
      | GetStations \<Rightarrow> (s, handle_ListStations (fe_ups env 0) s)
      | PostStation body \<Rightarrow> CreateStation (fe_ups env 0) (fe_now env) body s
      | GetTasks \<Rightarrow> (s, handle_ListTasks (fe_ups env 0) s)
      | PostTask i body \<Rightarrow> handle_CreateTask (fe_ups env 0) (fe_published env) (fe_now env) i body s
      | PatchTaskStatus i tid body \<Rightarrow> handle_UpdateTaskStatus (fe_ups env) (fe_now env) i tid body s
      | GetTaskHistory tid \<Rightarrow> (s, handle_GetTaskStatusHistory (fe_ups env) tid s)
      | GetVehicleHistory v \<Rightarrow> (s, handle_GetVehiclePositionHistory (fe_ups env) v s)
      | GetAlerts \<Rightarrow> (s, handle_ListAlerts (fe_ups env 0) s)
      | PostAcknowledge aid body \<Rightarrow> handle_AcknowledgeAlert (fe_ups env 0) (fe_now env) (fe_wall env) aid body s)"

definition newFleetMux :: "fleet_env \<Rightarrow> string \<Rightarrow> fleet_route \<Rightarrow> fleet \<Rightarrow> fleet \<times> fleet_body reply" where
  "newFleetMux env authorization r s =
     (if r = GetHealth then fleet_handler env r s
      else RequireAuth (fe_jwt env) (fe_secret env) authorization (fleet_handler env r) s)"

section \<open>Vehicle events\<close>

definition status_of_event :: "VehicleStatusEvent \<Rightarrow> VehicleStatus" where
  "status_of_event e = \<lparr>vs_VehicleID = ve_VehicleID e, vs_BatteryPct = ve_BatteryPct e, vs_Speed = ve_Speed e,
     vs_PositionLat = ve_PositionLat e, vs_PositionLon = ve_PositionLon e, vs_PositionZoneID = ve_PositionZoneID e,
     vs_PositionX = None, vs_PositionY = None, vs_AutonomyMode = ve_AutonomyMode e, vs_CurrentTaskID = ve_CurrentTaskID e,
     vs_UpdatedAt = 0\<rparr>"

text \<open>The tail of the status callback: the threshold alert, if one is due.\<close>

definition raise_alert :: "bool \<Rightarrow> instant \<Rightarrow> string \<Rightarrow> Alert option \<Rightarrow> fleet \<Rightarrow> fleet" where
  "raise_alert up now newID a s =
     (case a of
        None \<Rightarrow> s
      | Some alert \<Rightarrow>
          (case CreateAlert up now newID alert (fl_db s) of
             (db, Inl _) \<Rightarrow> s\<lparr>fl_db := db\<rparr>
           | (db, Inr created) \<Rightarrow> broadcast (alert_created_event created) (s\<lparr>fl_db := db\<rparr>)))"

definition subscribeVehicleStatus ::
  "(float64 \<Rightarrow> float64 option) \<Rightarrow> (nat \<Rightarrow> bool) \<Rightarrow> instant \<Rightarrow> instant \<Rightarrow> string \<Rightarrow> VehicleStatusEvent \<Rightarrow> fleet \<Rightarrow> fleet" where
  "subscribeVehicleStatus f4 ups now wall newID e s =
     (case EnsureVehicleExists (ups 0) now (ve_VehicleID e) (fl_db s) of
        (db, Inl _) \<Rightarrow> s\<lparr>fl_db := db\<rparr>
      | (db, Inr _) \<Rightarrow>
          (case UpsertVehicleStatus f4 (ups 1) now (status_of_event e) db of
             (db, Inl _) \<Rightarrow> s\<lparr>fl_db := db\<rparr>
           | (db, Inr _) \<Rightarrow>
               let (db, _) = RecordPositionHistory (ups 2) now (ve_VehicleID e) (ve_PositionLat e) (ve_PositionLon e) db;
                   st = (status_of_event e)\<lparr>vs_UpdatedAt := wall\<rparr>;
                   s1 = broadcast (vehicle_status_event st) (s\<lparr>fl_db := db\<rparr>);
                   (engine, alert) = Evaluate st (fl_engine s1)
               in raise_alert (ups 3) now newID alert (s1\<lparr>fl_engine := engine\<rparr>)))"

definition subscribeVehicleAlerts ::
  "(nat \<Rightarrow> bool) \<Rightarrow> instant \<Rightarrow> string \<Rightarrow> VehicleAlertEvent \<Rightarrow> fleet \<Rightarrow> fleet" where
  "subscribeVehicleAlerts ups now newID e s =
     (case EnsureVehicleExists (ups 0) now (vae_VehicleID e) (fl_db s) of
        (db, Inl _) \<Rightarrow> s\<lparr>fl_db := db\<rparr>
      | (db, Inr _) \<Rightarrow>
          (case CreateAlert (ups 1) now newID (new_alert (vae_VehicleID e) (vae_Severity e) (vae_Message e)) db of
             (db, Inl _) \<Rightarrow> s\<lparr>fl_db := db\<rparr>
           | (db, Inr created) \<Rightarrow> broadcast (alert_created_event created) (s\<lparr>fl_db := db\<rparr>)))"

text \<open>A tick of the retention loop.\<close>

definition positionHistoryPruneInterval :: duration where "positionHistoryPruneInterval = 24 * Hour"

definition retention_tick :: "bool \<Rightarrow> instant \<Rightarrow> fleet \<Rightarrow> fleet" where
  "retention_tick up now s = s\<lparr>fl_db := fst (PruneVehiclePositionHistory up now (fl_db s))\<rparr>"

text \<open>Start-up: the store is opened, then the callbacks are registered on the gateway.\<close>

definition fleet_start :: "(nat \<Rightarrow> string) \<Rightarrow> instant \<Rightarrow> fleet_db \<Rightarrow> fleet option" where
  "fleet_start newIDs now db =
     (case NewPostgresFleetStore newIDs now db of
        (_, Inl _) \<Rightarrow> None
      | (db1, Inr _) \<Rightarrow> Some \<lparr>fl_db = db1, fl_engine = NewAlertEngine, fl_sent = [], fl_dispatched = []\<rparr>)"

section \<open>Runs of the service\<close>

text \<open>A request, a message of the broker or a tick of the retention loop, with every outcome of the database and the
  broker. Generated task ids are new.\<close>

inductive fleet_step :: "fleet \<Rightarrow> fleet \<Rightarrow> bool" where
  request: "(\<And>i body. r = PostTask i body \<Longrightarrow> \<not> exists_row t_ID i (fd_tasks (fl_db s))) \<Longrightarrow>
    fleet_step s (fst (newFleetMux env authorization r s))"
| status_message: "fleet_step s (handleStatusMessage unmarshal payload
    (SubscribeVehicleStatus (subscribeVehicleStatus f4 ups now wall newID) new_gateway) s)"
| alert_message: "fleet_step s (handleAlertMessage unmarshal_alert payload
    (SubscribeVehicleAlerts (subscribeVehicleAlerts ups now newID) new_gateway) s)"
| retention: "fleet_step s (retention_tick up now s)"

text \<open>The rows the dashboards have been told about.\<close>

definition alert_key :: "Alert \<Rightarrow> string \<times> vehicle_id \<times> string \<times> string \<times> instant" where
  "alert_key a = (al_ID a, al_VehicleID a, al_Severity a, al_Message a, al_CreatedAt a)"

definition task_key :: "Task \<Rightarrow> string \<times> vehicle_id \<times> string \<times> string \<times> int \<times> instant" where
  "task_key t = (t_ID t, t_VehicleID t, t_FromStationID t, t_ToStationID t, t_Priority t, t_CreatedAt t)"

definition change_key :: "TaskStatusHistoryEntry \<Rightarrow> string \<times> string \<times> string" where
  "change_key h = (th_TaskID h, th_ToStatus h, th_ChangedBy h)"

fun told_alert :: "WSEvent \<Rightarrow> (string \<times> vehicle_id \<times> string \<times> string \<times> instant) option" where
  "told_alert (alert_created_event a) = Some (alert_key a)"
| "told_alert _ = None"

fun told_task :: "WSEvent \<Rightarrow> (string \<times> vehicle_id \<times> string \<times> string \<times> int \<times> instant) option" where
  "told_task (task_created_event t) = Some (task_key t)"
| "told_task _ = None"

fun told_change :: "WSEvent \<Rightarrow> (string \<times> string \<times> string) option" where
  "told_change (task_status_changed_event tid st fin op) = Some (tid, st, op)"
| "told_change _ = None"

definition announced :: "fleet_db \<Rightarrow> fleet \<Rightarrow> bool" where
  "announced db0 s \<longleftrightarrow>
     map alert_key (fd_alerts (fl_db s)) = map alert_key (fd_alerts db0) @ List.map_filter told_alert (fl_sent s) \<and>
     map task_key (fd_tasks (fl_db s)) = map task_key (fd_tasks db0) @ List.map_filter told_task (fl_sent s) \<and>
     map change_key (fd_history (fl_db s)) = map change_key (fd_history db0) @ List.map_filter told_change (fl_sent s)"

text \<open>What an operation on the tables adds to these three lists.\<close>

definition keys_of :: "fleet_db \<Rightarrow>
    (string \<times> vehicle_id \<times> string \<times> string \<times> instant) list \<times> (string \<times> vehicle_id \<times> string \<times> string \<times> int \<times> instant) list \<times>
    (string \<times> string \<times> string) list" where
  "keys_of db = (map alert_key (fd_alerts db), map task_key (fd_tasks db), map change_key (fd_history db))"

lemma announced_keys:
  "announced db0 s \<longleftrightarrow> keys_of (fl_db s) =
     (map alert_key (fd_alerts db0) @ List.map_filter told_alert (fl_sent s),
      map task_key (fd_tasks db0) @ List.map_filter told_task (fl_sent s),
      map change_key (fd_history db0) @ List.map_filter told_change (fl_sent s))"
  by (simp add: announced_def keys_of_def)

lemma keys_quiet [simp]:
  "keys_of (fst (EnsureVehicleExists up now v db)) = keys_of db"
  "keys_of (fst (AddZone jsonb up now z db)) = keys_of db"
  "keys_of (fst (AddStation up now st db)) = keys_of db"
  "keys_of (fst (UpsertVehicleStatus f4 up now vs db)) = keys_of db"
  "keys_of (fst (RecordPositionHistory up now v la lo db)) = keys_of db"
  "keys_of (fst (PruneVehiclePositionHistory up now db)) = keys_of db"
  "keys_of (fst (AcknowledgeAlert up now aid op db)) = keys_of db"
  by (auto simp: keys_of_def EnsureVehicleExists_def AddZone_def AddStation_def UpsertVehicleStatus_def RecordPositionHistory_def
      PruneVehiclePositionHistory_def AcknowledgeAlert_def alert_key_def Let_def split: option.split)

lemma keys_create_alert:
  "CreateAlert up now i a db = (db', r) \<Longrightarrow>
   keys_of db' = (case r of Inl _ \<Rightarrow> keys_of db | Inr c \<Rightarrow> apfst (\<lambda>xs. xs @ [alert_key c]) (keys_of db))"
  by (auto simp: CreateAlert_def keys_of_def alert_key_def Let_def split: if_splits)

lemma keys_create_task:
  "CreateTask up now i t db = (db', r) \<Longrightarrow>
   keys_of db' = (case r of Inl _ \<Rightarrow> keys_of db | Inr c \<Rightarrow> apsnd (apfst (\<lambda>xs. xs @ [task_key c])) (keys_of db))"
  by (auto simp: CreateTask_def keys_of_def task_key_def Let_def split: if_splits)

lemma task_key_put:
  assumes "distinct (map t_ID rows)" and "row_for t_ID tid rows = Some t" and "task_key u = task_key t"
  shows "map task_key (put_row t_ID tid u rows) = map task_key rows"
proof -
  have "x = t" if "x \<in> set rows" "t_ID x = tid" for x
    using row_for_Some [OF assms(2)] assms(1) that by (auto simp: distinct_map inj_on_def)
  with assms(3) show ?thesis by (auto simp: put_row_def)
qed

lemma keys_update:
  assumes "distinct (map t_ID (fd_tasks db))" and "UpdateTaskStatus ups now i tid new op db = (db', r)"
  shows "keys_of db' = (case r of
      Inl _ \<Rightarrow> keys_of db
    | Inr u \<Rightarrow> apsnd (apsnd (\<lambda>xs. xs @ [(t_ID u, t_Status u, op)])) (keys_of db))"
proof (cases "\<exists>sources t. taskTransitionSources new = Some sources \<and> ups 0 \<and> row_for t_ID tid (fd_tasks db) = Some t \<and>
    t_Status t \<in> set sources")
  case True
  then obtain sources t where t: "taskTransitionSources new = Some sources" "ups 0" "row_for t_ID tid (fd_tasks db) = Some t"
    "t_Status t \<in> set sources" by blast
  let ?u = "t\<lparr>t_Status := new, t_CompletedAt := (if new = TaskCompleted then Some now else t_CompletedAt t),
    t_StatusChangedBy := Some op\<rparr>"
  have "map task_key (put_row t_ID tid ?u (fd_tasks db)) = map task_key (fd_tasks db)"
    by (rule task_key_put [OF assms(1) t(3)]) (simp add: task_key_def)
  with assms(2) t show ?thesis
    by (auto simp: UpdateTaskStatus_def recordTaskStatusTransition_def keys_of_def change_key_def with_allowed_def Let_def
        split: if_splits prod.splits)
next
  case False
  with assms(2) show ?thesis by (auto simp: UpdateTaskStatus_def split: option.splits if_splits)
qed

section \<open>The dashboards are told\<close>

definition told_inv :: "fleet_db \<Rightarrow> fleet \<Rightarrow> bool" where
  "told_inv db0 s \<longleftrightarrow> announced db0 s \<and> fleet_wf (fl_db s)"

lemma announced_quiet: "announced db0 s \<Longrightarrow> keys_of db = keys_of (fl_db s) \<Longrightarrow> announced db0 (s\<lparr>fl_db := db\<rparr>)"
  by (simp add: announced_keys)

lemma announced_other [simp]: "announced db0 (s\<lparr>fl_engine := e\<rparr>) = announced db0 s"
  "announced db0 (s\<lparr>fl_dispatched := d\<rparr>) = announced db0 s"
  by (simp_all add: announced_def)

lemma map_filter_snoc [simp]: "List.map_filter f (xs @ [x]) = List.map_filter f xs @ (case f x of None \<Rightarrow> [] | Some y \<Rightarrow> [y])"
  by (simp add: map_filter_def split: option.split)

lemma announced_broadcast:
  "announced db0 (broadcast p (s\<lparr>fl_db := db\<rparr>)) \<longleftrightarrow> keys_of db =
     (map alert_key (fd_alerts db0) @ List.map_filter told_alert (fl_sent s @ [p]),
      map task_key (fd_tasks db0) @ List.map_filter told_task (fl_sent s @ [p]),
      map change_key (fd_history db0) @ List.map_filter told_change (fl_sent s @ [p]))"
  by (simp add: announced_keys broadcast_def)

lemma told_alerts:
  assumes "told_inv db0 s"
  shows "told_inv db0 (raise_alert up now i a s)"
proof (cases a)
  case (Some alert)
  obtain db r where c: "CreateAlert up now i alert (fl_db s) = (db, r)" by fastforce
  have wf: "fleet_wf db" using wf_alerts(1) [of "fl_db s" up now i alert] assms c by (simp add: told_inv_def)
  have "announced db0 (raise_alert up now i a s)"
    using keys_create_alert [OF c] assms Some c
    by (cases r) (simp_all add: raise_alert_def told_inv_def announced_keys broadcast_def)
  moreover have "fl_db (raise_alert up now i a s) = db" using Some c by (cases r) (simp_all add: raise_alert_def broadcast_def)
  ultimately show ?thesis using wf by (simp add: told_inv_def)
qed (use assms in \<open>simp add: raise_alert_def\<close>)

lemma told_db:
  "told_inv db0 s \<Longrightarrow> keys_of db = keys_of (fl_db s) \<Longrightarrow> fleet_wf db \<Longrightarrow> told_inv db0 (s\<lparr>fl_db := db\<rparr>)"
  by (simp add: told_inv_def announced_quiet)

lemma told_silent:
  assumes "told_alert p = None" "told_task p = None" "told_change p = None"
  shows "told_inv db0 (broadcast p s) = told_inv db0 s"
  using assms by (simp add: told_inv_def announced_def broadcast_def)

lemma told_status:
  assumes inv: "told_inv db0 s"
  shows "told_inv db0 (subscribeVehicleStatus f4 ups now wall newID e s)"
proof -
  obtain db1 r1 where c1: "EnsureVehicleExists (ups 0) now (ve_VehicleID e) (fl_db s) = (db1, r1)" by fastforce
  obtain db2 r2 where c2: "UpsertVehicleStatus f4 (ups 1) now (status_of_event e) db1 = (db2, r2)" by fastforce
  obtain db3 r3 where c3: "RecordPositionHistory (ups 2) now (ve_VehicleID e) (ve_PositionLat e) (ve_PositionLon e) db2 = (db3, r3)"
    by fastforce
  have wf: "fleet_wf db1" "fleet_wf db2" "fleet_wf db3"
    using inv wf_vehicles(1) [of "fl_db s"] wf_upsert [of db1] wf_positions(1) [of db2]
    by (metis c1 c2 c3 fst_conv told_inv_def)+
  have k: "keys_of db1 = keys_of (fl_db s)" "keys_of db2 = keys_of (fl_db s)" "keys_of db3 = keys_of (fl_db s)"
    using keys_quiet(1,4,5) by (metis c1 c2 c3 fst_conv)+
  let ?st = "(status_of_event e)\<lparr>vs_UpdatedAt := wall\<rparr>"
  let ?s3 = "(broadcast (vehicle_status_event ?st) (s\<lparr>fl_db := db3\<rparr>))\<lparr>fl_engine := fst (Evaluate ?st (fl_engine s))\<rparr>"
  have "told_inv db0 (broadcast (vehicle_status_event ?st) (s\<lparr>fl_db := db3\<rparr>))"
    using told_db [OF inv k(3) wf(3)] by (simp add: told_silent)
  then have "told_inv db0 ?s3" by (simp add: told_inv_def)
  then have "told_inv db0 (raise_alert (ups 3) now newID (snd (Evaluate ?st (fl_engine s))) ?s3)" by (rule told_alerts)
  moreover have "told_inv db0 (s\<lparr>fl_db := db1\<rparr>)" "told_inv db0 (s\<lparr>fl_db := db2\<rparr>)"
    using told_db [OF inv] k wf by blast+
  ultimately show ?thesis
    by (cases r1; cases r2)
      (simp_all add: subscribeVehicleStatus_def c1 c2 [unfolded One_nat_def] c3 Let_def split_beta broadcast_def)
qed

lemma told_vehicle_alert:
  assumes inv: "told_inv db0 s"
  shows "told_inv db0 (subscribeVehicleAlerts ups now newID e s)"
proof -
  obtain db1 r1 where c1: "EnsureVehicleExists (ups 0) now (vae_VehicleID e) (fl_db s) = (db1, r1)" by fastforce
  have "fleet_wf db1" "keys_of db1 = keys_of (fl_db s)"
    using inv wf_vehicles(1) [of "fl_db s"] keys_quiet(1) by (metis c1 fst_conv told_inv_def)+
  then have s1: "told_inv db0 (s\<lparr>fl_db := db1\<rparr>)" by (intro told_db [OF inv])
  have "subscribeVehicleAlerts ups now newID e s = (case r1 of
      Inl _ \<Rightarrow> s\<lparr>fl_db := db1\<rparr>
    | Inr _ \<Rightarrow> raise_alert (ups 1) now newID (Some (new_alert (vae_VehicleID e) (vae_Severity e) (vae_Message e))) (s\<lparr>fl_db := db1\<rparr>))"
    by (simp add: subscribeVehicleAlerts_def raise_alert_def c1 split: sum.split prod.split)
  then show ?thesis using s1 told_alerts [OF s1] by (simp split: sum.split)
qed

lemma told_create_task:
  assumes inv: "told_inv db0 s" and fresh: "\<not> exists_row t_ID i (fd_tasks (fl_db s))"
  shows "told_inv db0 (fst (handle_CreateTask up published now i body s))"
proof (cases body)
  case (Some t)
  obtain db r where c: "CreateTask up now i t (fl_db s) = (db, r)" by fastforce
  have wf: "fleet_wf db" using wf_create_task [OF _ fresh, of up now t] inv c by (simp add: told_inv_def)
  show ?thesis
    using keys_create_task [OF c] inv wf c Some
    by (cases r) (auto simp: handle_CreateTask_def createAndDispatchTask_def mqtt_DispatchTask_def told_inv_def announced_keys
        broadcast_def)
qed (use inv in \<open>simp add: handle_CreateTask_def\<close>)

lemma update_reply_state:
  "fst (handle_UpdateTaskStatus ups now i tid (Some (new, op)) s) =
     (if new = [] \<or> op = [] then s else fst (transitionTaskStatus ups now i tid new op s))"
proof -
  obtain s1 r where t: "transitionTaskStatus ups now i tid new op s = (s1, r)" by fastforce
  show ?thesis
  proof (cases r)
    case (Inl e)
    with t show ?thesis by (cases e) (simp_all add: handle_UpdateTaskStatus_def)
  next
    case (Inr u)
    with t show ?thesis by (simp add: handle_UpdateTaskStatus_def)
  qed
qed

lemma told_update:
  assumes inv: "told_inv db0 s"
  shows "told_inv db0 (fst (handle_UpdateTaskStatus ups now i tid body s))"
proof (cases body)
  case (Some b)
  obtain new op where b: "b = (new, op)" by fastforce
  obtain db r where c: "UpdateTaskStatus ups now i tid new op (fl_db s) = (db, r)" by fastforce
  have wf: "fleet_wf db" using wf_update_task [of "fl_db s" ups now i tid new op] inv c by (simp add: told_inv_def)
  have d: "distinct (map t_ID (fd_tasks (fl_db s)))" using inv by (simp add: told_inv_def fleet_wf_def)
  have "told_inv db0 (fst (transitionTaskStatus ups now i tid new op s))"
    using keys_update [OF d c] inv wf c
    by (cases r) (auto simp: transitionTaskStatus_def told_inv_def announced_keys broadcast_def)
  moreover have "fst (handle_UpdateTaskStatus ups now i tid body s) =
      (if new = [] \<or> op = [] then s else fst (transitionTaskStatus ups now i tid new op s))"
    by (simp add: Some b update_reply_state)
  ultimately show ?thesis using inv by simp
qed (use inv in \<open>simp add: handle_UpdateTaskStatus_def\<close>)

lemma told_acknowledge:
  assumes inv: "told_inv db0 s"
  shows "told_inv db0 (fst (handle_AcknowledgeAlert up now wall aid body s))"
proof (cases body)
  case (Some op)
  obtain db r where c: "AcknowledgeAlert up now aid op (fl_db s) = (db, r)" by fastforce
  have wf: "fleet_wf db" and k: "keys_of db = keys_of (fl_db s)"
    using wf_alerts(2) [of "fl_db s" up now aid op] keys_quiet(7) [of up now aid op "fl_db s"] inv c
    by (simp_all add: told_inv_def)
  from told_db [OF inv k wf] show ?thesis
    using Some c inv by (cases r) (auto simp: handle_AcknowledgeAlert_def acknowledgeAlert_def told_silent)
qed (use inv in \<open>simp add: handle_AcknowledgeAlert_def\<close>)

lemma told_masterdata:
  assumes inv: "told_inv db0 s"
  shows "told_inv db0 (fst (CreateZone jsonb up now z s))" and "told_inv db0 (fst (CreateStation up now st s))"
proof -
  have "told_inv db0 (s\<lparr>fl_db := fst (AddZone jsonb up now x (fl_db s))\<rparr>)" for x
    using inv by (intro told_db) (simp_all add: wf_zone told_inv_def)
  then show "told_inv db0 (fst (CreateZone jsonb up now z s))"
    using inv by (auto simp: CreateZone_def split: option.split prod.split sum.split) (metis fst_conv)+
  have "told_inv db0 (s\<lparr>fl_db := fst (AddStation up now x (fl_db s))\<rparr>)" for x
    using inv by (intro told_db) (simp_all add: wf_station told_inv_def)
  then show "told_inv db0 (fst (CreateStation up now st s))"
    using inv by (auto simp: CreateStation_def split: option.split prod.split sum.split) (metis fst_conv)+
qed

lemma told_request:
  assumes inv: "told_inv db0 s" and "\<And>i body. r = PostTask i body \<Longrightarrow> \<not> exists_row t_ID i (fd_tasks (fl_db s))"
  shows "told_inv db0 (fst (newFleetMux env authorization r s))"
proof -
  have "told_inv db0 (fst (fleet_handler env r s))"
    using assms by (cases r) (simp_all add: fleet_handler_def told_masterdata told_create_task told_update told_acknowledge)
  then show ?thesis using inv by (cases "r = GetHealth") (simp_all add: newFleetMux_def RequireAuth_def)
qed

interpretation fleet_run: transition_system "\<lambda>s. fl_db s = db0 \<and> fleet_wf db0 \<and> fl_sent s = []" fleet_step "told_inv db0"
proof
  show "told_inv db0 s" if "fl_db s = db0 \<and> fleet_wf db0 \<and> fl_sent s = []" for s
    using that by (simp add: told_inv_def announced_def map_filter_def)
next
  show "told_inv db0 s'" if "fleet_step s s'" "told_inv db0 s" for s s'
    using that
  proof cases
    case (request r env authorization)
    with that(2) show ?thesis using told_request by blast
  next
    case (status_message unmarshal payload f4 ups now wall newID)
    with that(2) show ?thesis
      by (simp add: handleStatusMessage_def SubscribeVehicleStatus_def new_gateway_def told_status split: option.split)
  next
    case (alert_message unmarshal_alert payload ups now newID)
    with that(2) show ?thesis
      by (simp add: handleAlertMessage_def SubscribeVehicleAlerts_def new_gateway_def told_vehicle_alert split: option.split)
  next
    case (retention up now)
    with that(2) show ?thesis
      by (auto simp: retention_tick_def told_inv_def wf_positions intro!: announced_quiet)
  qed
qed

lemma fleet_start_state:
  assumes "fleet_wf db" and "fleet_start newIDs now db = Some s0"
  shows "fleet_wf (fl_db s0)" "fl_sent s0 = []"
proof -
  obtain db1 where "NewPostgresFleetStore newIDs now db = (db1, Inr ())"
    "s0 = \<lparr>fl_db = db1, fl_engine = NewAlertEngine, fl_sent = [], fl_dispatched = []\<rparr>"
    using assms(2) by (auto simp: fleet_start_def split: prod.splits sum.splits)
  with wf_startup [OF assms(1), of newIDs now] show "fleet_wf (fl_db s0)" "fl_sent s0 = []" by simp_all
qed

section \<open>Properties\<close>


definition demo_event :: VehicleStatusEvent where
  "demo_event = \<lparr>ve_VehicleID = ''v'', ve_BatteryPct = Some 5, ve_Speed = None, ve_PositionLat = None, ve_PositionLon = None,
     ve_PositionZoneID = None, ve_AutonomyMode = ''manual'', ve_CurrentTaskID = None, ve_Timestamp = None\<rparr>"

definition demo_fleet :: fleet where
  "demo_fleet = \<lparr>fl_db = empty_fleet_db, fl_engine = NewAlertEngine, fl_sent = [], fl_dispatched = []\<rparr>"


text \<open>The engine takes note of the worse tier before the alert is stored: when the insert fails, the alert is neither
  stored nor broadcast, and the next report in the same tier does not raise it again.\<close>

theorem alert_lost_on_store_failure:
  assumes "Evaluate (status_of_event e) (fl_engine s) = (engine, Some a)" and "raise_alert False now i (Some a) s = s'"
  shows "s' = s \<and> snd (Evaluate (status_of_event e) engine) = None"
proof -
  obtain x where x: "ve_BatteryPct e = Some x" using assms(1) by (cases "ve_BatteryPct e") (auto simp: Evaluate_def status_of_event_def)
  let ?t = "tier_of (fl_engine s) (ve_VehicleID e)"
  have "tier_of engine (ve_VehicleID e) = batteryTier x ?t"
    using Evaluate_tier [of "status_of_event e" "fl_engine s" "ve_VehicleID e"] assms(1) x by (simp add: status_of_event_def)
  moreover have "batteryTier x (batteryTier x t) = batteryTier x t" for t
    by (simp add: batteryTier_def tier_defs threshold_defs)
  ultimately have "snd (Evaluate (status_of_event e) engine) = None" using x by (simp add: Evaluate_alert status_of_event_def)
  moreover have "s' = s" using assms(2) by (simp add: raise_alert_def CreateAlert_def)
  ultimately show ?thesis by blast
qed

lemma patch_state:
  assumes "UpdateTaskStatus ups now i tid new op (fl_db s) = (db, r)"
  shows "transitionTaskStatus ups now i tid new op s =
    (case r of
       Inl e \<Rightarrow> (s\<lparr>fl_db := db\<rparr>, Inl e)
     | Inr t \<Rightarrow> (s\<lparr>fl_db := db, fl_sent := fl_sent s @ [task_status_changed_event (t_ID t) (t_Status t) (t_CompletedAt t) op]\<rparr>, Inr t))"
  using assms by (simp add: transitionTaskStatus_def broadcast_def split: sum.split)

lemma accepted_reply:
  assumes "row_for t_ID tid (fd_tasks db) = Some t" and "task_edge (t_Status t) new"
  shows "\<exists>db' u. UpdateTaskStatus (\<lambda>_. True) now i tid new op db = (db', Inr u) \<and> t_ID u = tid \<and> t_Status u = new \<and>
    t_CompletedAt u = (if new = TaskCompleted then Some now else t_CompletedAt t)"
proof -
  obtain sources where "taskTransitionSources new = Some sources" "t_Status t \<in> set sources"
    using assms(2) by (auto simp: task_edge_def)
  with assms(1) row_for_Some [OF assms(1)] show ?thesis
    by (auto simp: UpdateTaskStatus_def recordTaskStatusTransition_def with_allowed_def Let_def)
qed


definition demo_env :: fleet_env where
  "demo_env = \<lparr>fe_jwt = (\<lambda>k t. Some (TokenView True (Some \<lparr>cl_Subject = t, cl_Role = ''OPERATOR''\<rparr>))), fe_secret = ''k'', fe_jsonb = Some,
     fe_ups = (\<lambda>_. True), fe_published = True, fe_now = 9, fe_wall = 9\<rparr>"

definition demo_pending :: fleet where
  "demo_pending = demo_fleet\<lparr>fl_db := empty_fleet_db\<lparr>fd_tasks := [demo_task\<lparr>t_ID := ''t'', t_Status := TaskPending\<rparr>]\<rparr>\<rparr>"


end
