(* ===== verification/Vehicle_Mock.thy ===== *)
theory Vehicle_Mock
  imports Telemetry_Service Command_Engine Fleet_Service
begin

text \<open>
  The simulated vehicle (\<open>cmd/vehicle-mock\<close>): the teleoperated vehicle with its command loop and telemetry
  (\<open>main.go\<close>), and the autonomous fleet vehicles (\<open>fleet_simulator.go\<close>, \<open>fleet_stations.go\<close>). \<open>rnd\<close> is the rounding
  of \<open>float64\<close> arithmetic; decoding, network answers and random numbers are parameters.
\<close>

section \<open>The teleoperated vehicle\<close>

record mock_state =
  ms_steerCommanded :: float64
  ms_throttleCommanded :: float64
  ms_brakeCommanded :: float64
  ms_steerActual :: float64
  ms_throttleActual :: float64
  ms_speedKmh :: float64
  ms_battery :: float64
  ms_sessionID :: session_id

text \<open>A decoded command; the session id is that of the header, if there is one.\<close>

record VehicleCommand = ControlCommand +
  vc_Value :: float64
  vc_SessionId :: session_id

definition lerp :: "(rat \<Rightarrow> float64) \<Rightarrow> float64 \<Rightarrow> float64 \<Rightarrow> float64 \<Rightarrow> float64" where
  "lerp rnd current target factor = rnd (current + rnd (rnd (target - current) * factor))"

definition applyCommand :: "(rat \<Rightarrow> float64) \<Rightarrow> VehicleCommand \<Rightarrow> mock_state \<Rightarrow> mock_state" where
  "applyCommand rnd cmd st =
     (let factor = rnd (85 / 100); v = vc_Value cmd
      in case cmd_Type cmd of
           COMMAND_TYPE_STEER \<Rightarrow> st\<lparr>ms_steerCommanded := v, ms_steerActual := lerp rnd (ms_steerActual st) v factor\<rparr>
         | COMMAND_TYPE_THROTTLE \<Rightarrow>
             let t = lerp rnd (ms_throttleActual st) v factor
             in st\<lparr>ms_throttleCommanded := v, ms_throttleActual := t, ms_speedKmh := rnd (\<bar>t\<bar> * 30)\<rparr>
         | COMMAND_TYPE_BRAKE \<Rightarrow> st\<lparr>ms_brakeCommanded := v, ms_speedKmh := max 0 (rnd (ms_speedKmh st - rnd (v * 5)))\<rparr>
         | _ \<Rightarrow> st)"

text \<open>An acknowledgement as the vehicle sends it: its header's vehicle and session, and the body the control server
  stores.\<close>

record sent_ack =
  sa_VehicleId :: vehicle_id
  sa_SessionId :: session_id
  sa_Ack :: VehicleCommandAck

definition sendCommandAck :: "vehicle_id \<Rightarrow> int \<Rightarrow> VehicleCommand \<Rightarrow> mock_state \<Rightarrow> sent_ack" where
  "sendCommandAck vid ms cmd st =
     \<lparr>sa_VehicleId = vid, sa_SessionId = ms_sessionID st,
      sa_Ack = \<lparr>CommandEventId = (case cmd_EventId cmd of None \<Rightarrow> [] | Some i \<Rightarrow> i), Received = True, ReceivedAtMs = ms\<rparr>\<rparr>"

definition take_command :: "(rat \<Rightarrow> float64) \<Rightarrow> VehicleCommand \<Rightarrow> mock_state \<Rightarrow> mock_state" where
  "take_command rnd cmd st =
     (let st1 = applyCommand rnd cmd st
      in if cmd_EventId cmd \<noteq> None \<and> vc_SessionId cmd \<noteq> [] then st1\<lparr>ms_sessionID := vc_SessionId cmd\<rparr> else st1)"

text \<open>The command loop over the frames read, each with the time of its reception; it ends with the first acknowledgement
  that cannot be written (\<open>write_ok n\<close> for the \<open>n\<close>-th one) or when reading fails, after the last frame.\<close>

fun receiveCommands ::
  "(rat \<Rightarrow> float64) \<Rightarrow> (string \<Rightarrow> VehicleCommand option) \<Rightarrow> (nat \<Rightarrow> bool) \<Rightarrow> vehicle_id \<Rightarrow> (int \<times> string) list \<Rightarrow> nat \<Rightarrow> mock_state \<Rightarrow>
     mock_state \<times> sent_ack list" where
  "receiveCommands rnd unmarshal write_ok vid [] n st = (st, [])"
| "receiveCommands rnd unmarshal write_ok vid ((ms, data) # fs) n st =
     (case unmarshal data of
        None \<Rightarrow> receiveCommands rnd unmarshal write_ok vid fs n st
      | Some cmd \<Rightarrow>
          let st1 = take_command rnd cmd st
          in if \<not> write_ok n then (st1, [])
             else let (st2, as) = receiveCommands rnd unmarshal write_ok vid fs (n + 1) st1
                  in (st2, sendCommandAck vid ms cmd st1 # as))"

definition publishTelemetry :: "vehicle_id \<Rightarrow> event_id \<Rightarrow> 64 word \<Rightarrow> mock_state \<Rightarrow> string \<times> TelemetryEvent" where
  "publishTelemetry vid newID nowMilli st =
     (''vehicle/'' @ vid @ ''/telemetry'',
      \<lparr>te_Header = Some \<lparr>ch_EventId = newID, ch_VehicleId = vid, ch_SessionId = ms_sessionID st, ch_Timestamp = nowMilli\<rparr>,
       te_SpeedKmh = ms_speedKmh st, te_BatteryPct = ms_battery st, te_Latitude = 0, te_Longitude = 0, te_Status = ''MOCK_RUNNING'',
       te_SteerCommanded = ms_steerCommanded st, te_ThrottleCommanded = ms_throttleCommanded st,
       te_BrakeCommanded = ms_brakeCommanded st, te_SteerActual = ms_steerActual st, te_ThrottleActual = ms_throttleActual st\<rparr>)"

section \<open>Stations\<close>

record fleetStation =
  fst_id :: string
  fst_lat :: float64
  fst_lon :: float64

record fleetStationDTO =
  dto_ID :: string
  dto_PositionLat :: "float64 option"
  dto_PositionLon :: "float64 option"

definition fallbackDemoStations :: "(rat \<Rightarrow> float64) \<Rightarrow> fleetStation list" where
  "fallbackDemoStations rnd =
     [\<lparr>fst_id = ''demo-station-a'', fst_lat = rnd (521301 / 10000), fst_lon = rnd (116401 / 10000)\<rparr>,
      \<lparr>fst_id = ''demo-station-b'', fst_lat = rnd (521305 / 10000), fst_lon = rnd (116412 / 10000)\<rparr>]"

text \<open>The answer of the fleet service: \<open>None\<close> if the request failed, else its status and the decoded body.\<close>

definition fetchRealStations :: "(nat \<times> fleetStationDTO list option) option \<Rightarrow> fleetStation list option" where
  "fetchRealStations response =
     (case response of
        None \<Rightarrow> None
      | Some (code, body) \<Rightarrow>
          if code \<noteq> StatusOK then None
          else map_option
            (List.map_filter (\<lambda>d. case (dto_PositionLat d, dto_PositionLon d) of
               (Some la, Some lo) \<Rightarrow> Some \<lparr>fst_id = dto_ID d, fst_lat = la, fst_lon = lo\<rparr>
             | _ \<Rightarrow> None)) body)"

definition resolveSimulationStations :: "(rat \<Rightarrow> float64) \<Rightarrow> (nat \<times> fleetStationDTO list option) option \<Rightarrow> fleetStation list" where
  "resolveSimulationStations rnd response =
     (case fetchRealStations response of
        None \<Rightarrow> fallbackDemoStations rnd
      | Some stations \<Rightarrow> if length stations < 2 then fallbackDemoStations rnd else take 2 stations)"

section \<open>Fleet vehicles\<close>

datatype fleetVehicleType = typeLastenrad | typeLastenzug

record fleetVehicleSimulator =
  fx_vehicleID :: vehicle_id
  fx_stations :: "fleetStation list"
  fx_battery :: float64
  fx_lat :: float64
  fx_lon :: float64
  fx_targetIdx :: nat
  fx_charging :: bool
  fx_speedPerTick :: float64
  fx_drainPerTick :: float64
  fx_chargePerTick :: float64
  fx_chargeBelow :: float64

definition newFleetVehicleSimulator ::
  "(rat \<Rightarrow> float64) \<Rightarrow> vehicle_id \<Rightarrow> fleetVehicleType \<Rightarrow> fleetStation list \<Rightarrow> fleetVehicleSimulator" where
  "newFleetVehicleSimulator rnd vid ty stations =
     (let (speed, drain, charge) = (if ty = typeLastenzug then (3 / 100, 8 / 100, 3 / 10) else (8 / 100, 15 / 100, 6 / 10));
          start = stations ! 0
      in \<lparr>fx_vehicleID = vid, fx_stations = stations, fx_battery = 90, fx_lat = fst_lat start, fx_lon = fst_lon start,
          fx_targetIdx = 1, fx_charging = False, fx_speedPerTick = rnd speed, fx_drainPerTick = rnd drain,
          fx_chargePerTick = rnd charge, fx_chargeBelow = 30\<rparr>)"

definition arrivalThresholdDegrees :: rat where "arrivalThresholdDegrees = 5 / 100000"

definition approach :: "(rat \<Rightarrow> float64) \<Rightarrow> float64 \<Rightarrow> float64 \<Rightarrow> float64 \<Rightarrow> float64" where
  "approach rnd x target fraction = rnd (x + rnd (rnd (target - x) * fraction))"

definition advance :: "(rat \<Rightarrow> float64) \<Rightarrow> fleetVehicleSimulator \<Rightarrow> fleetVehicleSimulator" where
  "advance rnd s =
     (let target = fx_stations s ! fx_targetIdx s
      in if fx_charging s then
           (let b = rnd (fx_battery s + fx_chargePerTick s)
            in if b \<ge> 100 then s\<lparr>fx_battery := 100, fx_charging := False\<rparr> else s\<lparr>fx_battery := b\<rparr>)
         else
           (let la = approach rnd (fx_lat s) (fst_lat target) (fx_speedPerTick s);
                lo = approach rnd (fx_lon s) (fst_lon target) (fx_speedPerTick s);
                b = rnd (fx_battery s - fx_drainPerTick s);
                s1 = s\<lparr>fx_lat := la, fx_lon := lo, fx_battery := (if b < 0 then 0 else b)\<rparr>
            in if \<bar>rnd (fst_lat target - la)\<bar> < rnd arrivalThresholdDegrees \<and> \<bar>rnd (fst_lon target - lo)\<bar> < rnd arrivalThresholdDegrees
               then (let s2 = s1\<lparr>fx_lat := fst_lat target, fx_lon := fst_lon target\<rparr>
                     in if fx_battery s2 < fx_chargeBelow s2 then s2\<lparr>fx_charging := True\<rparr>
                        else s2\<lparr>fx_targetIdx := (fx_targetIdx s2 + 1) mod length (fx_stations s2)\<rparr>)
               else s1))"

definition fleet_status_event :: "instant \<Rightarrow> fleetVehicleSimulator \<Rightarrow> VehicleStatusEvent" where
  "fleet_status_event now s = \<lparr>ve_VehicleID = fx_vehicleID s, ve_BatteryPct = Some (fx_battery s), ve_Speed = None,
     ve_PositionLat = Some (fx_lat s), ve_PositionLon = Some (fx_lon s), ve_PositionZoneID = None,
     ve_AutonomyMode = ''autonomous'', ve_CurrentTaskID = None, ve_Timestamp = Some now\<rparr>"

definition fleet_obstacle_event :: "instant \<Rightarrow> fleetVehicleSimulator \<Rightarrow> VehicleAlertEvent" where
  "fleet_obstacle_event now s = \<lparr>vae_VehicleID = fx_vehicleID s, vae_Severity = ''critical'',
     vae_Message = ''Hindernis auf der Strecke erkannt '' @ em_dash @ '' '' @ fx_vehicleID s @
       '' kann nicht selbstst'' @ [CHR 0xC3, CHR 0xA4] @ ''ndig ausweichen'',
     vae_Timestamp = Some now\<rparr>"

text \<open>One tick; \<open>draw\<close> is the random number, which is drawn only while the vehicle is not charging.\<close>

definition fleet_tick ::
  "(rat \<Rightarrow> float64) \<Rightarrow> instant \<Rightarrow> float64 \<Rightarrow> fleetVehicleSimulator \<Rightarrow>
     fleetVehicleSimulator \<times> VehicleStatusEvent \<times> VehicleAlertEvent option" where
  "fleet_tick rnd now draw s =
     (let s1 = advance rnd s
      in (s1, fleet_status_event now s1,
          if \<not> fx_charging s1 \<and> draw < rnd (5 / 1000) then Some (fleet_obstacle_event now s1) else None))"

text \<open>What a tick of \<open>runFleetVehicleSimulation\<close> publishes.\<close>

datatype fleet_publication = PublishStatus string VehicleStatusEvent | PublishAlert string VehicleAlertEvent

definition fleet_publications :: "(rat \<Rightarrow> float64) \<Rightarrow> instant \<Rightarrow> float64 \<Rightarrow> fleetVehicleSimulator \<Rightarrow> fleet_publication list" where
  "fleet_publications rnd now draw s =
     (case fleet_tick rnd now draw s of (_, ev, alert) \<Rightarrow>
        PublishStatus (StatusTopic (fx_vehicleID s)) ev #
        (case alert of None \<Rightarrow> [] | Some a \<Rightarrow> [PublishAlert (AlertTopic (fx_vehicleID s)) a]))"

section \<open>The list of vehicles to simulate\<close>

text \<open>\<open>strings.Split\<close> at a byte and \<open>strings.SplitN\<close> with two parts.\<close>

fun split_at_char :: "char \<Rightarrow> string \<Rightarrow> string list" where
  "split_at_char c [] = [[]]"
| "split_at_char c (x # xs) =
     (if x = c then [] # split_at_char c xs
      else case split_at_char c xs of [] \<Rightarrow> [[x]] | p # ps \<Rightarrow> (x # p) # ps)"

definition splitN2 :: "char \<Rightarrow> string \<Rightarrow> string \<times> string option" where
  "splitN2 c s =
     (if c \<in> set s then (takeWhile (\<lambda>x. x \<noteq> c) s, Some (tl (dropWhile (\<lambda>x. x \<noteq> c) s))) else (s, None))"

definition parse_entry :: "string \<Rightarrow> vehicle_id \<times> fleetVehicleType" where
  "parse_entry entry =
     (case splitN2 (CHR '':'') entry of (i, ty) \<Rightarrow> (i, if ty = Some ''lastenrad'' then typeLastenrad else typeLastenzug))"

definition startFleetSimulation ::
  "(rat \<Rightarrow> float64) \<Rightarrow> string \<Rightarrow> (nat \<times> fleetStationDTO list option) option \<Rightarrow> fleetVehicleSimulator list" where
  "startFleetSimulation rnd spec response =
     (let spec = trimSpace spec
      in if spec = [] then []
         else let stations = resolveSimulationStations rnd response;
                  entries = filter (\<lambda>e. e \<noteq> []) (map trimSpace (split_at_char (CHR '','') spec))
              in map (\<lambda>e. case parse_entry e of (i, ty) \<Rightarrow> newFleetVehicleSimulator rnd i ty stations) entries)"

lemma parse_example:
  "map parse_entry (map trimSpace (split_at_char (CHR '','') ''zug-1:lastenzug, rad-1:lastenrad'')) =
     [(''zug-1'', typeLastenzug), (''rad-1'', typeLastenrad)]"
  by (simp add: trimSpace_def is_space_def parse_entry_def splitN2_def)

section \<open>Commands are acknowledged\<close>

text \<open>The commands among the frames, up to and including the first whose acknowledgement cannot be written.\<close>

definition decoded :: "(string \<Rightarrow> VehicleCommand option) \<Rightarrow> (int \<times> string) list \<Rightarrow> (int \<times> VehicleCommand) list" where
  "decoded unmarshal fs = List.map_filter (\<lambda>(ms, d). map_option (\<lambda>c. (ms, c)) (unmarshal d)) fs"

lemma decoded_Cons: "decoded unmarshal ((ms, d) # fs) =
    (case unmarshal d of None \<Rightarrow> decoded unmarshal fs | Some c \<Rightarrow> (ms, c) # decoded unmarshal fs)"
  by (simp add: decoded_def map_filter_def split: option.split)

lemma acks_of_run:
  "map (\<lambda>a. (sa_VehicleId a, sa_Ack a)) (snd (receiveCommands rnd unmarshal (\<lambda>_. True) vid fs n st)) =
     map (\<lambda>(ms, c). (vid, \<lparr>CommandEventId = (case cmd_EventId c of None \<Rightarrow> [] | Some i \<Rightarrow> i), Received = True, ReceivedAtMs = ms\<rparr>))
       (decoded unmarshal fs)"
proof (induction fs arbitrary: n st)
  case (Cons f fs)
  obtain ms d where f: "f = (ms, d)" by fastforce
  show ?case
    using Cons.IH by (cases "unmarshal d") (simp_all add: f decoded_Cons Let_def split_beta sendCommandAck_def)
qed (simp add: decoded_def map_filter_def)

lemma state_of_run:
  "fst (receiveCommands rnd unmarshal (\<lambda>_. True) vid fs n st) = fold (\<lambda>(ms, c). take_command rnd c) (decoded unmarshal fs) st"
proof (induction fs arbitrary: n st)
  case (Cons f fs)
  obtain ms d where f: "f = (ms, d)" by fastforce
  show ?case using Cons.IH by (cases "unmarshal d") (simp_all add: f decoded_Cons Let_def split_beta)
qed (simp add: decoded_def map_filter_def)

text \<open>With a working connection the vehicle acknowledges every readable command exactly once, in the order in which they
  arrive, with the command's event id; unreadable frames are skipped; and storing the acknowledgements as the control
  server does leaves the one for the last command.\<close>

theorem vehicle_acknowledges:
  assumes "decoded unmarshal fs = cs @ [(ms, c)]"
  shows "map (\<lambda>a. CommandEventId (sa_Ack a)) (snd (receiveCommands rnd unmarshal (\<lambda>_. True) vid fs n st)) =
      map (\<lambda>(_, c). case cmd_EventId c of None \<Rightarrow> [] | Some i \<Rightarrow> i) (decoded unmarshal fs) \<and>
    ack_Latest (fold (\<lambda>a. ack_Store (sa_VehicleId a) (sa_Ack a)) (snd (receiveCommands rnd unmarshal (\<lambda>_. True) vid fs n st)) NewAckStore) vid =
      Some \<lparr>CommandEventId = (case cmd_EventId c of None \<Rightarrow> [] | Some i \<Rightarrow> i), Received = True, ReceivedAtMs = ms\<rparr>"
proof
  let ?acks = "snd (receiveCommands rnd unmarshal (\<lambda>_. True) vid fs n st)"
  let ?pairs = "map (\<lambda>a. (sa_VehicleId a, sa_Ack a)) ?acks"
  have "map (\<lambda>a. CommandEventId (sa_Ack a)) ?acks = map (CommandEventId \<circ> snd) ?pairs" by simp
  also have "\<dots> = map (\<lambda>(_, c). case cmd_EventId c of None \<Rightarrow> [] | Some i \<Rightarrow> i) (decoded unmarshal fs)"
    by (simp only: acks_of_run) (simp add: split_beta comp_def)
  finally show "map (\<lambda>a. CommandEventId (sa_Ack a)) ?acks =
    map (\<lambda>(_, c). case cmd_EventId c of None \<Rightarrow> [] | Some i \<Rightarrow> i) (decoded unmarshal fs)" .
  have "fold (\<lambda>a. ack_Store (sa_VehicleId a) (sa_Ack a)) ?acks NewAckStore = fold (\<lambda>(k, v). ack_Store k v) ?pairs NewAckStore"
    by (simp add: fold_map comp_def)
  then show "ack_Latest (fold (\<lambda>a. ack_Store (sa_VehicleId a) (sa_Ack a)) ?acks NewAckStore) vid =
      Some \<lparr>CommandEventId = (case cmd_EventId c of None \<Rightarrow> [] | Some i \<Rightarrow> i), Received = True, ReceivedAtMs = ms\<rparr>"
    by (simp only: ack_store.get_fold_put acks_of_run assms) simp
qed

section \<open>The simulation stays within bounds\<close>

definition exact_small :: "(rat \<Rightarrow> float64) \<Rightarrow> bool" where
  "exact_small rnd \<longleftrightarrow> rounding rnd \<and> rnd 90 = 90 \<and> rnd 100 = 100"

definition sim_ok :: "(rat \<Rightarrow> float64) \<Rightarrow> fleetVehicleSimulator \<Rightarrow> bool" where
  "sim_ok rnd s \<longleftrightarrow> 0 \<le> fx_battery s \<and> fx_battery s \<le> 100 \<and> rnd (fx_battery s) = fx_battery s \<and>
     2 \<le> length (fx_stations s) \<and> fx_targetIdx s < length (fx_stations s) \<and> 0 \<le> fx_drainPerTick s \<and> 0 \<le> fx_chargePerTick s"

lemma stations_two: "length (resolveSimulationStations rnd response) = 2"
  by (auto simp: resolveSimulationStations_def fallbackDemoStations_def split: option.split)

lemma sim_ok_new:
  assumes "exact_small rnd" and "length stations = 2"
  shows "sim_ok rnd (newFleetVehicleSimulator rnd i ty stations)"
proof -
  have "0 \<le> rnd (8 / 100)" "0 \<le> rnd (3 / 10)" "0 \<le> rnd (15 / 100)" "0 \<le> rnd (6 / 10)"
    using assms(1) by (auto simp: exact_small_def intro: nonneg_rounding)
  with assms show ?thesis by (auto simp: sim_ok_def newFleetVehicleSimulator_def exact_small_def Let_def)
qed

lemma sim_ok_advance:
  assumes r: "exact_small rnd" and ok: "sim_ok rnd s"
  shows "sim_ok rnd (advance rnd s)"
proof -
  have rd: "rounding rnd" using r by (simp add: exact_small_def)
  then have idem: "rnd (rnd x) = rnd x" and mono: "x \<le> y \<Longrightarrow> rnd x \<le> rnd y" and zero: "rnd 0 = 0" for x y
    by (auto simp: rounding_def dest: monoD)
  have charge: "0 \<le> rnd (fx_battery s + fx_chargePerTick s)" using ok by (intro nonneg_rounding [OF rd]) (simp add: sim_ok_def)
  have "rnd (fx_battery s - fx_drainPerTick s) \<le> rnd (fx_battery s)" using ok by (intro mono) (simp add: sim_ok_def)
  then have drain: "rnd (fx_battery s - fx_drainPerTick s) \<le> 100" using ok by (simp add: sim_ok_def)
  have idx: "(fx_targetIdx s + 1) mod length (fx_stations s) < length (fx_stations s)" using ok by (intro mod_less_divisor) (auto simp: sim_ok_def)
  show ?thesis
  proof (cases "fx_charging s")
    case True
    then show ?thesis using ok charge idem r by (auto simp: sim_ok_def advance_def exact_small_def Let_def)
  next
    case False
    then show ?thesis using ok drain idx idem zero by (auto simp: sim_ok_def advance_def Let_def)
  qed
qed

text \<open>Every simulated vehicle stays sound for as long as it runs: the battery between 0 and 100, the target one of its
  stations (so no tick panics), and each tick publishes one status on the vehicle's own topic.\<close>

theorem simulation_bounds:
  assumes "exact_small rnd" and "s \<in> set (startFleetSimulation rnd spec response)"
  shows "sim_ok rnd ((advance rnd ^^ n) s)"
proof -
  have "sim_ok rnd s"
    using assms by (auto simp: startFleetSimulation_def Let_def stations_two sim_ok_new split: if_splits prod.splits)
  then show ?thesis by (induction n) (simp_all add: sim_ok_advance [OF assms(1)])
qed

section \<open>From the simulated vehicle to the dashboards\<close>

text \<open>The row the fleet service keeps for a status: the battery and the speed are columns of single precision.\<close>

definition stored_status :: "(float64 \<Rightarrow> float64 option) \<Rightarrow> instant \<Rightarrow> VehicleStatusEvent \<Rightarrow> VehicleStatus" where
  "stored_status f4 now e = (status_of_event e)\<lparr>vs_BatteryPct := Option.bind (ve_BatteryPct e) f4,
     vs_Speed := Option.bind (ve_Speed e) f4, vs_UpdatedAt := now\<rparr>"

lemma ensured: "EnsureVehicleExists True now v db = (db', r) \<Longrightarrow>
    r = Inr () \<and> exists_row vr_id v (fd_vehicles db') \<and> fd_status db' = fd_status db"
  by (auto simp: EnsureVehicleExists_def split: if_splits)

lemma raise_alert_status: "fd_status (fl_db (raise_alert up now i a s)) = fd_status (fl_db s)"
  by (auto simp: raise_alert_def CreateAlert_def broadcast_def Let_def split: option.split)

lemma raise_alert_sent: "\<exists>ps. fl_sent (raise_alert up now i a s) = fl_sent s @ ps"
  by (auto simp: raise_alert_def broadcast_def split: option.split prod.split sum.split)

text \<open>A simulated vehicle is visible in the fleet service. With a working database, every status a running simulation
  publishes is stored as the row of its vehicle, which is registered on the way if it is new, leaves the rows of all
  other vehicles alone, and is broadcast to the dashboards.\<close>

theorem simulated_status_stored:
  assumes "exact_small rnd" and "s0 \<in> set (startFleetSimulation rnd spec response)"
    and "\<And>x. 0 \<le> x \<Longrightarrow> x \<le> 100 \<Longrightarrow> f4 x \<noteq> None"
    and "fleet_tick rnd t draw ((advance rnd ^^ n) s0) = (s1, e, alert)"
    and "subscribeVehicleStatus f4 (\<lambda>_. True) now wall newID e fl = fl'"
  shows "row_for vs_VehicleID (fx_vehicleID s1) (fd_status (fl_db fl')) = Some (stored_status f4 now e) \<and>
    (\<forall>v. v \<noteq> fx_vehicleID s1 \<longrightarrow> row_for vs_VehicleID v (fd_status (fl_db fl')) = row_for vs_VehicleID v (fd_status (fl_db fl))) \<and>
    vehicle_status_event ((status_of_event e)\<lparr>vs_UpdatedAt := wall\<rparr>) \<in> set (fl_sent fl')"
proof -
  have s1: "s1 = (advance rnd ^^ Suc n) s0" and e: "e = fleet_status_event t s1"
    using assms(4) by (auto simp: fleet_tick_def Let_def)
  have "sim_ok rnd s1" unfolding s1 using assms(1,2) by (rule simulation_bounds)
  then obtain b where b: "f4 (fx_battery s1) = Some b" using assms(3) [of "fx_battery s1"] by (auto simp: sim_ok_def)
  let ?v = "fx_vehicleID s1"
  let ?row = "stored_status f4 now e"
  obtain db1 r1 where c1: "EnsureVehicleExists True now ?v (fl_db fl) = (db1, r1)" by fastforce
  note ens = ensured [OF c1]
  have up: "UpsertVehicleStatus f4 True now (status_of_event e) db1 =
      (db1\<lparr>fd_status := (if exists_row vs_VehicleID ?v (fd_status db1) then put_row vs_VehicleID ?v ?row (fd_status db1)
        else fd_status db1 @ [?row])\<rparr>, Inr ())"
    using ens b by (simp add: UpsertVehicleStatus_def real_opt_def e fleet_status_event_def status_of_event_def stored_status_def Let_def)
  obtain db3 r3 where c3: "RecordPositionHistory True now ?v (Some (fx_lat s1)) (Some (fx_lon s1))
      (fst (UpsertVehicleStatus f4 True now (status_of_event e) db1)) = (db3, r3)" by fastforce
  have st3: "fd_status db3 = fd_status (fst (UpsertVehicleStatus f4 True now (status_of_event e) db1))"
    using c3 by (auto simp: RecordPositionHistory_def split: if_splits)
  have ev: "ve_VehicleID e = ?v" "ve_PositionLat e = Some (fx_lat s1)" "ve_PositionLon e = Some (fx_lon s1)"
    by (simp_all add: e fleet_status_event_def)
  have row: "vs_VehicleID ?row = ?v" by (simp add: stored_status_def status_of_event_def ev)
  have rows: "row_for vs_VehicleID v (fd_status db3) = (if v = ?v then Some ?row else row_for vs_VehicleID v (fd_status (fl_db fl)))" for v
    using ens row row_for_None [of vs_VehicleID v "fd_status db1"] unfolding st3 up
    by (auto simp: row_for_put row_for_snoc split: option.split)
  let ?st = "(status_of_event e)\<lparr>vs_UpdatedAt := wall\<rparr>"
  let ?fl = "(broadcast (vehicle_status_event ?st) (fl\<lparr>fl_db := db3\<rparr>))\<lparr>fl_engine := fst (Evaluate ?st (fl_engine fl))\<rparr>"
  have fl': "fl' = raise_alert True now newID (snd (Evaluate ?st (fl_engine fl))) ?fl"
    using assms(5) c1 ens up c3 by (simp add: subscribeVehicleStatus_def ev Let_def split_beta broadcast_def)
  have "fd_status (fl_db fl') = fd_status db3" unfolding fl' by (simp add: raise_alert_status broadcast_def)
  moreover have "vehicle_status_event ?st \<in> set (fl_sent fl')"
    using raise_alert_sent [of True now newID "snd (Evaluate ?st (fl_engine fl))" ?fl] unfolding fl' by (auto simp: broadcast_def)
  ultimately show ?thesis using rows by simp
qed

theorem simulated_status_stored_witness:
  "\<exists>fl'. subscribeVehicleStatus Some (\<lambda>_. True) 5 5 ''a''
      (fleet_status_event 1 (advance (\<lambda>x. x) (newFleetVehicleSimulator (\<lambda>x. x) ''v'' typeLastenzug (fallbackDemoStations (\<lambda>x. x))))) demo_fleet = fl' \<and>
    length (fl_sent fl') \<ge> 1 \<and> row_for vs_VehicleID ''v'' (fd_status (fl_db fl')) \<noteq> None"
proof -
  let ?id = "\<lambda>x :: rat. x"
  let ?s = "newFleetVehicleSimulator ?id ''v'' typeLastenzug (fallbackDemoStations ?id)"
  have exact: "exact_small ?id" by (simp add: exact_small_def rounding_def mono_def)
  have start: "?s \<in> set (startFleetSimulation ?id ''v'' None)"
    by (simp add: startFleetSimulation_def trimSpace_def is_space_def parse_entry_def splitN2_def resolveSimulationStations_def
        fetchRealStations_def Let_def)
  have tick: "fleet_tick ?id 1 1 ((advance ?id ^^ 0) ?s) = (advance ?id ?s, fleet_status_event 1 (advance ?id ?s), None)"
    by (simp add: fleet_tick_def Let_def)
  have v: "fx_vehicleID (advance ?id ?s) = ''v''" by (simp add: advance_def newFleetVehicleSimulator_def Let_def)
  have total: "\<And>x :: rat. 0 \<le> x \<Longrightarrow> x \<le> 100 \<Longrightarrow> Some x \<noteq> None" by simp
  show ?thesis
    using simulated_status_stored [where ?f4.0 = Some and now = 5 and wall = 5 and newID = "''a''" and fl = demo_fleet,
        OF exact start total tick refl] unfolding v
    by (auto simp: Suc_le_eq)
qed

end
