(* ===== verification/Control_Loop.thy ===== *)
theory Control_Loop
  imports Control_Mux Vehicle_Mock Auth_Service Config
begin

text \<open>
  The control loop from end to end: the simulated vehicle as a process (\<open>cmd/vehicle-mock/main.go\<close>), which signs its own
  token, dials the control server and answers commands, together with the control server that admits it, forwards the
  operator's commands to it and stores its acknowledgements.
\<close>

section \<open>The vehicle's process\<close>

definition envOr :: "environment \<Rightarrow> string \<Rightarrow> string \<Rightarrow> string" where
  "envOr env key fallback = (if env key \<noteq> [] then env key else fallback)"

definition makeVehicleJWT :: "jwt_signer \<Rightarrow> instant \<Rightarrow> vehicle_id \<Rightarrow> string \<Rightarrow> string option" where
  "makeVehicleJWT sign now vid secret = sign secret \<lparr>cl_Subject = vid, cl_Role = ''VEHICLE''\<rparr> now (now + 24 * Hour)"

text \<open>\<open>connectMQTT\<close> tries until the broker answers; \<open>attempt i\<close> says whether the \<open>i\<close>-th attempt succeeds. The result is the
  number of failed attempts, \<open>None\<close> if it goes on for ever.\<close>

partial_function (option) connect_from :: "(nat \<Rightarrow> bool) \<Rightarrow> nat \<Rightarrow> nat option" where
  "connect_from attempt i = (if attempt i then Some i else connect_from attempt (i + 1))"

definition connectMQTT :: "(nat \<Rightarrow> bool) \<Rightarrow> nat option" where
  "connectMQTT attempt = connect_from attempt 0"

lemma connectMQTT_connects:
  assumes "attempt n" and "\<And>i. i < n \<Longrightarrow> \<not> attempt i"
  shows "connectMQTT attempt = Some n"
proof -
  have "connect_from attempt (n - k) = Some n" if "k \<le> n" for k
    using that
  proof (induction k)
    case 0
    then show ?case using assms(1) by (subst connect_from.simps) simp
  next
    case (Suc k)
    then have "n - Suc k + 1 = n - k" by simp
    with Suc assms(2) [of "n - Suc k"] show ?case by (subst connect_from.simps) simp
  qed
  from this [of n] show ?thesis by (simp add: connectMQTT_def)
qed

text \<open>One connection: dialling, then the command loop until reading or writing fails. Both ends are errors, so the
  caller always pauses before the next round.\<close>

datatype connection_error = DialFailed | ConnectionLost

definition runConnection ::
  "(rat \<Rightarrow> float64) \<Rightarrow> (string \<Rightarrow> VehicleCommand option) \<Rightarrow> bool \<Rightarrow> (nat \<Rightarrow> bool) \<Rightarrow> vehicle_id \<Rightarrow> (int \<times> string) list \<Rightarrow> mock_state \<Rightarrow>
   mock_state \<times> sent_ack list \<times> connection_error" where
  "runConnection rnd unmarshal dialled write_ok vid frames st =
     (if \<not> dialled then (st, [], DialFailed)
      else let (st', sent) = receiveCommands rnd unmarshal write_ok vid frames 0 st in (st', sent, ConnectionLost))"

text \<open>The reconnect loop of \<open>main\<close>, for the connections the process makes before it is stopped: each with its time,
  the outcome of dialling and writing and the frames it receives. \<open>None\<close> is the exit when no token can be signed.\<close>

record connection_script =
  cs_now :: instant
  cs_dialled :: bool
  cs_write_ok :: "nat \<Rightarrow> bool"
  cs_frames :: "(int \<times> string) list"

fun reconnect_loop ::
  "jwt_signer \<Rightarrow> string \<Rightarrow> (rat \<Rightarrow> float64) \<Rightarrow> (string \<Rightarrow> VehicleCommand option) \<Rightarrow> vehicle_id \<Rightarrow> connection_script list \<Rightarrow> mock_state \<Rightarrow>
   (mock_state \<times> (string \<times> sent_ack list) list) option" where
  "reconnect_loop sign secret rnd unmarshal vid [] st = Some (st, [])"
| "reconnect_loop sign secret rnd unmarshal vid (c # cs) st =
     (case makeVehicleJWT sign (cs_now c) vid secret of
        None \<Rightarrow> None
      | Some token \<Rightarrow>
          let (st1, sent, _) = runConnection rnd unmarshal (cs_dialled c) (cs_write_ok c) vid (cs_frames c) st
          in map_option (\<lambda>(st2, rest). (st2, (token, sent) # rest)) (reconnect_loop sign secret rnd unmarshal vid cs st1))"

section \<open>Joining\<close>

definition dial_request :: "string \<Rightarrow> conn \<Rightarrow> vehicle_request" where
  "dial_request token c = \<lparr>vr_Authorization = ''Bearer '' @ token, vr_token = [], vr_conn = c\<rparr>"

text \<open>Every connection that the vehicle dials within a day of signing its token is admitted by a control server with the
  same secret: the vehicle is registered under its own id and can be reached there.\<close>

theorem vehicle_joins:
  assumes "token_contract sign jwt" and "makeVehicleJWT sign now vid (cfg_secret (ce_cfg env)) = Some token"
    and "ce_jwt env = jwt later" and "later < expiry (now + 24 * Hour)" and "ce_upgraded env"
    and "newMux env a (OpenVehicleWS (dial_request token c)) s = (s', rep)"
  shows "rep = HttpOk StatusOK (VehicleOpened (Some vid)) \<and> Connected (sv_conns s') vid \<and> conns (sv_conns s') vid = Some c \<and>
    (v \<noteq> vid \<longrightarrow> conns (sv_conns s') v = conns (sv_conns s) v) \<and> sv_sessionMgr s' = sv_sessionMgr s"
proof -
  have "validateJWT (ce_jwt env) (cfg_secret (ce_cfg env)) token = Some \<lparr>cl_Subject = vid, cl_Role = ''VEHICLE''\<rparr>"
    using token_contractD [OF assms(1) assms(2) [unfolded makeVehicleJWT_def], of later] assms(3,4) by simp
  then show ?thesis
    using assms(5,6)
    by (auto simp: newMux_def vehicle_ServeWS_def dial_request_def extractToken_def Connected_def conn_register_def Let_def
        simp del: append.simps)
qed

section \<open>A command there and back\<close>

text \<open>The frames the vehicle reads: what is forwarded to it, with the time of reception.\<close>

definition vehicle_frames :: "vehicle_id \<Rightarrow> int \<Rightarrow> effect list \<Rightarrow> (int \<times> string) list" where
  "vehicle_frames vid ms es =
     List.map_filter (\<lambda>e. case e of ForwardToVehicle v data \<Rightarrow> if v = vid then Some (ms, data) else None | _ \<Rightarrow> None) es"

lemma forward_dispatch:
  assumes "is_movement (cmd_Type cmd)" and "is_active cs" and "sess_VehicleID cs \<noteq> []"
    and "ee_forwarder env = Some (\<lambda>v d. ForwardCommand write_ok v d cr)" and "conns cr (sess_VehicleID cs) = Some c" and "write_ok c raw"
  shows "dispatch env now cs (cmd_Type cmd) raw vc =
    (vc\<lparr>vc_VehicleACKWatchdog := CommandForwarded now (vc_VehicleACKWatchdog vc)\<rparr>, [ForwardToVehicle (sess_VehicleID cs) raw], True, [])"
  using assms
  by (cases "cmd_Type cmd")
    (auto simp: dispatch_def forwardMovementCommand_def ForwardCommand_def is_active_def)

lemma forward_Handle:
  assumes "is_movement (cmd_Type cmd)" and "is_active cs" and "sess_VehicleID cs \<noteq> []"
    and "ee_forwarder env = Some (\<lambda>v d. ForwardCommand write_ok v d cr)" and "conns cr (sess_VehicleID cs) = Some c" and "write_ok c raw"
    and "snd (allow rnd now b)" and "\<And>a. marshal_ok a"
  shows "\<exists>b' a. Handle rnd marshal_ok env now raw (Some cmd) cs (b, r) =
      ((b', with_ctx (sess_VehicleID cs) (\<lambda>_. (ctx r (sess_VehicleID cs))\<lparr>vc_VehicleACKWatchdog :=
          CommandForwarded now (vc_VehicleACKWatchdog (ctx r (sess_VehicleID cs)))\<rparr>) r),
       [ForwardToVehicle (sess_VehicleID cs) raw], Some a) \<and> ca_Success a"
  using assms(7,8) forward_dispatch [OF assms(1-6), of now "ctx r (sess_VehicleID cs)"]
  by (auto simp: Handle_def engine_ack_def Let_def split: prod.split)

lemma message_forwarded:
  assumes "System (machine_of s vid) \<noteq> StateSafeMode" and "Control (machine_of s vid) \<noteq> ControlBlocked"
    and "vid = sess_VehicleID (wc_sess ws)" and "sess_VehicleID cs = vid" and "vid \<noteq> []"
    and "GetSession (sv_sessionMgr s) (sess_ID (wc_sess ws)) = Some cs" and "is_active cs"
    and "conns (sv_conns s) vid = Some c" and "write_ok c (wm_raw msg)" and "wm_cmd msg = Some cmd"
    and "is_movement (cmd_Type cmd)" and "snd (allow rnd (wm_now msg) (sv_limiter s))" and "\<And>a. marshal_ok a"
  shows "\<exists>s1 a. processWSMessage rnd marshal_ok write_ok ws msg s = (s1, Some a, wm_ack_written msg) \<and> ca_Success a \<and>
    sv_effects s1 = sv_effects s @ [ForwardToVehicle vid (wm_raw msg)] \<and> sv_conns s1 = sv_conns s \<and>
    machine_of s1 v = machine_of s v"
proof -
  obtain s1 ack go where p: "processWSMessage rnd marshal_ok write_ok ws msg s = (s1, ack, go)" by (metis prod.exhaust)
  from p show ?thesis
  proof (cases rule: processWSMessage_cases)
    case (handled cs' b' r' es a t)
    have cs': "cs' = cs" using handled(1) assms(6) by simp
    have t: "sv_limiter t = sv_limiter s" "sv_conns t = sv_conns s" "sv_effects t = sv_effects s"
      "\<And>v. machine_of t v = machine_of s v"
      using handled(3) by (simp_all add: message_received_def)
    let ?env = "engine_env_of write_ok (wm_auditID msg) (wm_ackID msg) t"
    have f: "ee_forwarder ?env = Some (\<lambda>v d. ForwardCommand write_ok v d (sv_conns s))"
      by (simp add: engine_env_of_def t)
    obtain b1 a1 where h: "Handle rnd marshal_ok ?env (wm_now msg) (wm_raw msg) (Some cmd) cs (sv_limiter t, sv_contexts t) =
      ((b1, with_ctx vid (\<lambda>_. (ctx (sv_contexts t) vid)\<lparr>vc_VehicleACKWatchdog :=
          CommandForwarded (wm_now msg) (vc_VehicleACKWatchdog (ctx (sv_contexts t) vid))\<rparr>) (sv_contexts t)),
       [ForwardToVehicle vid (wm_raw msg)], Some a1)" "ca_Success a1"
      using forward_Handle [OF assms(11,7), of ?env write_ok "sv_conns s" c "wm_raw msg" rnd "wm_now msg" "sv_limiter t" marshal_ok
          "sv_contexts t"] assms(4,5,8,9,12,13) f t(1) by auto
    have "ack = Some a1" using handled(4,6) h(1) unfolding cs' assms(10) by auto
    moreover note handled(7)
    moreover have "es = [ForwardToVehicle vid (wm_raw msg)]" and r': "r' = with_ctx vid (\<lambda>_. (ctx (sv_contexts t) vid)\<lparr>vc_VehicleACKWatchdog :=
          CommandForwarded (wm_now msg) (vc_VehicleACKWatchdog (ctx (sv_contexts t) vid))\<rparr>) (sv_contexts t)"
      using handled(4) h(1) unfolding cs' assms(10) by simp_all
    moreover have "machine_of s1 v = machine_of s v"
      unfolding handled(5) using t(4) [of v]
      by (auto simp: acked_def r' machine_of_def StateMachine_def ctx_with_ctx_if simp del: vc_SM_ctx)
    ultimately show ?thesis using p h(2) handled(5) t by auto
  qed (use assms in auto)
qed

section \<open>Properties\<close>

text \<open>C4: a movement command of the controlling operator, within the rate limit and with the vehicle connected and not in
  SAFE_MODE, makes the whole round: the server acknowledges it with success and forwards exactly its bytes to this
  vehicle; the vehicle applies it and answers with one acknowledgement; and when that arrives, the server reports the
  command's event id as the latest acknowledged one, has no vehicle ACK timer pending and the state machine of the vehicle
  unchanged.\<close>

theorem command_round_trip:
  assumes "reachable_world w" and "s = w_server w" and "ws \<in> set (w_open w)" and "vid = sess_VehicleID cs" and "vid \<noteq> []"
    and "GetSession (sv_sessionMgr s) (sess_ID (wc_sess ws)) = Some cs" and "is_active cs"
    and "System (machine_of s vid) \<noteq> StateSafeMode" and "conns (sv_conns s) vid = Some c" and "write_ok c (wm_raw msg)"
    and "unmarshal (wm_raw msg) = Some cmd" and "wm_cmd msg = Some (ControlCommand.truncate cmd)" and "is_movement (cmd_Type cmd)"
    and "snd (allow rnd (wm_now msg) (sv_limiter s))" and "\<And>a. marshal_ok a"
  shows "\<exists>s1 a va st' s2. processWSMessage rnd marshal_ok write_ok ws msg s = (s1, Some a, wm_ack_written msg) \<and> ca_Success a \<and>
    sv_effects s1 = sv_effects s @ [ForwardToVehicle vid (wm_raw msg)] \<and>
    runConnection rnd unmarshal True (\<lambda>_. True) vid (vehicle_frames vid ms [ForwardToVehicle vid (wm_raw msg)]) st =
      (st', [va], ConnectionLost) \<and> st' = take_command rnd cmd st \<and>
    s2 = vehicle_message vid (Some (sa_Ack va)) s1 \<and>
    handleVehicleAckLatest vid s2 = HttpOk StatusOK
      (\<lparr>CommandEventId = (case cmd_EventId cmd of None \<Rightarrow> [] | Some i \<Rightarrow> i), Received = True, ReceivedAtMs = ms\<rparr>, True) \<and>
    va_pendingTimer (vc_VehicleACKWatchdog (context_of s2 vid)) = None \<and> machine_of s2 vid = machine_of s vid"
proof -
  have inv: "world_inv w" by (rule reachable_world_inv) fact
  have v: "vid = sess_VehicleID (wc_sess ws)"
    using inv assms(2-4,6) by (auto simp: world_inv_def connections_known_def GetSession_def)
  have "control_coupled (machine_of s vid)"
    using machine_control.reachable_inv [OF refl reachable_machine(1) [OF assms(1)]] assms(2) by simp
  then have "Control (machine_of s vid) \<noteq> ControlBlocked"
    using assms(8) by (cases "System (machine_of s vid)") (simp_all add: control_coupled_def)
  then obtain s1 a where s1: "processWSMessage rnd marshal_ok write_ok ws msg s = (s1, Some a, wm_ack_written msg)"
    "ca_Success a" "sv_effects s1 = sv_effects s @ [ForwardToVehicle vid (wm_raw msg)]" "sv_conns s1 = sv_conns s"
    "machine_of s1 vid = machine_of s vid"
    using message_forwarded [OF assms(8) _ v assms(4) [symmetric] assms(5-7) assms(9), of write_ok msg "ControlCommand.truncate cmd" rnd
        marshal_ok vid] assms(10,12-15)
    by (auto simp: ControlCommand.truncate_def)
  let ?va = "sendCommandAck vid ms cmd (take_command rnd cmd st)"
  let ?s2 = "vehicle_message vid (Some (sa_Ack ?va)) s1"
  have "runConnection rnd unmarshal True (\<lambda>_. True) vid (vehicle_frames vid ms [ForwardToVehicle vid (wm_raw msg)]) st =
      (take_command rnd cmd st, [?va], ConnectionLost)"
    using assms(11) by (simp add: runConnection_def vehicle_frames_def map_filter_def Let_def)
  moreover have "handleVehicleAckLatest vid ?s2 = HttpOk StatusOK (sa_Ack ?va, True)"
    using assms(5,9) s1(4) by (simp add: handleVehicleAckLatest_def vehicle_message_def sendCommandAck_def ack_store.get_put Connected_def)
  moreover have "va_pendingTimer (vc_VehicleACKWatchdog (context_of ?s2 vid)) = None"
    by (simp add: vehicle_message_def sendCommandAck_def ACKReceived_def split: option.split)
  moreover have "machine_of ?s2 vid = machine_of s vid" using s1(5) by (simp add: vehicle_message_def sendCommandAck_def)
  moreover have "sa_Ack ?va = \<lparr>CommandEventId = (case cmd_EventId cmd of None \<Rightarrow> [] | Some i \<Rightarrow> i), Received = True, ReceivedAtMs = ms\<rparr>"
    by (simp add: sendCommandAck_def)
  ultimately show ?thesis using s1 by metis
qed

text \<open>The running session of the examples, with its operator connected.\<close>

definition demo_conn :: wsConn where
  "demo_conn = \<lparr>wc_claims = \<lparr>cl_Subject = ''alice'', cl_Role = ''VEHICLE''\<rparr>,
     wc_sess = \<lparr>sess_ID = ''s1'', sess_VehicleID = ''v1'', sess_OperatorID = ''alice'',
       sess_OperatorRole = RoleActiveOperator, sess_CreatedAt = 0\<rparr>, wc_isObserver = False\<rparr>"

definition demo_driving :: world where
  "demo_driving = demo_session\<lparr>w_server := on_ctx ''v1'' (recoverFromSafeMode (wc_sess demo_conn)) (w_server demo_session),
     w_open := demo_conn # w_open demo_session\<rparr>"

lemma demo_session_connected: "System (machine_of (w_server demo_session) ''v1'') = StateConnected"
  unfolding demo_session_machine by (simp add: started_machine_def newMachine_def machine_op_defs)

lemma demo_driving_reachable: "reachable_world demo_driving"
proof -
  let ?rq = "\<lparr>rq_Authorization = [], rq_token = ''alice'', rq_session_id = ''s1''\<rparr>"
  have "ServeWS demo_jwt [] True ?rq (w_server demo_session) =
      (on_ctx ''v1'' (recoverFromSafeMode (wc_sess demo_conn)) (w_server demo_session), HttpOk StatusOK (Some demo_conn))"
    using demo_session_facts
    by (simp add: ServeWS_def authenticateWS_def extractToken_def hasPrefix_def validateJWT_def demo_jwt_def demo_conn_def
        GetSession_def Let_def)
  from reachable_step [OF demo_session_reachable world_step.ws_open [OF this]] show ?thesis by (simp add: demo_driving_def)
qed

lemma demo_driving_facts:
  "demo_conn \<in> set (w_open demo_driving)" "System (machine_of (w_server demo_driving) ''v1'') = StateConnected"
  "GetSession (sv_sessionMgr (w_server demo_driving)) ''s1'' = Some (wc_sess demo_conn)"
  "conns (sv_conns (w_server demo_driving)) ''v1'' = Some 7"
  "sv_limiter (w_server demo_driving) = newTokenBucket 0 maxCommandsPerSecond"
proof -
  show "demo_conn \<in> set (w_open demo_driving)" by (simp add: demo_driving_def)
  show "System (machine_of (w_server demo_driving) ''v1'') = StateConnected"
    using demo_session_connected by (simp add: demo_driving_def recover_system)
  show "GetSession (sv_sessionMgr (w_server demo_driving)) ''s1'' = Some (wc_sess demo_conn)"
    using demo_session_facts by (simp add: demo_driving_def GetSession_def demo_conn_def)
  have "sv_conns (w_server demo_session) = sv_conns (w_server demo_connected)"
    "sv_limiter (w_server demo_session) = sv_limiter (w_server demo_connected)"
    by (simp_all add: demo_session_def handleSessionStart_def demo_connected_facts advanceVehicleToActiveOperator_def
        StartSession_def NewManager_def is_active_def Let_def split: prod.split)
  then show "conns (sv_conns (w_server demo_driving)) ''v1'' = Some 7"
    and "sv_limiter (w_server demo_driving) = newTokenBucket 0 maxCommandsPerSecond"
    by (simp_all add: demo_driving_def demo_connected_def demo_start_def vehicle_ServeWS_def validateJWT_def extractToken_def
        demo_jwt_def hasPrefix_def conn_register_def newControlServer_def Let_def)
qed

theorem command_round_trip_witness:
  "\<exists>s1 a (va :: sent_ack). processWSMessage (\<lambda>x. x) (\<lambda>_. True) (\<lambda>_ _. True) demo_conn
      \<lparr>wm_raw = ''raw'', wm_cmd = Some \<lparr>cmd_EventId = Some ''e1'', cmd_Type = COMMAND_TYPE_STEER\<rparr>, wm_now = 0, wm_auditID = [],
       wm_ackID = [], wm_ack_written = True\<rparr> (w_server demo_driving) = (s1, Some a, True) \<and> ca_Success a \<and>
     handleVehicleAckLatest ''v1'' (vehicle_message ''v1'' (Some (sa_Ack va)) s1) =
       HttpOk StatusOK (\<lparr>CommandEventId = ''e1'', Received = True, ReceivedAtMs = 5\<rparr>, True)"
proof -
  let ?cmd = "\<lparr>cmd_EventId = Some ''e1'', cmd_Type = COMMAND_TYPE_STEER, vc_Value = 1 / 2, vc_SessionId = ''s1''\<rparr> :: VehicleCommand"
  let ?st = "\<lparr>ms_steerCommanded = 0, ms_throttleCommanded = 0, ms_brakeCommanded = 0, ms_steerActual = 0, ms_throttleActual = 0,
    ms_speedKmh = 0, ms_battery = 85, ms_sessionID = []\<rparr>"
  let ?msg = "\<lparr>wm_raw = ''raw'', wm_cmd = Some (ControlCommand.truncate ?cmd), wm_now = 0, wm_auditID = [],
       wm_ackID = [], wm_ack_written = True\<rparr>"
  have active: "is_active (wc_sess demo_conn)" and vid: "''v1'' = sess_VehicleID (wc_sess demo_conn)" and id: "sess_ID (wc_sess demo_conn) = ''s1''"
    by (simp_all add: is_active_def demo_conn_def)
  have allowed: "snd (allow (\<lambda>x. x) 0 (sv_limiter (w_server demo_driving)))"
    by (simp add: demo_driving_facts allow_def newTokenBucket_def maxCommandsPerSecond_def Seconds_def Second_def Let_def)
  have hyps: "''v1'' \<noteq> []" "GetSession (sv_sessionMgr (w_server demo_driving)) (sess_ID (wc_sess demo_conn)) = Some (wc_sess demo_conn)"
    "System (machine_of (w_server demo_driving) ''v1'') \<noteq> StateSafeMode" "snd (allow (\<lambda>x. x) (wm_now ?msg) (sv_limiter (w_server demo_driving)))"
    using demo_driving_facts(2,3) allowed by (simp_all add: id)
  note rt = command_round_trip [OF demo_driving_reachable refl demo_driving_facts(1) vid hyps(1,2) active hyps(3) demo_driving_facts(4),
      where write_ok = "\<lambda>_ _. True" and msg = ?msg and unmarshal = "\<lambda>_. Some ?cmd" and cmd = ?cmd and rnd = "\<lambda>x. x" and marshal_ok = "\<lambda>_. True"
        and ms = 5 and st = ?st]
  have wm: "wm_cmd ?msg = Some (ControlCommand.truncate ?cmd)" and mv: "is_movement (cmd_Type ?cmd)" by simp_all
  note rt' = rt [OF TrueI refl wm mv hyps(4) TrueI]
  from rt' obtain s1 a s2 and va :: sent_ack where
    "processWSMessage (\<lambda>x. x) (\<lambda>_. True) (\<lambda>_ _. True) demo_conn ?msg (w_server demo_driving) = (s1, Some a, wm_ack_written ?msg)"
    "ca_Success a" "s2 = vehicle_message ''v1'' (Some (sa_Ack va)) s1"
    "handleVehicleAckLatest ''v1'' s2 =
       HttpOk StatusOK (\<lparr>CommandEventId = (case cmd_EventId ?cmd of None \<Rightarrow> [] | Some i \<Rightarrow> i), Received = True, ReceivedAtMs = 5\<rparr>, True)"
    by (elim exE conjE) (rule that, assumption+)
  then show ?thesis by (intro exI [of _ s1] exI [of _ a] exI [of _ va]) (simp add: ControlCommand.truncate_def)
qed

end
