(* ===== verification/Auth_Mux.thy ===== *)
theory Auth_Mux
  imports Auth_Service Config
begin

text \<open>
  The auth service as a process (\<open>cmd/auth-service/main.go\<close>): its start-up, which creates the table and seeds the
  administrator, and its routes. A request is a route with its decoded input; \<open>auth_env\<close> holds the libraries, the
  clock and the outcome of the database.
\<close>

section \<open>Start-up\<close>

text \<open>\<open>CREATE TABLE IF NOT EXISTS\<close>: \<open>stored\<close> is the table the database has, if any.\<close>

definition NewPostgresUserStore :: "bool \<Rightarrow> user_table option \<Rightarrow> userstore_error + user_table" where
  "NewPostgresUserStore db_up stored =
     (if \<not> db_up then Inl DbFailed else Inr (case stored of None \<Rightarrow> usersSchema | Some t \<Rightarrow> t))"

text \<open>\<open>main\<close> up to the HTTP server: the port, the secret and the table, or the message with which it exits. \<open>opened\<close>
  and \<open>ping\<close> are those of \<open>OpenAndWait\<close>, \<open>ups 0\<close> and \<open>ups 1\<close> the outcomes of the two statements.\<close>

definition auth_main ::
  "bcrypt_hash \<Rightarrow> bool \<Rightarrow> (nat \<Rightarrow> 'e option) \<Rightarrow> (nat \<Rightarrow> bool) \<Rightarrow> instant \<Rightarrow> environment \<Rightarrow> user_table option \<Rightarrow>
   string + (string \<times> string \<times> user_table)" where
  "auth_main hash opened ping ups now env stored =
     (let port = OptionalOr env ''AUTH_PORT'' ''8081'' in
      case Require env ''JWT_SECRET'' of
        Inl msg \<Rightarrow> Inl msg
      | Inr secret \<Rightarrow>
          (case Require env ''DATABASE_URL'' of
             Inl msg \<Rightarrow> Inl msg
           | Inr databaseURL \<Rightarrow>
               (case Require env ''ADMIN_PASSWORD'' of
                  Inl msg \<Rightarrow> Inl msg
                | Inr adminPassword \<Rightarrow>
                    (case OpenAndWait opened ping of
                       None \<Rightarrow> Inl ''failed to open database''
                     | Some _ \<Rightarrow>
                         (case NewPostgresUserStore (ups 0) stored of
                            Inl _ \<Rightarrow> Inl ''failed to initialize user store''
                          | Inr t \<Rightarrow>
                              (case SeedAdmin hash (ups 1) now ''admin'' adminPassword t of
                                 (_, Inl _) \<Rightarrow> Inl ''failed to seed admin user''
                               | (t', Inr _) \<Rightarrow> Inr (port, secret, t')))))))"

section \<open>Routes\<close>

record userJSON =
  uj_ID :: int
  uj_Username :: string
  uj_Role :: string
  uj_IsActive :: bool
  uj_CreatedAt :: instant
  uj_LastAuthAt :: "instant option"

definition toUserJSON :: "User \<Rightarrow> userJSON" where
  "toUserJSON u = \<lparr>uj_ID = u_ID u, uj_Username = u_Username u, uj_Role = u_Role u, uj_IsActive = u_IsActive u,
     uj_CreatedAt = u_CreatedAt u, uj_LastAuthAt = u_LastAuthAt u\<rparr>"

datatype auth_route =
    PostLogin "(string \<times> string) option"
  | PostVehicleRegister "(string \<times> string) option"
  | PostValidate "string option"
  | PostRefresh "string option"
  | PostHandoverToken "(string \<times> string) option"
  | GetUsers
  | PostUser "(string \<times> string \<times> string) option"
  | DeleteUserByID "int option"
  | PatchUser "int option" "string option"
  | GetAuthHealth

datatype auth_body =
    TokenBody string
  | ValidBody bool string string
  | UsersBody "userJSON list"
  | EmptyBody
  | ServiceBody string

record auth_env =
  ae_secret :: string
  ae_hash :: bcrypt_hash
  ae_compare :: bcrypt_compare
  ae_sign :: jwt_signer
  ae_jwt :: jwt_lib
  ae_now :: instant
  ae_up :: bool
  ae_update_ok :: bool

definition auth_Health :: "string reply" where
  "auth_Health = HttpOk StatusOK ''auth-service''"

definition auth_mux :: "auth_env \<Rightarrow> string \<Rightarrow> auth_route \<Rightarrow> user_table \<Rightarrow> user_table \<times> auth_body reply" where
  "auth_mux env authorization r t =
     (let admin = RequireAdmin (ae_jwt env) (ae_secret env) authorization;
          caller = callerID (ae_jwt env) (ae_secret env) authorization
      in case r of
        PostLogin body \<Rightarrow> map_prod id (map_reply TokenBody)
          (OperatorLogin (ae_compare env) (ae_sign env) (ae_secret env) (ae_up env) (ae_update_ok env) (ae_now env) body t)
      | PostVehicleRegister body \<Rightarrow>
          (t, map_reply TokenBody (VehicleRegister (ae_sign env) (ae_secret env) (ae_now env) body))
      | PostValidate body \<Rightarrow>
          (t, map_reply (\<lambda>(v, s, ro). ValidBody v s ro) (ValidateToken (ae_jwt env) (ae_secret env) body))
      | PostRefresh body \<Rightarrow>
          (t, map_reply TokenBody (RefreshToken (ae_jwt env) (ae_sign env) (ae_secret env) (ae_now env) body))
      | PostHandoverToken body \<Rightarrow>
          (t, map_reply TokenBody (HandoverToken (ae_jwt env) (ae_sign env) (ae_secret env) (ae_now env) body))
      | GetUsers \<Rightarrow> admin (\<lambda>t. map_prod id (map_reply (UsersBody \<circ> map toUserJSON)) (ListUsers (ae_up env) t)) t
      | PostUser body \<Rightarrow>
          admin (\<lambda>t. map_prod id (map_reply (\<lambda>_. EmptyBody)) (CreateUser (ae_hash env) (ae_up env) (ae_now env) body t)) t
      | DeleteUserByID i \<Rightarrow> admin (\<lambda>t. map_prod id (map_reply (\<lambda>_. EmptyBody)) (DeleteUser (ae_up env) caller i t)) t
      | PatchUser i body \<Rightarrow>
          admin (\<lambda>t. map_prod id (map_reply (\<lambda>_. EmptyBody)) (UpdateUserRole (ae_up env) caller i body t)) t
      | GetAuthHealth \<Rightarrow> (t, map_reply ServiceBody auth_Health))"

text \<open>A request changes the table by a step of \<open>auth_step\<close>, or not at all.\<close>

lemma RequireAdmin_fst:
  "fst (RequireAdmin jwt secret a (\<lambda>t. map_prod id f (h t)) t) = fst (RequireAdmin jwt secret a h t)"
  by (simp add: RequireAdmin_def split: option.split)

lemma auth_mux_step: "fst (auth_mux env a r t) = t \<or> auth_step t (fst (auth_mux env a r t))"
proof (cases r)
  case (PostLogin body)
  then show ?thesis by (simp add: auth_mux_def auth_step.login)
next
  case GetUsers
  then show ?thesis by (auto simp: auth_mux_def RequireAdmin_def ListUsers_def split: option.split)
next
  case (PostUser body)
  have "fst (auth_mux env a r t) =
      fst (administrate (ae_jwt env) (ae_secret env) a (AdminCreate (ae_hash env) (ae_up env) (ae_now env) body) t)"
    unfolding PostUser by (simp add: auth_mux_def administrate_def RequireAdmin_fst)
  then show ?thesis by (simp add: auth_step.admin)
next
  case (DeleteUserByID i)
  have "fst (auth_mux env a r t) = fst (administrate (ae_jwt env) (ae_secret env) a (AdminDelete (ae_up env) i) t)"
    unfolding DeleteUserByID by (simp add: auth_mux_def administrate_def RequireAdmin_fst)
  then show ?thesis by (simp add: auth_step.admin)
next
  case (PatchUser i body)
  have "fst (auth_mux env a r t) = fst (administrate (ae_jwt env) (ae_secret env) a (AdminUpdateRole (ae_up env) i body) t)"
    unfolding PatchUser by (simp add: auth_mux_def administrate_def RequireAdmin_fst)
  then show ?thesis by (simp add: auth_step.admin)
qed (auto simp: auth_mux_def)

section \<open>The administrator\<close>

text \<open>No operation deactivates an account.\<close>

definition all_active :: "user_table \<Rightarrow> bool" where
  "all_active t \<longleftrightarrow> users_inv t \<and> (\<forall>r\<in>set (ut_rows t). u_IsActive r)"

lemma all_active_step:
  assumes "auth_step t t'" and "all_active t"
  shows "all_active t'"
proof -
  have act: "\<forall>r\<in>set (ut_rows t). u_IsActive r" using assms(2) by (simp add: all_active_def)
  have "\<forall>r\<in>set (ut_rows t'). u_IsActive r"
    using assms(1)
  proof cases
    case login
    with act show ?thesis
      by (auto simp: OperatorLogin_def login_def Authenticate_def users_update_def Let_def
          split: option.splits prod.splits if_splits sum.splits)
  next
    case (admin jwt secret authorization rq)
    have "\<forall>r\<in>set (ut_rows (fst (admin_handler caller rq t))). u_IsActive r" for caller
      using act by (cases rq)
        (auto simp: CreateUser_def users_Create_def users_insert_def DeleteUser_def users_Delete_def UpdateUserRole_def
          UpdateRole_def users_update_def Let_def split: option.splits prod.splits if_splits sum.splits)
    with act admin show ?thesis by (auto simp: administrate_def RequireAdmin_def split: option.split)
  next
    case seed
    with act show ?thesis
      by (auto simp: SeedAdmin_def users_update_def users_insert_def split: option.splits if_splits)
  qed
  moreover have "users_inv t'" using accounts.step_inv [OF assms(1)] assms(2) by (simp add: all_active_def)
  ultimately show ?thesis by (simp add: all_active_def)
qed

interpretation active_accounts: transition_system "\<lambda>t. t = usersSchema" auth_step all_active
proof
  show "all_active t" if "t = usersSchema" for t
    using that by (simp add: all_active_def users_inv_def usersSchema_def)
qed (rule all_active_step)

lemma SeedAdmin_row:
  assumes "SeedAdmin hash up now u pw t = (t', Inr x)" and "all_active t"
  obtains r h where "row_by_name u t' = Some r" and "u_Role r = RoleAdmin" and "u_IsActive r"
    and "hash pw = Some h" and "ur_password_hash r = h"
    and "\<And>r'. r' \<in> set (ut_rows t) \<Longrightarrow> u_Username r' \<noteq> u \<Longrightarrow> r' \<in> set (ut_rows t')"
proof -
  obtain h where h: "hash pw = Some h" using assms(1) by (auto simp: SeedAdmin_def split: option.splits if_splits)
  show thesis
  proof (cases "row_by_name u t")
    case None
    with assms(1) h have t': "t' = users_insert now u ''Administrator'' h RoleAdmin t"
      by (auto simp: SeedAdmin_def split: if_splits)
    then have "row_by_name u t' = Some \<lparr>u_ID = ut_next t, u_Username = u, u_Role = RoleAdmin, u_IsActive = True,
        u_CreatedAt = now, u_LastAuthAt = None, ur_display_name = ''Administrator'', ur_password_hash = h\<rparr>"
      using None unfolding t' row_by_name_def users_insert_def by (auto simp: find_append)
    then show thesis by (rule that) (use h in \<open>auto simp: t' users_insert_def\<close>)
  next
    case (Some r)
    let ?f = "\<lambda>r. r\<lparr>u_Role := RoleAdmin, ur_password_hash := h\<rparr>"
    have t': "ut_rows t' = map (\<lambda>x. if u_Username x = u then ?f x else x) (ut_rows t)"
      using assms(1) h Some by (auto simp: SeedAdmin_def users_update_def split: if_splits)
    have "find (\<lambda>x. u_Username x = u) (map (\<lambda>x. if u_Username x = u then ?f x else x) xs) =
        map_option ?f (find (\<lambda>x. u_Username x = u) xs)" for xs :: "user_row list"
      by (induction xs) auto
    with Some have "row_by_name u t' = Some (?f r)" by (simp add: row_by_name_def t')
    moreover have "u_IsActive r" using row_by_name_Some [OF Some] assms(2) by (simp add: all_active_def)
    ultimately show thesis using h by (intro that [of "?f r" h]) (auto simp: t' image_iff)
  qed
qed

section \<open>Properties\<close>

text \<open>C39: a restart restores the administrator. Whatever has happened to the accounts, also if no administrator is left,
  after a successful start the account \<open>admin\<close> logs in with the configured password and gets a token that the
  control server accepts with the ADMIN role; every other account is kept as it was.\<close>

theorem restart_restores_admin:
  assumes "bcrypt_contract (ae_hash ev) (ae_compare ev)" and "token_contract (ae_sign ev) jwt"
    and "auth_step\<^sup>*\<^sup>* usersSchema t" and "auth_main (ae_hash ev) opened ping ups now env (Some t) = Inr (port, secret, t')"
    and "length (env ''ADMIN_PASSWORD'') \<le> 72" and "ae_secret ev = secret" and "ae_up ev"
    and "ae_sign ev secret \<lparr>cl_Subject = ''admin'', cl_Role = ''ADMIN''\<rparr> (ae_now ev) (ae_now ev + 24 * Hour) = Some tok"
  shows "snd (auth_mux ev a (PostLogin (Some (''admin'', env ''ADMIN_PASSWORD''))) t') = HttpOk StatusOK (TokenBody tok) \<and>
    (later < expiry (ae_now ev + 24 * Hour) \<longrightarrow>
       requireJWT (jwt later) secret (''Bearer '' @ tok) = Some \<lparr>cl_Subject = ''admin'', cl_Role = ''ADMIN''\<rparr>) \<and>
    (\<forall>r\<in>set (ut_rows t). u_Username r \<noteq> ''admin'' \<longrightarrow> r \<in> set (ut_rows t'))"
proof -
  have act: "all_active t" using active_accounts.reachable_inv [OF refl assms(3)] .
  have "SeedAdmin (ae_hash ev) (ups 1) now ''admin'' (env ''ADMIN_PASSWORD'') t = (t', Inr ())"
    using assms(4)
    by (auto simp: auth_main_def NewPostgresUserStore_def Require_def Let_def
        split: sum.splits option.splits prod.splits if_splits)
  from SeedAdmin_row [OF this act] obtain r where
    r: "row_by_name ''admin'' t' = Some r" "u_Role r = RoleAdmin" "u_IsActive r"
      "ae_hash ev (env ''ADMIN_PASSWORD'') = Some (ur_password_hash r)"
    and rest: "\<And>r'. r' \<in> set (ut_rows t) \<Longrightarrow> u_Username r' \<noteq> ''admin'' \<Longrightarrow> r' \<in> set (ut_rows t')"
    by metis
  have "ae_compare ev (ur_password_hash r) (env ''ADMIN_PASSWORD'')"
    using assms(1,5) r(4) by (auto simp: bcrypt_contract_def)
  then have "snd (auth_mux ev a (PostLogin (Some (''admin'', env ''ADMIN_PASSWORD''))) t') = HttpOk StatusOK (TokenBody tok)"
    using r assms(6-8) row_by_name_Some [OF r(1)]
    by (simp add: auth_mux_def OperatorLogin_def login_def Authenticate_def IssueToken_def User.truncate_def RoleAdmin_def)
  then show ?thesis using rest token_contractD [OF assms(2,8), of later] by (auto simp: bearer_token simp del: append.simps)
qed

definition demo_auth_env :: auth_env where
  "demo_auth_env = \<lparr>ae_secret = ''k'', ae_hash = Some, ae_compare = (=), ae_sign = demo_sign, ae_jwt = demo_verify 0,
     ae_now = 0, ae_up = True, ae_update_ok = True\<rparr>"

theorem restart_restores_admin_witness:
  "\<exists>t'. auth_main Some True (\<lambda>_. None :: nat option) (\<lambda>_. True) 0 (\<lambda>key. if key = ''JWT_SECRET'' then ''k'' else ''pw'')
       (Some usersSchema) = Inr (''pw'', ''k'', t') \<and>
     snd (auth_mux demo_auth_env [] (PostLogin (Some (''admin'', ''pw''))) t') = HttpOk StatusOK (TokenBody ''t1'')"
proof -
  let ?env = "\<lambda>key. if key = ''JWT_SECRET'' then ''k'' else ''pw''"
  have m: "auth_main (ae_hash demo_auth_env) True (\<lambda>_. None :: nat option) (\<lambda>_. True) 0 ?env (Some usersSchema) =
      Inr (''pw'', ''k'', demo_users)"
    by (simp add: auth_main_def Require_def OptionalOr_def OpenAndWait_def NewPostgresUserStore_def demo_auth_env_def
        SeedAdmin_def demo_users_def row_by_name_def usersSchema_def)
  have s: "ae_sign demo_auth_env ''k'' \<lparr>cl_Subject = ''admin'', cl_Role = ''ADMIN''\<rparr> (ae_now demo_auth_env)
      (ae_now demo_auth_env + 24 * Hour) = Some ''t1''"
    by (simp add: demo_auth_env_def demo_sign_def)
  have "snd (auth_mux demo_auth_env [] (PostLogin (Some (''admin'', ?env ''ADMIN_PASSWORD''))) demo_users) =
      HttpOk StatusOK (TokenBody ''t1'')"
    using restart_restores_admin [OF _ _ _ m _ _ _ s, where jwt = demo_verify and a = "[]"]
      demo_bcrypt_contract demo_token_contract by (simp add: demo_auth_env_def)
  with m show ?thesis by (simp add: demo_auth_env_def)
qed

text \<open>Tokens outlive accounts. Two administrators who still hold their tokens can each delete the other, the second one
  after the own account is gone, so that no administrator remains until the next restart.\<close>

theorem administrators_locked_out:
  assumes "users_inv t" and "r1 \<in> set (ut_rows t)" and "r2 \<in> set (ut_rows t)" and "u_Username r1 \<noteq> u_Username r2"
    and "\<And>r. r \<in> set (ut_rows t) \<Longrightarrow> u_Role r = RoleAdmin \<Longrightarrow> r = r1 \<or> r = r2"
    and "claimsFromRequest jwt secret a1 = Some \<lparr>cl_Subject = u_Username r1, cl_Role = RoleAdmin\<rparr>"
    and "claimsFromRequest jwt secret a2 = Some \<lparr>cl_Subject = u_Username r2, cl_Role = RoleAdmin\<rparr>"
    and "t1 = fst (administrate jwt secret a1 (AdminDelete True (Some (u_ID r2))) t)"
    and "t2 = fst (administrate jwt secret a2 (AdminDelete True (Some (u_ID r1))) t1)"
  shows "r2 \<notin> set (ut_rows t1) \<and> (\<forall>r\<in>set (ut_rows t2). u_Role r \<noteq> RoleAdmin)"
proof -
  have ids: "x = y" if "x \<in> set (ut_rows t)" "y \<in> set (ut_rows t)" "u_ID x = u_ID y" for x y
    using assms(1) that by (auto simp: users_inv_def distinct_map dest: inj_onD)
  have delete: "ut_rows (fst (administrate jwt secret a (AdminDelete True (Some (u_ID r))) t0)) =
      filter (\<lambda>x. u_ID x \<noteq> u_ID r) (ut_rows t0)"
    if c: "claimsFromRequest jwt secret a = Some \<lparr>cl_Subject = u, cl_Role = RoleAdmin\<rparr>" and other: "u_Username r \<noteq> u"
      and r: "r \<in> set (ut_rows t0)" and sub: "set (ut_rows t0) \<subseteq> set (ut_rows t)" for a u r t0
  proof -
    obtain x where x: "find (\<lambda>x. u_ID x = u_ID r) (ut_rows t0) = Some x"
      using r by (cases "find (\<lambda>x. u_ID x = u_ID r) (ut_rows t0)") (auto simp: find_None_iff)
    then have "x = r" using find_SomeD [OF x] ids [of x r] r sub by auto
    moreover have "callerID jwt secret a = u"
      using c by (auto simp: callerID_def claimsFromRequest_def split: if_splits)
    ultimately show ?thesis
      using c other r x by (auto simp: administrate_def RequireAdmin_def DeleteUser_def FindByID_def users_Delete_def
          canModifyUser_def User.truncate_def)
  qed
  have t1: "ut_rows t1 = filter (\<lambda>x. u_ID x \<noteq> u_ID r2) (ut_rows t)"
    unfolding assms(8) using assms(3,4,6) by (intro delete) auto
  have "r1 \<in> set (ut_rows t1)" using t1 assms(2-4) ids [of r1 r2] by auto
  then have "ut_rows t2 = filter (\<lambda>x. u_ID x \<noteq> u_ID r1) (ut_rows t1)"
    unfolding assms(9) using t1 assms(4,7) by (intro delete) auto
  with t1 assms(5) show ?thesis by auto
qed

end
