(* ===== verification/Server_Startup.thy ===== *)
theory Server_Startup
  imports Control_Mux
begin

text \<open>
  The control server as a process (\<open>main\<close>, \<open>newAuditWriter\<close> and \<open>newVehicleStore\<close> in \<open>cmd/control-server/main.go\<close>): what
  it does when the database cannot be reached. \<open>opened\<close> and \<open>pings\<close> are those of \<open>OpenAndWait\<close>, \<open>db\<close> holds the outcome of
  each statement of the start-up and what the stores answer afterwards.
\<close>

section \<open>Stores with their fallbacks\<close>

text \<open>An \<open>AuditWriter\<close>: the two methods of the interface.\<close>

type_synonym audit_store = "audit_writer \<times> (session_id \<Rightarrow> SafetyAuditEvent list option)"

record startup_db =
  sd_audit_schema :: bool
  sd_vehicle_schema :: bool
  sd_seed :: bool
  sd_write :: "SafetyAuditEvent \<Rightarrow> bool"
  sd_query :: "session_id \<Rightarrow> SafetyAuditEvent list option"
  sd_vehicles :: "vehicle_table option"

definition NewPostgresAuditWriter :: "startup_db \<Rightarrow> audit_store option" where
  "NewPostgresAuditWriter db = (if sd_audit_schema db then Some (Some (sd_write db), sd_query db) else None)"

definition NewNoopWriter :: audit_store where
  "NewNoopWriter = (NoopWriter, \<lambda>_. Some [])"

definition newAuditWriter :: "startup_db \<Rightarrow> audit_store" where
  "newAuditWriter db = (case NewPostgresAuditWriter db of None \<Rightarrow> NewNoopWriter | Some w \<Rightarrow> w)"

text \<open>\<open>CREATE TABLE IF NOT EXISTS\<close>: the table the database has, or an empty one.\<close>

definition NewPostgresVehicleStore :: "startup_db \<Rightarrow> vehicle_table option" where
  "NewPostgresVehicleStore db =
     (if sd_vehicle_schema db then Some (case sd_vehicles db of None \<Rightarrow> [] | Some t \<Rightarrow> t) else None)"

definition newVehicleStore :: "startup_db \<Rightarrow> instant \<Rightarrow> VehicleStore" where
  "newVehicleStore db now =
     (case NewPostgresVehicleStore db of
        None \<Rightarrow> NoopVehicleStore
      | Some t \<Rightarrow> PostgresVehicleStore (SeedDefault (sd_seed db) now t))"

section \<open>The process\<close>

text \<open>\<open>main\<close> up to the HTTP server: the configuration, the audit queries and the server, or the message of its exit.\<close>

definition control_main ::
  "bool \<Rightarrow> (nat \<Rightarrow> 'e option) \<Rightarrow> startup_db \<Rightarrow> instant \<Rightarrow> environment \<Rightarrow>
   string + (serverConfig \<times> (session_id \<Rightarrow> SafetyAuditEvent list option) \<times> Server)" where
  "control_main opened pings db now env =
     (case loadConfig env of
        Inl msg \<Rightarrow> Inl msg
      | Inr cfg \<Rightarrow>
          (case OpenAndWait opened pings of
             None \<Rightarrow> Inl ''failed to open database''
           | Some _ \<Rightarrow>
               let (aw, query) = newAuditWriter db
               in Inr (cfg, query, newControlServer (cfg_authURL cfg) aw (newVehicleStore db now) now)))"

text \<open>The control server needs its two variables and a well-formed database URL, and nothing else, to start: whatever
  the pings and the statements of the start-up give, it then runs from an initial state in which every vehicle is IDLE
  and no session exists. Without a database it runs on the stand-ins.\<close>

theorem starts_degraded:
  assumes "env ''JWT_SECRET'' \<noteq> []" and "env ''DATABASE_URL'' \<noteq> []"
  shows "\<exists>cfg query s. control_main True pings db now env = Inr (cfg, query, s) \<and>
    cfg_secret cfg = env ''JWT_SECRET'' \<and> reachable_world \<lparr>w_server = s, w_open = []\<rparr> \<and>
    sessions (sv_sessionMgr s) = Map.empty \<and> (\<forall>v. System (machine_of s v) = StateIdle) \<and>
    (\<not> sd_audit_schema db \<longrightarrow> sv_auditWriter s = NoopWriter) \<and>
    (\<not> sd_vehicle_schema db \<longrightarrow> sv_vehicles s = NoopVehicleStore)"
proof -
  obtain cfg where cfg: "loadConfig env = Inr cfg" "cfg_secret cfg = env ''JWT_SECRET''"
    using assms by (simp add: loadConfig_def Require_def)
  obtain aw q where aw: "newAuditWriter db = (aw, q)" by (cases "newAuditWriter db")
  let ?s = "newControlServer (cfg_authURL cfg) aw (newVehicleStore db now) now"
  have "initial_world \<lparr>w_server = ?s, w_open = []\<rparr>" by (auto simp: initial_world_def)
  then have "reachable_world \<lparr>w_server = ?s, w_open = []\<rparr>" unfolding reachable_world_def by blast
  moreover have "control_main True pings db now env = Inr (cfg, q, ?s)"
    using cfg aw by (simp add: control_main_def OpenAndWait_def)
  moreover have "sessions (sv_sessionMgr ?s) = Map.empty" "\<forall>v. System (machine_of ?s v) = StateIdle"
    by (simp_all add: newControlServer_def [THEN arg_cong [of _ _ sv_sessionMgr]] NewManager_def newMachine_def)
  moreover have "sv_auditWriter ?s = NoopWriter" if "\<not> sd_audit_schema db"
    using that aw by (simp add: newAuditWriter_def NewPostgresAuditWriter_def NewNoopWriter_def newControlServer_def)
  moreover have "sv_vehicles ?s = NoopVehicleStore" if "\<not> sd_vehicle_schema db"
    using that by (simp add: newVehicleStore_def NewPostgresVehicleStore_def newControlServer_def)
  ultimately show ?thesis using cfg(2) by blast
qed

text \<open>It exits only for these reasons.\<close>

theorem control_main_exits:
  "control_main opened pings db now env = Inl msg \<longleftrightarrow>
     env ''JWT_SECRET'' = [] \<and> msg = ''JWT_SECRET environment variable is required'' \<or>
     env ''JWT_SECRET'' \<noteq> [] \<and> env ''DATABASE_URL'' = [] \<and> msg = ''DATABASE_URL environment variable is required'' \<or>
     env ''JWT_SECRET'' \<noteq> [] \<and> env ''DATABASE_URL'' \<noteq> [] \<and> \<not> opened \<and> msg = ''failed to open database''"
  by (auto simp: control_main_def loadConfig_def Require_def OpenAndWait_def split: prod.split)

text \<open>With the tables in place the default vehicle is registered, once, and what was registered before stays.\<close>

theorem start_seeds_default_vehicle:
  assumes "sd_vehicle_schema db" and "sd_seed db" and "t = (case sd_vehicles db of None \<Rightarrow> [] | Some t \<Rightarrow> t)"
    and "distinct (vehicle_ids t)"
  shows "\<exists>t'. newVehicleStore db now = PostgresVehicleStore t' \<and> distinct (vehicle_ids t') \<and>
    set (vehicle_ids t') = insert ''vehicle-001'' (set (vehicle_ids t)) \<and> set t \<subseteq> set t'"
proof -
  have "newVehicleStore db now = PostgresVehicleStore (SeedDefault True now t)"
    using assms(1-3) by (simp add: newVehicleStore_def NewPostgresVehicleStore_def)
  moreover have "distinct (vehicle_ids (SeedDefault True now t))" using assms(4) by (rule vehicles_keys_distinct)
  moreover have "set (vehicle_ids (SeedDefault True now t)) = insert ''vehicle-001'' (set (vehicle_ids t))"
    and "set t \<subseteq> set (SeedDefault True now t)"
    by (auto simp: SeedDefault_def vehicle_ids_def)
  ultimately show ?thesis by blast
qed

text \<open>On the stand-in a registration is answered with 201 and forgotten: the list stays empty.\<close>

theorem registration_lost_without_database:
  assumes "sv_vehicles s = NoopVehicleStore" and "vid \<noteq> []" and "name \<noteq> []"
    and "handleVehiclesCreate db_up now (Some (vid, name, descr)) s = (s', rep)"
  shows "rep = HttpOk StatusCreated () \<and> snd (handleVehiclesList db_up' s') = HttpOk StatusOK []"
  using assms by (auto simp: handleVehiclesCreate_def handleVehiclesList_def)

end
