(* ===== verification/SFU_Signalling.thy ===== *)
theory SFU_Signalling
  imports Webrtc_SFU
begin

text \<open>
  Signalling of the media forwarding unit: the offer/answer exchange (\<open>negotiateAnswer\<close> in \<open>internal/webrtcsfu/sfu.go\<close>),
  the ICE callbacks and the routes (\<open>newSFUMux\<close> in \<open>cmd/webrtc-sfu/main.go\<close>). \<open>webrtc_lib\<close> holds what the WebRTC library
  gives for the calls of one request; a fresh connection has a number of its own. The ICE callback of a connection names
  the peer, not the connection, and so does its model.
\<close>

section \<open>Offer and answer\<close>

record webrtc_lib =
  lib_NewPeerConnection :: "string + nat"
  lib_NewTrack :: "string + nat"
  lib_AddTrack :: "string option"
  lib_SetRemoteDescription :: "string \<Rightarrow> string option"
  lib_CreateAnswer :: "string + string"
  lib_SetLocalDescription :: "string \<Rightarrow> string option"
  lib_LocalDescription :: string

text \<open>The flag says that the connection was closed.\<close>

definition negotiateAnswer :: "webrtc_lib \<Rightarrow> string \<Rightarrow> bool \<times> (string + string)" where
  "negotiateAnswer lib sdpOffer =
     (case lib_SetRemoteDescription lib sdpOffer of
        Some e \<Rightarrow> (True, Inl e)
      | None \<Rightarrow>
          (case lib_CreateAnswer lib of
             Inl e \<Rightarrow> (True, Inl e)
           | Inr answer \<Rightarrow>
               (case lib_SetLocalDescription lib answer of
                  Some e \<Rightarrow> (True, Inl e)
                | None \<Rightarrow> (False, Inr (lib_LocalDescription lib)))))"

text \<open>The exchange closes the connection exactly if it fails, as the operations of the unit take it.\<close>

lemma negotiate_closes: "fst (negotiateAnswer lib sdp) \<longleftrightarrow> isl (snd (negotiateAnswer lib sdp))"
  by (simp add: negotiateAnswer_def split: option.split sum.split)

text \<open>\<open>NewTrackLocalStaticRTP\<close> and \<open>AddTrack\<close> of a subscription.\<close>

definition local_track :: "webrtc_lib \<Rightarrow> string + nat" where
  "local_track lib =
     (case lib_NewTrack lib of
        Inl e \<Rightarrow> Inl e
      | Inr t \<Rightarrow> (case lib_AddTrack lib of Some e \<Rightarrow> Inl e | None \<Rightarrow> Inr t))"

section \<open>Routes\<close>

datatype sfu_route =
    PostSessionEvent "SessionEvent option"
  | PostOffer session_id string "string option"
  | PostSubscribe session_id operator_id "string option"
  | GetState session_id
  | GetSFUHealth

datatype sfu_body = SFUEmpty | SDPBody string | StateBody string | SFUService string

definition sfu_handleHealth :: "string reply" where
  "sfu_handleHealth = HttpOk StatusOK ''webrtc-sfu''"

definition newSFUMux :: "webrtc_lib \<Rightarrow> sfu_route \<Rightarrow> SFU \<Rightarrow> SFU \<times> sfu_body reply" where
  "newSFUMux lib r s =
     (let negotiate = (\<lambda>sdp. snd (negotiateAnswer lib sdp))
      in case r of
        PostSessionEvent body \<Rightarrow> map_prod id (map_reply (\<lambda>_. SFUEmpty)) (handleSessionEvent body s)
      | PostOffer sid pid body \<Rightarrow>
          map_prod id (map_reply SDPBody) (handleVehicleOffer (lib_NewPeerConnection lib) negotiate sid pid body s)
      | PostSubscribe sid oid body \<Rightarrow>
          map_prod id (map_reply SDPBody)
            (handleOperatorSubscribe (lib_NewPeerConnection lib) (local_track lib) negotiate sid oid body s)
      | GetState sid \<Rightarrow> (s, map_reply StateBody (handleSessionState sid s))
      | GetSFUHealth \<Rightarrow> (s, map_reply SFUService sfu_handleHealth))"

datatype ice_state = ICENew | ICEChecking | ICEConnected | ICECompleted | ICEDisconnected | ICEFailed | ICEClosed

definition OnICEConnectionStateChange :: "string \<Rightarrow> ice_state \<Rightarrow> SFU \<Rightarrow> SFU" where
  "OnICEConnectionStateChange pid st s = (if st = ICEFailed \<or> st = ICEDisconnected then removePeer pid s else s)"

datatype sfu_input = Request webrtc_lib sfu_route | IceChange string ice_state

fun sfu_input_step :: "sfu_input \<Rightarrow> SFU \<Rightarrow> SFU" where
  "sfu_input_step (Request lib r) s = fst (newSFUMux lib r s)"
| "sfu_input_step (IceChange pid st) s = OnICEConnectionStateChange pid st s"

definition sfu_run :: "sfu_input list \<Rightarrow> SFU \<Rightarrow> SFU" where
  "sfu_run = fold sfu_input_step"

text \<open>Inputs are steps of the unit, so that what is shown of its reachable states holds for the process.\<close>

lemma sfu_input_reaches: "sfu_step\<^sup>*\<^sup>* s (sfu_input_step i s)"
proof (cases i)
  case (Request lib r)
  show ?thesis
  proof (cases r)
    case (PostSessionEvent body)
    with Request show ?thesis by (simp add: newSFUMux_def sfu_step.event r_into_rtranclp)
  next
    case (PostOffer sid pid body)
    with Request show ?thesis by (simp add: newSFUMux_def sfu_step.offer r_into_rtranclp)
  next
    case (PostSubscribe sid oid body)
    with Request show ?thesis by (simp add: newSFUMux_def sfu_step.subscribe r_into_rtranclp)
  qed (simp_all add: Request newSFUMux_def)
next
  case (IceChange pid st)
  then show ?thesis by (simp add: OnICEConnectionStateChange_def sfu_step.ice_failed r_into_rtranclp)
qed

lemma sfu_run_reaches: "sfu_step\<^sup>*\<^sup>* s (sfu_run is s)"
proof (induction "is" arbitrary: s)
  case (Cons i "is")
  then show ?case using sfu_input_reaches [of s i] unfolding sfu_run_def by (auto intro: rtranclp_trans)
qed (simp add: sfu_run_def)

section \<open>Connections\<close>

text \<open>The connection an input creates, if any.\<close>

fun created :: "sfu_input \<Rightarrow> nat option" where
  "created (Request lib (PostOffer sid pid (Some sdp))) =
     (case lib_NewPeerConnection lib of Inl _ \<Rightarrow> None | Inr c \<Rightarrow> Some c)"
| "created (Request lib (PostSubscribe sid oid (Some sdp))) =
     (case lib_NewPeerConnection lib of Inl _ \<Rightarrow> None | Inr c \<Rightarrow> Some c)"
| "created _ = None"

definition held :: "SFU \<Rightarrow> nat set" where
  "held s = {peer_Connection pr |p pr. peers s p = Some pr}"

text \<open>Peers hold open connections of their own: \<open>used\<close> are the connections created so far.\<close>

definition conn_inv :: "nat set \<Rightarrow> SFU \<Rightarrow> bool" where
  "conn_inv used s \<longleftrightarrow> held s \<inter> sfu_closed s = {} \<and> held s \<union> sfu_closed s \<subseteq> used \<and>
     (\<forall>p q pr qr. peers s p = Some pr \<and> peers s q = Some qr \<and> peer_Connection pr = peer_Connection qr \<longrightarrow> p = q)"

lemma conn_inv_mono: "conn_inv used s \<Longrightarrow> used \<subseteq> used' \<Longrightarrow> conn_inv used' s"
  unfolding conn_inv_def by blast

lemma conn_inv_peers_closed:
  "conn_inv used s \<Longrightarrow> peers s' = peers s \<Longrightarrow> sfu_closed s' = sfu_closed s \<Longrightarrow> conn_inv used s'"
  by (simp add: conn_inv_def held_def)

lemma conn_inv_unique:
  "conn_inv used s \<Longrightarrow> peers s p = Some pr \<Longrightarrow> peers s q = Some qr \<Longrightarrow> peer_Connection pr = peer_Connection qr \<Longrightarrow> p = q"
  unfolding conn_inv_def by blast

lemma conn_inv_shrink:
  assumes inv: "conn_inv used s"
    and peers: "\<And>p pr. peers s' p = Some pr \<Longrightarrow> peers s p = Some pr"
    and closed: "\<And>c. c \<in> sfu_closed s' \<longleftrightarrow> c \<in> sfu_closed s \<or> (\<exists>q qr. peers s q = Some qr \<and> peers s' q = None \<and> peer_Connection qr = c)"
  shows "conn_inv used s'"
proof -
  have "peer_Connection pr \<notin> sfu_closed s'" if "peers s' p = Some pr" for p pr
  proof
    assume "peer_Connection pr \<in> sfu_closed s'"
    then consider "peer_Connection pr \<in> sfu_closed s"
      | q qr where "peers s q = Some qr" "peers s' q = None" "peer_Connection qr = peer_Connection pr"
      using closed by blast
    then show False
    proof cases
      case 1
      then show ?thesis using inv peers [OF that] unfolding conn_inv_def held_def by blast
    next
      case 2
      then show ?thesis using conn_inv_unique [OF inv 2(1) peers [OF that] 2(3)] that by simp
    qed
  qed
  then have "held s' \<inter> sfu_closed s' = {}" unfolding held_def by blast
  moreover have "held s' \<subseteq> held s" using peers unfolding held_def by blast
  moreover have "sfu_closed s' \<subseteq> sfu_closed s \<union> held s" using closed unfolding held_def by blast
  moreover have "held s \<union> sfu_closed s \<subseteq> used" using inv by (simp add: conn_inv_def)
  moreover have "p = q" if "peers s' p = Some pr" "peers s' q = Some qr" "peer_Connection pr = peer_Connection qr" for p q pr qr
    using conn_inv_unique [OF inv peers [OF that(1)] peers [OF that(2)] that(3)] .
  ultimately show ?thesis unfolding conn_inv_def by blast
qed

lemma conn_inv_drop: "conn_inv used s \<Longrightarrow> conn_inv used (dropStreams sid s)"
proof (erule conn_inv_shrink)
  show "c \<in> sfu_closed (dropStreams sid s) \<longleftrightarrow> c \<in> sfu_closed s \<or>
      (\<exists>q qr. peers s q = Some qr \<and> peers (dropStreams sid s) q = None \<and> peer_Connection qr = c)" for c
  proof -
    have "peers s q = Some qr \<Longrightarrow> peers (dropStreams sid s) q = None \<longleftrightarrow> peer_SessionID qr = sid" for q qr
      by (simp add: dropStreams_def)
    moreover have "c \<in> sfu_closed (dropStreams sid s) \<longleftrightarrow> c \<in> sfu_closed s \<or>
        (\<exists>q qr. peers s q = Some qr \<and> peer_SessionID qr = sid \<and> peer_Connection qr = c)"
      by (auto simp: dropStreams_def peers_of_def image_iff) (metis option.sel)
    ultimately show ?thesis by blast
  qed
qed (simp add: dropStreams_peers)

lemma conn_inv_event: "conn_inv used s \<Longrightarrow> conn_inv used (HandleSessionEvent ev s)"
proof -
  assume inv: "conn_inv used s"
  have upd: "conn_inv used (s\<lparr>sfu_state := st\<rparr>)" for st using inv by (rule conn_inv_peers_closed) simp_all
  show ?thesis
    unfolding HandleSessionEvent_def Let_def
    by (simp add: upd conn_inv_drop conn_inv_peers_closed [OF upd] conn_inv_peers_closed [OF conn_inv_drop [OF upd]])
qed

lemma conn_inv_remove: "conn_inv used s \<Longrightarrow> conn_inv used (removePeer pid s)"
  by (erule conn_inv_shrink) (auto simp: removePeer_def split: option.splits if_splits)

lemma conn_inv_register:
  assumes "conn_inv used s" and "peer_Connection pr = c" and "c \<notin> used"
    and "peers s' = (peers s)(p \<mapsto> pr)" and "sfu_closed s' = sfu_closed s"
  shows "conn_inv (insert c used) s'"
proof -
  have c: "c \<notin> sfu_closed s" "\<And>q qr. peers s q = Some qr \<Longrightarrow> peer_Connection qr \<noteq> c"
    using assms(1,3) unfolding conn_inv_def held_def by blast+
  have h: "held s' \<subseteq> insert c (held s)" using assms(2,4) by (auto simp: held_def split: if_splits)
  have "held s' \<inter> sfu_closed s' = {}" "held s' \<union> sfu_closed s' \<subseteq> insert c used"
    using h c(1) assms(1,5) unfolding conn_inv_def by blast+
  moreover have "q = r" if "peers s' q = Some qr" "peers s' r = Some rr" "peer_Connection qr = peer_Connection rr" for q r qr rr
  proof (cases "q = p \<or> r = p")
    case True
    then show ?thesis using that c(2) assms(2,4) by (auto split: if_splits dest: c(2))
  next
    case False
    then have "peers s q = Some qr" "peers s r = Some rr" using that assms(4) by simp_all
    then show ?thesis using that(3) assms(1) unfolding conn_inv_def by blast
  qed
  ultimately show ?thesis unfolding conn_inv_def by blast
qed

lemma conn_inv_close: "conn_inv used s \<Longrightarrow> c \<notin> used \<Longrightarrow> conn_inv (insert c used) (s\<lparr>sfu_closed := insert c (sfu_closed s)\<rparr>)"
  unfolding conn_inv_def held_def by auto

lemma conn_inv_offer:
  assumes "conn_inv used s" and "\<And>c. pc = Inr c \<Longrightarrow> c \<notin> used \<and> c \<in> used'" and "used \<subseteq> used'"
  shows "conn_inv used' (fst (CreateVehicleOffer pc answer sid pid s))"
proof (cases pc)
  case (Inl e)
  then show ?thesis using assms(1,3) by (simp add: CreateVehicleOffer_def conn_inv_mono)
next
  case (Inr c)
  have "conn_inv (insert c used) (fst (CreateVehicleOffer pc answer sid pid s))"
    using Inr assms(2) [OF Inr] assms(1)
    by (auto simp: CreateVehicleOffer_def conn_inv_close split: sum.split intro!: conn_inv_register [OF assms(1)])
  then show ?thesis using assms(2) [OF Inr] assms(3) by (auto intro: conn_inv_mono)
qed

lemma registered_fields:
  "peers (fst (registerOperatorSubscription sid oid c t s)) = (peers s)(oid \<mapsto> \<lparr>peer_ID = oid, peer_Role = ''operator'',
     peer_SessionID = sid, peer_Connection = c, peer_Tracks = [t]\<rparr>)"
  "sfu_closed (fst (registerOperatorSubscription sid oid c t s)) = sfu_closed s"
  by (simp_all add: registerOperatorSubscription_def Let_def)

lemma conn_inv_subscribe:
  assumes "conn_inv used s" and "\<And>c. pc = Inr c \<Longrightarrow> c \<notin> used \<and> c \<in> used'" and "used \<subseteq> used'"
  shows "conn_inv used' (fst (SubscribeOperator pc track answer sid oid s))"
proof (cases pc)
  case (Inl e)
  then show ?thesis using assms(1,3) by (simp add: SubscribeOperator_def conn_inv_mono)
next
  case (Inr c)
  have "conn_inv (insert c used) (fst (SubscribeOperator pc track answer sid oid s))"
    using Inr assms(2) [OF Inr] assms(1)
    by (auto simp: SubscribeOperator_def conn_inv_close registered_fields split: sum.split
        intro!: conn_inv_register [OF assms(1) _ _ registered_fields])
  then show ?thesis using assms(2) [OF Inr] assms(3) by (auto intro: conn_inv_mono)
qed

text \<open>The connections created by a sequence of inputs, in order.\<close>

definition creations :: "sfu_input list \<Rightarrow> nat list" where
  "creations = List.map_filter created"

lemma creations_simps [simp]:
  "creations [] = []" "creations (i # is) = (case created i of None \<Rightarrow> creations is | Some c \<Rightarrow> c # creations is)"
  by (simp_all add: creations_def map_filter_def split: option.split)

lemma handler_states:
  "fst (handleVehicleOffer pc negotiate sid pid (Some sdp) s) = fst (CreateVehicleOffer pc (negotiate sdp) sid pid s)"
  "fst (handleOperatorSubscribe pc track negotiate sid oid (Some sdp) s) =
     fst (SubscribeOperator pc track (negotiate sdp) sid oid s)"
  by (simp_all add: handleVehicleOffer_def handleOperatorSubscribe_def split: prod.split)

lemma conn_inv_input:
  assumes "conn_inv used s" and "\<And>c. created i = Some c \<Longrightarrow> c \<notin> used"
  shows "conn_inv (used \<union> set_option (created i)) (sfu_input_step i s)"
proof (cases i)
  case (Request lib r)
  show ?thesis
  proof (cases r)
    case (PostSessionEvent body)
    with Request assms(1) show ?thesis
      by (auto simp: newSFUMux_def handleSessionEvent_def conn_inv_event split: option.split)
  next
    case (PostOffer sid pid body)
    then show ?thesis
      using Request assms
      by (cases body) (auto simp: newSFUMux_def handler_states handleVehicleOffer_def [of _ _ _ _ None]
          split: sum.splits intro!: conn_inv_offer [OF assms(1)])
  next
    case (PostSubscribe sid oid body)
    then show ?thesis
      using Request assms
      by (cases body) (auto simp: newSFUMux_def handler_states handleOperatorSubscribe_def [of _ _ _ _ _ None]
          split: sum.splits intro!: conn_inv_subscribe [OF assms(1)])
  qed (use Request assms(1) in \<open>simp_all add: newSFUMux_def\<close>)
next
  case (IceChange pid st)
  with assms(1) show ?thesis by (simp add: OnICEConnectionStateChange_def conn_inv_remove)
qed

lemma conn_inv_run:
  "conn_inv used s \<Longrightarrow> distinct (creations is) \<Longrightarrow> set (creations is) \<inter> used = {} \<Longrightarrow>
   conn_inv (used \<union> set (creations is)) (sfu_run is s)"
proof (induction "is" arbitrary: used s)
  case (Cons i "is")
  have inv: "conn_inv (used \<union> set_option (created i)) (sfu_input_step i s)"
    using Cons.prems by (intro conn_inv_input) auto
  have "conn_inv (used \<union> set_option (created i) \<union> set (creations is)) (sfu_run is (sfu_input_step i s))"
    using Cons.prems by (intro Cons.IH [OF inv]) (auto split: option.splits)
  then show ?case by (cases "created i") (simp_all add: sfu_run_def Un_insert_right)
qed (simp add: sfu_run_def)

text \<open>Whatever offers, subscriptions, session events and connection failures arrive, with any outcome of the library: the
  connection of a registered peer is open and its own, so that no packet is written to a closed connection and no two
  peers share one.\<close>

theorem peers_hold_open_connections:
  assumes "distinct (creations is)" and "peers (sfu_run is NewSFU) p = Some pr"
  shows "peer_Connection pr \<notin> sfu_closed (sfu_run is NewSFU) \<and> peer_Connection pr \<in> set (creations is) \<and>
    (\<forall>q qr. peers (sfu_run is NewSFU) q = Some qr \<and> q \<noteq> p \<longrightarrow> peer_Connection qr \<noteq> peer_Connection pr)"
proof -
  have "conn_inv {} NewSFU" by (simp add: conn_inv_def held_def NewSFU_def)
  then have inv: "conn_inv (set (creations is)) (sfu_run is NewSFU)" using conn_inv_run [of "{}"] assms(1) by simp
  then have "peer_Connection pr \<notin> sfu_closed (sfu_run is NewSFU)" "peer_Connection pr \<in> set (creations is)"
    using assms(2) unfolding conn_inv_def held_def by blast+
  with conn_inv_unique [OF inv assms(2)] show ?thesis by metis
qed

section \<open>Replaced connections\<close>

lemma held_simps [simp]: "held (s\<lparr>routing := r\<rparr>) = held s" "held (s\<lparr>sfu_state := st\<rparr>) = held s" "held (s\<lparr>sfu_closed := cs\<rparr>) = held s"
  by (simp_all add: held_def)

text \<open>The connections the unit knows of: held by a peer or closed.\<close>

definition known :: "SFU \<Rightarrow> nat set" where
  "known s = held s \<union> sfu_closed s"

lemma known_drop: "known (dropStreams sid s) \<subseteq> known s"
  unfolding known_def
  by (auto simp: held_def dropStreams_peers) (auto simp: dropStreams_def peers_of_def, blast)

lemma known_event: "known (HandleSessionEvent ev s) \<subseteq> known s"
  using known_drop [of "se_SessionID ev" "s\<lparr>sfu_state := (sfu_state s)(se_SessionID ev \<mapsto> se_Type ev)\<rparr>"]
  by (auto simp: known_def HandleSessionEvent_def Let_def)

lemma known_remove: "known (removePeer pid s) \<subseteq> known s"
  by (auto simp: known_def held_def removePeer_def split: option.split if_splits)

lemma held_register: "peers s' = (peers s)(p \<mapsto> pr) \<Longrightarrow> held s' \<subseteq> insert (peer_Connection pr) (held s)"
  by (auto simp: held_def split: if_splits)

lemma known_register:
  "peers s' = (peers s)(p \<mapsto> pr) \<Longrightarrow> sfu_closed s' = sfu_closed s \<Longrightarrow> known s' \<subseteq> insert (peer_Connection pr) (known s)"
  unfolding known_def using held_register [of s' s p pr] by blast

lemma known_closed: "known (s\<lparr>sfu_closed := insert c (sfu_closed s)\<rparr>) = insert c (known s)"
  by (auto simp: known_def)

lemma known_offer: "known (fst (CreateVehicleOffer (Inr c) answer sid pid s)) \<subseteq> insert c (known s)"
proof (cases answer)
  case (Inr sdp)
  then show ?thesis
    using known_register [of "fst (CreateVehicleOffer (Inr c) answer sid pid s)" s pid
        "\<lparr>peer_ID = pid, peer_Role = ''vehicle'', peer_SessionID = sid, peer_Connection = c, peer_Tracks = []\<rparr>"]
    by (simp add: CreateVehicleOffer_def)
qed (simp add: CreateVehicleOffer_def known_closed)

lemma known_subscribe: "known (fst (SubscribeOperator (Inr c) track answer sid oid s)) \<subseteq> insert c (known s)"
  using known_register [OF registered_fields, of sid oid c _ s]
  by (auto simp: SubscribeOperator_def known_closed split: sum.split)

lemma known_no_connection:
  "fst (CreateVehicleOffer (Inl e) answer sid pid s) = s" "fst (SubscribeOperator (Inl e) track answer sid oid s) = s"
  by (simp_all add: CreateVehicleOffer_def SubscribeOperator_def)

lemma input_connections: "known (sfu_input_step i s) \<subseteq> known s \<union> set_option (created i)"
proof (cases i)
  case (Request lib r)
  show ?thesis
  proof (cases r)
    case (PostSessionEvent body)
    with Request known_event show ?thesis by (auto simp: newSFUMux_def handleSessionEvent_def split: option.split)
  next
    case (PostOffer sid pid body)
    with Request show ?thesis
      using known_offer [of _ "snd (negotiateAnswer lib (the body))" sid pid s]
      by (cases body; cases "lib_NewPeerConnection lib")
        (auto simp: newSFUMux_def handler_states known_no_connection handleVehicleOffer_def [of _ _ _ _ None])
  next
    case (PostSubscribe sid oid body)
    with Request show ?thesis
      using known_subscribe [of _ "local_track lib" "snd (negotiateAnswer lib (the body))" sid oid s]
      by (cases body; cases "lib_NewPeerConnection lib")
        (auto simp: newSFUMux_def handler_states known_no_connection handleOperatorSubscribe_def [of _ _ _ _ _ None])
  qed (use Request in \<open>auto simp: newSFUMux_def\<close>)
next
  case (IceChange pid st)
  with known_remove [of pid s] show ?thesis by (auto simp: OnICEConnectionStateChange_def)
qed

lemma run_connections: "known (sfu_run is s) \<subseteq> known s \<union> set (creations is)"
proof (induction "is" arbitrary: s)
  case (Cons i "is")
  have "sfu_run (i # is) s = sfu_run is (sfu_input_step i s)" by (simp add: sfu_run_def)
  moreover have "set (creations (i # is)) = set_option (created i) \<union> set (creations is)"
    by (simp split: option.split)
  ultimately show ?case using order_trans [OF Cons.IH Un_mono [OF input_connections order_refl]] by (simp only: Un_assoc)
qed (simp add: sfu_run_def)

text \<open>A second subscription of an operator replaces the peer and forgets the connection of the first: whatever happens
  afterwards, nobody closes it. And when its ICE callback reports the failure, it is the new peer that is removed and the
  new connection that is closed.\<close>

theorem resubscription_forgets_connection:
  assumes "distinct (creations (before @ i # after))" and "s = sfu_run before NewSFU" and "peers s oid = Some pr"
    and "i = Request lib (PostSubscribe sid oid (Some sdp))" and "status (snd (newSFUMux lib (PostSubscribe sid oid (Some sdp)) s)) = StatusOK"
  shows "peer_Connection pr \<notin> sfu_closed (sfu_run (before @ i # after) NewSFU) \<and>
    (\<exists>c qr. created i = Some c \<and> peers (sfu_input_step i s) oid = Some qr \<and> peer_Connection qr = c \<and>
       peers (sfu_run [i, IceChange oid ICEDisconnected] s) oid = None \<and>
       c \<in> sfu_closed (sfu_run [i, IceChange oid ICEDisconnected] s))"
proof -
  let ?old = "peer_Connection pr" and ?s1 = "sfu_input_step i s"
  obtain c t a where lib: "lib_NewPeerConnection lib = Inr c" "local_track lib = Inr t" "snd (negotiateAnswer lib sdp) = Inr a"
    using assms(5) by (auto simp: newSFUMux_def handleOperatorSubscribe_def SubscribeOperator_def status_defs
        split: sum.splits prod.splits)
  have s1: "peers ?s1 = (peers s)(oid \<mapsto> \<lparr>peer_ID = oid, peer_Role = ''operator'', peer_SessionID = sid,
      peer_Connection = c, peer_Tracks = [t]\<rparr>)" "sfu_closed ?s1 = sfu_closed s"
    using lib assms(4) by (simp_all add: newSFUMux_def handler_states SubscribeOperator_def registered_fields)
  have cr: "created i = Some c" using lib assms(4) by simp
  have "creations (before @ i # after) = creations before @ c # creations after"
    using cr by (simp add: creations_def map_filter_def)
  then have dist: "distinct (creations before @ c # creations after)" using assms(1) by simp
  have "conn_inv {} NewSFU" by (simp add: conn_inv_def held_def NewSFU_def)
  then have inv: "conn_inv (set (creations before)) s" using conn_inv_run [of "{}"] dist assms(2) by simp
  then have old: "?old \<in> set (creations before)" "?old \<notin> sfu_closed s" using assms(3) unfolding conn_inv_def held_def by blast+
  have "?old \<notin> held ?s1"
    using conn_inv_unique [OF inv assms(3)] old(1) dist s1(1) unfolding held_def by (auto split: if_splits)
  moreover have "?old \<notin> sfu_closed ?s1" using old(2) s1(2) by simp
  moreover have "?old \<notin> set (creations after)" using old(1) dist by auto
  ultimately have "?old \<notin> sfu_closed (sfu_run after ?s1)" using run_connections [of after ?s1] unfolding known_def by blast
  then have "?old \<notin> sfu_closed (sfu_run (before @ i # after) NewSFU)" using assms(2) by (simp add: sfu_run_def)
  then show ?thesis
    using cr s1 by (simp add: sfu_run_def OnICEConnectionStateChange_def removePeer_def)
qed

section \<open>What is forwarded\<close>

text \<open>C40: whatever offers, subscriptions, session events and connection failures arrive, with any outcome of the WebRTC
  library, a packet of a session goes, unless the session is in SAFE_MODE, exactly to the tracks of the connected
  operators its routing names, to each once, and only over connections that are open and belong to nobody else.\<close>

theorem sfu_forwards_once:
  assumes "distinct (creations is)" and "s = sfu_run is NewSFU"
  shows "distinct (forwardTrack sid s) \<and>
    ((oid, t) \<in> set (forwardTrack sid s) \<longleftrightarrow>
       sfu_state s sid \<noteq> Some EventSafeMode \<and>
       (\<exists>ids pr. routing s sid = Some ids \<and> oid \<in> set ids \<and> peers s oid = Some pr \<and> t \<in> set (peer_Tracks pr))) \<and>
    (\<forall>pr. peers s oid = Some pr \<longrightarrow> peer_Connection pr \<in> set (creations is) - sfu_closed s \<and>
       (\<forall>q qr. peers s q = Some qr \<and> q \<noteq> oid \<longrightarrow> peer_Connection qr \<noteq> peer_Connection pr))"
  using forward_exact [of s sid oid t] sfu_run_reaches [of NewSFU "is"] peers_hold_open_connections [OF assms(1), of oid] assms(2)
  by simp

definition demo_lib :: "nat \<Rightarrow> webrtc_lib" where
  "demo_lib c = \<lparr>lib_NewPeerConnection = Inr c, lib_NewTrack = Inr 10, lib_AddTrack = None,
     lib_SetRemoteDescription = (\<lambda>_. None), lib_CreateAnswer = Inr ''answer'', lib_SetLocalDescription = (\<lambda>_. None),
     lib_LocalDescription = ''sdp''\<rparr>"

definition demo_inputs :: "sfu_input list" where
  "demo_inputs =
     [Request (demo_lib 0) (PostSessionEvent (Some \<lparr>se_Type = EventCreated, se_SessionID = ''s1'', se_OperatorID = ''alice''\<rparr>)),
      Request (demo_lib 1) (PostOffer ''s1'' ''v1'' (Some ''offer'')),
      Request (demo_lib 2) (PostSubscribe ''s1'' ''alice'' (Some ''offer''))]"

theorem sfu_forwards_once_witness:
  "distinct (creations demo_inputs) \<and> (''alice'', 10) \<in> set (forwardTrack ''s1'' (sfu_run demo_inputs NewSFU)) \<and>
   (\<exists>pr. peers (sfu_run demo_inputs NewSFU) ''alice'' = Some pr \<and> peer_Connection pr = 2 \<and>
      peer_Connection pr \<notin> sfu_closed (sfu_run demo_inputs NewSFU))"
proof -
  let ?s = "sfu_run demo_inputs NewSFU"
  have d: "distinct (creations demo_inputs)" by (simp add: demo_inputs_def demo_lib_def)
  have run: "routing ?s ''s1'' = Some [''alice'']" "sfu_state ?s ''s1'' = Some EventCreated"
    "\<exists>pr. peers ?s ''alice'' = Some pr \<and> peer_Tracks pr = [10] \<and> peer_Connection pr = 2"
    by (simp_all add: demo_inputs_def demo_lib_def sfu_run_def newSFUMux_def handleSessionEvent_def HandleSessionEvent_def
        handler_states CreateVehicleOffer_def SubscribeOperator_def registerOperatorSubscription_def negotiateAnswer_def
        local_track_def NewSFU_def session_event_defs Let_def)
  have "EventCreated \<noteq> EventSafeMode" by (simp add: session_event_defs)
  then show ?thesis using sfu_forwards_once [OF d refl, of "''s1''" "''alice''" 10] run d by auto
qed

end
