(* ===== verification/Broker_Links.thy ===== *)
theory Broker_Links
  imports Fleet_Gateway Telemetry_Service
begin

text \<open>
  The connections to the message broker: the TLS configuration (\<open>pkg/mqtttls\<close>), the adapter of the telemetry service
  (\<open>internal/telemetryservice/mqttconnection.go\<close>) and the set-up of the fleet gateway (\<open>NewMQTTGateway\<close> in
  \<open>internal/fleetgateway/mqtt.go\<close>). Of the MQTT library a link keeps whether it is connected and the filters the broker
  delivers for; as the comment in \<open>mqttconnection.go\<close> says of the library, a reconnect does not bring them back. The
  answers of the broker, the file system and the certificate parser are arguments; \<open>covers\<close> says whether a filter covers
  a topic.
\<close>

section \<open>TLS\<close>

text \<open>\<open>read\<close> is the outcome of reading the file, \<open>has_cert\<close> whether the parser finds a certificate; the result is the trusted CA.\<close>

definition LoadClientConfig :: "(string \<Rightarrow> string + string) \<Rightarrow> (string \<Rightarrow> bool) \<Rightarrow> string \<Rightarrow> string + string" where
  "LoadClientConfig read has_cert path =
     (case read path of
        Inl e \<Rightarrow> Inl (''mqtttls: read CA cert '' @ path @ '': '' @ e)
      | Inr pem \<Rightarrow>
          if \<not> has_cert pem then Inl (''mqtttls: no valid certificate found in '' @ path) else Inr pem)"

section \<open>Links\<close>

record mqtt_link =
  ml_broker :: string
  ml_client_id :: string
  ml_ca :: string
  ml_connected :: bool
  ml_filters :: "string list"

definition new_link :: "string \<Rightarrow> string \<Rightarrow> string \<Rightarrow> mqtt_link" where
  "new_link broker client_id ca =
     \<lparr>ml_broker = broker, ml_client_id = client_id, ml_ca = ca, ml_connected = False, ml_filters = []\<rparr>"

text \<open>The library loses a connection and opens it again by itself.\<close>

definition link_lost :: "mqtt_link \<Rightarrow> mqtt_link" where
  "link_lost l = l\<lparr>ml_connected := False, ml_filters := []\<rparr>"

definition link_restored :: "mqtt_link \<Rightarrow> mqtt_link" where
  "link_restored l = l\<lparr>ml_connected := True\<rparr>"

section \<open>The adapter of the telemetry service\<close>

definition topicVehicleTelemetry :: string where "topicVehicleTelemetry = ''vehicle/+/telemetry''"

record PahoConnectionConfig =
  pc_Broker :: string
  pc_ClientID :: string
  pc_CACertPath :: string

definition NewPahoConnection ::
  "(string \<Rightarrow> string + string) \<Rightarrow> (string \<Rightarrow> bool) \<Rightarrow> PahoConnectionConfig \<Rightarrow> string + mqtt_link" where
  "NewPahoConnection read has_cert cfg =
     (case LoadClientConfig read has_cert (pc_CACertPath cfg) of
        Inl e \<Rightarrow> Inl e
      | Inr ca \<Rightarrow> Inr (new_link (''tls://'' @ pc_Broker cfg) (pc_ClientID cfg) ca))"

definition paho_Connect :: "string option \<Rightarrow> mqtt_link \<Rightarrow> mqtt_link \<times> string option" where
  "paho_Connect err p = (case err of None \<Rightarrow> (p\<lparr>ml_connected := True\<rparr>, None) | Some e \<Rightarrow> (p, Some e))"

definition paho_Subscribe :: "string option \<Rightarrow> string \<Rightarrow> mqtt_link \<Rightarrow> mqtt_link \<times> string option" where
  "paho_Subscribe err topic p =
     (case err of None \<Rightarrow> (p\<lparr>ml_filters := ml_filters p @ [topic]\<rparr>, None) | Some e \<Rightarrow> (p, Some e))"

definition paho_Disconnect :: "nat \<Rightarrow> mqtt_link \<Rightarrow> mqtt_link" where
  "paho_Disconnect quiesceMs p = p\<lparr>ml_connected := False, ml_filters := []\<rparr>"

definition paho_IsConnected :: "mqtt_link \<Rightarrow> bool" where
  "paho_IsConnected p = ml_connected p"

text \<open>\<open>Client.Disconnect\<close>, on any implementation of the connection.\<close>

definition client_Disconnect :: "('c \<Rightarrow> bool) \<Rightarrow> (nat \<Rightarrow> 'c \<Rightarrow> 'c) \<Rightarrow> 'c \<Rightarrow> 'c" where
  "client_Disconnect is_connected disconnect c = (if is_connected c then disconnect 250 c else c)"

text \<open>What the client relies on of \<open>MQTTConnection\<close>, whichever implementation it has.\<close>

locale mqtt_connection =
  fixes connect :: "'c \<Rightarrow> 'c \<times> bool"
    and subscribe_to :: "string \<Rightarrow> 'c \<Rightarrow> 'c \<times> bool"
    and disconnect :: "nat \<Rightarrow> 'c \<Rightarrow> 'c"
    and is_connected :: "'c \<Rightarrow> bool"
  assumes connect_result: "is_connected (fst (connect c)) \<longleftrightarrow> snd (connect c) \<or> is_connected c"
    and subscribe_keeps: "is_connected (fst (subscribe_to topic c)) = is_connected c"
    and disconnect_result: "\<not> is_connected (disconnect q c)"
begin

lemma close_disconnects: "\<not> is_connected (client_Disconnect is_connected disconnect c)"
  by (simp add: client_Disconnect_def disconnect_result)

lemma close_idem:
  "client_Disconnect is_connected disconnect (client_Disconnect is_connected disconnect c) =
   client_Disconnect is_connected disconnect c"
  by (simp add: client_Disconnect_def disconnect_result)

lemma session_connected:
  "snd (connect c) \<Longrightarrow> is_connected (fst (subscribe_to topic (fst (connect c))))"
  by (simp add: subscribe_keeps connect_result)

end

interpretation paho: mqtt_connection
  "\<lambda>p. map_prod id (\<lambda>e. e = None) (paho_Connect err p)"
  "\<lambda>topic p. map_prod id (\<lambda>e. e = None) (paho_Subscribe err' topic p)" paho_Disconnect paho_IsConnected
  by unfold_locales
    (auto simp: paho_Connect_def paho_Subscribe_def paho_Disconnect_def paho_IsConnected_def split: option.split)

interpretation fake: mqtt_connection fm_Connect fm_Subscribe fm_Disconnect fm_connected
  by unfold_locales (auto simp: fm_Connect_def fm_Subscribe_def fm_Disconnect_def Let_def)

text \<open>\<open>Client.Connect\<close> on the adapter: the link, if one was built, and the error. The library calls the connect handler
  once the connection stands, and the handler subscribes; a refused subscription is only logged.\<close>

definition client_Connect ::
  "(string \<Rightarrow> string + string) \<Rightarrow> (string \<Rightarrow> bool) \<Rightarrow> string option \<Rightarrow> string option \<Rightarrow> string \<Rightarrow> string \<Rightarrow>
   mqtt_link option \<times> string option" where
  "client_Connect read has_cert conn_err sub_err broker caCertPath =
     (case NewPahoConnection read has_cert
             \<lparr>pc_Broker = broker, pc_ClientID = ''avoc-telemetry-service'', pc_CACertPath = caCertPath\<rparr> of
        Inl e \<Rightarrow> (None, Some e)
      | Inr p \<Rightarrow>
          (case paho_Connect conn_err p of
             (p1, Some e) \<Rightarrow> (Some p1, Some e)
           | (p1, None) \<Rightarrow> (Some (fst (paho_Subscribe sub_err topicVehicleTelemetry p1)), None)))"

definition client_OnConnect :: "string option \<Rightarrow> mqtt_link \<Rightarrow> mqtt_link" where
  "client_OnConnect sub_err p = fst (paho_Subscribe sub_err topicVehicleTelemetry p)"

text \<open>The client as the telemetry service sees it.\<close>

fun client_view :: "(vehicle_id \<rightharpoonup> TelemetryEvent) \<Rightarrow> mqtt_link option \<Rightarrow> Client" where
  "client_view latest None = \<lparr>tc_latest = latest, tc_connected = False, tc_subscribed = False\<rparr>"
| "client_view latest (Some p) =
     \<lparr>tc_latest = latest, tc_connected = ml_connected p, tc_subscribed = (topicVehicleTelemetry \<in> set (ml_filters p))\<rparr>"

text \<open>The adapter implements the connection of the client: its set-up, losses, reconnects and its end.\<close>

theorem paho_refines_client:
  "client_Connect read has_cert conn_err sub_err broker path = (p, err) \<Longrightarrow>
     Connect (\<exists>ca. LoadClientConfig read has_cert path = Inr ca) (conn_err = None) (sub_err = None) (client_view latest None) =
       (client_view latest p, err = None)"
  "client_view latest (Some (link_lost l)) = connection_lost (client_view latest (Some l))"
  "ml_filters l = [] \<Longrightarrow>
     client_view latest (Some (client_OnConnect sub_err (link_restored l))) = reconnected (sub_err = None) (client_view latest (Some l))"
  "client_view latest (Some (client_Disconnect paho_IsConnected paho_Disconnect l)) = Disconnect (client_view latest (Some l))"
  by (auto simp: client_Connect_def NewPahoConnection_def new_link_def paho_Connect_def paho_Subscribe_def Connect_def
      subscribe_def link_lost_def connection_lost_def client_OnConnect_def link_restored_def reconnected_def
      client_Disconnect_def paho_IsConnected_def paho_Disconnect_def Disconnect_def split: sum.splits option.splits)

section \<open>The fleet gateway\<close>

definition StatusTopicWildcard :: string where "StatusTopicWildcard = ''fleet/+/status''"
definition AlertTopicWildcard :: string where "AlertTopicWildcard = ''fleet/+/alert''"

text \<open>A token of the library after \<open>WaitTimeout\<close>.\<close>

datatype mqtt_token = TimedOut | Failed string | Granted

definition gw_subscribe :: "mqtt_token \<Rightarrow> string \<Rightarrow> mqtt_link \<Rightarrow> mqtt_link \<times> string option" where
  "gw_subscribe tok topic l =
     (case tok of
        TimedOut \<Rightarrow> (l, Some (''fleetgateway: MQTT subscribe to '' @ topic @ '' timed out''))
      | Failed e \<Rightarrow> (l, Some e)
      | Granted \<Rightarrow> (l\<lparr>ml_filters := ml_filters l @ [topic]\<rparr>, None))"

record gateway_broker =
  gb_connect :: mqtt_token
  gb_status :: mqtt_token
  gb_alert :: mqtt_token

text \<open>The link the call leaves behind, if any, and the error. On an error the client is not disconnected.\<close>

definition NewMQTTGateway ::
  "(string \<Rightarrow> string + string) \<Rightarrow> (string \<Rightarrow> bool) \<Rightarrow> gateway_broker \<Rightarrow> string \<Rightarrow> string \<Rightarrow> string \<Rightarrow>
   mqtt_link option \<times> string option" where
  "NewMQTTGateway read has_cert b newID broker caCertPath =
     (case LoadClientConfig read has_cert caCertPath of
        Inl e \<Rightarrow> (None, Some (''fleetgateway: '' @ e))
      | Inr ca \<Rightarrow>
          let l = new_link broker (''fleet-service-gateway-'' @ newID) ca
          in case gb_connect b of
            TimedOut \<Rightarrow> (Some l, Some (''fleetgateway: MQTT connect timed out (broker '' @ broker @ '')''))
          | Failed e \<Rightarrow> (Some l, Some (''fleetgateway: MQTT connect failed: '' @ e))
          | Granted \<Rightarrow>
              (case gw_subscribe (gb_status b) StatusTopicWildcard (l\<lparr>ml_connected := True\<rparr>) of
                 (l1, Some e) \<Rightarrow> (Some l1, Some e)
               | (l1, None) \<Rightarrow>
                   (case gw_subscribe (gb_alert b) AlertTopicWildcard l1 of
                      (l2, Some e) \<Rightarrow> (Some l2, Some e)
                    | (l2, None) \<Rightarrow> (Some l2, None))))"

definition gw_Close :: "mqtt_link \<Rightarrow> mqtt_link" where
  "gw_Close l = l\<lparr>ml_connected := False, ml_filters := []\<rparr>"

text \<open>A message arrives: the library runs the handler of each filter that covers its topic.\<close>

definition gw_receive ::
  "(string \<Rightarrow> string \<Rightarrow> bool) \<Rightarrow> (string \<Rightarrow> VehicleStatusEvent option) \<Rightarrow> (string \<Rightarrow> VehicleAlertEvent option) \<Rightarrow>
   string \<Rightarrow> string \<Rightarrow> mqtt_link \<Rightarrow> 's gateway \<Rightarrow> 's \<Rightarrow> 's" where
  "gw_receive covers status_of alert_of topic payload l g s =
     (if \<not> ml_connected l then s
      else fold (\<lambda>f s.
          if \<not> covers f topic then s
          else if f = StatusTopicWildcard then handleStatusMessage status_of payload g s
          else if f = AlertTopicWildcard then handleAlertMessage alert_of payload g s
          else s) (ml_filters l) s)"

lemma wildcards_differ: "StatusTopicWildcard \<noteq> AlertTopicWildcard" "AlertTopicWildcard \<noteq> StatusTopicWildcard"
  by (simp_all add: StatusTopicWildcard_def AlertTopicWildcard_def)

text \<open>The gateway starts exactly if the CA can be read and the broker accepts the connection and both subscriptions;
  without a valid CA no link is opened at all, whatever the broker would accept. A gateway that started hands each status
  and each alert to the callbacks, once.\<close>

theorem gateway_setup:
  assumes "NewMQTTGateway read has_cert b newID broker path = (l, err)"
  shows "(err = None \<longleftrightarrow> (\<exists>ca. LoadClientConfig read has_cert path = Inr ca) \<and>
      gb_connect b = Granted \<and> gb_status b = Granted \<and> gb_alert b = Granted) \<and>
    ((\<exists>e. LoadClientConfig read has_cert path = Inl e) \<longrightarrow> l = None) \<and>
    (err = None \<longrightarrow> l \<noteq> None \<and> ml_connected (the l) \<and> ml_filters (the l) = [StatusTopicWildcard, AlertTopicWildcard] \<and>
      (covers StatusTopicWildcard topic \<and> \<not> covers AlertTopicWildcard topic \<longrightarrow>
         gw_receive covers status_of alert_of topic payload (the l) g s = handleStatusMessage status_of payload g s) \<and>
      (\<not> covers StatusTopicWildcard topic \<and> covers AlertTopicWildcard topic \<longrightarrow>
         gw_receive covers status_of alert_of topic payload (the l) g s = handleAlertMessage alert_of payload g s))"
  using assms
  by (auto simp: NewMQTTGateway_def gw_subscribe_def new_link_def gw_receive_def Let_def wildcards_differ
      split: sum.splits mqtt_token.splits simp del: append.simps)

text \<open>Unlike the telemetry client, the gateway has no connect handler: after the first reconnect it receives nothing any
  more, and its callers are not told.\<close>

theorem gateway_deaf_after_reconnect:
  "ml_connected (link_restored (link_lost l))"
  "gw_receive covers status_of alert_of topic payload (link_restored (link_lost l)) g s = s"
  by (simp_all add: gw_receive_def link_restored_def link_lost_def)

text \<open>A set-up that fails at a subscription leaves its client connected; the caller retries with another one.\<close>

theorem failed_setup_leaves_connection:
  assumes "LoadClientConfig read has_cert path = Inr ca" and "gb_connect b = Granted" and "gb_status b \<noteq> Granted \<or> gb_alert b \<noteq> Granted"
  shows "\<exists>k e. NewMQTTGateway read has_cert b newID broker path = (Some k, Some e) \<and> ml_connected k"
  using assms by (auto simp: NewMQTTGateway_def gw_subscribe_def new_link_def Let_def split: mqtt_token.split)

end
