(* ===== verification/Processes.thy ===== *)
theory Processes
  imports Broker_Links Fleet_Service
begin

text \<open>
  The fleet service and the telemetry service as processes (\<open>cmd/fleet-service/main.go\<close>, \<open>cmd/telemetry-service/main.go\<close>):
  start-up with the database and the broker, and the messages of the broker up to the tables of the fleet service.
\<close>

section \<open>The telemetry service\<close>

datatype telemetry_route = GetTelemetryLatest string | GetTelemetryHealth

datatype telemetry_payload = LatestBody telemetry_body | TelemetryServiceName string

definition newTelemetryMux :: "telemetry_route \<Rightarrow> Client \<Rightarrow> telemetry_payload reply" where
  "newTelemetryMux r c =
     (case r of
        GetTelemetryLatest path \<Rightarrow> map_reply LatestBody (latest_endpoint path c)
      | GetTelemetryHealth \<Rightarrow> HttpOk StatusOK (TelemetryServiceName ''telemetry-service''))"

text \<open>\<open>main\<close> up to the HTTP server: the port and the link, or the message of its exit. There is one attempt.\<close>

definition telemetry_main ::
  "(string \<Rightarrow> string + string) \<Rightarrow> (string \<Rightarrow> bool) \<Rightarrow> string option \<Rightarrow> string option \<Rightarrow> environment \<Rightarrow> string + (string \<times> mqtt_link)" where
  "telemetry_main read has_cert conn_err sub_err env =
     (let port = OptionalOr env ''TELEMETRY_PORT'' ''8083'';
          broker = OptionalOr env ''MQTT_BROKER'' ''mosquitto:1883''
      in case client_Connect read has_cert conn_err sub_err broker (env ''MQTT_CA_CERT'') of
        (_, Some e) \<Rightarrow> Inl ''MQTT connect failed''
      | (None, None) \<Rightarrow> Inl ''MQTT connect failed''
      | (Some l, None) \<Rightarrow> Inr (port, l))"

section \<open>The fleet service\<close>

text \<open>The attempts to reach the broker; \<open>brokers i\<close> answers the \<open>i\<close>-th, \<open>ids i\<close> is its generated client id.\<close>

definition gateway_dial ::
  "(string \<Rightarrow> string + string) \<Rightarrow> (string \<Rightarrow> bool) \<Rightarrow> (nat \<Rightarrow> gateway_broker) \<Rightarrow> (nat \<Rightarrow> string) \<Rightarrow> string \<Rightarrow> string \<Rightarrow> nat \<Rightarrow>
   string + mqtt_link" where
  "gateway_dial read has_cert brokers ids broker ca i =
     (case NewMQTTGateway read has_cert (brokers i) (ids i) (''tls://'' @ broker) ca of
        (Some l, None) \<Rightarrow> Inr l
      | (_, Some e) \<Rightarrow> Inl e
      | (None, None) \<Rightarrow> Inl [])"

definition fleet_main ::
  "(string \<Rightarrow> string + string) \<Rightarrow> (string \<Rightarrow> bool) \<Rightarrow> bool \<Rightarrow> (nat \<Rightarrow> 'e option) \<Rightarrow> (nat \<Rightarrow> gateway_broker) \<Rightarrow> (nat \<Rightarrow> string) \<Rightarrow>
   (nat \<Rightarrow> string) \<Rightarrow> instant \<Rightarrow> environment \<Rightarrow> fleet_db \<Rightarrow> string + (string \<times> string \<times> mqtt_link \<times> fleet)" where
  "fleet_main read has_cert opened pings brokers ids newIDs now env db =
     (let port = OptionalOr env ''FLEET_PORT'' ''8085'';
          broker = OptionalOr env ''MQTT_BROKER'' ''mosquitto:8883'';
          ca = OptionalOr env ''MQTT_CA_CERT'' []
      in case Require env ''DATABASE_URL'' of
        Inl msg \<Rightarrow> Inl msg
      | Inr databaseURL \<Rightarrow>
          (case Require env ''JWT_SECRET'' of
             Inl msg \<Rightarrow> Inl msg
           | Inr jwtSecret \<Rightarrow>
               (case OpenAndWait opened pings of
                  None \<Rightarrow> Inl ''failed to open database''
                | Some _ \<Rightarrow>
                    (case fleet_start newIDs now db of
                       None \<Rightarrow> Inl ''failed to initialize fleet store''
                     | Some s \<Rightarrow>
                         (case fst (connectGatewayWithRetry (gateway_dial read has_cert brokers ids broker ca)) of
                            Inl _ \<Rightarrow> Inl ''failed to connect to MQTT broker''
                          | Inr l \<Rightarrow> Inr (port, jwtSecret, l, s))))))"

lemma connect_loop_first:
  "i \<le> k \<Longrightarrow> k < retries \<Longrightarrow> (\<And>j. i \<le> j \<Longrightarrow> j < k \<Longrightarrow> isl (dial j)) \<Longrightarrow> dial k = Inr g \<Longrightarrow>
   connect_loop dial retries i err = (Inr g, k)"
proof (induction dial retries i err rule: connect_loop.induct)
  case (1 dial retries i err)
  show ?case
  proof (cases "i = k")
    case True
    with "1.prems" show ?thesis by (simp add: connect_loop.simps)
  next
    case False
    then have "isl (dial i)" using "1.prems" by simp
    then obtain e where e: "dial i = Inl e" by (cases "dial i") auto
    have "connect_loop dial retries (i + 1) (Some e) = (Inr g, k)"
      using "1.prems" False by (intro "1.IH" [OF _ e]) auto
    with "1.prems" e show ?thesis by (simp add: connect_loop.simps [of dial retries i])
  qed
qed

lemma connect_loop_never:
  "i \<le> retries \<Longrightarrow> (\<And>j. i \<le> j \<Longrightarrow> j < retries \<Longrightarrow> isl (dial j)) \<Longrightarrow> isl (fst (connect_loop dial retries i err)) \<and>
   snd (connect_loop dial retries i err) = retries"
proof (induction dial retries i err rule: connect_loop.induct)
  case (1 dial retries i err)
  show ?case
  proof (cases "i = retries")
    case True
    then show ?thesis by (simp add: connect_loop.simps)
  next
    case False
    then have less: "\<not> retries \<le> i" and "isl (dial i)" using "1.prems" by simp_all
    then obtain e where e: "dial i = Inl e" by (cases "dial i") auto
    then show ?thesis
      using "1.IH" [OF less e] "1.prems" less by (simp add: connect_loop.simps [of dial retries i])
  qed
qed

text \<open>The loop returns the first attempt that succeeds.\<close>

lemma connect_loop_success:
  assumes "\<not> isl (dial k)" and "k < retries"
  shows "\<exists>i g. i \<le> k \<and> dial i = Inr g \<and> connect_loop dial retries 0 err = (Inr g, i)"
proof -
  obtain i where i: "\<not> isl (dial i)" "i \<le> k" and before: "\<And>j. j < i \<Longrightarrow> isl (dial j)"
    using exists_least_iff [of "\<lambda>j. \<not> isl (dial j)"] assms(1) by (metis not_less)
  obtain g where g: "dial i = Inr g" using i(1) by (cases "dial i") auto
  have "connect_loop dial retries 0 err = (Inr g, i)" using i(2) assms(2) before g by (intro connect_loop_first) auto
  with i(2) g show ?thesis by blast
qed

lemma gateway_dial_result:
  "gateway_dial read has_cert brokers ids broker ca i = Inr l \<longleftrightarrow>
     (\<exists>cert. LoadClientConfig read has_cert ca = Inr cert \<and> gb_connect (brokers i) = Granted \<and>
        gb_status (brokers i) = Granted \<and> gb_alert (brokers i) = Granted \<and>
        l = \<lparr>ml_broker = ''tls://'' @ broker, ml_client_id = ''fleet-service-gateway-'' @ ids i, ml_ca = cert,
             ml_connected = True, ml_filters = [StatusTopicWildcard, AlertTopicWildcard]\<rparr>)"
  by (auto simp: gateway_dial_def NewMQTTGateway_def gw_subscribe_def new_link_def Let_def
      split: sum.splits mqtt_token.splits simp del: append.simps)

lemma fleet_main_Inr:
  "fleet_main read has_cert opened pings brokers ids newIDs now env db = Inr (port, secret, l, s) \<longleftrightarrow>
     port = OptionalOr env ''FLEET_PORT'' ''8085'' \<and> env ''DATABASE_URL'' \<noteq> [] \<and> env ''JWT_SECRET'' \<noteq> [] \<and>
     secret = env ''JWT_SECRET'' \<and> opened \<and> fleet_start newIDs now db = Some s \<and>
     fst (connectGatewayWithRetry (gateway_dial read has_cert brokers ids
       (OptionalOr env ''MQTT_BROKER'' ''mosquitto:8883'') (OptionalOr env ''MQTT_CA_CERT'' []))) = Inr l"
  unfolding fleet_main_def Require_def OpenAndWait_def Let_def
  by (cases "env ''DATABASE_URL'' = []"; cases "env ''JWT_SECRET'' = []"; cases opened; cases "fleet_start newIDs now db")
    (auto split: sum.split)

text \<open>A started fleet service has a verified, connected link with both subscriptions, built by the first of at most ten
  attempts that the broker accepted altogether.\<close>

theorem fleet_main_started:
  assumes "fleet_main read has_cert opened pings brokers ids newIDs now env db = Inr (port, secret, l, s)"
  shows "secret \<noteq> [] \<and> fleet_start newIDs now db = Some s \<and> ml_connected l \<and>
    ml_filters l = [StatusTopicWildcard, AlertTopicWildcard] \<and>
    LoadClientConfig read has_cert (OptionalOr env ''MQTT_CA_CERT'' []) = Inr (ml_ca l) \<and>
    (\<exists>i<10. gb_connect (brokers i) = Granted \<and> gb_status (brokers i) = Granted \<and> gb_alert (brokers i) = Granted)"
proof -
  let ?dial = "gateway_dial read has_cert brokers ids (OptionalOr env ''MQTT_BROKER'' ''mosquitto:8883'') (OptionalOr env ''MQTT_CA_CERT'' [])"
  have main: "secret \<noteq> []" "fleet_start newIDs now db = Some s" "fst (connect_loop ?dial 10 0 None) = Inr l"
    using assms by (auto simp: fleet_main_Inr connectGatewayWithRetry_def DefaultConnectRetries_def)
  obtain i where i: "i < 10" "\<not> isl (?dial i)"
    using connect_loop_never [of 0 10 ?dial None] main(3) by auto
  obtain k where "k \<le> i" "?dial k = Inr l" using connect_loop_success [of ?dial i 10 None] i main(3) by auto
  then show ?thesis using main(1,2) i(1) unfolding gateway_dial_result by (auto intro!: exI [of _ k])
qed

text \<open>Conversely it starts if its variables are set, the store opens, the CA is valid and one attempt succeeds; after ten
  failed attempts, which a missing CA makes certain, it exits.\<close>

theorem fleet_main_starts:
  assumes "env ''DATABASE_URL'' \<noteq> []" and "env ''JWT_SECRET'' \<noteq> []" and "fleet_start newIDs now db = Some s"
    and "LoadClientConfig read has_cert (OptionalOr env ''MQTT_CA_CERT'' []) = Inr cert"
    and "k < 10" and "brokers k = \<lparr>gb_connect = Granted, gb_status = Granted, gb_alert = Granted\<rparr>"
  shows "\<exists>port l. fleet_main read has_cert True pings brokers ids newIDs now env db = Inr (port, env ''JWT_SECRET'', l, s)"
proof -
  let ?dial = "gateway_dial read has_cert brokers ids (OptionalOr env ''MQTT_BROKER'' ''mosquitto:8883'') (OptionalOr env ''MQTT_CA_CERT'' [])"
  have "\<exists>g. ?dial k = Inr g" using assms(4,6) by (simp add: gateway_dial_result)
  then have "\<not> isl (?dial k)" by auto
  then obtain l where "fst (connectGatewayWithRetry ?dial) = Inr l"
    using connect_loop_success [of ?dial k 10 None] assms(5)
    by (auto simp: connectGatewayWithRetry_def DefaultConnectRetries_def)
  with assms(1-3) show ?thesis by (auto simp: fleet_main_Inr)
qed

theorem fleet_main_needs_CA:
  assumes "LoadClientConfig read has_cert (OptionalOr env ''MQTT_CA_CERT'' []) = Inl e"
  shows "isl (fleet_main read has_cert opened pings brokers ids newIDs now env db)"
proof (cases "fleet_main read has_cert opened pings brokers ids newIDs now env db")
  case (Inr b)
  then show ?thesis using fleet_main_started [of read has_cert opened pings brokers ids newIDs now env db] assms by (cases b) auto
qed simp

section \<open>Messages of the vehicles\<close>

definition fleet_gateway ::
  "(VehicleStatusEvent \<Rightarrow> fleet \<Rightarrow> fleet) \<Rightarrow> (VehicleAlertEvent \<Rightarrow> fleet \<Rightarrow> fleet) \<Rightarrow> fleet gateway" where
  "fleet_gateway on_status on_alert = SubscribeVehicleAlerts on_alert (SubscribeVehicleStatus on_status new_gateway)"

text \<open>On its first connection a started fleet service hands every readable status to the callback that stores and
  broadcasts it, once; after the connection has been lost and restored it receives nothing.\<close>

theorem reports_until_reconnect:
  assumes "fleet_main read has_cert opened pings brokers ids newIDs now env db = Inr (port, secret, l, s0)"
    and "covers StatusTopicWildcard topic" and "\<not> covers AlertTopicWildcard topic" and "status_of payload = Some e"
    and "g = fleet_gateway (subscribeVehicleStatus f4 ups t wall newID) on_alert"
  shows "gw_receive covers status_of alert_of topic payload l g s = subscribeVehicleStatus f4 ups t wall newID e s \<and>
    gw_receive covers status_of alert_of topic payload (link_restored (link_lost l)) g s = s"
  using fleet_main_started [OF assms(1)] assms(2-5)
  by (simp add: gw_receive_def wildcards_differ handleStatusMessage_def fleet_gateway_def SubscribeVehicleAlerts_def
      SubscribeVehicleStatus_def new_gateway_def link_restored_def link_lost_def)

section \<open>Start of the telemetry service\<close>

text \<open>The telemetry service starts exactly if the CA is valid and the broker accepts the connection, also when the
  subscription is refused: it then serves no telemetry. Without a configured broker it dials the plain-text port.\<close>

theorem telemetry_main_starts:
  "telemetry_main read has_cert conn_err sub_err env = Inr (port, l) \<longleftrightarrow>
     conn_err = None \<and> LoadClientConfig read has_cert (env ''MQTT_CA_CERT'') = Inr (ml_ca l) \<and>
     port = OptionalOr env ''TELEMETRY_PORT'' ''8083'' \<and>
     l = \<lparr>ml_broker = ''tls://'' @ OptionalOr env ''MQTT_BROKER'' ''mosquitto:1883'', ml_client_id = ''avoc-telemetry-service'',
          ml_ca = ml_ca l, ml_connected = True, ml_filters = (if sub_err = None then [topicVehicleTelemetry] else [])\<rparr>"
proof (cases "LoadClientConfig read has_cert (env ''MQTT_CA_CERT'')")
  case (Inl e)
  then show ?thesis by (simp add: telemetry_main_def client_Connect_def NewPahoConnection_def)
next
  case (Inr cert)
  then show ?thesis
    by (cases l; cases conn_err; cases sub_err)
      (auto simp: telemetry_main_def client_Connect_def NewPahoConnection_def new_link_def paho_Connect_def paho_Subscribe_def Let_def)
qed

end
