(* ===== verification/Fleet_Loop.thy ===== *)
theory Fleet_Loop
  imports Processes Vehicle_Mock
begin

text \<open>
  From the simulated fleet (\<open>cmd/vehicle-mock/fleet_simulator.go\<close>) over the broker and the gateway into the tables of the
  fleet service and to the dashboards. JSON (\<open>marshal\<close>, \<open>status_of\<close>) and the broker (\<open>covers\<close>, which publications it takes)
  are parameters.
\<close>

text \<open>\<open>publishFleetJSON\<close>: the message the broker gets, if any.\<close>

definition publishFleetJSON :: "('p \<Rightarrow> string option) \<Rightarrow> bool \<Rightarrow> string \<Rightarrow> 'p \<Rightarrow> (string \<times> string) option" where
  "publishFleetJSON marshal published topic payload =
     (case marshal payload of
        None \<Rightarrow> None
      | Some data \<Rightarrow> if published then Some (topic, data) else None)"

lemma published_status:
  assumes "PublishStatus topic e \<in> set (fleet_publications rnd t draw s)" and "fleet_tick rnd t draw s = (s1, e1, alert)"
  shows "e = e1 \<and> topic = StatusTopic (fx_vehicleID s) \<and> ve_VehicleID e = fx_vehicleID s1"
proof -
  have "e1 = fleet_status_event t s1" using assms(2) by (auto simp: fleet_tick_def Let_def)
  then show ?thesis
    using assms by (auto simp: fleet_publications_def fleet_status_event_def split: option.splits)
qed

text \<open>C36: a simulated vehicle is visible in the fleet service. Every status a running simulation publishes, once the broker
  takes it and a started fleet service with a working database receives it on its first connection, is stored as the row
  of its vehicle, which is registered on the way if it is new; it leaves the rows of all other vehicles alone and is
  broadcast to the dashboards. After the connection of the gateway has been lost and restored the same message changes
  nothing.\<close>

theorem simulated_report_delivered:
  assumes "exact_small rnd" and "s0 \<in> set (startFleetSimulation rnd spec response)"
    and "\<And>x. 0 \<le> x \<Longrightarrow> x \<le> 100 \<Longrightarrow> f4 x \<noteq> None"
    and "PublishStatus topic e \<in> set (fleet_publications rnd t draw ((advance rnd ^^ n) s0))"
    and "publishFleetJSON marshal taken topic e = Some (tp, data)"
    and "\<And>x d. marshal x = Some d \<Longrightarrow> status_of d = Some x"
    and "covers StatusTopicWildcard topic" and "\<not> covers AlertTopicWildcard topic"
    and "fleet_main read has_cert opened pings brokers ids newIDs start env db = Inr (port, secret, l, fl0)"
    and "g = fleet_gateway (subscribeVehicleStatus f4 (\<lambda>_. True) now wall newID) on_alert"
    and "gw_receive covers status_of alert_of tp data l g fl = fl'"
  shows "row_for vs_VehicleID (ve_VehicleID e) (fd_status (fl_db fl')) = Some (stored_status f4 now e) \<and>
    (\<forall>v. v \<noteq> ve_VehicleID e \<longrightarrow> row_for vs_VehicleID v (fd_status (fl_db fl')) = row_for vs_VehicleID v (fd_status (fl_db fl))) \<and>
    vehicle_status_event ((status_of_event e)\<lparr>vs_UpdatedAt := wall\<rparr>) \<in> set (fl_sent fl') \<and>
    gw_receive covers status_of alert_of tp data (link_restored (link_lost l)) g fl = fl"
proof -
  obtain s1 e1 alert where tick: "fleet_tick rnd t draw ((advance rnd ^^ n) s0) = (s1, e1, alert)" by (metis prod.exhaust)
  note e = published_status [OF assms(4) tick]
  have msg: "tp = topic" "status_of data = Some e"
    using assms(5,6) by (auto simp: publishFleetJSON_def split: option.splits if_splits)
  have cov: "covers StatusTopicWildcard tp" "\<not> covers AlertTopicWildcard tp" using assms(7,8) msg(1) by simp_all
  note recv = reports_until_reconnect [where covers = covers and topic = tp and status_of = status_of and payload = data,
      OF assms(9) cov msg(2) assms(10), of alert_of fl]
  have "subscribeVehicleStatus f4 (\<lambda>_. True) now wall newID e1 fl = fl'" using recv assms(11) e by simp
  from simulated_status_stored [OF assms(1-3) tick this] show ?thesis using e recv by (metis (no_types, lifting))
qed

definition demo_report :: VehicleStatusEvent where
  "demo_report = fleet_status_event 1
     (advance (\<lambda>x. x) (newFleetVehicleSimulator (\<lambda>x. x) ''v'' typeLastenzug (fallbackDemoStations (\<lambda>x. x))))"

definition demo_link :: mqtt_link where
  "demo_link = \<lparr>ml_broker = ''tls://b'', ml_client_id = ''fleet-service-gateway-'', ml_ca = ''pem'', ml_connected = True,
     ml_filters = [StatusTopicWildcard, AlertTopicWildcard]\<rparr>"

lemma demo_fleet_main:
  "fleet_main (\<lambda>_. Inr ''pem'') (\<lambda>_. True) True (\<lambda>_. None :: unit option)
     (\<lambda>_. \<lparr>gb_connect = Granted, gb_status = Granted, gb_alert = Granted\<rparr>) (\<lambda>_. []) (\<lambda>_. []) 0 (\<lambda>_. ''b'') empty_fleet_db =
   Inr (''b'', ''b'', demo_link, demo_fleet)"
proof -
  let ?dial = "gateway_dial (\<lambda>_. Inr ''pem'') (\<lambda>_. True) (\<lambda>_. \<lparr>gb_connect = Granted, gb_status = Granted, gb_alert = Granted\<rparr>)
    (\<lambda>_. []) ''b'' ''b''"
  have "?dial 0 = Inr demo_link" by (simp add: gateway_dial_result LoadClientConfig_def demo_link_def)
  then have "fst (connectGatewayWithRetry ?dial) = Inr demo_link"
    by (simp add: connectGatewayWithRetry_def DefaultConnectRetries_def connect_loop.simps)
  moreover have "fleet_start (\<lambda>_. []) 0 empty_fleet_db = Some demo_fleet"
    by (simp add: fleet_start_def NewPostgresFleetStore_def taskuiDemoSeedCleanup_def backfillTaskStatusHistory_def
        queryLegacyTransitions_def PruneVehiclePositionHistory_def empty_fleet_db_def demo_fleet_def)
  ultimately show ?thesis by (simp add: fleet_main_Inr OptionalOr_def)
qed

theorem simulated_report_delivered_witness:
  "\<exists>fl'. gw_receive (\<lambda>f _. f = StatusTopicWildcard) (\<lambda>_. Some demo_report) (\<lambda>_. None) (StatusTopic ''v'') ''{}'' demo_link
      (fleet_gateway (subscribeVehicleStatus Some (\<lambda>_. True) 5 5 ''a'') (\<lambda>_ s. s)) demo_fleet = fl' \<and>
    row_for vs_VehicleID ''v'' (fd_status (fl_db fl')) = Some (stored_status Some 5 demo_report)"
proof -
  let ?id = "\<lambda>x :: rat. x"
  let ?s = "newFleetVehicleSimulator ?id ''v'' typeLastenzug (fallbackDemoStations ?id)"
  let ?marshal = "\<lambda>x. if x = demo_report then Some ''{}'' else None"
  have exact: "exact_small ?id" by (simp add: exact_small_def rounding_def mono_def)
  have start: "?s \<in> set (startFleetSimulation ?id ''v'' None)"
    by (simp add: startFleetSimulation_def trimSpace_def is_space_def parse_entry_def splitN2_def resolveSimulationStations_def
        fetchRealStations_def Let_def)
  have total: "\<And>x :: rat. 0 \<le> x \<Longrightarrow> x \<le> 100 \<Longrightarrow> Some x \<noteq> None" by simp
  have v: "fx_vehicleID ?s = ''v''" "ve_VehicleID demo_report = ''v''"
    by (simp_all add: demo_report_def fleet_status_event_def advance_def newFleetVehicleSimulator_def Let_def)
  have pub: "PublishStatus (StatusTopic ''v'') demo_report \<in> set (fleet_publications ?id 1 1 ((advance ?id ^^ 0) ?s))"
    by (simp add: fleet_publications_def fleet_tick_def Let_def v(1) demo_report_def)
  have json: "publishFleetJSON ?marshal True (StatusTopic ''v'') demo_report = Some (StatusTopic ''v'', ''{}'')"
    by (simp add: publishFleetJSON_def)
  have inverse: "\<And>x d. ?marshal x = Some d \<Longrightarrow> (\<lambda>_. Some demo_report) d = Some x" by (simp split: if_splits)
  show ?thesis
    using simulated_report_delivered [where covers = "\<lambda>f _. f = StatusTopicWildcard" and alert_of = "\<lambda>_. None" and fl = demo_fleet
        and now = 5 and wall = 5 and newID = "''a''" and on_alert = "\<lambda>_ s. s" and ?f4.0 = Some,
        OF exact start total pub json inverse _ _ demo_fleet_main refl refl] v(2) wildcards_differ
    by simp
qed

end
