(* ===== verification/Vehicle_Process.thy ===== *)
theory Vehicle_Process
  imports Control_Loop Broker_Links
begin

text \<open>
  The simulated vehicle as a process (\<open>main\<close> and \<open>connectMQTT\<close> in \<open>cmd/vehicle-mock/main.go\<close>): its start-up, its connections
  to the control server and its end by a signal. \<open>attempt i\<close> says whether the broker accepts the \<open>i\<close>-th attempt; the
  result \<open>None\<close> is a process that waits for ever.
\<close>

section \<open>Start-up\<close>

definition mock_link ::
  "(string \<Rightarrow> string + string) \<Rightarrow> (string \<Rightarrow> bool) \<Rightarrow> (nat \<Rightarrow> bool) \<Rightarrow> string \<Rightarrow> vehicle_id \<Rightarrow> string \<Rightarrow> (string + mqtt_link) option" where
  "mock_link read has_cert attempt broker vid caCertPath =
     (case LoadClientConfig read has_cert caCertPath of
        Inl e \<Rightarrow> Some (Inl ''MQTT TLS config invalid'')
      | Inr ca \<Rightarrow>
          map_option (\<lambda>_. Inr ((new_link (''tls://'' @ broker) (''avoc-vehicle-mock-'' @ vid) ca)\<lparr>ml_connected := True\<rparr>))
            (connectMQTT attempt))"

definition new_mock_state :: mock_state where
  "new_mock_state = \<lparr>ms_steerCommanded = 0, ms_throttleCommanded = 0, ms_brakeCommanded = 0, ms_steerActual = 0,
     ms_throttleActual = 0, ms_speedKmh = 0, ms_battery = 85, ms_sessionID = []\<rparr>"

record mock_process =
  mp_vehicleID :: vehicle_id
  mp_wsURL :: string
  mp_secret :: string
  mp_link :: mqtt_link
  mp_fleet :: "fleetVehicleSimulator list"
  mp_state :: mock_state

definition mock_main ::
  "(string \<Rightarrow> string + string) \<Rightarrow> (string \<Rightarrow> bool) \<Rightarrow> (nat \<Rightarrow> bool) \<Rightarrow> (rat \<Rightarrow> float64) \<Rightarrow>
   (nat \<times> fleetStationDTO list option) option \<Rightarrow> environment \<Rightarrow> (string + mock_process) option" where
  "mock_main read has_cert attempt rnd response env =
     (let vehicleID = envOr env ''VEHICLE_ID'' ''vehicle-001'';
          wsURL = envOr env ''CONTROL_SERVER_URL'' ''ws://control-server:8080/vehicle/ws'';
          jwtSecret = env ''JWT_SECRET'';
          mqttBroker = envOr env ''MQTT_BROKER'' ''mosquitto:8883''
      in if jwtSecret = [] then Some (Inl ''JWT_SECRET required'')
         else case mock_link read has_cert attempt mqttBroker vehicleID (env ''MQTT_CA_CERT'') of
           None \<Rightarrow> None
         | Some (Inl msg) \<Rightarrow> Some (Inl msg)
         | Some (Inr l) \<Rightarrow>
             Some (Inr \<lparr>mp_vehicleID = vehicleID, mp_wsURL = wsURL, mp_secret = jwtSecret, mp_link = l,
               mp_fleet = startFleetSimulation rnd (env ''FLEET_VEHICLES'') response, mp_state = new_mock_state\<rparr>))"

lemma connect_from_sound: "connect_from attempt i = Some n \<Longrightarrow> attempt n"
  by (rule connect_from.raw_induct [of "\<lambda>attempt i n. attempt n"]) (auto split: if_splits)

lemma connectMQTT_returns: "(\<exists>n. connectMQTT attempt = Some n) \<longleftrightarrow> (\<exists>n. attempt n)"
proof
  assume "\<exists>n. connectMQTT attempt = Some n"
  then show "\<exists>n. attempt n" using connect_from_sound unfolding connectMQTT_def by blast
next
  assume "\<exists>n. attempt n"
  then obtain n where "attempt n" "\<And>i. i < n \<Longrightarrow> \<not> attempt i" using exists_least_iff [of attempt] by blast
  then show "\<exists>n. connectMQTT attempt = Some n" using connectMQTT_connects by blast
qed

text \<open>The start-up ends exactly if a setting is missing or the broker accepts some attempt; it then runs with the CA
  verified and the broker connected. A broker that never answers keeps it waiting for ever.\<close>

theorem mock_main_returns:
  "(\<exists>res. mock_main read has_cert attempt rnd response env = Some res) \<longleftrightarrow>
     env ''JWT_SECRET'' = [] \<or> isl (LoadClientConfig read has_cert (env ''MQTT_CA_CERT'')) \<or> (\<exists>n. attempt n)"
  "mock_main read has_cert attempt rnd response env = Some (Inr p) \<Longrightarrow>
     mp_secret p = env ''JWT_SECRET'' \<and> mp_secret p \<noteq> [] \<and> ml_connected (mp_link p) \<and>
     LoadClientConfig read has_cert (env ''MQTT_CA_CERT'') = Inr (ml_ca (mp_link p)) \<and>
     mp_vehicleID p = envOr env ''VEHICLE_ID'' ''vehicle-001'' \<and> mp_vehicleID p \<noteq> []"
proof -
  show "(\<exists>res. mock_main read has_cert attempt rnd response env = Some res) \<longleftrightarrow>
     env ''JWT_SECRET'' = [] \<or> isl (LoadClientConfig read has_cert (env ''MQTT_CA_CERT'')) \<or> (\<exists>n. attempt n)"
    using connectMQTT_returns [of attempt]
    by (cases "LoadClientConfig read has_cert (env ''MQTT_CA_CERT'')"; cases "connectMQTT attempt")
      (auto simp: mock_main_def mock_link_def Let_def)
  show "mock_main read has_cert attempt rnd response env = Some (Inr p) \<Longrightarrow>
     mp_secret p = env ''JWT_SECRET'' \<and> mp_secret p \<noteq> [] \<and> ml_connected (mp_link p) \<and>
     LoadClientConfig read has_cert (env ''MQTT_CA_CERT'') = Inr (ml_ca (mp_link p)) \<and>
     mp_vehicleID p = envOr env ''VEHICLE_ID'' ''vehicle-001'' \<and> mp_vehicleID p \<noteq> []"
    by (auto simp: mock_main_def mock_link_def new_link_def envOr_def Let_def split: sum.splits option.splits if_splits)
qed

text \<open>A started vehicle is admitted by a control server with the same secret under its own name, on each connection it
  dials within a day of signing the token for it.\<close>

theorem started_vehicle_joins:
  assumes "mock_main read has_cert attempt rnd response env = Some (Inr p)" and "token_contract sign jwt"
    and "mp_secret p = cfg_secret (ce_cfg cenv)" and "makeVehicleJWT sign now (mp_vehicleID p) (mp_secret p) = Some token"
    and "ce_jwt cenv = jwt later" and "later < expiry (now + 24 * Hour)" and "ce_upgraded cenv"
    and "newMux cenv a (OpenVehicleWS (dial_request token c)) s = (s', rep)"
  shows "rep = HttpOk StatusOK (VehicleOpened (Some (mp_vehicleID p))) \<and> conns (sv_conns s') (mp_vehicleID p) = Some c"
  using vehicle_joins [OF assms(2) _ assms(5-8), of "mp_vehicleID p"] assms(3,4) by simp

section \<open>The end of the process\<close>

text \<open>\<open>main\<close> and the reconnect loop both receive from the channel of the signals, which has room for one. The process ends
  when \<open>main\<close> receives.\<close>

record shutdown =
  sd_pending :: bool
  sd_loop :: bool
  sd_main :: bool

definition sd_start :: shutdown where
  "sd_start = \<lparr>sd_pending = False, sd_loop = True, sd_main = True\<rparr>"

inductive shutdown_step :: "shutdown \<Rightarrow> shutdown \<Rightarrow> bool" where
  loop_takes: "sd_loop s \<Longrightarrow> sd_main s \<Longrightarrow> sd_pending s \<Longrightarrow> shutdown_step s (s\<lparr>sd_pending := False, sd_loop := False\<rparr>)"
| main_takes: "sd_main s \<Longrightarrow> sd_pending s \<Longrightarrow> shutdown_step s (s\<lparr>sd_pending := False, sd_main := False\<rparr>)"

inductive_simps shutdown_step_simps: "shutdown_step s s'"

definition signal_sent :: "shutdown \<Rightarrow> shutdown" where
  "signal_sent s = s\<lparr>sd_pending := True\<rparr>"

text \<open>After one signal the process may end, or the reconnect loop takes the signal, ends alone and leaves \<open>main\<close> waiting; a
  second signal then ends it.\<close>

theorem first_signal_may_be_lost:
  "shutdown_step (signal_sent sd_start) s \<longleftrightarrow>
     s = \<lparr>sd_pending = False, sd_loop = False, sd_main = True\<rparr> \<or> s = \<lparr>sd_pending = False, sd_loop = True, sd_main = False\<rparr>"
  "\<not> shutdown_step \<lparr>sd_pending = False, sd_loop = False, sd_main = True\<rparr> s"
  "shutdown_step (signal_sent \<lparr>sd_pending = False, sd_loop = False, sd_main = True\<rparr>) s \<Longrightarrow> \<not> sd_main s"
  by (auto simp: shutdown_step_simps signal_sent_def sd_start_def)

section \<open>The telemetry loops\<close>

text \<open>Each connection starts a goroutine that publishes on the ticks of a ticker; the function to stop it is
  \<open>ticker.Stop\<close>, which ends the ticks but leaves the goroutine waiting for the next. \<open>tl_finished\<close>: the goroutine has
  returned.\<close>

record telemetry_loop =
  tl_ticking :: bool
  tl_finished :: bool

definition startTelemetryLoop :: "telemetry_loop list \<Rightarrow> telemetry_loop list \<times> nat" where
  "startTelemetryLoop ls = (ls @ [\<lparr>tl_ticking = True, tl_finished = False\<rparr>], length ls)"

definition stop_ticker :: "nat \<Rightarrow> telemetry_loop list \<Rightarrow> telemetry_loop list" where
  "stop_ticker i ls = (if i < length ls then ls[i := (ls ! i)\<lparr>tl_ticking := False\<rparr>] else ls)"

text \<open>The loops over the connections of the process, each dialled or not.\<close>

definition connection_loops :: "bool list \<Rightarrow> telemetry_loop list" where
  "connection_loops dials =
     fold (\<lambda>dialled ls. if dialled then (let (ls', i) = startTelemetryLoop ls in stop_ticker i ls') else ls) dials []"

text \<open>No loop publishes after its connection, and none ever returns: every connection leaves a goroutine behind.\<close>

theorem telemetry_loops_leak:
  "connection_loops dials = replicate (length (filter id dials)) \<lparr>tl_ticking = False, tl_finished = False\<rparr>"
proof (induction dials rule: rev_induct)
  case (snoc d ds)
  then show ?case
    by (cases d) (simp_all add: connection_loops_def startTelemetryLoop_def stop_ticker_def Let_def replicate_append_same)
qed (simp add: connection_loops_def)

end
