(* ===== verification/Logging.thy ===== *)
theory Logging
  imports Config
begin

text \<open>
  The structured logger (\<open>pkg/logger/logger.go\<close>). A logger keeps its service name and the level below which the handler
  drops records (as \<open>log/slog\<close> defines it); what it has written is a list of lines. Arguments of a record are pairs.
\<close>

section \<open>Levels\<close>

datatype Level = LevelDebug | LevelInfo | LevelWarn | LevelError

fun severity :: "Level \<Rightarrow> int" where
  "severity LevelDebug = - 4"
| "severity LevelInfo = 0"
| "severity LevelWarn = 4"
| "severity LevelError = 8"

definition parseLevel :: "string \<Rightarrow> Level" where
  "parseLevel s =
     (let l = toLower (trimSpace s)
      in if l = ''debug'' then LevelDebug
         else if l = ''warn'' then LevelWarn
         else if l = ''error'' then LevelError
         else LevelInfo)"

section \<open>Loggers\<close>

record log_line =
  ll_level :: Level
  ll_service :: string
  ll_msg :: string
  ll_args :: "(string \<times> string) list"

record Logger =
  lg_service :: string
  lg_level :: Level
  lg_lines :: "log_line list"

definition New :: "environment \<Rightarrow> string \<Rightarrow> Logger" where
  "New env service = \<lparr>lg_service = service, lg_level = parseLevel (env ''LOG_LEVEL''), lg_lines = []\<rparr>"

definition log_at :: "Level \<Rightarrow> string \<Rightarrow> (string \<times> string) list \<Rightarrow> Logger \<Rightarrow> Logger" where
  "log_at lvl msg args l =
     (if severity (lg_level l) \<le> severity lvl
      then l\<lparr>lg_lines := lg_lines l @ [\<lparr>ll_level = lvl, ll_service = lg_service l, ll_msg = msg, ll_args = args\<rparr>]\<rparr>
      else l)"

definition Info :: "string \<Rightarrow> (string \<times> string) list \<Rightarrow> Logger \<Rightarrow> Logger" where "Info = log_at LevelInfo"
definition Warn :: "string \<Rightarrow> (string \<times> string) list \<Rightarrow> Logger \<Rightarrow> Logger" where "Warn = log_at LevelWarn"
definition Error :: "string \<Rightarrow> (string \<times> string) list \<Rightarrow> Logger \<Rightarrow> Logger" where "Error = log_at LevelError"
definition Debug :: "string \<Rightarrow> (string \<times> string) list \<Rightarrow> Logger \<Rightarrow> Logger" where "Debug = log_at LevelDebug"

text \<open>\<open>Fatal\<close> ends the process with the exit code.\<close>

definition Fatal :: "string \<Rightarrow> (string \<times> string) list \<Rightarrow> Logger \<Rightarrow> Logger \<times> nat" where
  "Fatal msg args l = (Error msg args l, 1)"

definition Event :: "string \<Rightarrow> string \<Rightarrow> (string \<times> string) list \<Rightarrow> Logger \<Rightarrow> Logger" where
  "Event eventType msg args l = Info msg ((''event_type'', eventType) # args) l"

section \<open>What is written\<close>

text \<open>The level is read without regard to case and surrounding space, and anything unknown means INFO.\<close>

lemma parseLevel_examples:
  "parseLevel [] = LevelInfo" "parseLevel ''Warn'' = LevelWarn" "parseLevel '' DEBUG '' = LevelDebug" "parseLevel ''warning'' = LevelInfo"
  by (simp_all add: parseLevel_def toLower_def trimSpace_def is_space_def char_of_def bit_0 Let_def)

text \<open>A fatal error is written at every level before the process exits.\<close>

theorem fatal_always_written:
  assumes "Fatal msg args (New env service) = (l, code)"
  shows "code = 1 \<and> lg_lines l = [\<lparr>ll_level = LevelError, ll_service = service, ll_msg = msg, ll_args = args\<rparr>]"
  using assms by (cases "parseLevel (env ''LOG_LEVEL'')") (auto simp: Fatal_def Error_def log_at_def New_def)

text \<open>An event, also a safety event, is a record of level INFO: with LOG_LEVEL at warn or error it is not written at all,
  and otherwise it is written with its type first.\<close>

theorem events_follow_log_level:
  assumes "l = New env service"
  shows "lg_lines (Event ty msg args l) =
    (if lg_level l \<in> {LevelWarn, LevelError} then []
     else [\<lparr>ll_level = LevelInfo, ll_service = service, ll_msg = msg, ll_args = (''event_type'', ty) # args\<rparr>])"
  using assms by (cases "parseLevel (env ''LOG_LEVEL'')") (auto simp: Event_def Info_def log_at_def New_def)

end
