(* ===== verification/Spec2Isabelle.thy ===== *)
theory Spec2Isabelle
  imports Watchdog_Timing System_Properties Service_Composition Safety_Reporting Control_Loop Auth_Mux
    Server_Startup SFU_Signalling Fleet_Loop Vehicle_Process Logging
begin

text \<open>
  \<^bold>\<open>AVOC: control centre for teleoperated and autonomous vehicles.\<close> The program is a set of Go services.
  The control server (\<open>cmd/control-server\<close>, \<open>internal/controlserver\<close>) lets one operator at a time drive a vehicle and
  brings the vehicle into SAFE_MODE when anything about that goes wrong. Around it stand the safety service (the
  safety bus, \<open>internal/safetyservice\<close>), the auth service (accounts and tokens, \<open>internal/authservice\<close>), the WebRTC
  SFU (video, \<open>internal/webrtcsfu\<close>), the telemetry service (\<open>internal/telemetryservice\<close>) and the fleet service
  (autonomous vehicles, tasks and alerts, \<open>internal/fleetservice\<close>, \<open>internal/fleetgateway\<close>), with a simulated
  vehicle (\<open>cmd/vehicle-mock\<close>). The services talk over HTTP, WebSockets, a message broker and one Postgres
  database.

  \<^bold>\<open>How the code is modelled.\<close> A Go struct is a record, an enumeration a datatype, a map a partial function, a named
  string type a string. A method is a function from the state to the state and its results; errors are values of
  sum types; an HTTP handler gives a \<open>reply\<close>. Calls to other services, log-worthy transitions and published events
  are collected as a list of effects, in their order. What the code cannot decide itself is an argument: clocks,
  generated ids, random numbers, the order in which a map is visited, whether a database statement, a request, a
  write or a publication succeeds, and the results of the libraries for JSON, protocol buffers, JWT, bcrypt and
  floating-point rounding. Machine integers are words where wrap-around matters (telemetry ages); instants and
  durations are integers counting nanoseconds. Mutexes make each exported method one atomic step, and the step
  relations interleave these steps freely; timers and goroutines that act later appear as steps of their own, with
  callbacks that are already in flight. The loops with a counter (\<open>Config.ping_loop\<close>, \<open>Config.connect_loop\<close>) end by a
  measure; the one loop that may run for ever, the vehicle's wait for its broker (\<open>Control_Loop.connect_from\<close>), is a
  partial function whose result \<open>None\<close> is shown to mean that no attempt succeeds. No fuel is used anywhere.

  \<^bold>\<open>The theories, from the bottom up.\<close>

  \<^item> \<open>Prelude\<close>: names of the basic types, strings, map iteration, HTTP replies, and the contracts shared by the
    components: \<open>transition_system\<close> (an invariant of all reachable states), \<open>last_value_store\<close>,
    \<open>functional_refinement\<close>.
  \<^item> \<open>State_Machine\<close> (\<open>statemachine/state.go\<close>): the layers SYSTEM, CONTROL, OPERATOR, MEDIA and TELEMETRY of one
    vehicle and every exported method. The CONTROL layer is determined by the SYSTEM layer, moves follow the table,
    the trigger reaches SAFE_MODE from everywhere but IDLE, and DEGRADED refines a monitor of two health bits.
  \<^item> \<open>Audit_Log\<close>, \<open>Safety_Bus\<close>, \<open>Effects\<close>: audit table and writers (\<open>pkg/audit\<close>), the safety service, and the effects.
  \<^item> \<open>Watchdogs\<close> and \<open>Watchdog_Timing\<close> (\<open>safety/detector.go\<close>): dead-man, vehicle ACK and control-loop ACK watchdogs,
    first as methods, then under the contract \<open>timer_watchdog\<close> with a timer, callbacks in flight and time passing:
    deadlines are kept, each fires at most once per start, and the dead-man fires exactly when a hold is missed.
  \<^item> \<open>Pollers\<close> (\<open>auth_watchdog.go\<close>, \<open>bus_watchdog.go\<close>, \<open>telemetrycheck\<close>, \<open>authcheck\<close>): the watchdogs that poll a service,
    tick by tick, with the exact ticks at which they act. \<open>Poller_Lifecycle\<close> adds \<open>Start\<close> and \<open>Stop\<close> under the contract
    \<open>poller\<close>, met by all three: never more than one goroutine that is not cancelled, and each counts its own failures.
  \<^item> \<open>Session_Manager\<close>, \<open>Handover\<close> (\<open>session\<close>): sessions refine one lock per vehicle; handovers move a lock.
  \<^item> \<open>Vehicle_Context\<close> (\<open>vehiclecontext\<close>): machine and watchdogs per vehicle. \<open>Vehicle_Connection\<close>, \<open>Vehicle_Store\<close>
    (\<open>vehicleconnection\<close>, \<open>recording\<close>, \<open>vehicleregistry\<close>, \<open>mediamtx\<close>): connections, acknowledgements, recorder, and the
    registry of vehicles with its stand-in for a missing database.
  \<^item> \<open>Command_Engine\<close> (\<open>command/engine.go\<close>): token bucket, dispatch, forwarding, emergency stop.
  \<^item> \<open>Tokens\<close>, \<open>Transport\<close> (\<open>transport/websocket.go\<close>, \<open>vehicleconnection/handler.go\<close>), \<open>Config\<close> (\<open>pkg/env\<close>, \<open>pkg/db\<close>),
    \<open>Control_Server\<close> (\<open>cmd/control-server/main.go\<close>): the server's state with all connections and HTTP handlers.
  \<^item> \<open>Server_Invariant\<close>, \<open>Server_Properties\<close>: the server as a transition system of requests, messages, connections and
    watchdog actions; its invariant (who controls a vehicle, in which states it can rest) and the properties of the
    whole server: who can end SAFE_MODE, which vehicles a step can touch, what each request does.
  \<^item> \<open>Control_Mux\<close> (\<open>newMux\<close>): the routes and the read loop of an operator; requests without a token change nothing.
    \<open>Server_Startup\<close> (\<open>main\<close>, \<open>newAuditWriter\<close>, \<open>newVehicleStore\<close>): the server starts from an initial state of these runs
    whatever the database does.
  \<^item> \<open>Service_Composition\<close>, \<open>Safety_Reporting\<close>: the control server together with the SFU and with the safety service, joined
    by the HTTP publishers (\<open>session/sfu_publisher.go\<close>, \<open>safety/http_publisher.go\<close>): video stops with control, and SAFE_MODE
    is reported.
  \<^item> \<open>Auth_Service\<close>, \<open>System_Properties\<close>: accounts, tokens and handlers of the auth service, and what a token of the
    auth service allows at the control server. \<open>Auth_Mux\<close> (\<open>cmd/auth-service\<close>): start-up and routes.
  \<^item> \<open>Webrtc_SFU\<close>, \<open>SFU_Signalling\<close>: session states, peers and forwarding of the SFU, then the offer/answer exchange, the ICE
    callbacks and the routes of \<open>cmd/webrtc-sfu\<close>: silence in SAFE_MODE, and packets go once to each routed operator over an
    open connection. A new connection is assumed to have a number of its own.
  \<^item> \<open>Fleet_Data\<close>, \<open>Fleet_Store\<close>, \<open>Fleet_Fake_Store\<close>: rows, schema and both implementations of \<open>FleetStore\<close>.
    \<open>Fleet_Equivalence\<close> shows by a simulation that they agree on every admissible run; \<open>Fleet_Tasks\<close> states the
    contract \<open>task_store\<close>, interprets it by both stores and shows that tasks come to rest and that the tables stay
    well-formed. The tables are lists of rows in the order of insertion; rows with equal time stamps are returned in
    that order (in reverse for descending queries), where SQL leaves it open.
  \<^item> \<open>Fleet_Alerts\<close>, \<open>Fleet_Hub\<close>, \<open>Fleet_Gateway\<close>, \<open>Fleet_Service\<close>: battery alerts as Schmitt triggers, in-order delivery
    to dashboards, the gateways under the contract \<open>event_source\<close>, and the service with its routes and callbacks:
    what is stored is what is broadcast.
  \<^item> \<open>Telemetry_Service\<close>, \<open>Vehicle_Mock\<close>: the telemetry cache up to the control server's poll; the simulated vehicles
    with their command loop and fleet simulation.
  \<^item> \<open>Broker_Links\<close>, \<open>Processes\<close> (\<open>pkg/mqtttls\<close>, \<open>mqttconnection.go\<close>, \<open>fleetgateway/mqtt.go\<close>, \<open>cmd/fleet-service\<close>,
    \<open>cmd/telemetry-service\<close>): connections to the broker under the contract \<open>mqtt_connection\<close>, their loss and return, and the
    start-up of the two services: when they start, and what still arrives after a reconnect. \<open>Fleet_Loop\<close> follows a report
    from the simulated vehicle over the broker into the tables and to the dashboards.
  \<^item> \<open>Control_Loop\<close>, \<open>Vehicle_Process\<close> (\<open>cmd/vehicle-mock/main.go\<close>): the simulated vehicle as a process and the round trip of
    a command from the operator to the vehicle and back. \<open>Logging\<close> (\<open>pkg/logger\<close>): which records are written.

  \<^bold>\<open>Not modelled.\<close> Generated protocol buffer code, the ULID wrapper, and the libraries (WebRTC, WebSocket, MQTT, Postgres
  driver, JWT, bcrypt, slog) beyond what is assumed of them by name; the HTTP servers with their options, JSON encoding,
  log lines in the handlers, the texts of store errors in replies, the pings of the heartbeat goroutines, the test
  doubles, the TypeScript dashboard and the deployment files. The order of packets on the network and the durations of
  calls are not modelled; a call returns or fails in one step. Text that is trimmed or compared without case is ASCII.
  Constructors and setters that only store their arguments have no definition of their own: the records hold the values
  they set. What remains of the services' code is imports, type declarations of interfaces and logging.
\<close>

end
